(* ===== verification/Prelude.thy ===== *)
theory Prelude
  imports Main "HOL-Library.Word"
begin

text \<open>
  Shared vocabulary of the development: the types that stand for Go's scalar types, the sum
  type that stands for a \<^verbatim>\<open>(T, error)\<close> return, the string helpers of the Go packages
  \<^verbatim>\<open>strings\<close> and \<^verbatim>\<open>slices\<close> the sources call, and the generic lemmas and named
  collections the component theories rely on.

  \<^item> Go's \<^verbatim>\<open>time.Time\<close> is \<open>time\<close>, nanoseconds since the Unix epoch as an \<open>int\<close>; its zero
    value (1 January of year 1) is \<open>zero_time\<close>. \<^verbatim>\<open>time.Duration\<close> is \<open>duration\<close>, nanoseconds.
    The dates the sources compute are far from the limits of a 64-bit count, so neither wraps.
  \<^item> Go's \<^verbatim>\<open>string\<close> is \<open>string\<close>: HOL's characters are bytes, and so are the elements of a
    Go string; \<open>length\<close> is Go's \<^verbatim>\<open>len\<close>.
  \<^item> a call that returns \<^verbatim>\<open>(T, error)\<close> has a result in \<open>'e + 'a\<close>, \<open>Inl\<close> the error.
\<close>

named_theorems cache_simps \<open>characteristic equations of the expiring caches\<close>
named_theorems index_simps \<open>characteristic equations of the secondary indices\<close>
named_theorems store_simps \<open>unfolding rules of the authorization-context store\<close>

section \<open>Time\<close>

type_synonym time = int
type_synonym duration = int

definition zero_time :: time where
  "zero_time = - 62135596800000000000"

definition second :: duration where
  "second = 1000000000"

definition minute :: duration where
  "minute = 60 * second"

text \<open>\<^verbatim>\<open>t.Unix()\<close>: whole seconds, rounded towards the past as Go does before the epoch too.\<close>

definition unix :: "time \<Rightarrow> int" where
  "unix t = t div second"

lemma unix_mono: "s \<le> t \<Longrightarrow> unix s \<le> unix t"
  by (simp add: unix_def second_def zdiv_mono1)

lemma unix_add_seconds: "unix (t + n * second) = unix t + n"
  by (simp add: unix_def second_def)

section \<open>JSON values\<close>

text \<open>What \<^verbatim>\<open>any\<close> holds after \<^verbatim>\<open>json.Unmarshal\<close>; numbers are kept as their literal.\<close>

datatype json =
    JNull
  | JBool bool
  | JNumber string
  | JString string
  | JArray "json list"
  | JObject "(string \<times> json) list"

section \<open>Strings\<close>

definition HasPrefix :: "string \<Rightarrow> string \<Rightarrow> bool" where
  "HasPrefix s p \<longleftrightarrow> take (length p) s = p"

definition HasSuffix :: "string \<Rightarrow> string \<Rightarrow> bool" where
  "HasSuffix s p \<longleftrightarrow> HasPrefix (rev s) (rev p)"

definition TrimSuffix :: "string \<Rightarrow> string \<Rightarrow> string" where
  "TrimSuffix s p = (if HasSuffix s p then take (length s - length p) s else s)"

definition ascii_lower :: "char \<Rightarrow> char" where
  "ascii_lower c =
     (let n = of_char c :: nat in if 65 \<le> n \<and> n \<le> 90 then char_of (n + 32) else c)"

definition ascii_upper :: "char \<Rightarrow> char" where
  "ascii_upper c =
     (let n = of_char c :: nat in if 97 \<le> n \<and> n \<le> 122 then char_of (n - 32) else c)"

definition is_digit :: "char \<Rightarrow> bool" where
  "is_digit c \<longleftrightarrow> 48 \<le> (of_char c :: nat) \<and> (of_char c :: nat) \<le> 57"

text \<open>
  \<^verbatim>\<open>strings.Split(s, sep)\<close> for a one-byte separator: always at least one part.
\<close>

fun split_on :: "char \<Rightarrow> string \<Rightarrow> string list" where
  "split_on c [] = [[]]"
| "split_on c (x # xs) =
     (if x = c then [] # split_on c xs
      else (case split_on c xs of [] \<Rightarrow> [[x]] | p # ps \<Rightarrow> (x # p) # ps))"

text \<open>\<^verbatim>\<open>strings.Join\<close>.\<close>

fun str_join :: "string \<Rightarrow> string list \<Rightarrow> string" where
  "str_join sep [] = []"
| "str_join sep [s] = s"
| "str_join sep (s # ss) = s @ sep @ str_join sep ss"

text \<open>The validator's \<^verbatim>\<open>printascii\<close>: every byte between space and tilde.\<close>

definition printascii :: "string \<Rightarrow> bool" where
  "printascii s \<longleftrightarrow> list_all (\<lambda>c. 32 \<le> (of_char c :: nat) \<and> (of_char c :: nat) \<le> 126) s"

lemma HasPrefix_iff: "HasPrefix s p \<longleftrightarrow> (\<exists>t. s = p @ t)"
  unfolding HasPrefix_def by (metis append_eq_conv_conj append_take_drop_id)

lemma HasSuffix_iff: "HasSuffix s p \<longleftrightarrow> (\<exists>t. s = t @ p)"
  unfolding HasSuffix_def HasPrefix_iff by (metis rev_append rev_rev_ident)

lemma split_on_nonempty [simp]: "split_on c s \<noteq> []"
  by (induction s) (auto split: list.splits)

lemma str_join_split_on: "str_join [c] (split_on c s) = s"
proof (induction s)
  case Nil
  then show ?case by simp
next
  case (Cons x xs)
  obtain p ps where ps: "split_on c xs = p # ps"
    by (cases "split_on c xs") auto
  show ?case
  proof (cases "x = c")
    case True
    with ps Cons.IH show ?thesis by simp
  next
    case False
    with ps Cons.IH show ?thesis by (cases ps) auto
  qed
qed

section \<open>Results\<close>

text \<open>Sequencing of fallible calls: an error ends the caller, as \<^verbatim>\<open>if err != nil { return err }\<close>.\<close>

fun res_bind :: "'e + 'a \<Rightarrow> ('a \<Rightarrow> 'e + 'b) \<Rightarrow> 'e + 'b" where
  "res_bind (Inl e) f = Inl e"
| "res_bind (Inr a) f = f a"

fun is_ok :: "'e + 'a \<Rightarrow> bool" where
  "is_ok (Inl e) = False"
| "is_ok (Inr a) = True"

lemma res_bind_Inr_iff: "res_bind r f = Inr b \<longleftrightarrow> (\<exists>a. r = Inr a \<and> f a = Inr b)"
  by (cases r) auto

lemma is_ok_iff: "is_ok r \<longleftrightarrow> (\<exists>a. r = Inr a)"
  by (cases r) auto

text \<open>
  The same for a call that also changes the state: \<open>and_then\<close> continues in the state the call left, and
  an error ends the caller in that state. \<open>ensure\<close> is a guard with an early return.
\<close>

definition and_then :: "('e + 'a) \<times> 's \<Rightarrow> ('a \<Rightarrow> 's \<Rightarrow> ('e + 'b) \<times> 's) \<Rightarrow> ('e + 'b) \<times> 's" where
  "and_then m f = (case m of (Inl e, s) \<Rightarrow> (Inl e, s) | (Inr a, s) \<Rightarrow> f a s)"

definition ensure :: "bool \<Rightarrow> 'e \<Rightarrow> 's \<Rightarrow> ('e + unit) \<times> 's" where
  "ensure b e s = (if b then Inr () else Inl e, s)"

declare and_then_def [code_unfold]

lemma and_then_simps [simp]:
  "and_then (Inl e, s) f = (Inl e, s)"
  "and_then (Inr a, s) f = f a s"
  by (simp_all add: and_then_def)

lemma and_then_ok:
  "and_then m f = (Inr b, s') \<longleftrightarrow> (\<exists>a s1. m = (Inr a, s1) \<and> f a s1 = (Inr b, s'))"
  by (auto simp: and_then_def split: prod.splits sum.splits)

lemma and_then_error:
  "and_then m f = (Inl e, s') \<longleftrightarrow>
     m = (Inl e, s') \<or> (\<exists>a s1. m = (Inr a, s1) \<and> f a s1 = (Inl e, s'))"
  by (auto simp: and_then_def split: prod.splits sum.splits)

lemma ensure_ok [simp]: "ensure b e s = (Inr x, s') \<longleftrightarrow> b \<and> s' = s"
  by (auto simp: ensure_def)

lemma ensure_error [simp]: "ensure b e s = (Inl e', s') \<longleftrightarrow> \<not> b \<and> e' = e \<and> s' = s"
  by (auto simp: ensure_def)

lemma ensure_state [simp]: "snd (ensure b e s) = s"
  by (simp add: ensure_def)

text \<open>A transitive relation between the states before and after holds of a sequence if it holds of its steps.\<close>

lemma and_then_rel:
  assumes "\<And>a b c. R a b \<Longrightarrow> R b c \<Longrightarrow> R a c"
    and "R s (snd m)" and "\<And>a s1. m = (Inr a, s1) \<Longrightarrow> R s1 (snd (f a s1))"
  shows "R s (snd (and_then m f))"
proof (cases m)
  case (Pair r s1)
  then show ?thesis using assms(2,3) assms(1) [of s s1] by (cases r) auto
qed

text \<open>\<^verbatim>\<open>BoolVal(b, fallback)\<close> of \<^verbatim>\<open>pkg/model/config.go\<close>: a nil pointer means the fallback.\<close>

definition BoolVal :: "bool option \<Rightarrow> bool \<Rightarrow> bool" where
  "BoolVal b fallback = (case b of Some v \<Rightarrow> v | None \<Rightarrow> fallback)"

section \<open>Runs of a state-passing operation\<close>

text \<open>
  A list of calls made one after the other against one state; \<open>run\<close> returns what each call
  returned and the last state.
\<close>

fun run :: "('s \<Rightarrow> 'c \<Rightarrow> 'r \<times> 's) \<Rightarrow> 's \<Rightarrow> 'c list \<Rightarrow> 'r list \<times> 's" where
  "run f s [] = ([], s)"
| "run f s (c # cs) = (let (r, s') = f s c; (rs, s'') = run f s' cs in (r # rs, s''))"

lemma run_append:
  "run f s (xs @ ys) =
     (let (rs, s') = run f s xs; (rs', s'') = run f s' ys in (rs @ rs', s''))"
  by (induction xs arbitrary: s) (auto simp: Let_def split: prod.splits)

lemma run_length: "length (fst (run f s cs)) = length cs"
  by (induction cs arbitrary: s) (auto simp: Let_def split_def)

lemma run_invariant:
  assumes "I s" and "\<And>s c. I s \<Longrightarrow> c \<in> set cs \<Longrightarrow> I (snd (f s c))"
  shows "I (snd (run f s cs))"
  using assms
proof (induction cs arbitrary: s)
  case Nil
  then show ?case by simp
next
  case (Cons c cs)
  have "I (snd (f s c))" using Cons.prems by simp
  then have "I (snd (run f (snd (f s c)) cs))"
    using Cons.prems(2) by (intro Cons.IH) auto
  then show ?case by (simp add: Let_def split_def)
qed

text \<open>
  If some condition rules out a success and every call keeps it, no call of a run succeeds;
  if every success establishes it, at most one call does.
\<close>

lemma run_none_after:
  assumes "Q s" and "\<And>s c. Q s \<Longrightarrow> c \<in> set cs \<Longrightarrow> Q (snd (f s c))"
    and "\<And>s c. Q s \<Longrightarrow> c \<in> set cs \<Longrightarrow> \<not> P (fst (f s c))"
  shows "filter P (fst (run f s cs)) = []"
  using assms
proof (induction cs arbitrary: s)
  case Nil
  then show ?case by simp
next
  case (Cons c cs)
  have "filter P (fst (run f (snd (f s c)) cs)) = []"
    using Cons.prems by (intro Cons.IH) auto
  then show ?case using Cons.prems by (simp add: Let_def split_def)
qed

lemma run_at_most_once:
  assumes keep: "\<And>s c. Q s \<Longrightarrow> c \<in> set cs \<Longrightarrow> Q (snd (f s c)) \<and> \<not> P (fst (f s c))"
    and start: "\<And>s c. I s \<Longrightarrow> c \<in> set cs \<Longrightarrow> P (fst (f s c)) \<Longrightarrow> Q (snd (f s c))"
    and inv: "\<And>s c. I s \<Longrightarrow> c \<in> set cs \<Longrightarrow> I (snd (f s c))"
    and I: "I s"
  shows "length (filter P (fst (run f s cs))) \<le> 1"
  using assms
proof (induction cs arbitrary: s)
  case Nil
  then show ?case by simp
next
  case (Cons c cs)
  let ?s' = "snd (f s c)"
  show ?case
  proof (cases "P (fst (f s c))")
    case True
    then have "Q ?s'" using Cons.prems by simp
    then have "filter P (fst (run f ?s' cs)) = []"
      using Cons.prems(1) by (intro run_none_after [where Q = Q]) auto
    with True show ?thesis by (simp add: Let_def split_def)
  next
    case False
    have "length (filter P (fst (run f ?s' cs))) \<le> 1"
      using Cons.prems by (intro Cons.IH) auto
    with False show ?thesis by (simp add: Let_def split_def)
  qed
qed

text \<open>
  The same with a clock: calls carry their time, times do not decrease, and \<open>Q t s\<close> says that from time
  \<open>t\<close> on the state rules out a success.
\<close>

lemma run_timed_none:
  assumes "sorted (map tm cs)" and "\<forall>c\<in>set cs. t \<le> tm c" and "I t s" and "Q t s"
    and keep: "\<And>t s c. I t s \<Longrightarrow> Q t s \<Longrightarrow> t \<le> tm c \<Longrightarrow> c \<in> set cs \<Longrightarrow> Q (tm c) (snd (f s c)) \<and> \<not> P (fst (f s c))"
    and inv: "\<And>t s c. I t s \<Longrightarrow> t \<le> tm c \<Longrightarrow> c \<in> set cs \<Longrightarrow> I (tm c) (snd (f s c))"
  shows "filter P (fst (run f s cs)) = []"
  using assms
proof (induction cs arbitrary: s t)
  case Nil
  then show ?case by simp
next
  case (Cons c cs)
  have t: "t \<le> tm c" using Cons.prems(2) by simp
  have "filter P (fst (run f (snd (f s c)) cs)) = []"
  proof (rule Cons.IH [of "tm c"])
    show "sorted (map tm cs)" "\<forall>c'\<in>set cs. tm c \<le> tm c'" using Cons.prems(1) by auto
    show "I (tm c) (snd (f s c))" using Cons.prems(6) [OF Cons.prems(3) t] by simp
    show "Q (tm c) (snd (f s c))" using Cons.prems(5) [OF Cons.prems(3,4) t] by simp
  qed (use Cons.prems(5,6) in auto)
  then show ?case using Cons.prems(5) [OF Cons.prems(3,4) t] by (simp add: Let_def split_def)
qed

lemma run_timed_at_most_once:
  assumes "sorted (map tm cs)" and "\<forall>c\<in>set cs. t \<le> tm c" and "I t s"
    and keep: "\<And>t s c. I t s \<Longrightarrow> Q t s \<Longrightarrow> t \<le> tm c \<Longrightarrow> c \<in> set cs \<Longrightarrow> Q (tm c) (snd (f s c)) \<and> \<not> P (fst (f s c))"
    and start: "\<And>t s c. I t s \<Longrightarrow> t \<le> tm c \<Longrightarrow> c \<in> set cs \<Longrightarrow> P (fst (f s c)) \<Longrightarrow> Q (tm c) (snd (f s c))"
    and inv: "\<And>t s c. I t s \<Longrightarrow> t \<le> tm c \<Longrightarrow> c \<in> set cs \<Longrightarrow> I (tm c) (snd (f s c))"
  shows "length (filter P (fst (run f s cs))) \<le> 1"
  using assms
proof (induction cs arbitrary: s t)
  case Nil
  then show ?case by simp
next
  case (Cons c cs)
  let ?s' = "snd (f s c)"
  have t: "t \<le> tm c" using Cons.prems(2) by simp
  have srt: "sorted (map tm cs)" "\<forall>c'\<in>set cs. tm c \<le> tm c'" using Cons.prems(1) by auto
  have i: "I (tm c) ?s'" using Cons.prems(6) [OF Cons.prems(3) t] by simp
  show ?case
  proof (cases "P (fst (f s c))")
    case True
    then have q: "Q (tm c) ?s'" using Cons.prems(5) [OF Cons.prems(3) t] by simp
    have "filter P (fst (run f ?s' cs)) = []"
      by (rule run_timed_none [where I = I and Q = Q, OF srt i q]) (use Cons.prems(4,6) in auto)
    with True show ?thesis by (simp add: Let_def split_def)
  next
    case False
    have "length (filter P (fst (run f ?s' cs))) \<le> 1"
      by (rule Cons.IH [OF srt i]) (use Cons.prems(4-6) in auto)
    with False show ?thesis by (simp add: Let_def split_def)
  qed
qed

end
