(* ===== verification/Base64.thy ===== *)
theory Base64
  imports Prelude
begin

text \<open>
  Bytes and the encoding \<^verbatim>\<open>base64.RawURLEncoding\<close> of Go's standard library, which the sources use
  for PKCE challenges, DPoP access-token hashes, JWT parts and status lists: the URL alphabet, no
  padding; and the encodings with the standard alphabet that JWT headers and certificates fall back to. \<^verbatim>\<open>DecodeString\<close> skips carriage returns and line feeds and, the encoding not being strict,
  ignores the unused low bits of the last character.
\<close>

type_synonym bytes = "8 word list"

definition char_byte :: "char \<Rightarrow> 8 word" where
  "char_byte c = word_of_nat (of_char c)"

text \<open>The conversion \<^verbatim>\<open>[]byte(s)\<close>.\<close>

definition string_bytes :: "string \<Rightarrow> bytes" where
  "string_bytes s = map char_byte s"

definition alphabet :: string where
  "alphabet = ''ABCDEFGHIJKLMNOPQRSTUVWXYZabcdefghijklmnopqrstuvwxyz0123456789-_''"

definition sextet :: "nat \<Rightarrow> char" where
  "sextet n = alphabet ! n"

fun index_of :: "char \<Rightarrow> string \<Rightarrow> nat option" where
  "index_of c [] = None"
| "index_of c (x # xs) = (if x = c then Some 0 else map_option Suc (index_of c xs))"

definition unsextet :: "char \<Rightarrow> nat option" where
  "unsextet c = index_of c alphabet"

section \<open>Encoding\<close>

fun EncodeToString :: "bytes \<Rightarrow> string" where
  "EncodeToString (a # b # c # rest) =
     (let n = unat a * 65536 + unat b * 256 + unat c
      in sextet (n div 262144) # sextet (n div 4096 mod 64) # sextet (n div 64 mod 64) # sextet (n mod 64) #
         EncodeToString rest)"
| "EncodeToString [a, b] =
     (let n = unat a * 65536 + unat b * 256
      in [sextet (n div 262144), sextet (n div 4096 mod 64), sextet (n div 64 mod 64)])"
| "EncodeToString [a] =
     (let n = unat a * 65536 in [sextet (n div 262144), sextet (n div 4096 mod 64)])"
| "EncodeToString [] = []"

section \<open>Decoding\<close>

fun decode_sextets :: "nat list \<Rightarrow> bytes option" where
  "decode_sextets (p # q # r # s # rest) =
     (let n = p * 262144 + q * 4096 + r * 64 + s
      in map_option (\<lambda>bs. word_of_nat (n div 65536) # word_of_nat (n div 256 mod 256) # word_of_nat (n mod 256) # bs)
           (decode_sextets rest))"
| "decode_sextets [p, q, r] =
     (let n = p * 262144 + q * 4096 + r * 64
      in Some [word_of_nat (n div 65536), word_of_nat (n div 256 mod 256)])"
| "decode_sextets [p, q] = (let n = p * 262144 + q * 4096 in Some [word_of_nat (n div 65536)])"
| "decode_sextets [p] = None"
| "decode_sextets [] = Some []"

definition is_newline :: "char \<Rightarrow> bool" where
  "is_newline c \<longleftrightarrow> of_char c = (10::nat) \<or> of_char c = (13::nat)"

fun all_some :: "'a option list \<Rightarrow> 'a list option" where
  "all_some [] = Some []"
| "all_some (None # xs) = None"
| "all_some (Some x # xs) = map_option (Cons x) (all_some xs)"

definition DecodeString :: "string \<Rightarrow> bytes option" where
  "DecodeString s =
     (case all_some (map unsextet (filter (\<lambda>c. \<not> is_newline c) s)) of
        None \<Rightarrow> None
      | Some ns \<Rightarrow> decode_sextets ns)"

section \<open>The standard alphabet\<close>

text \<open>
  \<^verbatim>\<open>base64.RawStdEncoding\<close> and \<^verbatim>\<open>base64.StdEncoding\<close>: plus and slash in place of hyphen and underscore, without and
  with padding to groups of four.
\<close>

definition to_url :: "char \<Rightarrow> char" where
  "to_url c = (if c = CHR ''+'' then CHR ''-'' else if c = CHR ''/'' then CHR ''_'' else c)"

definition to_std :: "char \<Rightarrow> char" where
  "to_std c = (if c = CHR ''-'' then CHR ''+'' else if c = CHR ''_'' then CHR ''/'' else c)"

definition RawStd_DecodeString :: "string \<Rightarrow> bytes option" where
  "RawStd_DecodeString s =
     (if CHR ''-'' \<in> set s \<or> CHR ''_'' \<in> set s then None else DecodeString (map to_url s))"

definition Std_DecodeString :: "string \<Rightarrow> bytes option" where
  "Std_DecodeString s =
     (let t = filter (\<lambda>c. \<not> is_newline c) s;
          u = (if take 2 (rev t) = ''=='' then take (length t - 2) t
               else if take 1 (rev t) = ''='' then take (length t - 1) t else t)
      in if length t mod 4 \<noteq> 0 then None else RawStd_DecodeString u)"

definition Std_EncodeToString :: "bytes \<Rightarrow> string" where
  "Std_EncodeToString bs =
     (let s = map to_std (EncodeToString bs) in s @ replicate ((4 - length s mod 4) mod 4) (CHR ''=''))"

section \<open>The round trip\<close>

lemma index_of_nth: "distinct xs \<Longrightarrow> n < length xs \<Longrightarrow> index_of (xs ! n) xs = Some n"
proof (induction xs arbitrary: n)
  case Nil
  then show ?case by simp
next
  case (Cons x xs)
  then show ?case by (cases n) auto
qed

lemma alphabet_facts: "distinct alphabet" "length alphabet = 64"
  by (simp_all add: alphabet_def)

lemma unsextet_sextet: "n < 64 \<Longrightarrow> unsextet (sextet n) = Some n"
  by (simp add: unsextet_def sextet_def index_of_nth alphabet_facts)

lemma alphabet_no_newline: "c \<in> set alphabet \<Longrightarrow> \<not> is_newline c"
  by (auto simp: alphabet_def is_newline_def)

lemma sextet_not_newline: "n < 64 \<Longrightarrow> \<not> is_newline (sextet n)"
  by (rule alphabet_no_newline) (simp add: sextet_def alphabet_facts)

fun sextets :: "bytes \<Rightarrow> nat list" where
  "sextets (a # b # c # rest) =
     (let n = unat a * 65536 + unat b * 256 + unat c
      in (n div 262144) # (n div 4096 mod 64) # (n div 64 mod 64) # (n mod 64) # sextets rest)"
| "sextets [a, b] =
     (let n = unat a * 65536 + unat b * 256 in [n div 262144, n div 4096 mod 64, n div 64 mod 64])"
| "sextets [a] = (let n = unat a * 65536 in [n div 262144, n div 4096 mod 64])"
| "sextets [] = []"

lemma EncodeToString_sextets: "EncodeToString bs = map sextet (sextets bs)"
  by (induction bs rule: EncodeToString.induct) (simp_all add: Let_def)

lemma byte_less: "unat (w :: 8 word) < 256"
proof -
  have "unat w < 2 ^ LENGTH(8)" by (rule unsigned_less)
  then show ?thesis by simp
qed

lemma sextets_less: "n \<in> set (sextets bs) \<Longrightarrow> n < 64"
proof (induction bs rule: sextets.induct)
  case (1 a b c rest)
  have "(unat a * 65536 + unat b * 256 + unat c) div 262144 < 64"
    using byte_less [of a] byte_less [of b] byte_less [of c] by simp
  with 1 show ?case by (auto simp: Let_def)
next
  case (2 a b)
  have "(unat a * 65536 + unat b * 256) div 262144 < 64" using byte_less [of a] byte_less [of b] by simp
  with 2 show ?case by (auto simp: Let_def)
next
  case (3 a)
  have "unat a * 65536 div 262144 < 64" using byte_less [of a] by simp
  with 3 show ?case by (auto simp: Let_def)
qed simp

lemma sextet_group:
  fixes n :: nat
  shows "n div 262144 * 262144 + n div 4096 mod 64 * 4096 + n div 64 mod 64 * 64 + n mod 64 = n"
proof -
  have "n div 262144 = n div 4096 div 64" "n div 4096 = n div 64 div 64" by (simp_all add: div_mult2_eq [symmetric])
  then show ?thesis
    using div_mult_mod_eq [of "n div 4096" 64] div_mult_mod_eq [of "n div 64" 64] div_mult_mod_eq [of n 64]
    by linarith
qed

lemma byte_group:
  assumes "a < 256" "b < 256" "c < (256::nat)"
  shows "(a * 65536 + b * 256 + c) div 65536 = a" "(a * 65536 + b * 256 + c) div 256 mod 256 = b"
    "(a * 65536 + b * 256 + c) mod 256 = c"
proof -
  show "(a * 65536 + b * 256 + c) div 65536 = a" using assms by (intro div_nat_eqI) auto
  have "(a * 65536 + b * 256 + c) div 256 = a * 256 + b" using assms by (intro div_nat_eqI) auto
  then show "(a * 65536 + b * 256 + c) div 256 mod 256 = b" using assms by simp
  have "a * 65536 + b * 256 + c = (a * 256 + b) * 256 + c" by simp
  then show "(a * 65536 + b * 256 + c) mod 256 = c" using assms by (simp only: mod_mult_self3 mod_less)
qed

lemma decode_sextets_sextets: "decode_sextets (sextets bs) = Some bs"
proof (induction bs rule: sextets.induct)
  case (1 a b c rest)
  let ?n = "unat a * 65536 + unat b * 256 + unat c"
  show ?case using 1 byte_group [OF byte_less [of a] byte_less [of b] byte_less [of c]]
    by (simp add: Let_def sextet_group [of ?n])
next
  case (2 a b)
  let ?n = "unat a * 65536 + unat b * 256"
  have "?n = (unat a * 1024 + unat b * 4) * 64" by simp
  then have "?n mod 64 = 0" by (simp only: mod_mult_self2_is_0)
  then have "?n div 262144 * 262144 + ?n div 4096 mod 64 * 4096 + ?n div 64 mod 64 * 64 = ?n"
    using sextet_group [of ?n] by simp
  then show ?case using byte_group [OF byte_less [of a] byte_less [of b], of 0] by (simp add: Let_def)
next
  case (3 a)
  let ?n = "unat a * 65536"
  have n: "?n = unat a * 16 * 64 * 64" by simp
  have "?n mod 64 = 0" unfolding n by (simp only: mod_mult_self2_is_0)
  moreover have "?n div 64 mod 64 = 0"
    unfolding n by (simp only: nonzero_mult_div_cancel_right mod_mult_self2_is_0)
  ultimately have "?n div 262144 * 262144 + ?n div 4096 mod 64 * 4096 = ?n"
    using sextet_group [of ?n] by simp
  then show ?case using byte_group [OF byte_less [of a], of 0 0] by (simp add: Let_def)
qed simp

lemma all_some_unsextet: "(\<And>n. n \<in> set ns \<Longrightarrow> n < 64) \<Longrightarrow> all_some (map unsextet (map sextet ns)) = Some ns"
  by (induction ns) (simp_all add: unsextet_sextet)

lemma DecodeString_EncodeToString: "DecodeString (EncodeToString bs) = Some bs"
proof -
  have "filter (\<lambda>c. \<not> is_newline c) (map sextet (sextets bs)) = map sextet (sextets bs)"
    using sextets_less [of _ bs] sextet_not_newline by (auto simp: filter_id_conv)
  then show ?thesis
    using all_some_unsextet [OF sextets_less [of _ bs]]
    by (simp add: DecodeString_def EncodeToString_sextets decode_sextets_sextets)
qed

lemma EncodeToString_inject: "EncodeToString a = EncodeToString b \<longleftrightarrow> a = b"
  by (metis DecodeString_EncodeToString option.inject)

end
