(* ===== verification/Claims.thy ===== *)
theory Claims
  imports Prelude "HOL-Library.AList"
begin

text \<open>
  The documents credentials are made of: nested claims, as \<^verbatim>\<open>src/pkg/credential\<close> reads and writes them. The
  theory models the dotted claim paths and the defaults of \<^verbatim>\<open>attribute_mapping.go\<close>, the nested merge of
  \<^verbatim>\<open>derivations.go\<close>, and the filters that decide what may leave the issuer: \<^verbatim>\<open>vctm_filter.go\<close> and, for ISO
  mdoc, \<^verbatim>\<open>filterAgainstMDDL\<close> of \<^verbatim>\<open>src/internal/apigw/apiv1/handlers_issuer_presentation.go\<close>.

  A \<^verbatim>\<open>map[string]any\<close> is an association list, read with \<open>map_of\<close> and written with \<open>AList.update\<close> and
  \<open>AList.delete\<close>; \<open>claims_ok\<close> says that no key occurs twice at any depth, as in every Go map. A \<^verbatim>\<open>[]string\<close>
  is a \<open>JArray\<close> of strings: the sources treat the two alike. Go's functions write into the maps
  they are given, so each caller here continues with the value that is returned; the sources
  clone a map before they write into one that another document holds.
\<close>

type_synonym claims = "(string \<times> json) list"

section \<open>Claim paths\<close>

fun walkPath :: "json \<Rightarrow> string list \<Rightarrow> json option" where
  "walkPath v [] = Some v"
| "walkPath (JObject m) (p # ps) = (case map_of m p of None \<Rightarrow> None | Some v \<Rightarrow> walkPath v ps)"
| "walkPath v (p # ps) = None"

definition parts_of :: "string \<Rightarrow> string list" where
  "parts_of path = split_on (CHR ''.'') path"

text \<open>\<^verbatim>\<open>GetNestedValue\<close> and \<^verbatim>\<open>SetNestedValue\<close>; \<open>None\<close> of the latter is its error.\<close>

definition GetNestedValue :: "claims \<Rightarrow> string \<Rightarrow> json option" where
  "GetNestedValue doc path = (if path = [] then None else walkPath (JObject doc) (parts_of path))"

fun set_parts :: "claims \<Rightarrow> string list \<Rightarrow> json \<Rightarrow> claims option" where
  "set_parts doc [] v = None"
| "set_parts doc [k] v = Some (AList.update k v doc)"
| "set_parts doc (k # ks) v =
     (case map_of doc k of
        None \<Rightarrow> map_option (\<lambda>m. AList.update k (JObject m) doc) (set_parts [] ks v)
      | Some (JObject m) \<Rightarrow> map_option (\<lambda>m'. AList.update k (JObject m') doc) (set_parts m ks v)
      | Some _ \<Rightarrow> None)"

definition SetNestedValue :: "claims \<Rightarrow> string \<Rightarrow> json \<Rightarrow> claims option" where
  "SetNestedValue doc path value = (if path = [] then None else set_parts doc (parts_of path) value)"

section \<open>Defaults\<close>

text \<open>
  \<^verbatim>\<open>MergeDefaults\<close>: the default paths in the order of \<^verbatim>\<open>sort.Strings\<close>, which compares bytes, refused when
  one lies inside another.
\<close>

fun str_less :: "string \<Rightarrow> string \<Rightarrow> bool" where
  "str_less s [] = False"
| "str_less [] (y # ys) = True"
| "str_less (x # xs) (y # ys) =
     ((of_char x :: nat) < of_char y \<or> x = y \<and> str_less xs ys)"

fun sort_insert :: "string \<Rightarrow> string list \<Rightarrow> string list" where
  "sort_insert s [] = [s]"
| "sort_insert s (t # ts) = (if str_less t s then t # sort_insert s ts else s # t # ts)"

definition sort_strings :: "string list \<Rightarrow> string list" where
  "sort_strings ss = foldr sort_insert ss []"

fun overlapping :: "string list \<Rightarrow> bool" where
  "overlapping [] = False"
| "overlapping (p # ps) = (list_ex (\<lambda>q. HasPrefix q (p @ ''.'')) ps \<or> overlapping ps)"

fun fill_defaults :: "claims \<Rightarrow> claims \<Rightarrow> string list \<Rightarrow> claims option" where
  "fill_defaults doc defaults [] = Some doc"
| "fill_defaults doc defaults (path # paths) =
     (if GetNestedValue doc path \<noteq> None then fill_defaults doc defaults paths
      else (case SetNestedValue doc path (the (map_of defaults path)) of
              None \<Rightarrow> None
            | Some doc' \<Rightarrow> fill_defaults doc' defaults paths))"

definition MergeDefaults :: "claims \<Rightarrow> claims \<Rightarrow> claims option" where
  "MergeDefaults doc defaults =
     (let paths = sort_strings (map fst defaults) in
      if overlapping paths then None else fill_defaults doc defaults paths)"

section \<open>Merging\<close>

fun MergeNestedClaims :: "claims \<Rightarrow> claims \<Rightarrow> claims" where
  "MergeNestedClaims dst [] = dst"
| "MergeNestedClaims dst ((k, v) # src) =
     MergeNestedClaims
       (AList.update k
          (case v of
             JObject sm \<Rightarrow>
               (case map_of dst k of
                  Some (JObject dm) \<Rightarrow> JObject (MergeNestedClaims dm sm)
                | _ \<Rightarrow> v)
           | _ \<Rightarrow> v) dst)
       src"

text \<open>\<^verbatim>\<open>clearPath\<close>: removes the claim at a path, if its parent is an object.\<close>

fun clearPath :: "claims \<Rightarrow> string list \<Rightarrow> claims" where
  "clearPath dst [] = dst"
| "clearPath dst [k] = AList.delete k dst"
| "clearPath dst (k # ks) =
     (case map_of dst k of
        Some (JObject m) \<Rightarrow> AList.update k (JObject (clearPath m ks)) dst
      | _ \<Rightarrow> dst)"

definition MergeDerived :: "claims \<Rightarrow> claims \<Rightarrow> string list \<Rightarrow> claims" where
  "MergeDerived dst derived replaced =
     MergeNestedClaims (foldl (\<lambda>d path. clearPath d (parts_of path)) dst replaced) derived"

section \<open>The filter by declared claims\<close>

text \<open>
  The claim paths of a VCTM: a name selects a member, \<open>None\<close> (the JSON \<^verbatim>\<open>null\<close>) every element of an array.
  The tree keeps its children in a map; no children is Go's nil map.
\<close>

type_synonym claim_path = "string option list"

datatype allowNode = AllowNode bool "(string \<times> allowNode) list"

definition arrayWildcardKey :: string where
  "arrayWildcardKey = ''*''"

definition seg_key :: "string option \<Rightarrow> string" where
  "seg_key seg = (case seg of None \<Rightarrow> arrayWildcardKey | Some s \<Rightarrow> s)"

fun insertAllowPath :: "allowNode \<Rightarrow> claim_path \<Rightarrow> allowNode" where
  "insertAllowPath (AllowNode leaf children) [] = AllowNode True children"
| "insertAllowPath (AllowNode leaf children) (seg # path) =
     (let key = seg_key seg;
          child = (case map_of children key of None \<Rightarrow> AllowNode False [] | Some n \<Rightarrow> n)
      in AllowNode leaf (AList.update key (insertAllowPath child path) children))"

definition buildAllowTree :: "claim_path list \<Rightarrow> allowNode" where
  "buildAllowTree paths =
     foldl (\<lambda>root path. if path = [] \<or> hd path = None then root else insertAllowPath root path)
       (AllowNode False []) paths"

text \<open>
  \<^verbatim>\<open>filterMap\<close> returns the copy and whether anything survived; \<open>filterValue\<close> is \<open>None\<close> where the source
  returns \<^verbatim>\<open>false\<close>. \<open>filter_children\<close> is the loop over the children.
\<close>

lemma map_of_size: "map_of xs k = Some n \<Longrightarrow> size n < Suc (size_list (size_prod (\<lambda>x. 0) size) xs)"
  by (induction xs) (auto split: if_splits)

function filterMap :: "allowNode \<Rightarrow> claims \<Rightarrow> claims \<times> bool"
  and filter_children :: "(string \<times> allowNode) list \<Rightarrow> claims \<Rightarrow> claims"
  and filterValue :: "allowNode \<Rightarrow> json \<Rightarrow> json option"
  and filterArray :: "allowNode \<Rightarrow> json list \<Rightarrow> json option"
where
  "filterMap (AllowNode leaf children) m =
     (if leaf then (m, m \<noteq> []) else (let out = filter_children children m in (out, out \<noteq> [])))"
| "filter_children [] m = []"
| "filter_children ((k, child) # cs) m =
     (if k = arrayWildcardKey then []
      else (case map_of m k of
              None \<Rightarrow> []
            | Some v \<Rightarrow> (case filterValue child v of None \<Rightarrow> [] | Some w \<Rightarrow> [(k, w)])))
     @ filter_children cs m"
| "filterValue (AllowNode leaf children) v =
     (if leaf \<and> children = [] then Some v
      else (case v of
              JObject m \<Rightarrow>
                (let (out, keep) = filterMap (AllowNode leaf children) m in
                 if keep then Some (JObject out) else None)
            | JArray tv \<Rightarrow> filterArray (AllowNode leaf children) tv
            | _ \<Rightarrow> if leaf then Some v else None))"
| "filterArray (AllowNode leaf children) tv =
     (case map_of children arrayWildcardKey of
        None \<Rightarrow> if leaf then Some (JArray tv) else None
      | Some wildcard \<Rightarrow>
          (let out = List.map_filter (\<lambda>e. filterValue wildcard e) tv in
           if out = [] then None else Some (JArray out)))"
  by pat_completeness auto
termination
  by (relation "measure (\<lambda>x. case x of
        Inl (Inl (n, _)) \<Rightarrow> 2 * size n
      | Inl (Inr (cs, _)) \<Rightarrow> Suc (2 * size_list (size_prod (\<lambda>x. 0) size) cs)
      | Inr (Inl (n, _)) \<Rightarrow> Suc (2 * size n)
      | Inr (Inr (n, _)) \<Rightarrow> 2 * size n)")
    (auto dest!: map_of_size)

definition FilterAgainstVCTM :: "claims \<Rightarrow> claim_path list option \<Rightarrow> claims" where
  "FilterAgainstVCTM doc vctm =
     (case vctm of None \<Rightarrow> [] | Some paths \<Rightarrow> fst (filterMap (buildAllowTree paths) doc))"

end
