(* ===== verification/JWT.thy ===== *)
theory JWT
  imports Base64 Claims
begin

text \<open>
  JSON Web Tokens as the issuer reads them: the decoding of JSON into Go maps and structs by
  \<^verbatim>\<open>encoding/json\<close>, and the parser, the claims and the validator of \<^verbatim>\<open>golang-jwt\<close> in the version the repository
  vendors, with the default options its callers use.

  \<open>JwtLib\<close> collects what stays outside: the syntax of JSON text (\<open>None\<close> is a syntax error; members keep their
  order and repeated names), the folding of member names by which \<^verbatim>\<open>encoding/json\<close> finds a struct field, the whole
  seconds of a number (\<open>None\<close> for zero), and the signature primitives, by algorithm, key, signed text and signature.
\<close>

record JwtLib =
  jl_json :: "bytes \<Rightarrow> json option"
  jl_fold :: "string \<Rightarrow> string"
  jl_date :: "string \<Rightarrow> int option"
  jl_verify :: "string \<Rightarrow> string \<Rightarrow> string \<Rightarrow> bytes \<Rightarrow> bool"

section \<open>JSON into maps\<close>

text \<open>A value of type \<^verbatim>\<open>any\<close>: of a repeated member the last one stays.\<close>

fun go_any :: "json \<Rightarrow> json" and go_items :: "json list \<Rightarrow> json list" and go_members :: "claims \<Rightarrow> claims \<Rightarrow> claims" where
  "go_any (JArray xs) = JArray (go_items xs)"
| "go_any (JObject m) = JObject (go_members m [])"
| "go_any v = v"
| "go_items [] = []"
| "go_items (x # xs) = go_any x # go_items xs"
| "go_members [] acc = acc"
| "go_members ((k, v) # m) acc = go_members m (AList.update k (go_any v) acc)"

text \<open>\<^verbatim>\<open>json.Unmarshal\<close> into a \<^verbatim>\<open>map[string]any\<close>; \<^verbatim>\<open>null\<close> gives a map without members.\<close>

definition unmarshal_map :: "'a JwtLib_scheme \<Rightarrow> bytes \<Rightarrow> claims option" where
  "unmarshal_map l bs =
     (case jl_json l bs of
        Some (JObject m) \<Rightarrow> Some (go_members m [])
      | Some JNull \<Rightarrow> Some []
      | _ \<Rightarrow> None)"

section \<open>JSON into structs\<close>

text \<open>
  The members that fill a field: those with its exact name, and those that equal it up to folding and are
  the exact name of no field. \<open>None\<close> of the decoders is a type error. Of a repeated member the last string or
  number stays and \<^verbatim>\<open>null\<close> changes nothing; objects are decoded one over the other.
\<close>

definition struct_members :: "json \<Rightarrow> claims option" where
  "struct_members v = (case v of JObject m \<Rightarrow> Some m | JNull \<Rightarrow> Some [] | _ \<Rightarrow> None)"

definition field_values :: "'a JwtLib_scheme \<Rightarrow> string list \<Rightarrow> claims \<Rightarrow> string \<Rightarrow> json list" where
  "field_values l names m name =
     map snd (filter (\<lambda>(k, v). k = name \<or> k \<notin> set names \<and> jl_fold l k = jl_fold l name) m)"

fun dec_string :: "string \<Rightarrow> json list \<Rightarrow> string option" where
  "dec_string s [] = Some s"
| "dec_string s (JString t # vs) = dec_string t vs"
| "dec_string s (JNull # vs) = dec_string s vs"
| "dec_string s (v # vs) = None"

fun dec_bool :: "bool \<Rightarrow> json list \<Rightarrow> bool option" where
  "dec_bool b [] = Some b"
| "dec_bool b (JBool c # vs) = dec_bool c vs"
| "dec_bool b (JNull # vs) = dec_bool b vs"
| "dec_bool b (v # vs) = None"

text \<open>\<^verbatim>\<open>strconv.ParseInt\<close> on a JSON number: no fraction, no exponent, 64 bits.\<close>

definition parse_int64 :: "string \<Rightarrow> int option" where
  "parse_int64 s =
     (let neg = HasPrefix s ''-''; ds = (if neg then drop 1 s else s) in
      if ds = [] \<or> \<not> list_all is_digit ds then None
      else
        let n = foldl (\<lambda>n c. 10 * n + (int (of_char c :: nat) - 48)) 0 ds; i = (if neg then - n else n) in
        if - (2 ^ 63) \<le> i \<and> i < 2 ^ 63 then Some i else None)"

fun dec_int64 :: "int \<Rightarrow> json list \<Rightarrow> int option" where
  "dec_int64 i [] = Some i"
| "dec_int64 i (JNumber n # vs) = (case parse_int64 n of None \<Rightarrow> None | Some j \<Rightarrow> dec_int64 j vs)"
| "dec_int64 i (JNull # vs) = dec_int64 i vs"
| "dec_int64 i (v # vs) = None"

text \<open>A pointer to a struct: the members to decode, or nil.\<close>

fun dec_object :: "claims option \<Rightarrow> json list \<Rightarrow> claims option option" where
  "dec_object m [] = Some m"
| "dec_object m (JObject n # vs) = dec_object (Some ((case m of None \<Rightarrow> [] | Some m' \<Rightarrow> m') @ n)) vs"
| "dec_object m (JNull # vs) = dec_object None vs"
| "dec_object m (v # vs) = None"

text \<open>A slice, nil without a member or for \<^verbatim>\<open>null\<close>; the last array counts.\<close>

fun dec_array :: "json list option \<Rightarrow> json list \<Rightarrow> json list option option" where
  "dec_array a [] = Some a"
| "dec_array a (JArray xs # vs) = dec_array (Some xs) vs"
| "dec_array a (JNull # vs) = dec_array None vs"
| "dec_array a (v # vs) = None"

definition dec_strings :: "json list \<Rightarrow> string list option option" where
  "dec_strings vs =
     (case dec_array None vs of
        None \<Rightarrow> None
      | Some None \<Rightarrow> Some None
      | Some (Some xs) \<Rightarrow> map_option Some (all_some (map (\<lambda>x. dec_string [] [x]) xs)))"

definition dec_raw :: "json list \<Rightarrow> json option" where
  "dec_raw vs = (if vs = [] then None else Some (last vs))"

section \<open>The parser\<close>

datatype jwt_error = TokenMalformed | TokenUnverifiable | TokenSignatureInvalid | TokenInvalidClaims | TokenInvalidType

record jwt_token =
  jt_Header :: claims
  jt_Claims :: claims
  jt_alg :: string
  jt_Signature :: bytes
  jt_text :: string

definition signingMethods :: "string list" where
  "signingMethods =
     [''ES256'', ''ES384'', ''ES512'', ''EdDSA'', ''HS256'', ''HS384'', ''HS512'', ''none'',
      ''RS256'', ''RS384'', ''RS512'', ''PS256'', ''PS384'', ''PS512'']"

definition splitToken :: "string \<Rightarrow> (string \<times> string \<times> string) option" where
  "splitToken t = (case split_on (CHR ''.'') t of [h, c, s] \<Rightarrow> Some (h, c, s) | _ \<Rightarrow> None)"

definition ParseUnverified :: "'a JwtLib_scheme \<Rightarrow> string \<Rightarrow> jwt_error + jwt_token" where
  "ParseUnverified l tokenString =
     (case splitToken tokenString of
        None \<Rightarrow> Inl TokenMalformed
      | Some (h, c, s) \<Rightarrow>
          (case Option.bind (DecodeString h) (unmarshal_map l) of
             None \<Rightarrow> Inl TokenMalformed
           | Some header \<Rightarrow>
               (case Option.bind (DecodeString c) (unmarshal_map l) of
                  None \<Rightarrow> Inl TokenMalformed
                | Some claims \<Rightarrow>
                    (case map_of header ''alg'' of
                       Some (JString alg) \<Rightarrow>
                         if alg \<notin> set signingMethods then Inl TokenUnverifiable
                         else (case DecodeString s of
                                 None \<Rightarrow> Inl TokenMalformed
                               | Some sg \<Rightarrow>
                                   Inr \<lparr>jt_Header = header, jt_Claims = claims, jt_alg = alg, jt_Signature = sg,
                                        jt_text = h @ ''.'' @ c\<rparr>)
                     | _ \<Rightarrow> Inl TokenUnverifiable))))"

section \<open>Claims and their validation\<close>

definition parseNumericDate :: "'a JwtLib_scheme \<Rightarrow> claims \<Rightarrow> string \<Rightarrow> jwt_error + time option" where
  "parseNumericDate l m key =
     (case map_of m key of
        None \<Rightarrow> Inr None
      | Some (JNumber n) \<Rightarrow> Inr (map_option (\<lambda>s. s * second) (jl_date l n))
      | Some _ \<Rightarrow> Inl TokenInvalidType)"

definition as_string :: "json \<Rightarrow> string option" where
  "as_string v = (case v of JString s \<Rightarrow> Some s | _ \<Rightarrow> None)"

definition parseClaimsString :: "claims \<Rightarrow> string \<Rightarrow> jwt_error + string list" where
  "parseClaimsString m key =
     (case map_of m key of
        Some (JString s) \<Rightarrow> Inr [s]
      | Some (JArray xs) \<Rightarrow> (case all_some (map as_string xs) of None \<Rightarrow> Inl TokenInvalidType | Some ss \<Rightarrow> Inr ss)
      | _ \<Rightarrow> Inr [])"

text \<open>The default validator: an expiry and a not-before that are present, without leeway.\<close>

definition verifyExpiresAt :: "'a JwtLib_scheme \<Rightarrow> time \<Rightarrow> claims \<Rightarrow> bool" where
  "verifyExpiresAt l now m = (case parseNumericDate l m ''exp'' of Inr (Some t) \<Rightarrow> now < t | Inr None \<Rightarrow> True | Inl _ \<Rightarrow> False)"

definition verifyNotBefore :: "'a JwtLib_scheme \<Rightarrow> time \<Rightarrow> claims \<Rightarrow> bool" where
  "verifyNotBefore l now m = (case parseNumericDate l m ''nbf'' of Inr (Some t) \<Rightarrow> t \<le> now | Inr None \<Rightarrow> True | Inl _ \<Rightarrow> False)"

definition Validator_Validate :: "'a JwtLib_scheme \<Rightarrow> time \<Rightarrow> claims \<Rightarrow> bool" where
  "Validator_Validate l now m \<longleftrightarrow> verifyExpiresAt l now m \<and> verifyNotBefore l now m"

text \<open>An error of the key function reaches the caller as it is; every other one is of the library.\<close>

datatype 'e parse_error = KeyError 'e | JwtError jwt_error

definition ParseWithClaims ::
  "'a JwtLib_scheme \<Rightarrow> time \<Rightarrow> string \<Rightarrow> (jwt_token \<Rightarrow> 'e + string) \<Rightarrow> 'e parse_error + jwt_token"
where
  "ParseWithClaims l now tokenString keyFunc =
     (case ParseUnverified l tokenString of
        Inl e \<Rightarrow> Inl (JwtError e)
      | Inr token \<Rightarrow>
          (case keyFunc token of
             Inl e \<Rightarrow> Inl (KeyError e)
           | Inr key \<Rightarrow>
               if \<not> jl_verify l (jt_alg token) key (jt_text token) (jt_Signature token)
               then Inl (JwtError TokenSignatureInvalid)
               else if \<not> Validator_Validate l now (jt_Claims token) then Inl (JwtError TokenInvalidClaims)
               else Inr token))"

lemma ParseWithClaims_ok:
  "ParseWithClaims l now t kf = Inr tok \<longleftrightarrow>
     ParseUnverified l t = Inr tok \<and>
     (\<exists>key. kf tok = Inr key \<and> jl_verify l (jt_alg tok) key (jt_text tok) (jt_Signature tok)) \<and>
     Validator_Validate l now (jt_Claims tok)"
  by (auto simp: ParseWithClaims_def split: sum.splits)

text \<open>A token that parses is its signed text and its signature.\<close>

lemma ParseUnverified_parts:
  assumes "ParseUnverified l t = Inr tok"
  shows "\<exists>h c s. split_on (CHR ''.'') t = [h, c, s] \<and> jt_text tok = h @ ''.'' @ c \<and>
    Option.bind (DecodeString h) (unmarshal_map l) = Some (jt_Header tok) \<and>
    Option.bind (DecodeString c) (unmarshal_map l) = Some (jt_Claims tok) \<and>
    DecodeString s = Some (jt_Signature tok) \<and> map_of (jt_Header tok) ''alg'' = Some (JString (jt_alg tok))"
  using assms
  by (auto simp: ParseUnverified_def splitToken_def split: option.splits list.splits json.splits if_splits)

end
