(* ===== verification/DCQL.thy ===== *)
theory DCQL
  imports Prelude
begin

text \<open>
  The Digital Credentials Query Language of OpenID4VP: the types of
  \<^verbatim>\<open>src/pkg/openid4vp/dcql.go\<close>, the validation tags they carry (as
  \<^verbatim>\<open>AuthorizationContext.Validate\<close> runs them), the matching predicates and
  \<^verbatim>\<open>ValidateCredentialQuery\<close> for a query that was decoded into the typed members.

  A Go slice whose nil and empty values are told apart by a tag (\<^verbatim>\<open>required\<close>, \<^verbatim>\<open>omitnil\<close>) or by a
  comparison with the zero struct is an optional list, \<open>None\<close> being nil. A pointer to a scalar is an
  option. The escape hatch \<^verbatim>\<open>Raw\<close> is carried as its bytes; the decoding of those bytes back
  into the typed members (\<^verbatim>\<open>adoptRawShadow\<close>) is not modelled.

  The main results: an accepted W3C query always narrows what it requests, and
  \<open>isIntegralNumber\<close> decides whether the number a JSON literal denotes is an integer.
\<close>

section \<open>Types\<close>

record ZKSystemTypeSpec =
  zk_ID :: string
  zk_System :: string
  zk_Params :: "(string \<times> string) list"

record MetaQuery =
  meta_VCTValues :: "string list option"
  meta_TypeValues :: "string list list option"
  meta_DoctypeValue :: string
  meta_SchemaIDValue :: string
  meta_SourceFormat :: string
  meta_ZKSystemType :: "ZKSystemTypeSpec list option"
  meta_PPIDContext :: string

record TrustedAuthority =
  ta_Type :: string
  ta_Values :: "string list"

record ClaimQuery =
  clq_ID :: string
  clq_Path :: "string option list"
  clq_Values :: "json list option"

record ReqItem =
  req_FnID :: string
  req_Return :: string
  req_Params :: "(string \<times> json) list"
  req_Extra :: "(string \<times> json) list"

record CredentialQuery =
  cq_ID :: string
  cq_Format :: string
  cq_Multiple :: "bool option"
  cq_Meta :: MetaQuery
  cq_TrustedAuthorities :: "TrustedAuthority list"
  cq_RequireCryptographicHolderBinding :: "bool option"
  cq_Claims :: "ClaimQuery list"
  cq_ClaimSet :: "string list list option"
  cq_Req :: "ReqItem list"
  cq_Extra :: "(string \<times> json) list"
  cq_Raw :: "string option"

record CredentialSetQuery =
  csq_Options :: "string list list option"
  csq_Required :: "bool option"

record DCQL =
  dcql_Credentials :: "CredentialQuery list option"
  dcql_CredentialSets :: "CredentialSetQuery list option"

definition zero_MetaQuery :: MetaQuery where
  "zero_MetaQuery =
     \<lparr>meta_VCTValues = None, meta_TypeValues = None, meta_DoctypeValue = [], meta_SchemaIDValue = [],
      meta_SourceFormat = [], meta_ZKSystemType = None, meta_PPIDContext = []\<rparr>"

section \<open>Validation tags\<close>

text \<open>\<^verbatim>\<open>required,min=1,dive,required,min=1,dive,required\<close> on a slice of slices of strings.\<close>

definition nonempty_groups :: "string list list \<Rightarrow> bool" where
  "nonempty_groups gs \<longleftrightarrow> gs \<noteq> [] \<and> list_all (\<lambda>g. g \<noteq> [] \<and> list_all (\<lambda>s. s \<noteq> []) g) gs"

definition CredentialSetQuery_valid :: "CredentialSetQuery \<Rightarrow> bool" where
  "CredentialSetQuery_valid q =
     (case csq_Options q of None \<Rightarrow> False | Some gs \<Rightarrow> nonempty_groups gs)"

definition CredentialQuery_valid :: "CredentialQuery \<Rightarrow> bool" where
  "CredentialQuery_valid q \<longleftrightarrow>
     cq_ID q \<noteq> [] \<and> cq_Format q \<noteq> [] \<and> cq_Meta q \<noteq> zero_MetaQuery \<and>
     (case cq_ClaimSet q of None \<Rightarrow> True | Some gs \<Rightarrow> nonempty_groups gs)"

definition DCQL_valid :: "DCQL \<Rightarrow> bool" where
  "DCQL_valid d \<longleftrightarrow>
     (case dcql_Credentials d of
        None \<Rightarrow> False
      | Some qs \<Rightarrow> qs \<noteq> [] \<and> list_all CredentialQuery_valid qs) \<and>
     (case dcql_CredentialSets d of
        None \<Rightarrow> True
      | Some ss \<Rightarrow> ss \<noteq> [] \<and> list_all CredentialSetQuery_valid ss)"

section \<open>Defaults\<close>

definition IsRequired :: "CredentialSetQuery \<Rightarrow> bool" where
  "IsRequired q = (case csq_Required q of None \<Rightarrow> True | Some b \<Rightarrow> b)"

definition AllowsMultiple :: "CredentialQuery \<Rightarrow> bool" where
  "AllowsMultiple q \<longleftrightarrow> cq_Multiple q = Some True"

definition RequiresCryptographicHolderBinding :: "CredentialQuery \<Rightarrow> bool" where
  "RequiresCryptographicHolderBinding q =
     (case cq_RequireCryptographicHolderBinding q of None \<Rightarrow> True | Some b \<Rightarrow> b)"

text \<open>
  \<^verbatim>\<open>make\<close> gives a slice that is not nil even when the source was, so \<open>None\<close> becomes
  \<open>Some []\<close>.
\<close>

definition withCryptographicHolderBinding :: "DCQL option \<Rightarrow> DCQL option" where
  "withCryptographicHolderBinding q =
     (case q of
        None \<Rightarrow> None
      | Some d \<Rightarrow>
          Some (d\<lparr>dcql_Credentials :=
            Some (map (\<lambda>c. c\<lparr>cq_RequireCryptographicHolderBinding := Some True\<rparr>)
                   (case dcql_Credentials d of None \<Rightarrow> [] | Some cs \<Rightarrow> cs))\<rparr>))"

section \<open>Claim paths and values\<close>

datatype dcql_error =
    PathEmpty
  | PathElementEmpty nat
  | ValuesEmpty
  | ValueNotScalar nat
  | TypeValueNotIRI nat nat
  | TypeValueNotNarrowing nat
  | TypeValuesRequired
  | VCTValuesRequired
  | DoctypeValueRequired
  | ZKSystemTypeRequired
  | ZKSystemIDRequired nat
  | ZKSystemSystemRequired nat
  | FormatNotRequestable

fun path_element_error :: "nat \<Rightarrow> string option list \<Rightarrow> dcql_error option" where
  "path_element_error i [] = None"
| "path_element_error i (p # ps) =
     (if p = Some [] then Some (PathElementEmpty i) else path_element_error (Suc i) ps)"

definition validateClaimPath :: "string option list \<Rightarrow> dcql_error option" where
  "validateClaimPath path = (if path = [] then Some PathEmpty else path_element_error 0 path)"

definition StringPath :: "string list \<Rightarrow> string option list" where
  "StringPath parts = map Some parts"

definition ArrayElementPath :: "string list \<Rightarrow> string option list" where
  "ArrayElementPath parts = map Some parts @ [None]"

definition digit_val :: "char \<Rightarrow> nat" where
  "digit_val c = of_char c - 48"

definition digits_val :: "string \<Rightarrow> nat" where
  "digits_val s = foldl (\<lambda>n c. 10 * n + digit_val c) 0 s"

text \<open>
  \<^verbatim>\<open>strconv.Atoi\<close>: an optional sign, at least one digit, and a value of a 64-bit \<^verbatim>\<open>int\<close>.
\<close>

definition Atoi :: "string \<Rightarrow> int option" where
  "Atoi s =
     (let (neg, ds) =
        (case s of
           c # cs \<Rightarrow> if c = CHR ''-'' then (True, cs) else if c = CHR ''+'' then (False, cs) else (False, s)
         | [] \<Rightarrow> (False, []))
      in if ds = [] \<or> \<not> list_all is_digit ds then None
         else (let v = (if neg then - int (digits_val ds) else int (digits_val ds))
               in if - (2 ^ 63) \<le> v \<and> v < 2 ^ 63 then Some v else None))"

text \<open>\<^verbatim>\<open>strings.IndexAny(s, "eE")\<close> with the split it is used for: before it, after it.\<close>

fun cut_at :: "(char \<Rightarrow> bool) \<Rightarrow> string \<Rightarrow> string \<times> string option" where
  "cut_at P [] = ([], None)"
| "cut_at P (c # cs) =
     (if P c then ([], Some cs) else (let (a, b) = cut_at P cs in (c # a, b)))"

definition TrimPrefix1 :: "char \<Rightarrow> string \<Rightarrow> string" where
  "TrimPrefix1 c s = (case s of [] \<Rightarrow> [] | x # xs \<Rightarrow> if x = c then xs else s)"

text \<open>\<^verbatim>\<open>strings.Trim(s, "0") == ""\<close>.\<close>

definition all_zero_digits :: "string \<Rightarrow> bool" where
  "all_zero_digits s \<longleftrightarrow> list_all (\<lambda>c. c = CHR ''0'') s"

definition isIntegralNumber :: "string \<Rightarrow> bool" where
  "isIntegralNumber literal =
     (let (mant, ex) = cut_at (\<lambda>c. c = CHR ''e'' \<or> c = CHR ''E'') literal in
      case (case ex of None \<Rightarrow> Some 0 | Some t \<Rightarrow> Atoi t) of
        None \<Rightarrow> False
      | Some exponent \<Rightarrow>
          (let mantissa = TrimPrefix1 (CHR ''+'') (TrimPrefix1 (CHR ''-'') mant);
               (whole, fr) = cut_at (\<lambda>c. c = CHR ''.'') mantissa;
               fraction = (case fr of None \<Rightarrow> [] | Some f \<Rightarrow> f);
               digits = whole @ fraction
           in if digits = [] then False
              else if \<not> list_all is_digit digits then False
              else if all_zero_digits digits then True
              else if exponent \<le> int (length fraction) - int (length digits) then False
              else (let shift = exponent - int (length fraction)
                    in if shift \<ge> 0 then True
                       else all_zero_digits (drop (nat (int (length digits) + shift)) digits))))"

text \<open>
  \<^verbatim>\<open>validateClaimValues\<close> on values decoded with \<^verbatim>\<open>UseNumber\<close>, where every number is a
  \<^verbatim>\<open>json.Number\<close> literal.
\<close>

fun claim_value_error :: "nat \<Rightarrow> json list \<Rightarrow> dcql_error option" where
  "claim_value_error i [] = None"
| "claim_value_error i (v # vs) =
     (case v of
        JString _ \<Rightarrow> claim_value_error (Suc i) vs
      | JBool _ \<Rightarrow> claim_value_error (Suc i) vs
      | JNumber l \<Rightarrow> if isIntegralNumber l then claim_value_error (Suc i) vs else Some (ValueNotScalar i)
      | _ \<Rightarrow> Some (ValueNotScalar i))"

definition validateClaimValues :: "json list \<Rightarrow> bool \<Rightarrow> dcql_error option" where
  "validateClaimValues vals present =
     (if \<not> present then None
      else if vals = [] then Some ValuesEmpty
      else claim_value_error 0 vals)"

section \<open>Formats\<close>

definition FormatJwtVCJson :: string where
  "FormatJwtVCJson = ''jwt_vc_json''"

definition FormatSDJWTVC :: string where
  "FormatSDJWTVC = ''dc+sd-jwt''"

definition FormatMsoMdoc :: string where
  "FormatMsoMdoc = ''mso_mdoc''"

definition FormatMsoMdocZk :: string where
  "FormatMsoMdocZk = ''mso_mdoc_zk''"

definition FormatLdpVCDCQL :: string where
  "FormatLdpVCDCQL = ''ldp_vc''"

definition FormatVCLDJSON :: string where
  "FormatVCLDJSON = ''vc+ld+json''"

definition BaseVCTypeIRI :: string where
  "BaseVCTypeIRI = ''https://www.w3.org/2018/credentials#VerifiableCredential''"

lemmas format_defs =
  FormatJwtVCJson_def FormatSDJWTVC_def FormatMsoMdoc_def FormatMsoMdocZk_def FormatLdpVCDCQL_def
  FormatVCLDJSON_def BaseVCTypeIRI_def

definition IsW3CVCFormatIdentifier :: "string \<Rightarrow> bool" where
  "IsW3CVCFormatIdentifier f \<longleftrightarrow> f = FormatLdpVCDCQL \<or> f = FormatVCLDJSON \<or> f = FormatJwtVCJson"

definition IsSDJWTFormatIdentifier :: "string \<Rightarrow> bool" where
  "IsSDJWTFormatIdentifier f \<longleftrightarrow> f = FormatSDJWTVC"

definition IsSDJWTVCCredentialFormat :: "string \<Rightarrow> bool" where
  "IsSDJWTVCCredentialFormat f \<longleftrightarrow> f = FormatSDJWTVC \<or> f = ''vc+sd-jwt''"

definition IsMdocFormat :: "string \<Rightarrow> bool" where
  "IsMdocFormat f \<longleftrightarrow> f = FormatMsoMdoc"

section \<open>Matching\<close>

text \<open>\<^verbatim>\<open>containsAll\<close>: the set of the credential's types is built first, then consulted.\<close>

definition containsAll :: "string list \<Rightarrow> string list \<Rightarrow> bool" where
  "containsAll credentialTypes requiredTypes =
     (let typeSet = fold (\<lambda>t m. m(t := True)) credentialTypes (\<lambda>_. False)
      in list_all typeSet requiredTypes)"

definition MatchTypeValues :: "string list \<Rightarrow> string list list \<Rightarrow> bool" where
  "MatchTypeValues credentialTypes typeValues \<longleftrightarrow>
     typeValues = [] \<or> list_ex (containsAll credentialTypes) typeValues"

definition MatchCryptosuite :: "string \<Rightarrow> string list \<Rightarrow> bool" where
  "MatchCryptosuite c cs \<longleftrightarrow> cs = [] \<or> c \<in> set cs"

definition MatchProofType :: "string \<Rightarrow> string list \<Rightarrow> bool" where
  "MatchProofType t ts \<longleftrightarrow> ts = [] \<or> t \<in> set ts"

definition MatchZKSystemType :: "ZKSystemTypeSpec list \<Rightarrow> string \<Rightarrow> ZKSystemTypeSpec option" where
  "MatchZKSystemType requested presented = List.find (\<lambda>z. zk_ID z = presented) requested"

text \<open>
  The trust framework behind \<^verbatim>\<open>TrustedAuthorityMatcher\<close> is a record of the interface's three
  methods; the certificate chain is whatever they read.
\<close>

record 'c TrustedAuthorityMatcher =
  MatchAKI :: "'c \<Rightarrow> string \<Rightarrow> bool"
  MatchETSI :: "'c \<Rightarrow> string \<Rightarrow> bool"
  MatchOpenIDFederation :: "string \<Rightarrow> string \<Rightarrow> bool"

definition authority_matches ::
  "'c TrustedAuthorityMatcher \<Rightarrow> 'c \<Rightarrow> string \<Rightarrow> string \<Rightarrow> string \<Rightarrow> bool"
where
  "authority_matches m chain issuer ty v =
     (if ty = ''aki'' then MatchAKI m chain v
      else if ty = ''etsi_tl'' then MatchETSI m chain v
      else if ty = ''openid_federation'' then MatchOpenIDFederation m issuer v
      else False)"

definition MatchTrustedAuthorities ::
  "TrustedAuthority list \<Rightarrow> 'c \<Rightarrow> string \<Rightarrow> 'c TrustedAuthorityMatcher option \<Rightarrow> bool"
where
  "MatchTrustedAuthorities tas chain issuer matcher =
     (if tas = [] then True
      else (case matcher of
              None \<Rightarrow> True
            | Some m \<Rightarrow>
                list_ex (\<lambda>ta. list_ex (authority_matches m chain issuer (ta_Type ta)) (ta_Values ta)) tas))"

section \<open>Absolute IRIs\<close>

definition isSchemeStart :: "char \<Rightarrow> bool" where
  "isSchemeStart c \<longleftrightarrow>
     (let n = of_char c :: nat in (97 \<le> n \<and> n \<le> 122) \<or> (65 \<le> n \<and> n \<le> 90))"

definition isSchemeTailChar :: "char \<Rightarrow> bool" where
  "isSchemeTailChar c \<longleftrightarrow>
     isSchemeStart c \<or> is_digit c \<or> c = CHR ''+'' \<or> c = CHR ''-'' \<or> c = CHR ''.''"

definition isSchemeTail :: "string \<Rightarrow> bool" where
  "isSchemeTail s = list_all isSchemeTailChar s"

text \<open>The loop of \<^verbatim>\<open>isAbsoluteIRI\<close>; \<open>seen\<close> is \<^verbatim>\<open>s[:i]\<close>.\<close>

fun isAbsoluteIRI_from :: "string \<Rightarrow> string \<Rightarrow> bool" where
  "isAbsoluteIRI_from seen [] = False"
| "isAbsoluteIRI_from seen (c # cs) =
     (if c = CHR '':'' then (case seen of [] \<Rightarrow> False | x # xs \<Rightarrow> isSchemeStart x \<and> isSchemeTail xs)
      else if c = CHR ''/'' \<or> c = CHR ''#'' \<or> c = CHR ''?'' then False
      else isAbsoluteIRI_from (seen @ [c]) cs)"

definition IsAbsoluteIRI :: "string \<Rightarrow> bool" where
  "IsAbsoluteIRI s = isAbsoluteIRI_from [] s"

section \<open>Validation of a credential query\<close>

fun non_iri_member :: "nat \<Rightarrow> nat \<Rightarrow> string list \<Rightarrow> dcql_error option" where
  "non_iri_member i j [] = None"
| "non_iri_member i j (m # ms) =
     (if m \<noteq> [] \<and> IsAbsoluteIRI m then non_iri_member i (Suc j) ms else Some (TypeValueNotIRI i j))"

fun type_values_error :: "nat \<Rightarrow> string list list \<Rightarrow> dcql_error option" where
  "type_values_error i [] = None"
| "type_values_error i (alt # alts) =
     (case non_iri_member i 0 alt of
        Some e \<Rightarrow> Some e
      | None \<Rightarrow>
          if \<not> list_ex (\<lambda>t. t \<noteq> BaseVCTypeIRI) alt then Some (TypeValueNotNarrowing i)
          else type_values_error (Suc i) alts)"

fun zk_system_error :: "nat \<Rightarrow> ZKSystemTypeSpec list \<Rightarrow> dcql_error option" where
  "zk_system_error i [] = None"
| "zk_system_error i (z # zs) =
     (if zk_ID z = [] then Some (ZKSystemIDRequired i)
      else if zk_System z = [] then Some (ZKSystemSystemRequired i)
      else zk_system_error (Suc i) zs)"

text \<open>A nil slice has length 0.\<close>

definition slice :: "'a list option \<Rightarrow> 'a list" where
  "slice xs = (case xs of None \<Rightarrow> [] | Some ys \<Rightarrow> ys)"

definition validateMsoMdocZkQuery :: "CredentialQuery \<Rightarrow> dcql_error option" where
  "validateMsoMdocZkQuery q =
     (if meta_DoctypeValue (cq_Meta q) = [] then Some DoctypeValueRequired
      else if slice (meta_ZKSystemType (cq_Meta q)) = [] then Some ZKSystemTypeRequired
      else zk_system_error 0 (slice (meta_ZKSystemType (cq_Meta q))))"

text \<open>\<^verbatim>\<open>ValidateCredentialQuery\<close> from its \<^verbatim>\<open>switch\<close> on, which is all of it when \<^verbatim>\<open>Raw\<close> is nil.\<close>

definition validate_typed_query :: "CredentialQuery \<Rightarrow> dcql_error option" where
  "validate_typed_query q =
     (let f = cq_Format q; meta = cq_Meta q in
      if f = FormatLdpVCDCQL \<or> f = FormatVCLDJSON then
        (case type_values_error 0 (slice (meta_TypeValues meta)) of
           Some e \<Rightarrow> Some e
         | None \<Rightarrow> if slice (meta_TypeValues meta) = [] then Some TypeValuesRequired else None)
      else if f = FormatSDJWTVC \<or> f = ''vc+sd-jwt'' \<or> f = [] then
        (if slice (meta_VCTValues meta) = [] then Some VCTValuesRequired else None)
      else if f = FormatMsoMdoc then
        (if meta_DoctypeValue meta = [] then Some DoctypeValueRequired else None)
      else if f = FormatMsoMdocZk then validateMsoMdocZkQuery q
      else if f = FormatJwtVCJson \<or> f = ''jwt_vc_json-ld'' then Some FormatNotRequestable
      else None)"

section \<open>Lemmas\<close>

lemma containsAll_iff: "containsAll ts rs \<longleftrightarrow> set rs \<subseteq> set ts"
proof -
  have "fold (\<lambda>t m. m(t := True)) ts m = (\<lambda>x. x \<in> set ts \<or> m x)" for m
    by (induction ts arbitrary: m) auto
  then show ?thesis by (auto simp: containsAll_def list_all_iff)
qed

lemma scheme_char: "isSchemeTailChar c \<Longrightarrow> c \<notin> {CHR '':'', CHR ''/'', CHR ''#'', CHR ''?''}"
  by (auto simp: isSchemeTailChar_def isSchemeStart_def is_digit_def)

definition scheme :: "string \<Rightarrow> bool" where
  "scheme s = (case s of [] \<Rightarrow> False | x # xs \<Rightarrow> isSchemeStart x \<and> isSchemeTail xs)"

lemma scheme_chars: "scheme s \<Longrightarrow> c \<in> set s \<Longrightarrow> c \<notin> {CHR '':'', CHR ''/'', CHR ''#'', CHR ''?''}"
  using scheme_char
  by (auto simp: scheme_def isSchemeTail_def list_all_iff isSchemeTailChar_def split: list.splits)

lemma isAbsoluteIRI_from_iff:
  "isAbsoluteIRI_from seen s \<longleftrightarrow> (\<exists>a rest. s = a @ CHR '':'' # rest \<and> scheme (seen @ a))"
proof (induction s arbitrary: seen)
  case Nil
  then show ?case by simp
next
  case (Cons c cs)
  have step: "(\<exists>a rest. c # cs = a @ CHR '':'' # rest \<and> scheme (seen @ a)) \<longleftrightarrow>
    c = CHR '':'' \<and> scheme seen \<or>
    (\<exists>a rest. cs = a @ CHR '':'' # rest \<and> scheme ((seen @ [c]) @ a))"
    (is "?L \<longleftrightarrow> ?R")
  proof
    assume ?L
    then obtain a rest where a: "c # cs = a @ CHR '':'' # rest" "scheme (seen @ a)" by blast
    then show ?R by (cases a) auto
  next
    assume ?R
    then show ?L
    proof
      assume "c = CHR '':'' \<and> scheme seen"
      then show ?L by (intro exI [of _ "[]"] exI [of _ cs]) simp
    next
      assume "\<exists>a rest. cs = a @ CHR '':'' # rest \<and> scheme ((seen @ [c]) @ a)"
      then obtain a rest where "cs = a @ CHR '':'' # rest" "scheme ((seen @ [c]) @ a)" by blast
      then show ?L by (intro exI [of _ "c # a"] exI [of _ rest]) simp
    qed
  qed
  have no: "\<not> scheme ((seen @ [c]) @ a)" if "c \<in> {CHR '':'', CHR ''/'', CHR ''#'', CHR ''?''}" for a
    using scheme_chars [of "(seen @ [c]) @ a" c] that by auto
  show ?case unfolding step using Cons.IH [of "seen @ [c]"] no
    by (auto simp: scheme_def split: list.splits)
qed

text \<open>The type the IRI is matched as is only meaningful when a credential can carry it.\<close>

lemma non_iri_member_None: "non_iri_member i j ms = None \<longleftrightarrow> (\<forall>m\<in>set ms. m \<noteq> [] \<and> IsAbsoluteIRI m)"
  by (induction ms arbitrary: j) auto

lemma type_values_error_None:
  "type_values_error i alts = None \<longleftrightarrow>
     (\<forall>alt\<in>set alts. (\<forall>m\<in>set alt. m \<noteq> [] \<and> IsAbsoluteIRI m) \<and> (\<exists>t\<in>set alt. t \<noteq> BaseVCTypeIRI))"
proof (induction alts arbitrary: i)
  case Nil
  then show ?case by simp
next
  case (Cons alt alts)
  show ?case using Cons.IH [of "Suc i"] non_iri_member_None [of i 0 alt]
    by (cases "non_iri_member i 0 alt") (auto simp: list_ex_iff)
qed

lemma path_element_error_None: "path_element_error i ps = None \<longleftrightarrow> Some [] \<notin> set ps"
  by (induction ps arbitrary: i) auto

lemma zk_system_error_None:
  "zk_system_error i zs = None \<longleftrightarrow> (\<forall>z\<in>set zs. zk_ID z \<noteq> [] \<and> zk_System z \<noteq> [])"
  by (induction zs arbitrary: i) auto

subsection \<open>Decimal digits\<close>

lemma digits_val_snoc: "digits_val (s @ [c]) = 10 * digits_val s + digit_val c"
  by (simp add: digits_val_def)

lemma digits_val_append: "digits_val (a @ b) = digits_val a * 10 ^ length b + digits_val b"
proof (induction b rule: rev_induct)
  case Nil
  then show ?case by (simp add: digits_val_def)
next
  case (snoc c b)
  then show ?case by (simp add: digits_val_snoc algebra_simps flip: append_assoc)
qed

lemma digit_val_le: "is_digit c \<Longrightarrow> digit_val c \<le> 9"
  unfolding is_digit_def digit_val_def by linarith

lemma digit_val_zero: "is_digit c \<Longrightarrow> digit_val c = 0 \<longleftrightarrow> c = CHR ''0''"
proof
  assume "is_digit c" "digit_val c = 0"
  then have "(of_char c :: nat) = of_char (CHR ''0'')" by (simp add: is_digit_def digit_val_def)
  then show "c = CHR ''0''" by (simp only: of_char_eq_iff)
qed (simp add: digit_val_def)

lemma digits_val_less: "list_all is_digit s \<Longrightarrow> digits_val s < 10 ^ length s"
proof (induction s rule: rev_induct)
  case Nil
  then show ?case by (simp add: digits_val_def)
next
  case (snoc c s)
  then show ?case using digit_val_le [of c] by (simp add: digits_val_snoc)
qed

lemma digits_val_zero: "list_all is_digit s \<Longrightarrow> digits_val s = 0 \<longleftrightarrow> all_zero_digits s"
proof (induction s rule: rev_induct)
  case Nil
  then show ?case by (simp add: digits_val_def all_zero_digits_def)
next
  case (snoc c s)
  then show ?case using digit_val_zero [of c] by (simp add: digits_val_snoc all_zero_digits_def)
qed

text \<open>A power of ten divides the number exactly when the digits it would cut off are zeros.\<close>

lemma power_ten_dvd_digits:
  assumes "list_all is_digit ds"
  shows "10 ^ n dvd digits_val ds \<longleftrightarrow>
    all_zero_digits ds \<or> (n < length ds \<and> all_zero_digits (drop (length ds - n) ds))"
proof (cases "n < length ds")
  case True
  let ?a = "take (length ds - n) ds" and ?b = "drop (length ds - n) ds"
  have "list_all is_digit ?b" using assms by (auto simp: list_all_iff dest: in_set_dropD)
  then have b: "digits_val ?b < 10 ^ n" "digits_val ?b = 0 \<longleftrightarrow> all_zero_digits ?b"
    using digits_val_less [of ?b] digits_val_zero [of ?b] True by auto
  have "digits_val ds = digits_val ?a * 10 ^ n + digits_val ?b"
    using digits_val_append [of ?a ?b] True by simp
  then have "10 ^ n dvd digits_val ds \<longleftrightarrow> 10 ^ n dvd digits_val ?b"
    by (simp add: dvd_add_right_iff)
  also have "\<dots> \<longleftrightarrow> all_zero_digits ?b"
    using b by (metis dvd_0_right nat_dvd_not_less gr0I)
  finally show ?thesis
    using True by (auto simp: all_zero_digits_def list_all_iff dest: in_set_dropD)
next
  case False
  then have "digits_val ds < 10 ^ n"
    using digits_val_less [OF assms] power_increasing [of "length ds" n "10::nat"] by linarith
  then have "10 ^ n dvd digits_val ds \<longleftrightarrow> digits_val ds = 0"
    by (metis dvd_0_right nat_dvd_not_less gr0I)
  with False show ?thesis by (simp add: digits_val_zero [OF assms])
qed

subsection \<open>JSON number literals\<close>

text \<open>
  A literal by its parts: a sign, the digits before the point, the digits after it and the text of
  the exponent, the last two optional.
\<close>

definition number_literal :: "bool \<Rightarrow> string \<Rightarrow> string option \<Rightarrow> string option \<Rightarrow> string" where
  "number_literal neg whole fr ex =
     (if neg then ''-'' else []) @ whole @
     (case fr of None \<Rightarrow> [] | Some f \<Rightarrow> CHR ''.'' # f) @
     (case ex of None \<Rightarrow> [] | Some t \<Rightarrow> CHR ''e'' # t)"

definition exponent_of :: "string option \<Rightarrow> int option" where
  "exponent_of ex = (case ex of None \<Rightarrow> Some 0 | Some t \<Rightarrow> Atoi t)"

text \<open>The number of the literal is \<open>digits_val (whole @ f) * 10 ^ (e - length f)\<close>; it is an integer \<open>z\<close> when:\<close>

definition denotes_integer :: "string \<Rightarrow> string \<Rightarrow> int \<Rightarrow> bool" where
  "denotes_integer whole f e \<longleftrightarrow>
     (\<exists>z::nat. z * 10 ^ nat (int (length f) - e) = digits_val (whole @ f) * 10 ^ nat (e - int (length f)))"

lemma cut_at_append:
  "list_all (\<lambda>c. \<not> P c) a \<Longrightarrow> cut_at P (a @ b) = (a @ fst (cut_at P b), snd (cut_at P b))"
  by (induction a) (auto simp: split_def)

lemma cut_at_none: "list_all (\<lambda>c. \<not> P c) a \<Longrightarrow> cut_at P a = (a, None)"
  using cut_at_append [of P a "[]"] by simp

lemma digits_plain:
  assumes "list_all is_digit s"
  shows "list_all (\<lambda>c. c \<noteq> CHR ''e'' \<and> c \<noteq> CHR ''E'' \<and> c \<noteq> CHR ''.'' \<and> c \<noteq> CHR ''-'' \<and> c \<noteq> CHR ''+'') s"
  using assms by (induction s) (auto simp: is_digit_def)

text \<open>The sign, the digits and the point hold no exponent mark; the digits hold no sign and no point.\<close>

lemma literal_split:
  assumes "list_all is_digit whole" and "list_all is_digit f"
  shows "cut_at (\<lambda>c. c = CHR ''e'' \<or> c = CHR ''E'')
           ((if neg then ''-'' else []) @ whole @ (if pt then CHR ''.'' # f else []) @ b) =
         ((if neg then ''-'' else []) @ whole @ (if pt then CHR ''.'' # f else []) @
            fst (cut_at (\<lambda>c. c = CHR ''e'' \<or> c = CHR ''E'') b),
          snd (cut_at (\<lambda>c. c = CHR ''e'' \<or> c = CHR ''E'') b))"
  using digits_plain [OF assms(1)] digits_plain [OF assms(2)]
    cut_at_append [of "\<lambda>c. c = CHR ''e'' \<or> c = CHR ''E''"
      "(if neg then ''-'' else []) @ whole @ (if pt then CHR ''.'' # f else [])" b]
  by (cases neg; cases pt) (auto simp: list_all_iff)

lemma sign_trimmed:
  assumes "list_all is_digit whole" and "whole @ f \<noteq> []"
  shows "TrimPrefix1 (CHR ''+'') (TrimPrefix1 (CHR ''-'')
           ((if neg then ''-'' else []) @ whole @ (if pt then CHR ''.'' # f else []))) =
         whole @ (if pt then CHR ''.'' # f else [])"
  using digits_plain [OF assms(1)]
  by (cases whole; cases pt; cases neg) (auto simp: TrimPrefix1_def)

lemma point_split:
  assumes "list_all is_digit whole"
  shows "cut_at (\<lambda>c. c = CHR ''.'') (whole @ (if pt then CHR ''.'' # f else [])) =
         (whole, if pt then Some f else None)"
  using digits_plain [OF assms] cut_at_append [of "\<lambda>c. c = CHR ''.''" whole "if pt then CHR ''.'' # f else []"]
  by (auto simp: list_all_iff)

lemma shifted_digits_integral:
  assumes "list_all is_digit (whole @ f)" and "whole @ f \<noteq> []"
  shows "denotes_integer whole f e \<longleftrightarrow>
    all_zero_digits (whole @ f) \<or>
    (\<not> e \<le> int (length f) - int (length (whole @ f)) \<and>
     (e - int (length f) \<ge> 0 \<or>
      all_zero_digits (drop (nat (int (length (whole @ f)) + (e - int (length f)))) (whole @ f))))"
proof (cases "e \<ge> int (length f)")
  case True
  then have "denotes_integer whole f e" by (simp add: denotes_integer_def)
  moreover have "\<not> e \<le> int (length f) - int (length (whole @ f))"
    using True assms(2) by (cases whole; cases f) auto
  ultimately show ?thesis using True by simp
next
  case False
  let ?n = "nat (int (length f) - e)"
  have n: "int ?n = int (length f) - e" using False by simp
  have "nat (e - int (length f)) = 0" using False by simp
  then have "denotes_integer whole f e \<longleftrightarrow> (\<exists>z. z * 10 ^ ?n = digits_val (whole @ f))"
    by (simp only: denotes_integer_def power_0 mult_1_right)
  also have "\<dots> \<longleftrightarrow> 10 ^ ?n dvd digits_val (whole @ f)"
    by (metis dvd_def mult.commute)
  also have "\<dots> \<longleftrightarrow> all_zero_digits (whole @ f) \<or>
    (?n < length (whole @ f) \<and> all_zero_digits (drop (length (whole @ f) - ?n) (whole @ f)))"
    by (rule power_ten_dvd_digits [OF assms(1)])
  also have "length (whole @ f) - ?n = nat (int (length (whole @ f)) + (e - int (length f)))"
    using n by linarith
  also have "?n < length (whole @ f) \<longleftrightarrow> \<not> e \<le> int (length f) - int (length (whole @ f))"
    using n by linarith
  finally show ?thesis using False by simp
qed

lemma isIntegralNumber_parts:
  assumes "list_all is_digit (whole @ f)" and "whole @ f \<noteq> []" and "exponent_of ex = Some e"
    and "\<not> pt \<Longrightarrow> f = []"
  shows "isIntegralNumber (number_literal neg whole (if pt then Some f else None) ex) \<longleftrightarrow>
    denotes_integer whole f e"
proof -
  have w: "list_all is_digit whole" "list_all is_digit f" using assms(1) by simp_all
  let ?e = "case ex of None \<Rightarrow> [] | Some t \<Rightarrow> CHR ''e'' # t"
  have "cut_at (\<lambda>c. c = CHR ''e'' \<or> c = CHR ''E'') ?e = ([], ex)" by (cases ex) simp_all
  then have cut: "cut_at (\<lambda>c. c = CHR ''e'' \<or> c = CHR ''E'')
      (number_literal neg whole (if pt then Some f else None) ex) =
    ((if neg then ''-'' else []) @ whole @ (if pt then CHR ''.'' # f else []), ex)"
    using literal_split [OF w, of neg pt ?e] by (cases pt) (simp_all add: number_literal_def)
  have fr: "(case (if pt then Some f else None) of None \<Rightarrow> [] | Some f \<Rightarrow> f) = f"
    using assms(4) by simp
  show ?thesis
    unfolding isIntegralNumber_def cut Let_def prod.case exponent_of_def [symmetric] assms(3) option.case
      sign_trimmed [OF w(1) assms(2)] point_split [OF w(1)] fr
    using shifted_digits_integral [OF assms(1,2), of e] assms(1,2) by auto
qed

section \<open>Properties\<close>

text \<open>
  \<^verbatim>\<open>isIntegralNumber\<close> decides the value of a JSON number literal, not its spelling: for every
  sign, every run of digits with or without a point, and every exponent \<^verbatim>\<open>strconv.Atoi\<close> reads, the
  answer is yes exactly when \<open>digits * 10 ^ (e - length f)\<close> is an integer.
\<close>

theorem isIntegralNumber_exact:
  assumes "list_all is_digit (whole @ f)" and "whole @ f \<noteq> []" and "exponent_of ex = Some e"
    and "pt \<or> f = []"
  shows "isIntegralNumber (number_literal neg whole (if pt then Some f else None) ex) \<longleftrightarrow>
    (\<exists>z::nat. z * 10 ^ nat (int (length f) - e) = digits_val (whole @ f) * 10 ^ nat (e - int (length f)))"
  unfolding denotes_integer_def [symmetric]
  using assms(4) by (intro isIntegralNumber_parts [OF assms(1-3)]) simp

theorem isIntegralNumber_exact_witness:
  "number_literal True ''10'' (Some ''50'') (Some ''1'') = ''-10.50e1'' \<and>
   isIntegralNumber ''-10.50e1'' \<and>
   (\<exists>z::nat. z * 10 ^ nat (2 - 1) = digits_val ''1050'' * 10 ^ nat (1 - 2))"
proof -
  have "isIntegralNumber (number_literal True ''10'' (if True then Some ''50'' else None) (Some ''1'')) \<longleftrightarrow>
    (\<exists>z::nat. z * 10 ^ nat (int (length ''50'') - 1) = digits_val (''10'' @ ''50'') * 10 ^ nat (1 - int (length ''50'')))"
    by (rule isIntegralNumber_exact) (code_simp, simp, code_simp, simp)
  moreover have "number_literal True ''10'' (Some ''50'') (Some ''1'') = ''-10.50e1''" by code_simp
  moreover have "isIntegralNumber ''-10.50e1''" by code_simp
  ultimately show ?thesis by simp
qed

text \<open>
  C40: a W3C credential query the server accepts always narrows. If \<^verbatim>\<open>ValidateCredentialQuery\<close> accepts
  a query in one of the W3C formats, every credential that satisfies its \<^verbatim>\<open>type_values\<close> carries a
  type that is an absolute IRI (scheme, colon, rest) and is not the base type all of them share.
\<close>

theorem accepted_w3c_query_narrows:
  assumes "validate_typed_query q = None"
    and "cq_Format q = FormatLdpVCDCQL \<or> cq_Format q = FormatVCLDJSON"
    and "MatchTypeValues types (slice (meta_TypeValues (cq_Meta q)))"
  shows "\<exists>t\<in>set types. t \<noteq> BaseVCTypeIRI \<and> (\<exists>sch rest. t = sch @ CHR '':'' # rest \<and> scheme sch)"
proof -
  let ?tv = "slice (meta_TypeValues (cq_Meta q))"
  have ok: "type_values_error 0 ?tv = None" and ne: "?tv \<noteq> []"
    using assms(1,2) by (auto simp: validate_typed_query_def Let_def split: option.splits if_splits)
  obtain alt where alt: "alt \<in> set ?tv" "set alt \<subseteq> set types"
    using assms(3) ne by (auto simp: MatchTypeValues_def list_ex_iff containsAll_iff)
  obtain t where "t \<in> set alt" "t \<noteq> BaseVCTypeIRI" "IsAbsoluteIRI t"
    using ok alt(1) by (auto simp: type_values_error_None)
  then show ?thesis using alt(2) isAbsoluteIRI_from_iff [of "[]" t] by (auto simp: IsAbsoluteIRI_def)
qed

definition sample_query :: CredentialQuery where
  "sample_query =
     \<lparr>cq_ID = ''diploma'', cq_Format = ''ldp_vc'', cq_Multiple = None,
      cq_Meta = zero_MetaQuery\<lparr>meta_TypeValues := Some [[BaseVCTypeIRI, ''urn:diploma'']]\<rparr>,
      cq_TrustedAuthorities = [], cq_RequireCryptographicHolderBinding = None, cq_Claims = [],
      cq_ClaimSet = None, cq_Req = [], cq_Extra = [], cq_Raw = None\<rparr>"

theorem accepted_w3c_query_narrows_witness:
  "validate_typed_query sample_query = None \<and>
   (\<exists>t\<in>set [''urn:diploma'', BaseVCTypeIRI]. t \<noteq> BaseVCTypeIRI \<and>
      (\<exists>sch rest. t = sch @ CHR '':'' # rest \<and> scheme sch))"
proof
  show "validate_typed_query sample_query = None" by code_simp
  then show "\<exists>t\<in>set [''urn:diploma'', BaseVCTypeIRI]. t \<noteq> BaseVCTypeIRI \<and>
      (\<exists>sch rest. t = sch @ CHR '':'' # rest \<and> scheme sch)"
    by (rule accepted_w3c_query_narrows) code_simp+
qed

end
