(* ===== verification/AuthContextTypes.thy ===== *)
theory AuthContextTypes
  imports DCQL
begin

text \<open>
  The document both services keep per authorization flow: \<^verbatim>\<open>AuthorizationContext\<close> of
  \<^verbatim>\<open>src/pkg/cache/authcontext_types.go\<close> with the types of its members, its validation
  (\<^verbatim>\<open>Validate\<close>, the struct tags as the validator library reads them), and the resumed
  exchange \<^verbatim>\<open>IssuerStateResume\<close> of \<^verbatim>\<open>issuer_state_resume.go\<close>.

  The record has the struct's fields under their Go names. Go maps are association lists, \<^verbatim>\<open>any\<close> is
  \<open>json\<close>, a pointer to a struct is an option. \<^verbatim>\<open>max=n\<close> counts characters and comes with
  \<^verbatim>\<open>printascii\<close>, under which characters are bytes.
\<close>

record Token =
  tok_AccessToken :: string
  tok_ExpiresAt :: int
  tok_DPoPThumbprint :: string

record AuthorizationDetailsParameter =
  ad_Type :: string
  ad_CredentialConfigurationID :: string
  ad_Format :: string
  ad_VCT :: string
  ad_Doctype :: string
  ad_Claims :: "(string \<times> json) list"
  ad_CredentialIdentifiers :: "string list"

record IdentityMatch =
  im_Claims :: "(string \<times> string) list option"

record ClaimValidation =
  cv_Rule :: string
  cv_Path :: "string list"
  cv_Value :: json

record AuthorizationContext =
  SessionID :: string
  Status :: string
  CreatedAt :: time
  ExpiresAt :: int
  SourceSessionID :: string
  ClientID :: string
  WalletClientID :: string
  Scopes :: "string list"
  State :: string
  Nonce :: string
  CodeChallenge :: string
  CodeChallengeMethod :: string
  AuthSession :: string
  IssuerState :: string
  IdentityMatch :: "IdentityMatch option"
  AuthSessionDPoPThumbprint :: string
  InteractiveAuthorization :: bool
  Code :: string
  Forfeited :: bool
  PreAuthorized :: bool
  RedeemedBy :: "string list"
  TXCode :: string
  TXCodeAttempts :: int
  Token :: "Token option"
  AccessToken :: string
  IDToken :: string
  AuthorizationDetails :: "AuthorizationDetailsParameter list"
  RequestURI :: string
  RequestURIExpiresAt :: int
  WalletURI :: string
  Consent :: bool
  AuthenticSource :: string
  Scope :: string
  Identifier :: string
  AuthProvider :: string
  DataSource :: string
  RemoteName :: string
  DynamicParams :: "(string \<times> string) list"
  RedirectURI :: string
  ResponseType :: string
  ResponseMode :: string
  ShowCredentialDetails :: bool
  WalletFollowsRedirect :: bool
  CodeExpiresAt :: int
  AccessTokenExpiresAt :: int
  RefreshToken :: string
  RefreshTokenExpiresAt :: int
  VerifiedClaims :: "(string \<times> json) list option"
  PresentedScope :: string
  VPToken :: string
  PresentationSubmission :: json
  EphemeralEncryptionKeyID :: string
  VerifierResponseCode :: string
  RequestObjectID :: string
  RequestObjectNonce :: string
  DCQLQuery :: "DCQL option"
  TransactionData :: "string list"
  TransactionDataResponseModes :: "string list"
  DCQLQueryExact :: string
  ScopeQueryIDs :: "(string \<times> string) list"
  Validations :: "(string \<times> ClaimValidation list) list"
  WalletID :: string

definition MaxPreAuthRedeemers :: nat where
  "MaxPreAuthRedeemers = 10"

definition MaxTXCodeAttempts :: int where
  "MaxTXCodeAttempts = 5"

section \<open>Validation\<close>

text \<open>\<^verbatim>\<open>omitempty,max=n,printascii\<close>.\<close>

definition text_tag :: "int \<Rightarrow> string \<Rightarrow> bool" where
  "text_tag n s \<longleftrightarrow> s = [] \<or> int (length s) \<le> n \<and> printascii s"

definition Token_valid :: "Token \<Rightarrow> bool" where
  "Token_valid t \<longleftrightarrow>
     tok_AccessToken t \<noteq> [] \<and> int (length (tok_AccessToken t)) \<le> 4096 \<and> printascii (tok_AccessToken t) \<and>
     tok_ExpiresAt t \<noteq> 0 \<and> text_tag 128 (tok_DPoPThumbprint t)"

text \<open>The pattern \<^verbatim>\<open>^[a-zA-Z][a-zA-Z0-9_]{0,63}$\<close> of \<^verbatim>\<open>safe_key.go\<close>.\<close>

definition safe_key :: "string \<Rightarrow> bool" where
  "safe_key s =
     (case s of
        [] \<Rightarrow> False
      | c # cs \<Rightarrow> isSchemeStart c \<and> length cs \<le> 63 \<and>
                  list_all (\<lambda>d. isSchemeStart d \<or> is_digit d \<or> d = CHR ''_'') cs)"

definition IdentityMatch_valid :: "IdentityMatch \<Rightarrow> bool" where
  "IdentityMatch_valid m = (case im_Claims m of None \<Rightarrow> False | Some cs \<Rightarrow> cs \<noteq> [])"

definition ClaimValidation_valid :: "ClaimValidation \<Rightarrow> bool" where
  "ClaimValidation_valid v \<longleftrightarrow>
     cv_Rule v = ''age_over'' \<and> cv_Path v \<noteq> [] \<and> list_all (\<lambda>p. p \<noteq> []) (cv_Path v) \<and> cv_Value v \<noteq> JNull"

definition opt_valid :: "('a \<Rightarrow> bool) \<Rightarrow> 'a option \<Rightarrow> bool" where
  "opt_valid P x = (case x of None \<Rightarrow> True | Some y \<Rightarrow> P y)"

text \<open>The string members with their bounds, in the order of the struct.\<close>

definition text_fields :: "AuthorizationContext \<Rightarrow> (int \<times> string) list" where
  "text_fields a =
     [(32, Status a), (128, SourceSessionID a), (512, ClientID a), (512, WalletClientID a),
      (500, State a), (128, Nonce a), (128, CodeChallenge a), (16, CodeChallengeMethod a),
      (128, AuthSession a), (128, IssuerState a), (128, AuthSessionDPoPThumbprint a),
      (128, Code a), (64, TXCode a), (16384, AccessToken a), (32768, IDToken a),
      (2048, RequestURI a), (2048, WalletURI a), (128, AuthenticSource a), (128, Scope a),
      (256, Identifier a), (32, AuthProvider a), (32, DataSource a), (128, RemoteName a),
      (2048, RedirectURI a), (32, ResponseType a), (32, ResponseMode a), (4096, RefreshToken a),
      (128, PresentedScope a), (65536, VPToken a), (128, EphemeralEncryptionKeyID a),
      (128, VerifierResponseCode a), (128, RequestObjectID a), (128, RequestObjectNonce a),
      (128, WalletID a)]"

definition Validate :: "AuthorizationContext \<Rightarrow> bool" where
  "Validate a \<longleftrightarrow>
     SessionID a \<noteq> [] \<and> text_tag 128 (SessionID a) \<and>
     list_all (\<lambda>(n, s). text_tag n s) (text_fields a) \<and>
     opt_valid IdentityMatch_valid (IdentityMatch a) \<and>
     opt_valid Token_valid (Token a) \<and>
     list_all (\<lambda>(k, v). safe_key k \<and> int (length v) \<le> 1024 \<and> printascii v) (DynamicParams a) \<and>
     opt_valid DCQL_valid (DCQLQuery a) \<and>
     list_all (\<lambda>(k, vs). list_all ClaimValidation_valid vs) (Validations a)"

section \<open>The zero value\<close>

text \<open>A composite literal \<^verbatim>\<open>AuthorizationContext{...}\<close> sets every other field to its zero value.\<close>

definition zero_AuthorizationContext :: AuthorizationContext where
  "zero_AuthorizationContext =
     \<lparr>SessionID = [], Status = [], CreatedAt = zero_time, ExpiresAt = 0, SourceSessionID = [],
      ClientID = [], WalletClientID = [], Scopes = [], State = [], Nonce = [], CodeChallenge = [],
      CodeChallengeMethod = [], AuthSession = [], IssuerState = [], IdentityMatch = None,
      AuthSessionDPoPThumbprint = [], InteractiveAuthorization = False, Code = [], Forfeited = False,
      PreAuthorized = False, RedeemedBy = [], TXCode = [], TXCodeAttempts = 0, Token = None,
      AccessToken = [], IDToken = [], AuthorizationDetails = [], RequestURI = [],
      RequestURIExpiresAt = 0, WalletURI = [], Consent = False, AuthenticSource = [], Scope = [],
      Identifier = [], AuthProvider = [], DataSource = [], RemoteName = [], DynamicParams = [],
      RedirectURI = [], ResponseType = [], ResponseMode = [], ShowCredentialDetails = False,
      WalletFollowsRedirect = False, CodeExpiresAt = 0, AccessTokenExpiresAt = 0, RefreshToken = [],
      RefreshTokenExpiresAt = 0, VerifiedClaims = None, PresentedScope = [], VPToken = [],
      PresentationSubmission = JNull, EphemeralEncryptionKeyID = [], VerifierResponseCode = [],
      RequestObjectID = [], RequestObjectNonce = [], DCQLQuery = None, TransactionData = [],
      TransactionDataResponseModes = [], DCQLQueryExact = [], ScopeQueryIDs = [], Validations = [],
      WalletID = []\<rparr>"

section \<open>Resuming an issuer-initiated exchange\<close>

record IssuerStateResume =
  r_AuthSession :: string
  r_AuthSessionDPoPThumbprint :: string
  r_WalletClientID :: string
  r_WalletURI :: string
  r_CodeChallenge :: string
  r_CodeChallengeMethod :: string
  r_DCQLQuery :: "DCQL option"
  r_EphemeralEncryptionKeyID :: string
  r_ExpiresAt :: int
  r_CreatedAt :: time

definition applyTo :: "IssuerStateResume \<Rightarrow> AuthorizationContext \<Rightarrow> AuthorizationContext" where
  "applyTo r doc =
     doc\<lparr>AuthSession := r_AuthSession r,
         AuthSessionDPoPThumbprint := r_AuthSessionDPoPThumbprint r,
         WalletClientID := r_WalletClientID r,
         WalletURI := r_WalletURI r,
         CodeChallenge := r_CodeChallenge r,
         CodeChallengeMethod := r_CodeChallengeMethod r,
         DCQLQuery := r_DCQLQuery r,
         EphemeralEncryptionKeyID := r_EphemeralEncryptionKeyID r,
         ExpiresAt := r_ExpiresAt r,
         CreatedAt := r_CreatedAt r\<rparr>"

record AuthProviderFields =
  apf_AuthProvider :: string
  apf_DataSource :: string
  apf_RemoteName :: string
  apf_AuthenticSource :: string

end
