(* ===== verification/KeyProofs.thy ===== *)
theory KeyProofs
  imports JWT AuthContextTypes "HOL-Library.Monad_Syntax"
begin

text \<open>
  The Credential Request and its key proofs, \<^verbatim>\<open>src/pkg/openid4vci\<close>: \<^verbatim>\<open>credential.go\<close> (the request, its validation
  and the credential it selects), \<^verbatim>\<open>proof_jwt.go\<close>, \<^verbatim>\<open>proof_divp.go\<close>, \<^verbatim>\<open>proof_attestation.go\<close> and
  \<^verbatim>\<open>verify_proof.go\<close> (extraction of keys and nonces, verification), and the entries of \<^verbatim>\<open>auxiliary_data.go\<close> that key
  proofs carry; with the checks of \<^verbatim>\<open>src/pkg/bbs\<close> on the members of a blind BBS request.

  The struct tags are written out as the validator library reads them. \<open>ProofLib\<close> adds to \<open>JwtLib\<close> the parsing of a
  JWK into a public key by \<^verbatim>\<open>lestrrat-go/jwx\<close> and the public key of a DER certificate. A nil \<^verbatim>\<open>*VerifyProofOptions\<close>
  acts as the record with empty fields. Descriptions of errors are left out.
\<close>

record ProofLib = JwtLib +
  kp_key :: "claims \<Rightarrow> string option"
  kp_cert :: "bytes \<Rightarrow> string option"

section \<open>Errors\<close>

text \<open>\<^verbatim>\<open>openid4vci.Error\<close> with its code, and the nil dereference a proof can cause.\<close>

datatype vci_error = VciError string | VciPanic

definition ErrInvalidCredentialRequest :: string where "ErrInvalidCredentialRequest = ''invalid_credential_request''"
definition ErrInvalidProof :: string where "ErrInvalidProof = ''invalid_proof''"
definition ErrInvalidNonce :: string where "ErrInvalidNonce = ''invalid_nonce''"
definition ErrInvalidEncryptionParameters :: string where "ErrInvalidEncryptionParameters = ''invalid_encryption_parameters''"
definition ErrUnknownCredentialConfiguration :: string where "ErrUnknownCredentialConfiguration = ''unknown_credential_configuration''"
definition ErrUnknownCredentialIdentifier :: string where "ErrUnknownCredentialIdentifier = ''unknown_credential_identifier''"
definition ErrAuxiliaryDataConflict :: string where "ErrAuxiliaryDataConflict = ''auxiliary_data_conflict''"
definition ErrServerError :: string where "ErrServerError = ''server_error''"

section \<open>Keys\<close>

text \<open>The key a credential is bound to, \<^verbatim>\<open>apiv1_issuer.Jwk\<close>, and the key of a proof header, \<^verbatim>\<open>ProofJWK\<close>.\<close>

record Jwk =
  jw_Kid :: string
  jw_Crv :: string
  jw_Kty :: string
  jw_X :: string
  jw_Y :: string
  jw_D :: string
  jw_KeyOps :: "string list"
  jw_Ext :: bool
  jw_N :: string
  jw_E :: string
  jw_Alg :: string
  jw_Use :: string

definition kid_only :: "string \<Rightarrow> Jwk" where
  "kid_only kid =
     \<lparr>jw_Kid = kid, jw_Crv = [], jw_Kty = [], jw_X = [], jw_Y = [], jw_D = [], jw_KeyOps = [], jw_Ext = False,
      jw_N = [], jw_E = [], jw_Alg = [], jw_Use = []\<rparr>"

definition jwk_names :: "string list" where
  "jwk_names =
     [''kid'', ''crv'', ''kty'', ''x'', ''y'', ''d'', ''key_ops'', ''ext'', ''n'', ''e'', ''alg'', ''use'']"

text \<open>A map marshalled and decoded into the struct: the members come in the order of their names.\<close>

definition remarshal :: "claims \<Rightarrow> claims" where
  "remarshal m = map (\<lambda>k. (k, the (map_of m k))) (sort_strings (map fst m))"

definition unmarshal_Jwk :: "'a JwtLib_scheme \<Rightarrow> claims \<Rightarrow> Jwk option" where
  "unmarshal_Jwk l m =
     (let vs = field_values l jwk_names (remarshal m); str = (\<lambda>n. dec_string [] (vs n)) in
      do { kid \<leftarrow> str ''kid''; crv \<leftarrow> str ''crv''; kty \<leftarrow> str ''kty''; x \<leftarrow> str ''x''; y \<leftarrow> str ''y''; d \<leftarrow> str ''d'';
           ops \<leftarrow> dec_strings (vs ''key_ops''); ext \<leftarrow> dec_bool False (vs ''ext'');
           n \<leftarrow> str ''n''; e \<leftarrow> str ''e''; alg \<leftarrow> str ''alg''; use \<leftarrow> str ''use'';
           Some \<lparr>jw_Kid = kid, jw_Crv = crv, jw_Kty = kty, jw_X = x, jw_Y = y, jw_D = d,
                 jw_KeyOps = (case ops of None \<Rightarrow> [] | Some os \<Rightarrow> os), jw_Ext = ext, jw_N = n, jw_E = e,
                 jw_Alg = alg, jw_Use = use\<rparr> })"

record ProofJWK =
  pk_Kty :: string
  pk_Crv :: string
  pk_X :: string
  pk_Y :: string
  pk_N :: string
  pk_E :: string
  pk_Kid :: string
  pk_Use :: string
  pk_Alg :: string

definition proof_jwk_names :: "string list" where
  "proof_jwk_names = [''kty'', ''crv'', ''x'', ''y'', ''n'', ''e'', ''kid'', ''use'', ''alg'']"

definition unmarshal_ProofJWK :: "'a JwtLib_scheme \<Rightarrow> claims \<Rightarrow> ProofJWK option" where
  "unmarshal_ProofJWK l m =
     (let str = (\<lambda>n. dec_string [] (field_values l proof_jwk_names m n)) in
      do { kty \<leftarrow> str ''kty''; crv \<leftarrow> str ''crv''; x \<leftarrow> str ''x''; y \<leftarrow> str ''y''; n \<leftarrow> str ''n''; e \<leftarrow> str ''e'';
           kid \<leftarrow> str ''kid''; use \<leftarrow> str ''use''; alg \<leftarrow> str ''alg'';
           Some \<lparr>pk_Kty = kty, pk_Crv = crv, pk_X = x, pk_Y = y, pk_N = n, pk_E = e, pk_Kid = kid, pk_Use = use,
                 pk_Alg = alg\<rparr> })"

text \<open>\<^verbatim>\<open>jwkProtoToPublicKey\<close> of \<^verbatim>\<open>handlers_issuer.go\<close>.\<close>

definition jwkProtoToPublicKey :: "'a ProofLib_scheme \<Rightarrow> Jwk \<Rightarrow> string option" where
  "jwkProtoToPublicKey l jwk =
     kp_key l ((''kty'', JString (jw_Kty jwk)) #
       map (\<lambda>(k, v). (k, JString v))
         (filter (\<lambda>(k, v). v \<noteq> [])
            [(''crv'', jw_Crv jwk), (''x'', jw_X jwk), (''y'', jw_Y jwk), (''n'', jw_N jwk), (''e'', jw_E jwk),
             (''kid'', jw_Kid jwk)]))"

section \<open>Options and algorithms\<close>

record VerifyProofOptions =
  vo_CNonce :: string
  vo_Audience :: string
  vo_SupportedAlgorithms :: "string list"

definition asymmetric :: "string list" where
  "asymmetric =
     [''ES256'', ''ES384'', ''ES512'', ''RS256'', ''RS384'', ''RS512'', ''PS256'', ''PS384'', ''PS512'', ''EdDSA'']"

definition decode_lenient :: "string \<Rightarrow> bytes option" where
  "decode_lenient part = (case DecodeString part of Some bs \<Rightarrow> Some bs | None \<Rightarrow> RawStd_DecodeString part)"

text \<open>\<^verbatim>\<open>nonce != opts.CNonce\<close> compares an \<^verbatim>\<open>any\<close> with a string.\<close>

definition nonce_refused :: "VerifyProofOptions \<Rightarrow> claims \<Rightarrow> bool" where
  "nonce_refused opts m \<longleftrightarrow> vo_CNonce opts \<noteq> [] \<and> map_of m ''nonce'' \<noteq> Some (JString (vo_CNonce opts))"

definition alg_refused :: "VerifyProofOptions \<Rightarrow> jwt_token \<Rightarrow> bool" where
  "alg_refused opts token \<longleftrightarrow> vo_SupportedAlgorithms opts \<noteq> [] \<and> jt_alg token \<notin> set (vo_SupportedAlgorithms opts)"

definition from_parse :: "vci_error parse_error + jwt_token \<Rightarrow> vci_error + unit" where
  "from_parse r =
     (case r of Inl (KeyError e) \<Rightarrow> Inl e | Inl (JwtError _) \<Rightarrow> Inl (VciError ErrInvalidProof) | Inr _ \<Rightarrow> Inr ())"

section \<open>JWT proofs\<close>

record ProofJWTHeader =
  ph_Alg :: string
  ph_Typ :: string
  ph_Kid :: string
  ph_Jwk :: "ProofJWK option"
  ph_X5c :: "string list option"

record ProofJWTClaims =
  pc_Aud :: string
  pc_Iat :: int
  pc_Nonce :: string
  pc_Iss :: string
  pc_AuxiliaryData :: "json option"

definition unmarshal_ProofJWTHeader :: "'a JwtLib_scheme \<Rightarrow> json \<Rightarrow> ProofJWTHeader option" where
  "unmarshal_ProofJWTHeader l v =
     do { m \<leftarrow> struct_members v;
          let vs = field_values l [''alg'', ''typ'', ''kid'', ''jwk'', ''x5c''] m;
          alg \<leftarrow> dec_string [] (vs ''alg''); typ \<leftarrow> dec_string [] (vs ''typ''); kid \<leftarrow> dec_string [] (vs ''kid'');
          jm \<leftarrow> dec_object None (vs ''jwk'');
          jwk \<leftarrow> (case jm of None \<Rightarrow> Some None | Some m' \<Rightarrow> map_option Some (unmarshal_ProofJWK l m'));
          x5c \<leftarrow> dec_strings (vs ''x5c'');
          Some \<lparr>ph_Alg = alg, ph_Typ = typ, ph_Kid = kid, ph_Jwk = jwk, ph_X5c = x5c\<rparr> }"

definition unmarshal_ProofJWTClaims :: "'a JwtLib_scheme \<Rightarrow> json \<Rightarrow> ProofJWTClaims option" where
  "unmarshal_ProofJWTClaims l v =
     do { m \<leftarrow> struct_members v;
          let vs = field_values l [''aud'', ''iat'', ''nonce'', ''iss'', ''auxiliary_data''] m;
          aud \<leftarrow> dec_string [] (vs ''aud''); iat \<leftarrow> dec_int64 0 (vs ''iat'');
          nonce \<leftarrow> dec_string [] (vs ''nonce''); iss \<leftarrow> dec_string [] (vs ''iss'');
          Some \<lparr>pc_Aud = aud, pc_Iat = iat, pc_Nonce = nonce, pc_Iss = iss,
                pc_AuxiliaryData = dec_raw (vs ''auxiliary_data'')\<rparr> }"

text \<open>The tags of the header, and that it names a key.\<close>

definition proof_header_valid :: "ProofJWTHeader \<Rightarrow> bool" where
  "proof_header_valid h \<longleftrightarrow>
     ph_Alg h \<noteq> [] \<and> ph_Alg h \<noteq> ''none'' \<and> ph_Typ h = ''openid4vci-proof+jwt'' \<and>
     (ph_Kid h = [] \<or> ph_Jwk h = None \<and> ph_X5c h = None) \<and>
     (ph_Jwk h = None \<or> ph_Kid h = [] \<and> ph_X5c h = None) \<and>
     (ph_X5c h = None \<or> ph_Kid h = [] \<and> ph_Jwk h = None) \<and>
     \<not> (ph_Kid h = [] \<and> ph_Jwk h = None \<and> ph_X5c h \<in> {None, Some []}) \<and>
     (case ph_Jwk h of None \<Rightarrow> True | Some k \<Rightarrow> pk_Kty k \<noteq> [])"

definition proof_claims_valid :: "ProofJWTClaims \<Rightarrow> bool" where
  "proof_claims_valid c \<longleftrightarrow> pc_Aud c \<noteq> [] \<and> pc_Iat c \<noteq> 0"

definition text_json :: "'a JwtLib_scheme \<Rightarrow> string \<Rightarrow> json option" where
  "text_json l part = Option.bind (DecodeString part) (jl_json l)"

definition ProofJWT_Validate :: "'a JwtLib_scheme \<Rightarrow> string \<Rightarrow> vci_error + unit" where
  "ProofJWT_Validate l p =
     (if p = [] then Inl (VciError ErrInvalidCredentialRequest)
      else (case splitToken p of
              None \<Rightarrow> Inl (VciError ErrInvalidCredentialRequest)
            | Some (h, c, s) \<Rightarrow>
                (case Option.bind (text_json l h) (unmarshal_ProofJWTHeader l) of
                   None \<Rightarrow> Inl (VciError ErrInvalidCredentialRequest)
                 | Some header \<Rightarrow>
                     if \<not> proof_header_valid header then Inl (VciError ErrInvalidCredentialRequest)
                     else (case Option.bind (text_json l c) (unmarshal_ProofJWTClaims l) of
                             None \<Rightarrow> Inl (VciError ErrInvalidCredentialRequest)
                           | Some claims \<Rightarrow>
                               if \<not> proof_claims_valid claims then Inl (VciError ErrInvalidCredentialRequest)
                               else Inr ()))))"

text \<open>\<open>None\<close> is the error of \<^verbatim>\<open>ExtractJWK\<close>; a header with only \<^verbatim>\<open>x5c\<close> is one.\<close>

definition ProofJWT_ExtractJWK :: "'a JwtLib_scheme \<Rightarrow> string \<Rightarrow> Jwk option" where
  "ProofJWT_ExtractJWK l p =
     (let parts = split_on (CHR ''.'') p in
      if p = [] \<or> length parts < 2 then None
      else (case Option.bind (decode_lenient (parts ! 0)) (unmarshal_map l) of
              None \<Rightarrow> None
            | Some headerMap \<Rightarrow>
                (case map_of headerMap ''jwk'' of
                   Some (JObject jwkMap) \<Rightarrow> unmarshal_Jwk l jwkMap
                 | _ \<Rightarrow>
                     (case map_of headerMap ''kid'' of
                        Some (JString kid) \<Rightarrow> Some (kid_only kid)
                      | _ \<Rightarrow> None))))"

definition ProofJWT_ExtractSubjectDID :: "'a JwtLib_scheme \<Rightarrow> string \<Rightarrow> string" where
  "ProofJWT_ExtractSubjectDID l p =
     (let parts = split_on (CHR ''.'') p in
      if p = [] \<or> length parts < 2 then []
      else (case Option.bind (Option.bind (decode_lenient (parts ! 1)) (jl_json l)) (unmarshal_ProofJWTClaims l) of
              None \<Rightarrow> []
            | Some claims \<Rightarrow> pc_Iss claims))"

definition ProofJWT_ExtractNonce :: "'a JwtLib_scheme \<Rightarrow> string \<Rightarrow> string" where
  "ProofJWT_ExtractNonce l p =
     (let parts = split_on (CHR ''.'') p in
      if p = [] \<or> length parts < 2 then []
      else (case Option.bind (decode_lenient (parts ! 1)) (unmarshal_map l) of
              None \<Rightarrow> []
            | Some claims \<Rightarrow> (case map_of claims ''nonce'' of Some (JString nonce) \<Rightarrow> nonce | _ \<Rightarrow> [])))"

definition proofIatClockSkew :: duration where
  "proofIatClockSkew = 30 * second"

text \<open>The key function of \<^verbatim>\<open>Verify\<close>. \<^verbatim>\<open>GetIssuedAt\<close> returns nil for claims without \<^verbatim>\<open>iat\<close>, and \<^verbatim>\<open>t.After\<close> dereferences it.\<close>

definition proof_keyfunc ::
  "'a JwtLib_scheme \<Rightarrow> time \<Rightarrow> string \<Rightarrow> VerifyProofOptions \<Rightarrow> jwt_token \<Rightarrow> vci_error + string"
where
  "proof_keyfunc l now publicKey opts token =
     (if alg_refused opts token then Inl (VciError ErrInvalidCredentialRequest)
      else if (case map_of (jt_Header token) ''jwk'' of Some (JObject m) \<Rightarrow> map_of m ''d'' \<noteq> None | _ \<Rightarrow> False)
      then Inl (VciError ErrInvalidCredentialRequest)
      else if vo_Audience opts \<noteq> [] \<and>
              (case parseClaimsString (jt_Claims token) ''aud'' of Inl _ \<Rightarrow> True | Inr aud \<Rightarrow> vo_Audience opts \<notin> set aud)
      then Inl (VciError ErrInvalidCredentialRequest)
      else (case parseNumericDate l (jt_Claims token) ''iat'' of
              Inl _ \<Rightarrow> Inl (VciError ErrInvalidCredentialRequest)
            | Inr None \<Rightarrow> Inl VciPanic
            | Inr (Some t) \<Rightarrow>
                if t > now + proofIatClockSkew then Inl (VciError ErrInvalidCredentialRequest)
                else if nonce_refused opts (jt_Claims token) then Inl (VciError ErrInvalidNonce)
                else if jt_alg token \<notin> set asymmetric then Inl (VciError ErrInvalidCredentialRequest)
                else Inr publicKey))"

definition ProofJWT_Verify ::
  "'a JwtLib_scheme \<Rightarrow> time \<Rightarrow> string \<Rightarrow> VerifyProofOptions \<Rightarrow> string \<Rightarrow> vci_error + unit"
where
  "ProofJWT_Verify l now publicKey opts p =
     res_bind (ProofJWT_Validate l p) (\<lambda>_.
       from_parse (ParseWithClaims l now p (proof_keyfunc l now publicKey opts)))"

section \<open>Data Integrity proofs\<close>

record DIVPProof =
  dp_Type :: string
  dp_Cryptosuite :: string
  dp_ProofPurpose :: string
  dp_VerificationMethod :: string
  dp_Domain :: string
  dp_Challenge :: string
  dp_ProofValue :: string

text \<open>The fields that are read; the presented credentials, holder, id and creation time are not.\<close>

record ProofDIVP =
  dv_Context :: "string list"
  dv_Type :: "string list"
  dv_Proof :: "DIVPProof option"
  dv_Proofs :: "DIVPProof list option"

definition DIVPProof_valid :: "DIVPProof \<Rightarrow> bool" where
  "DIVPProof_valid q \<longleftrightarrow>
     dp_Type q \<noteq> [] \<and>
     dp_Cryptosuite q \<in> {''eddsa-rdfc-2022'', ''ecdsa-rdfc-2019'', ''ecdsa-sd-2023'', ''eddsa-jcs-2022'', ''ecdsa-jcs-2019''} \<and>
     dp_ProofPurpose q = ''authentication'' \<and> dp_VerificationMethod q \<noteq> [] \<and> dp_Domain q \<noteq> [] \<and> dp_ProofValue q \<noteq> []"

definition divp_proofs :: "ProofDIVP \<Rightarrow> DIVPProof list" where
  "divp_proofs vp =
     (case dv_Proof vp of None \<Rightarrow> [] | Some q \<Rightarrow> [q]) @ (case dv_Proofs vp of None \<Rightarrow> [] | Some qs \<Rightarrow> qs)"

definition ProofDIVP_Validate :: "ProofDIVP \<Rightarrow> vci_error + unit" where
  "ProofDIVP_Validate vp =
     (if dv_Context vp = [] \<or> dv_Type vp = [] \<or> dv_Proof vp = None \<and> dv_Proofs vp = None \<or>
         \<not> list_all DIVPProof_valid (divp_proofs vp)
      then Inl (VciError ErrInvalidCredentialRequest)
      else if ''VerifiablePresentation'' \<notin> set (dv_Type vp) then Inl (VciError ErrInvalidCredentialRequest)
      else Inr ())"

definition ProofDIVP_ExtractJWK :: "ProofDIVP \<Rightarrow> Jwk option" where
  "ProofDIVP_ExtractJWK vp =
     (case divp_proofs vp of
        [] \<Rightarrow> None
      | q # _ \<Rightarrow> if dp_VerificationMethod q = [] then None else Some (kid_only (dp_VerificationMethod q)))"

fun divp_checks :: "VerifyProofOptions \<Rightarrow> DIVPProof list \<Rightarrow> vci_error + unit" where
  "divp_checks opts [] = Inr ()"
| "divp_checks opts (q # qs) =
     (if vo_Audience opts \<noteq> [] \<and> dp_Domain q \<noteq> vo_Audience opts then Inl (VciError ErrInvalidCredentialRequest)
      else if vo_CNonce opts \<noteq> [] \<and> dp_Challenge q \<noteq> vo_CNonce opts then Inl (VciError ErrInvalidNonce)
      else divp_checks opts qs)"

definition ProofDIVP_Verify :: "VerifyProofOptions \<Rightarrow> ProofDIVP \<Rightarrow> vci_error + unit" where
  "ProofDIVP_Verify opts vp = res_bind (ProofDIVP_Validate vp) (\<lambda>_. divp_checks opts (divp_proofs vp))"

section \<open>Key attestations\<close>

record ProofAttestationClaims =
  pa_Iss :: string
  pa_Iat :: int
  pa_Exp :: int
  pa_AttestedKeys :: "ProofJWK list"
  pa_Nonce :: string
  pa_AttestationProcess :: string
  pa_AuxiliaryData :: "json option"

definition attestation_names :: "string list" where
  "attestation_names = [''iss'', ''iat'', ''exp'', ''attested_keys'', ''nonce'', ''attestation_process'', ''auxiliary_data'']"

definition unmarshal_ProofAttestationClaims :: "'a JwtLib_scheme \<Rightarrow> json \<Rightarrow> ProofAttestationClaims option" where
  "unmarshal_ProofAttestationClaims l v =
     do { m \<leftarrow> struct_members v;
          let vs = field_values l attestation_names m;
          iss \<leftarrow> dec_string [] (vs ''iss''); iat \<leftarrow> dec_int64 0 (vs ''iat''); ex \<leftarrow> dec_int64 0 (vs ''exp'');
          items \<leftarrow> dec_array None (vs ''attested_keys'');
          keys \<leftarrow> all_some (map (\<lambda>e. Option.bind (struct_members e) (unmarshal_ProofJWK l))
                                (case items of None \<Rightarrow> [] | Some es \<Rightarrow> es));
          nonce \<leftarrow> dec_string [] (vs ''nonce''); process \<leftarrow> dec_string [] (vs ''attestation_process'');
          Some \<lparr>pa_Iss = iss, pa_Iat = iat, pa_Exp = ex, pa_AttestedKeys = keys, pa_Nonce = nonce,
                pa_AttestationProcess = process, pa_AuxiliaryData = dec_raw (vs ''auxiliary_data'')\<rparr> }"

text \<open>The header: algorithm, type, and fields that are only decoded.\<close>

definition unmarshal_ProofAttestationHeader :: "'a JwtLib_scheme \<Rightarrow> json \<Rightarrow> (string \<times> string) option" where
  "unmarshal_ProofAttestationHeader l v =
     do { m \<leftarrow> struct_members v;
          let vs = field_values l [''alg'', ''typ'', ''kid'', ''x5c''] m;
          alg \<leftarrow> dec_string [] (vs ''alg''); typ \<leftarrow> dec_string [] (vs ''typ''); kid \<leftarrow> dec_string [] (vs ''kid'');
          x5c \<leftarrow> dec_strings (vs ''x5c'');
          Some (alg, typ) }"

definition ProofAttestation_Validate :: "'a JwtLib_scheme \<Rightarrow> string \<Rightarrow> vci_error + unit" where
  "ProofAttestation_Validate l p =
     (if p = [] then Inl (VciError ErrInvalidCredentialRequest)
      else (case splitToken p of
              None \<Rightarrow> Inl (VciError ErrInvalidCredentialRequest)
            | Some (h, c, s) \<Rightarrow>
                (case Option.bind (text_json l h) (unmarshal_ProofAttestationHeader l) of
                   None \<Rightarrow> Inl (VciError ErrInvalidCredentialRequest)
                 | Some (alg, typ) \<Rightarrow>
                     if alg = [] \<or> alg = ''none'' \<or> typ \<noteq> ''key-attestation+jwt''
                     then Inl (VciError ErrInvalidCredentialRequest)
                     else (case Option.bind (text_json l c) (unmarshal_ProofAttestationClaims l) of
                             None \<Rightarrow> Inl (VciError ErrInvalidCredentialRequest)
                           | Some claims \<Rightarrow>
                               if pa_Iat claims = 0 \<or> pa_AttestedKeys claims = [] \<or>
                                  \<not> list_all (\<lambda>k. pk_Kty k \<noteq> []) (pa_AttestedKeys claims)
                               then Inl (VciError ErrInvalidCredentialRequest)
                               else Inr ()))))"

definition ProofAttestation_ExtractNonce :: "'a JwtLib_scheme \<Rightarrow> string \<Rightarrow> string" where
  "ProofAttestation_ExtractNonce l p =
     (let parts = split_on (CHR ''.'') p in
      if p = [] \<or> length parts < 2 then []
      else (case Option.bind (Option.bind (decode_lenient (parts ! 1)) (jl_json l)) (unmarshal_ProofAttestationClaims l) of
              None \<Rightarrow> []
            | Some claims \<Rightarrow> pa_Nonce claims))"

definition attested_jwk :: "'a JwtLib_scheme \<Rightarrow> json \<Rightarrow> Jwk option" where
  "attested_jwk l key = (case key of JObject m \<Rightarrow> unmarshal_Jwk l m | _ \<Rightarrow> None)"

definition ProofAttestation_ExtractAllJWKs :: "'a JwtLib_scheme \<Rightarrow> int \<Rightarrow> string \<Rightarrow> Jwk list option" where
  "ProofAttestation_ExtractAllJWKs l maxLength p =
     (if p = [] \<or> maxLength < 1 then None
      else (case ParseUnverified l p of
              Inl _ \<Rightarrow> None
            | Inr token \<Rightarrow>
                (case map_of (jt_Claims token) ''attested_keys'' of
                   Some (JArray keysArr) \<Rightarrow>
                     if keysArr = [] \<or> int (length keysArr) > maxLength then None
                     else all_some (map (attested_jwk l) keysArr)
                 | _ \<Rightarrow> None)))"

text \<open>\<^verbatim>\<open>ParseX5CHeader\<close> of \<^verbatim>\<open>pkg/jose/x5c.go\<close>: the public keys of the chain, the leaf first.\<close>

definition x5c_key :: "'a ProofLib_scheme \<Rightarrow> json \<Rightarrow> string option" where
  "x5c_key l v =
     (case v of
        JString b64 \<Rightarrow>
          Option.bind (case Std_DecodeString b64 of Some der \<Rightarrow> Some der | None \<Rightarrow> DecodeString b64) (kp_cert l)
      | _ \<Rightarrow> None)"

definition ParseX5CHeader :: "'a ProofLib_scheme \<Rightarrow> json \<Rightarrow> string list option" where
  "ParseX5CHeader l v = (case v of JArray xs \<Rightarrow> if xs = [] then None else all_some (map (x5c_key l) xs) | _ \<Rightarrow> None)"

definition attestation_keyfunc :: "string \<Rightarrow> VerifyProofOptions \<Rightarrow> jwt_token \<Rightarrow> vci_error + string" where
  "attestation_keyfunc publicKey opts token =
     (if jt_alg token \<notin> set asymmetric then Inl (VciError ErrInvalidCredentialRequest)
      else if alg_refused opts token then Inl (VciError ErrInvalidCredentialRequest)
      else if nonce_refused opts (jt_Claims token) then Inl (VciError ErrInvalidNonce)
      else Inr publicKey)"

definition ProofAttestation_Verify ::
  "'a ProofLib_scheme \<Rightarrow> time \<Rightarrow> VerifyProofOptions \<Rightarrow> string \<Rightarrow> vci_error + unit"
where
  "ProofAttestation_Verify l now opts p =
     res_bind (ProofAttestation_Validate l p) (\<lambda>_.
       case Option.bind (DecodeString (hd (split_on (CHR ''.'') p))) (unmarshal_map l) of
         None \<Rightarrow> Inl (VciError ErrInvalidCredentialRequest)
       | Some header \<Rightarrow>
           (case map_of header ''x5c'' of
              None \<Rightarrow> Inl (VciError ErrInvalidProof)
            | Some x5cRaw \<Rightarrow>
                (case ParseX5CHeader l x5cRaw of
                   None \<Rightarrow> Inl (VciError ErrInvalidProof)
                 | Some certs \<Rightarrow>
                     from_parse (ParseWithClaims l now p (attestation_keyfunc (hd certs) opts)))))"

section \<open>Auxiliary data in key proofs\<close>

record AuxiliaryDataEntry =
  ax_Type :: string
  ax_Alg :: string
  ax_Path :: "string list"
  ax_Opening :: string
  ax_Commitment :: string
  ax_Required :: bool
  ax_Encoding :: string

definition AuxiliaryDataTypeHashCommitment :: string where
  "AuxiliaryDataTypeHashCommitment = ''hash_commitment''"

definition entry_names :: "string list" where
  "entry_names = [''type'', ''alg'', ''path'', ''opening'', ''commitment'', ''required'', ''encoding'']"

definition unmarshal_AuxiliaryDataEntry :: "'a JwtLib_scheme \<Rightarrow> json \<Rightarrow> AuxiliaryDataEntry option" where
  "unmarshal_AuxiliaryDataEntry l v =
     do { m \<leftarrow> struct_members v;
          let vs = field_values l entry_names m;
          ty \<leftarrow> dec_string [] (vs ''type''); alg \<leftarrow> dec_string [] (vs ''alg''); path \<leftarrow> dec_strings (vs ''path'');
          op \<leftarrow> dec_string [] (vs ''opening''); com \<leftarrow> dec_string [] (vs ''commitment'');
          req \<leftarrow> dec_bool False (vs ''required''); enc \<leftarrow> dec_string [] (vs ''encoding'');
          Some \<lparr>ax_Type = ty, ax_Alg = alg, ax_Path = (case path of None \<Rightarrow> [] | Some q \<Rightarrow> q), ax_Opening = op,
                ax_Commitment = com, ax_Required = req, ax_Encoding = enc\<rparr> }"

text \<open>
  \<^verbatim>\<open>decodeWalletEntry\<close>: \<open>None\<close> is an error, \<open>Some None\<close> an entry of another type. A first decoding reads
  only the type, and members of the names in \<^verbatim>\<open>walletAbsentMembers\<close> must be absent.
\<close>

definition decodeWalletEntry :: "'a JwtLib_scheme \<Rightarrow> json \<Rightarrow> AuxiliaryDataEntry option option" where
  "decodeWalletEntry l item =
     do { m \<leftarrow> struct_members item;
          ty \<leftarrow> dec_string [] (field_values l [''type''] m ''type'');
          if ty \<noteq> AuxiliaryDataTypeHashCommitment then Some None
          else if list_ex (\<lambda>n. n \<in> fst ` set m) [''opening'', ''encoding'', ''required''] then None
          else map_option Some (unmarshal_AuxiliaryDataEntry l item) }"

fun decode_entries :: "'a JwtLib_scheme \<Rightarrow> AuxiliaryDataEntry list \<Rightarrow> json list \<Rightarrow> AuxiliaryDataEntry list option" where
  "decode_entries l entries [] = Some entries"
| "decode_entries l entries (item # items) =
     (case decodeWalletEntry l item of
        None \<Rightarrow> None
      | Some None \<Rightarrow> decode_entries l entries items
      | Some (Some entry) \<Rightarrow>
          if ax_Path entry \<in> ax_Path ` set entries then None
          else decode_entries l (entries @ [entry]) items)"

definition decodeWalletAuxiliaryData :: "'a JwtLib_scheme \<Rightarrow> json option \<Rightarrow> AuxiliaryDataEntry list option" where
  "decodeWalletAuxiliaryData l claim =
     (case claim of
        None \<Rightarrow> Some []
      | Some JNull \<Rightarrow> Some []
      | Some (JArray items) \<Rightarrow> decode_entries l [] items
      | Some _ \<Rightarrow> None)"

definition jwtPayload :: "'a JwtLib_scheme \<Rightarrow> string \<Rightarrow> json option" where
  "jwtPayload l token = (case splitToken token of None \<Rightarrow> None | Some (h, c, s) \<Rightarrow> text_json l c)"

definition ProofJWT_ExtractAuxiliaryData :: "'a JwtLib_scheme \<Rightarrow> string \<Rightarrow> AuxiliaryDataEntry list option" where
  "ProofJWT_ExtractAuxiliaryData l p =
     Option.bind (Option.bind (jwtPayload l p) (unmarshal_ProofJWTClaims l))
       (\<lambda>c. decodeWalletAuxiliaryData l (pc_AuxiliaryData c))"

definition ProofAttestation_ExtractAuxiliaryData :: "'a JwtLib_scheme \<Rightarrow> string \<Rightarrow> AuxiliaryDataEntry list option" where
  "ProofAttestation_ExtractAuxiliaryData l p =
     Option.bind (Option.bind (jwtPayload l p) (unmarshal_ProofAttestationClaims l))
       (\<lambda>c. decodeWalletAuxiliaryData l (pa_AuxiliaryData c))"

section \<open>The request\<close>

record Proof =
  pf_ProofType :: string
  pf_JWT :: string

record Proofs =
  ps_JWT :: "string list"
  ps_DIVP :: "ProofDIVP list"
  ps_Attestation :: "string list"

text \<open>Of the encryption parameters the endpoint itself only asks whether they are there.\<close>

record CredentialRequest =
  cr_DPoP :: string
  cr_Authorization :: string
  cr_CredentialIdentifier :: string
  cr_CredentialConfigurationID :: string
  cr_Proofs :: "Proofs option"
  cr_Proof :: "Proof option"
  cr_BBSCommitment :: string
  cr_BBSCommittedClaims :: "string list"
  cr_BBSKeyBinding :: bool
  cr_BBSSuite :: string
  cr_ResponseEncryption :: bool

definition Proof_ExtractJWK :: "'a JwtLib_scheme \<Rightarrow> Proof \<Rightarrow> Jwk option" where
  "Proof_ExtractJWK l p =
     (if pf_ProofType p = ''jwt'' \<and> pf_JWT p \<noteq> [] then ProofJWT_ExtractJWK l (pf_JWT p) else None)"

definition Proof_ExtractSubjectDID :: "'a JwtLib_scheme \<Rightarrow> Proof \<Rightarrow> string" where
  "Proof_ExtractSubjectDID l p =
     (if pf_ProofType p = ''jwt'' \<and> pf_JWT p \<noteq> [] then ProofJWT_ExtractSubjectDID l (pf_JWT p) else [])"

definition Proofs_ProofType :: "Proofs \<Rightarrow> string" where
  "Proofs_ProofType p =
     (if ps_JWT p \<noteq> [] then ''jwt'' else if ps_DIVP p \<noteq> [] then ''di_vp''
      else if ps_Attestation p \<noteq> [] then ''attestation'' else [])"

definition Request_ProofType :: "CredentialRequest \<Rightarrow> string" where
  "Request_ProofType c =
     (case cr_Proof c of
        Some p \<Rightarrow> pf_ProofType p
      | None \<Rightarrow> (case cr_Proofs c of Some ps \<Rightarrow> Proofs_ProofType ps | None \<Rightarrow> []))"

definition extractAllJWKsFromJWT :: "'a JwtLib_scheme \<Rightarrow> int \<Rightarrow> Proofs \<Rightarrow> Jwk list option" where
  "extractAllJWKsFromJWT l maxLength p =
     (if int (length (ps_JWT p)) > maxLength then None else all_some (map (ProofJWT_ExtractJWK l) (ps_JWT p)))"

definition extractAllJWKsFromDIVP :: "int \<Rightarrow> Proofs \<Rightarrow> Jwk list option" where
  "extractAllJWKsFromDIVP maxLength p =
     (if int (length (ps_DIVP p)) > maxLength then None else all_some (map ProofDIVP_ExtractJWK (ps_DIVP p)))"

definition ExtractAllJWKs :: "'a JwtLib_scheme \<Rightarrow> int \<Rightarrow> Proofs \<Rightarrow> Jwk list option" where
  "ExtractAllJWKs l maxLength p =
     (if maxLength < 1 then None
      else if Proofs_ProofType p = ''jwt'' then extractAllJWKsFromJWT l maxLength p
      else if Proofs_ProofType p = ''di_vp'' then extractAllJWKsFromDIVP maxLength p
      else if Proofs_ProofType p = ''attestation''
      then ProofAttestation_ExtractAllJWKs l maxLength (hd (ps_Attestation p))
      else None)"

definition proofTypeCount :: "Proofs \<Rightarrow> nat" where
  "proofTypeCount p =
     length (filter (\<lambda>b. b) [ps_JWT p \<noteq> [], ps_DIVP p \<noteq> [], ps_Attestation p \<noteq> []])"

text \<open>The loops of \<^verbatim>\<open>VerifyProofWithOptions\<close> stop at the first proof that fails.\<close>

fun verify_all :: "('p \<Rightarrow> vci_error + unit) \<Rightarrow> 'p list \<Rightarrow> vci_error + unit" where
  "verify_all f [] = Inr ()"
| "verify_all f (p # ps) = res_bind (f p) (\<lambda>_. verify_all f ps)"

definition VerifyProofWithOptions ::
  "'a ProofLib_scheme \<Rightarrow> time \<Rightarrow> string \<Rightarrow> VerifyProofOptions \<Rightarrow> CredentialRequest \<Rightarrow> vci_error + unit"
where
  "VerifyProofWithOptions l now publicKey opts c =
     (case cr_Proofs c of
        None \<Rightarrow> Inl (VciError ErrInvalidCredentialRequest)
      | Some ps \<Rightarrow>
          if proofTypeCount ps \<noteq> 1 then Inl (VciError ErrInvalidCredentialRequest)
          else if ps_JWT ps \<noteq> [] then verify_all (ProofJWT_Verify l now publicKey opts) (ps_JWT ps)
          else if ps_DIVP ps \<noteq> [] then verify_all (ProofDIVP_Verify opts) (ps_DIVP ps)
          else verify_all (ProofAttestation_Verify l now opts) (ps_Attestation ps))"

section \<open>Validation of the request\<close>

definition MaxMessages :: nat where
  "MaxMessages = 512"

datatype Suite = SuitePlain | SuiteSchnorr

definition ParseSuite :: "string \<Rightarrow> Suite option" where
  "ParseSuite name =
     (if name = ''plain'' then Some SuitePlain else if name = ''schnorr'' then Some SuiteSchnorr else None)"

definition DecodeCommitment :: "string \<Rightarrow> bytes option" where
  "DecodeCommitment s =
     (case DecodeString (rev (dropWhile (\<lambda>c. c = CHR ''='') (rev s))) of
        None \<Rightarrow> None
      | Some b \<Rightarrow> if b = [] then None else Some b)"

definition ValidateHolderPointers :: "string list \<Rightarrow> bool" where
  "ValidateHolderPointers pointers \<longleftrightarrow>
     length pointers \<le> MaxMessages \<and> list_all (\<lambda>p. HasPrefix p ''/'') pointers \<and> distinct pointers"

definition validateBBS :: "CredentialRequest \<Rightarrow> vci_error + unit" where
  "validateBBS c =
     (if cr_BBSCommitment c = []
      then (if cr_BBSCommittedClaims c \<noteq> [] \<or> cr_BBSKeyBinding c \<or> cr_BBSSuite c \<noteq> []
            then Inl (VciError ErrInvalidCredentialRequest) else Inr ())
      else if DecodeCommitment (cr_BBSCommitment c) = None then Inl (VciError ErrInvalidCredentialRequest)
      else (case ParseSuite (cr_BBSSuite c) of
              None \<Rightarrow> Inl (VciError ErrInvalidCredentialRequest)
            | Some suite \<Rightarrow>
                if suite = SuitePlain \<and> cr_BBSKeyBinding c then Inl (VciError ErrInvalidCredentialRequest)
                else if \<not> ValidateHolderPointers (cr_BBSCommittedClaims c)
                then Inl (VciError ErrInvalidCredentialRequest)
                else Inr ()))"

definition Request_Validate :: "CredentialRequest \<Rightarrow> AuthorizationDetailsParameter list \<Rightarrow> vci_error + unit" where
  "Request_Validate c authorizationDetails =
     (if (case cr_Proofs c of None \<Rightarrow> False | Some ps \<Rightarrow> proofTypeCount ps \<noteq> 1)
      then Inl (VciError ErrInvalidCredentialRequest)
      else
        res_bind (validateBBS c) (\<lambda>_.
          if cr_CredentialIdentifier c = [] \<and> cr_CredentialConfigurationID c = []
          then Inl (VciError ErrInvalidCredentialRequest)
          else if cr_CredentialIdentifier c \<noteq> [] \<and> cr_CredentialConfigurationID c \<noteq> []
          then Inl (VciError ErrInvalidCredentialRequest)
          else if cr_CredentialIdentifier c \<noteq> []
          then (if list_ex (\<lambda>ad. cr_CredentialIdentifier c \<in> set (ad_CredentialIdentifiers ad)) authorizationDetails
                then Inr () else Inl (VciError ErrUnknownCredentialIdentifier))
          else if authorizationDetails \<noteq> [] then Inl (VciError ErrInvalidCredentialRequest)
          else Inr ()))"

section \<open>The credential a request selects\<close>

text \<open>
  \<^verbatim>\<open>CredentialMetadata\<close>, with the display and claim descriptions as the JSON they are published as, and the
  members of the issuer metadata the endpoint reads.
\<close>

record VciMetadata =
  vm_Display :: json
  vm_Claims :: json
  vm_AuxiliaryData :: "AuxiliaryDataEntry list"

record CredentialConfiguration =
  cc_Format :: string
  cc_ProofTypesSupported :: "string list"
  cc_CredentialMetadata :: "VciMetadata option"
  cc_CredentialDefinition :: "string list option"
  cc_Cryptosuite :: string

record IssuerMetadata =
  md_CredentialIssuer :: string
  md_CredentialEndpoint :: string
  md_BatchSize :: "int option"
  md_Configurations :: "string \<rightharpoonup> CredentialConfiguration"

record credentialSelection =
  sel_ConfigurationID :: string
  sel_Format :: string

definition resolveCredentialSelection ::
  "IssuerMetadata option \<Rightarrow> AuthorizationDetailsParameter list \<Rightarrow> CredentialRequest \<Rightarrow>
   vci_error option + credentialSelection"
where
  "resolveCredentialSelection metadata authorizationDetails req =
     (case metadata of
        None \<Rightarrow> Inl None
      | Some md \<Rightarrow>
          if cr_CredentialConfigurationID req \<noteq> []
          then (case md_Configurations md (cr_CredentialConfigurationID req) of
                  Some config \<Rightarrow>
                    Inr \<lparr>sel_ConfigurationID = cr_CredentialConfigurationID req, sel_Format = cc_Format config\<rparr>
                | None \<Rightarrow> Inl (Some (VciError ErrUnknownCredentialConfiguration)))
          else if cr_CredentialIdentifier req \<noteq> []
          then (case List.find (\<lambda>ad. cr_CredentialIdentifier req \<in> set (ad_CredentialIdentifiers ad)) authorizationDetails of
                  None \<Rightarrow> Inl (Some (VciError ErrUnknownCredentialIdentifier))
                | Some ad \<Rightarrow>
                    if ad_CredentialConfigurationID ad = [] \<and> ad_Format ad \<noteq> []
                    then Inr \<lparr>sel_ConfigurationID = [], sel_Format = ad_Format ad\<rparr>
                    else (case md_Configurations md (ad_CredentialConfigurationID ad) of
                            Some config \<Rightarrow>
                              Inr \<lparr>sel_ConfigurationID = ad_CredentialConfigurationID ad, sel_Format = cc_Format config\<rparr>
                          | None \<Rightarrow> Inl (Some (VciError ErrInvalidCredentialRequest))))
          else Inl (Some (VciError ErrInvalidCredentialRequest)))"

end
