(* ===== verification/KeyProofProps.thy ===== *)
theory KeyProofProps
  imports KeyProofs
begin

text \<open>
  What the verification of key proofs establishes: an accepted JWT proof is signed by the key it was checked
  against, is fresh and was made for this issuer, and what the endpoint extracts from it beforehand, its nonce
  and its key, is what was signed. A batch yields one key per proof, within the limit.
\<close>

section \<open>Extraction and verification agree\<close>

lemma all_some_length: "all_some xs = Some ys \<Longrightarrow> length ys = length xs"
  by (induction xs arbitrary: ys rule: all_some.induct) auto

lemma all_some_nth: "all_some xs = Some ys \<Longrightarrow> i < length xs \<Longrightarrow> xs ! i = Some (ys ! i)"
proof (induction xs arbitrary: ys i rule: all_some.induct)
  case (3 x xs)
  then show ?case by (cases i) auto
qed auto

lemma decode_lenient_bind:
  "Option.bind (DecodeString part) f = Some v \<Longrightarrow> Option.bind (decode_lenient part) f = Some v"
  by (cases "DecodeString part") (auto simp: decode_lenient_def)

lemma from_parse_ok: "from_parse r = Inr u \<longleftrightarrow> (\<exists>tok. r = Inr tok)"
  by (auto simp: from_parse_def split: sum.splits parse_error.splits)

lemma nonce_accepted: "\<not> nonce_refused opts m \<Longrightarrow> vo_CNonce opts \<noteq> [] \<Longrightarrow> map_of m ''nonce'' = Some (JString (vo_CNonce opts))"
  by (simp add: nonce_refused_def)

text \<open>The key a JWT header names.\<close>

definition header_key :: "'a JwtLib_scheme \<Rightarrow> claims \<Rightarrow> Jwk option" where
  "header_key l header =
     (case map_of header ''jwk'' of
        Some (JObject m) \<Rightarrow> unmarshal_Jwk l m
      | _ \<Rightarrow> (case map_of header ''kid'' of Some (JString kid) \<Rightarrow> Some (kid_only kid) | _ \<Rightarrow> None))"

lemma ExtractJWK_parsed:
  assumes "ParseUnverified l p = Inr tok"
  shows "ProofJWT_ExtractJWK l p = header_key l (jt_Header tok)"
proof -
  obtain h c s where p: "split_on (CHR ''.'') p = [h, c, s]"
    and h: "Option.bind (DecodeString h) (unmarshal_map l) = Some (jt_Header tok)"
    using ParseUnverified_parts [OF assms] by blast
  have "p \<noteq> []" using p by auto
  then show ?thesis using p decode_lenient_bind [OF h] by (simp add: ProofJWT_ExtractJWK_def header_key_def Let_def)
qed

lemma ExtractNonce_parsed:
  assumes "ParseUnverified l p = Inr tok" and "map_of (jt_Claims tok) ''nonce'' = Some (JString nonce)"
  shows "ProofJWT_ExtractNonce l p = nonce"
proof -
  obtain h c s where p: "split_on (CHR ''.'') p = [h, c, s]"
    and c: "Option.bind (DecodeString c) (unmarshal_map l) = Some (jt_Claims tok)"
    using ParseUnverified_parts [OF assms(1)] by blast
  have "p \<noteq> []" using p by auto
  then show ?thesis using p decode_lenient_bind [OF c] assms(2) by (simp add: ProofJWT_ExtractNonce_def Let_def)
qed

lemma proof_keyfunc_ok:
  assumes "proof_keyfunc l now key opts tok = Inr k"
  shows "k = key" and "jt_alg tok \<in> set asymmetric" and "\<not> nonce_refused opts (jt_Claims tok)"
    and "\<exists>t. parseNumericDate l (jt_Claims tok) ''iat'' = Inr (Some t) \<and> t \<le> now + proofIatClockSkew"
    and "vo_Audience opts \<noteq> [] \<Longrightarrow> \<exists>aud. parseClaimsString (jt_Claims tok) ''aud'' = Inr aud \<and> vo_Audience opts \<in> set aud"
    and "map_of (jt_Header tok) ''jwk'' = Some (JObject m) \<Longrightarrow> map_of m ''d'' = None"
  using assms by (auto simp: proof_keyfunc_def split: if_splits sum.splits option.splits)

text \<open>
  \<open>proof_by l now opts jwk key p\<close>: the token \<open>p\<close> carries a signature that \<open>key\<close> verifies, over a header that
  names \<open>jwk\<close> and no private key, and over claims made for the audience, with the nonce, not from the future and
  not expired.
\<close>

definition proof_by :: "'a JwtLib_scheme \<Rightarrow> time \<Rightarrow> VerifyProofOptions \<Rightarrow> Jwk option \<Rightarrow> string \<Rightarrow> string \<Rightarrow> bool" where
  "proof_by l now opts jwk key p \<longleftrightarrow>
     (\<exists>tok t aud. ParseUnverified l p = Inr tok \<and>
        jl_verify l (jt_alg tok) key (jt_text tok) (jt_Signature tok) \<and> jt_alg tok \<in> set asymmetric \<and>
        header_key l (jt_Header tok) = jwk \<and>
        (\<forall>m. map_of (jt_Header tok) ''jwk'' = Some (JObject m) \<longrightarrow> map_of m ''d'' = None) \<and>
        parseClaimsString (jt_Claims tok) ''aud'' = Inr aud \<and> vo_Audience opts \<in> set aud \<and>
        map_of (jt_Claims tok) ''nonce'' = Some (JString (vo_CNonce opts)) \<and>
        parseNumericDate l (jt_Claims tok) ''iat'' = Inr (Some t) \<and> t \<le> now + proofIatClockSkew \<and>
        Validator_Validate l now (jt_Claims tok))"

lemma Verify_parsed:
  assumes "ProofJWT_Verify l now key opts p = Inr u"
  obtains tok where "ParseUnverified l p = Inr tok" and "proof_keyfunc l now key opts tok = Inr key"
    and "jl_verify l (jt_alg tok) key (jt_text tok) (jt_Signature tok)" and "Validator_Validate l now (jt_Claims tok)"
proof -
  obtain tok k where tok: "ParseUnverified l p = Inr tok" and k: "proof_keyfunc l now key opts tok = Inr k"
    and r: "jl_verify l (jt_alg tok) k (jt_text tok) (jt_Signature tok)" "Validator_Validate l now (jt_Claims tok)"
    using assms by (auto simp: ProofJWT_Verify_def res_bind_Inr_iff from_parse_ok ParseWithClaims_ok)
  then show ?thesis using that [OF tok] proof_keyfunc_ok(1) [OF k] by simp
qed

section \<open>Properties\<close>

text \<open>
  C19: a JWT key proof that is accepted with a nonce and an audience is signed, with an asymmetric algorithm, by the
  key it was checked against; the signed header names the key that \<^verbatim>\<open>ExtractJWK\<close> returned and no private key; the
  signed claims name this issuer, carry the nonce, are not from the future and not expired; and \<^verbatim>\<open>ExtractNonce\<close>
  returned that nonce.
\<close>

theorem accepted_jwt_proof_sound:
  assumes "ProofJWT_Verify l now key opts p = Inr ()" and "vo_CNonce opts \<noteq> []" and "vo_Audience opts \<noteq> []"
  shows "proof_by l now opts (ProofJWT_ExtractJWK l p) key p \<and> ProofJWT_ExtractNonce l p = vo_CNonce opts"
proof -
  obtain tok where tok: "ParseUnverified l p = Inr tok" and kf: "proof_keyfunc l now key opts tok = Inr key"
    and sig: "jl_verify l (jt_alg tok) key (jt_text tok) (jt_Signature tok)" and val: "Validator_Validate l now (jt_Claims tok)"
    using Verify_parsed [OF assms(1)] .
  note ok = proof_keyfunc_ok [OF kf]
  have n: "map_of (jt_Claims tok) ''nonce'' = Some (JString (vo_CNonce opts))"
    using nonce_accepted [OF ok(3) assms(2)] .
  have "proof_by l now opts (ProofJWT_ExtractJWK l p) key p"
    unfolding proof_by_def ExtractJWK_parsed [OF tok]
    using tok sig ok(2) ok(4) ok(5) [OF assms(3)] ok(6) n val by blast
  then show ?thesis using ExtractNonce_parsed [OF tok n] by simp
qed

definition sample_head :: json where
  "sample_head =
     JObject [(''alg'', JString ''ES256''), (''typ'', JString ''openid4vci-proof+jwt''),
              (''jwk'', JObject [(''kty'', JString ''EC''), (''x'', JString ''X'')])]"

definition sample_body :: json where
  "sample_body =
     JObject [(''aud'', JString ''iss''), (''iat'', JNumber ''1000''), (''nonce'', JString ''n'')]"

definition sample_proof_lib :: JwtLib where
  "sample_proof_lib =
     \<lparr>jl_json = (\<lambda>bs. if bs = string_bytes ''head'' then Some sample_head
                     else if bs = string_bytes ''body'' then Some sample_body else None),
      jl_fold = (\<lambda>s. s), jl_date = parse_int64,
      jl_verify = (\<lambda>alg key text sg. key = ''K'' \<and> text = ''aGVhZA.Ym9keQ'' \<and> sg = string_bytes ''sig'')\<rparr>"

definition sample_opts :: VerifyProofOptions where
  "sample_opts = \<lparr>vo_CNonce = ''n'', vo_Audience = ''iss'', vo_SupportedAlgorithms = []\<rparr>"

definition sample_jwt :: string where
  "sample_jwt = ''aGVhZA.Ym9keQ.c2ln''"

lemma sample_segments:
  "split_on (CHR ''.'') sample_jwt = [''aGVhZA'', ''Ym9keQ'', ''c2ln'']"
  "DecodeString ''aGVhZA'' = Some (string_bytes ''head'')"
  "DecodeString ''Ym9keQ'' = Some (string_bytes ''body'')"
  "DecodeString ''c2ln'' = Some (string_bytes ''sig'')"
  by (simp_all add: sample_jwt_def DecodeString_def unsextet_def alphabet_def is_newline_def string_bytes_def char_byte_def)

lemma sample_nonempty: "sample_jwt \<noteq> []"
  by (simp add: sample_jwt_def)

lemma sample_texts:
  "jl_json sample_proof_lib (string_bytes ''head'') = Some sample_head"
  "jl_json sample_proof_lib (string_bytes ''body'') = Some sample_body"
  "jl_fold sample_proof_lib s = s"
  "jl_date sample_proof_lib = parse_int64"
  "jl_verify sample_proof_lib alg ''K'' ''aGVhZA.Ym9keQ'' (string_bytes ''sig'')"
  by (simp_all add: sample_proof_lib_def string_bytes_def char_byte_def)

lemma sample_parsed:
  "ParseUnverified sample_proof_lib sample_jwt =
     Inr \<lparr>jt_Header = [(''alg'', JString ''ES256''), (''typ'', JString ''openid4vci-proof+jwt''),
                       (''jwk'', JObject [(''kty'', JString ''EC''), (''x'', JString ''X'')])],
          jt_Claims = [(''aud'', JString ''iss''), (''iat'', JNumber ''1000''), (''nonce'', JString ''n'')],
          jt_alg = ''ES256'', jt_Signature = string_bytes ''sig'', jt_text = ''aGVhZA.Ym9keQ''\<rparr>"
  by (simp add: ParseUnverified_def splitToken_def sample_segments unmarshal_map_def sample_texts sample_head_def
      sample_body_def signingMethods_def)

lemma sample_number: "parse_int64 ''1000'' = Some 1000"
  by (simp add: parse_int64_def is_digit_def HasPrefix_def)

lemma sample_valid: "ProofJWT_Validate sample_proof_lib sample_jwt = Inr ()"
  by (simp add: ProofJWT_Validate_def splitToken_def sample_segments text_json_def sample_texts sample_head_def
      sample_body_def unmarshal_ProofJWTHeader_def unmarshal_ProofJWTClaims_def unmarshal_ProofJWK_def struct_members_def
      field_values_def proof_jwk_names_def dec_strings_def dec_raw_def proof_header_valid_def proof_claims_valid_def
      sample_number sample_nonempty Let_def)

lemma sample_proof_verified: "ProofJWT_Verify sample_proof_lib (2000 * second) ''K'' sample_opts sample_jwt = Inr ()"
  by (simp add: ProofJWT_Verify_def sample_valid ParseWithClaims_def sample_parsed proof_keyfunc_def alg_refused_def
      sample_opts_def parseClaimsString_def parseNumericDate_def nonce_refused_def asymmetric_def
      Validator_Validate_def verifyExpiresAt_def verifyNotBefore_def from_parse_def sample_texts sample_number
      proofIatClockSkew_def second_def)

theorem accepted_jwt_proof_sound_witness:
  "ProofJWT_ExtractNonce sample_proof_lib sample_jwt = ''n''"
proof -
  have "vo_CNonce sample_opts \<noteq> []" "vo_Audience sample_opts \<noteq> []" by (simp_all add: sample_opts_def)
  from accepted_jwt_proof_sound [OF sample_proof_verified this] show ?thesis by (simp add: sample_opts_def)
qed

text \<open>
  C20: the keys extracted from a batch are between one and the limit, and for JWT and Data Integrity proofs the
  key at each position is that of the proof at the same position.
\<close>

theorem batch_keys_bounded:
  assumes "ExtractAllJWKs l maxLength ps = Some jwks"
  shows "1 \<le> int (length jwks) \<and> int (length jwks) \<le> maxLength \<and>
    (ps_JWT ps \<noteq> [] \<longrightarrow> length jwks = length (ps_JWT ps) \<and>
       (\<forall>i < length jwks. ProofJWT_ExtractJWK l (ps_JWT ps ! i) = Some (jwks ! i))) \<and>
    (ps_JWT ps = [] \<and> ps_DIVP ps \<noteq> [] \<longrightarrow> length jwks = length (ps_DIVP ps) \<and>
       (\<forall>i < length jwks. ProofDIVP_ExtractJWK (ps_DIVP ps ! i) = Some (jwks ! i)))"
proof -
  consider (jwt) "ps_JWT ps \<noteq> []" | (divp) "ps_JWT ps = []" "ps_DIVP ps \<noteq> []"
    | (att) "ps_JWT ps = []" "ps_DIVP ps = []" by blast
  then show ?thesis
  proof cases
    case jwt
    then have "int (length (ps_JWT ps)) \<le> maxLength" "all_some (map (ProofJWT_ExtractJWK l) (ps_JWT ps)) = Some jwks"
      using assms by (auto simp: ExtractAllJWKs_def Proofs_ProofType_def extractAllJWKsFromJWT_def split: if_splits)
    then show ?thesis using jwt all_some_length all_some_nth [of "map (ProofJWT_ExtractJWK l) (ps_JWT ps)" jwks]
      by (fastforce simp: Suc_le_eq)
  next
    case divp
    then have "int (length (ps_DIVP ps)) \<le> maxLength" "all_some (map ProofDIVP_ExtractJWK (ps_DIVP ps)) = Some jwks"
      using assms by (auto simp: ExtractAllJWKs_def Proofs_ProofType_def extractAllJWKsFromDIVP_def split: if_splits)
    then show ?thesis using divp all_some_length all_some_nth [of "map ProofDIVP_ExtractJWK (ps_DIVP ps)" jwks]
      by (fastforce simp: Suc_le_eq)
  next
    case att
    then obtain keysArr where "keysArr \<noteq> []" "int (length keysArr) \<le> maxLength" "all_some (map (attested_jwk l) keysArr) = Some jwks"
      using assms by (auto simp: ExtractAllJWKs_def Proofs_ProofType_def ProofAttestation_ExtractAllJWKs_def
          split: if_splits sum.splits option.splits json.splits)
    then show ?thesis using att all_some_length by (fastforce simp: Suc_le_eq)
  qed
qed

theorem batch_keys_bounded_witness:
  "\<exists>jwks. ExtractAllJWKs sample_proof_lib 1 \<lparr>ps_JWT = [sample_jwt], ps_DIVP = [], ps_Attestation = []\<rparr> = Some jwks \<and>
     length jwks = 1"
proof -
  let ?ps = "\<lparr>ps_JWT = [sample_jwt], ps_DIVP = [], ps_Attestation = []\<rparr>"
  obtain jwk where "ProofJWT_ExtractJWK sample_proof_lib sample_jwt = Some jwk"
    by (auto simp: ExtractJWK_parsed [OF sample_parsed] header_key_def unmarshal_Jwk_def remarshal_def jwk_names_def
        sort_strings_def field_values_def dec_strings_def sample_texts Let_def)
  then have j: "ExtractAllJWKs sample_proof_lib 1 ?ps = Some [jwk]"
    by (simp add: ExtractAllJWKs_def Proofs_ProofType_def extractAllJWKsFromJWT_def)
  then show ?thesis using batch_keys_bounded [OF j] by simp
qed

end
