(* ===== verification/ClaimsLaws.thy ===== *)
theory ClaimsLaws
  imports Claims "HOL-Library.Sublist"
begin

text \<open>
  What the operations on claims do, stated over claim paths: a value that is set is read back and leaves the
  other paths alone, defaults fill what is absent and nothing else, a merge overlays one document on another,
  and the filter keeps the declared claims and only those.
\<close>

section \<open>Reading and writing at a path\<close>

lemma parts_of_nonempty [simp]: "parts_of p \<noteq> []"
  by (simp add: parts_of_def)

lemma parts_of_inj: "parts_of p = parts_of q \<longleftrightarrow> p = q"
  by (metis parts_of_def str_join_split_on)

lemma set_parts_walk:
  "set_parts doc ks v = Some doc' \<Longrightarrow> walkPath (JObject doc') ks = Some v"
  by (induction doc ks v arbitrary: doc' rule: set_parts.induct)
    (auto simp: update_conv split: option.splits json.splits)

lemma set_parts_other:
  "set_parts doc ks v = Some doc' \<Longrightarrow> \<not> prefix ks qs \<Longrightarrow> \<not> prefix qs ks \<Longrightarrow>
     walkPath (JObject doc') qs = walkPath (JObject doc) qs"
proof (induction doc ks v arbitrary: doc' qs rule: set_parts.induct)
  case (1 doc v)
  then show ?case by simp
next
  case (2 doc k v)
  then show ?case by (cases qs) (auto simp: update_conv)
next
  case (3 doc k k' ks v)
  obtain q qs' where qs: "qs = q # qs'" using "3.prems"(3) by (cases qs) auto
  show ?case
  proof (cases "q = k")
    case False
    with "3.prems"(1) qs show ?thesis by (auto simp: update_conv split: option.splits json.splits)
  next
    case True
    have p: "\<not> prefix (k' # ks) qs'" "\<not> prefix qs' (k' # ks)" using "3.prems"(2,3) qs True by auto
    have e: "walkPath (JObject []) qs' = None" using p(2) by (cases qs') auto
    show ?thesis
      using "3.prems"(1) "3.IH" p e qs True by (auto simp: update_conv split: option.splits json.splits)
  qed
qed

lemma str_join_append:
  "xs \<noteq> [] \<Longrightarrow> ys \<noteq> [] \<Longrightarrow> str_join sep (xs @ ys) = str_join sep xs @ sep @ str_join sep ys"
proof (induction sep xs rule: str_join.induct)
  case (2 sep s)
  then show ?case by (cases ys) auto
qed auto

lemma split_on_append: "split_on c (p @ c # t) = split_on c p @ split_on c t"
proof (induction p)
  case (Cons x p)
  obtain a as where a: "split_on c p = a # as" by (cases "split_on c p") auto
  with Cons show ?case by simp
qed simp

lemma prefix_parts: "prefix (parts_of p) (parts_of q) \<longleftrightarrow> p = q \<or> HasPrefix q (p @ ''.'')"
proof
  assume "prefix (parts_of p) (parts_of q)"
  then obtain r where r: "split_on CHR ''.'' q = split_on CHR ''.'' p @ r"
    by (auto simp: prefix_def parts_of_def)
  have "q = str_join ''.'' (split_on CHR ''.'' p @ r)" by (metis r str_join_split_on)
  then show "p = q \<or> HasPrefix q (p @ ''.'')"
    using str_join_split_on [of "CHR ''.''" p]
    by (cases "r = []") (auto simp: str_join_append HasPrefix_iff)
next
  assume "p = q \<or> HasPrefix q (p @ ''.'')"
  then show "prefix (parts_of p) (parts_of q)"
    by (auto simp: HasPrefix_iff parts_of_def split_on_append)
qed

text \<open>Writing at an absent path never disturbs a value that is there.\<close>

definition is_object :: "json \<Rightarrow> bool" where
  "is_object v = (case v of JObject m \<Rightarrow> True | _ \<Rightarrow> False)"

lemma is_object_simps [simp]:
  "is_object (JObject m)" "\<not> is_object JNull" "\<not> is_object (JBool b)" "\<not> is_object (JNumber n)"
  "\<not> is_object (JString s)" "\<not> is_object (JArray xs)"
  by (simp_all add: is_object_def)

lemma is_object_iff: "is_object v \<longleftrightarrow> (\<exists>m. v = JObject m)"
  by (cases v) auto

lemma walkPath_atom [simp]: "\<not> is_object v \<Longrightarrow> walkPath v (p # ps) = None"
  by (cases v) auto

lemma walkPath_append: "walkPath v (ps @ qs) = (case walkPath v ps of None \<Rightarrow> None | Some w \<Rightarrow> walkPath w qs)"
  by (induction v ps rule: walkPath.induct) (auto split: option.splits)

lemma set_parts_parents:
  "set_parts doc ks v = Some doc' \<Longrightarrow> strict_prefix qs ks \<Longrightarrow> walkPath (JObject doc) qs = Some a \<Longrightarrow> is_object a"
proof (induction doc ks v arbitrary: doc' qs rule: set_parts.induct)
  case (2 doc k v)
  then show ?case by (auto simp: strict_prefix_def prefix_Cons)
next
  case (3 doc k k' ks v)
  show ?case
  proof (cases qs)
    case Nil
    with "3.prems" show ?thesis by auto
  next
    case (Cons q qs')
    with "3.prems" "3.IH" show ?thesis by (auto split: option.splits json.splits)
  qed
qed auto

lemma set_parts_keeps:
  assumes "set_parts doc ks v = Some doc'" and "walkPath (JObject doc) ks = None"
    and "walkPath (JObject doc) qs = Some a" and "\<not> is_object a"
  shows "walkPath (JObject doc') qs = Some a"
proof -
  have "\<not> prefix ks qs" using assms(2,3) by (auto simp: prefix_def walkPath_append)
  moreover have "\<not> prefix qs ks"
  proof
    assume "prefix qs ks"
    with \<open>\<not> prefix ks qs\<close> have "strict_prefix qs ks" by (auto simp: strict_prefix_def)
    with set_parts_parents [OF assms(1)] assms(3,4) show False by blast
  qed
  ultimately show ?thesis using set_parts_other [OF assms(1)] assms(3) by simp
qed

section \<open>Defaults\<close>

lemma str_less_irrefl [simp]: "\<not> str_less s s"
  by (induction s) auto

lemma str_less_trans: "str_less s t \<Longrightarrow> str_less t u \<Longrightarrow> str_less s u"
proof (induction s t arbitrary: u rule: str_less.induct)
  case (2 y ys)
  then show ?case by (cases u) auto
next
  case (3 x xs y ys)
  then show ?case by (cases u) auto
qed auto

lemma str_less_total: "s \<noteq> t \<Longrightarrow> str_less s t \<or> str_less t s"
proof (induction s t rule: str_less.induct)
  case (1 s)
  then show ?case by (cases s) auto
next
  case (3 x xs y ys)
  then show ?case by (metis less_linear of_char_eq_iff str_less.simps(3))
qed auto

lemma str_less_append: "t \<noteq> [] \<Longrightarrow> str_less s (s @ t)"
  by (induction s) (cases t; auto)+

definition str_le :: "string \<Rightarrow> string \<Rightarrow> bool" where
  "str_le s t \<longleftrightarrow> \<not> str_less t s"

lemma str_le_trans: "str_le s t \<Longrightarrow> str_le t u \<Longrightarrow> str_le s u"
  unfolding str_le_def by (metis str_less_total str_less_trans)

lemma set_sort_insert [simp]: "set (sort_insert s ts) = insert s (set ts)"
  by (induction ts) auto

lemma sorted_sort_insert: "sorted_wrt str_le ts \<Longrightarrow> sorted_wrt str_le (sort_insert s ts)"
proof (induction ts)
  case (Cons t ts)
  have "str_le t s" if "str_less t s" using str_less_trans [OF that, of t] by (auto simp: str_le_def)
  moreover have "str_le s u" if "\<not> str_less t s" "str_le t u" for u
    using that str_le_trans [of s t u] by (simp add: str_le_def)
  ultimately show ?case using Cons by (auto simp: str_le_def)
qed simp

lemma sort_strings_simps [simp]:
  "sort_strings [] = []" "sort_strings (s # ss) = sort_insert s (sort_strings ss)"
  by (simp_all add: sort_strings_def)

lemma set_sort_strings [simp]: "set (sort_strings ss) = set ss"
  by (induction ss) auto

lemma sorted_sort_strings: "sorted_wrt str_le (sort_strings ss)"
  by (induction ss) (auto simp: sorted_sort_insert)

lemma distinct_sort_insert: "distinct (sort_insert s ts) \<longleftrightarrow> distinct ts \<and> s \<notin> set ts"
  by (induction ts) auto

lemma distinct_sort_strings: "distinct (sort_strings ss) \<longleftrightarrow> distinct ss"
  by (induction ss) (auto simp: distinct_sort_insert)

text \<open>\<open>apart p q\<close>: neither path lies inside the other.\<close>

definition apart :: "string \<Rightarrow> string \<Rightarrow> bool" where
  "apart p q \<longleftrightarrow> \<not> prefix (parts_of p) (parts_of q) \<and> \<not> prefix (parts_of q) (parts_of p)"

lemma apart_sym: "apart p q \<longleftrightarrow> apart q p"
  by (auto simp: apart_def)

lemma not_overlapping_apart:
  "\<not> overlapping ps \<Longrightarrow> sorted_wrt str_le ps \<Longrightarrow> distinct ps \<Longrightarrow> sorted_wrt apart ps"
proof (induction ps)
  case (Cons p ps)
  have "apart p q" if q: "q \<in> set ps" for q
  proof -
    have "p \<noteq> q" "\<not> HasPrefix q (p @ ''.'')" "\<not> str_less q p"
      using Cons.prems q by (auto simp: list_ex_iff str_le_def)
    moreover have "str_less q p" if "HasPrefix p (q @ ''.'')"
      using that str_less_append [of _ q] by (auto simp: HasPrefix_iff)
    ultimately show ?thesis by (auto simp: apart_def prefix_parts)
  qed
  with Cons show ?case by auto
qed simp

lemma GetNestedValue_walk: "p \<noteq> [] \<Longrightarrow> GetNestedValue doc p = walkPath (JObject doc) (parts_of p)"
  by (simp add: GetNestedValue_def)

lemma fill_defaults_other:
  "fill_defaults doc defaults paths = Some doc' \<Longrightarrow> list_all (apart q) paths \<Longrightarrow>
     GetNestedValue doc' q = GetNestedValue doc q"
proof (induction doc defaults paths rule: fill_defaults.induct)
  case (2 doc defaults path paths)
  show ?case
  proof (cases "GetNestedValue doc path")
    case None
    then obtain doc1 where d: "SetNestedValue doc path (the (map_of defaults path)) = Some doc1"
      and f: "fill_defaults doc1 defaults paths = Some doc'"
      using "2.prems"(1) by (auto split: option.splits)
    have "GetNestedValue doc1 q = GetNestedValue doc q"
      using d set_parts_other "2.prems"(2)
      by (auto simp: SetNestedValue_def GetNestedValue_def apart_def split: if_splits)
    then show ?thesis using "2.IH"(2) None d f "2.prems"(2) by simp
  qed (use 2 in auto)
qed simp

lemma fill_defaults_fills:
  assumes "fill_defaults doc defaults paths = Some doc'" and "sorted_wrt apart paths" and "p \<in> set paths"
  shows "GetNestedValue doc' p =
    (case GetNestedValue doc p of Some w \<Rightarrow> Some w | None \<Rightarrow> Some (the (map_of defaults p)))"
  using assms
proof (induction doc defaults paths rule: fill_defaults.induct)
  case (2 doc defaults path paths)
  have all: "list_all (apart path) paths" and s: "sorted_wrt apart paths"
    using "2.prems"(2) by (auto simp: list_all_iff)
  show ?case
  proof (cases "GetNestedValue doc path")
    case None
    then obtain doc1 where d: "SetNestedValue doc path (the (map_of defaults path)) = Some doc1"
      and f: "fill_defaults doc1 defaults paths = Some doc'"
      using "2.prems"(1) by (auto split: option.splits)
    show ?thesis
    proof (cases "p = path")
      case True
      have "GetNestedValue doc1 path = Some (the (map_of defaults path))"
        using d set_parts_walk by (auto simp: SetNestedValue_def GetNestedValue_def split: if_splits)
      then show ?thesis using fill_defaults_other [OF f all] None True by simp
    next
      case False
      then have p: "p \<in> set paths" "apart p path"
        using "2.prems"(3) all by (auto simp: list_all_iff apart_sym)
      have "GetNestedValue doc1 p = GetNestedValue doc p"
        using d set_parts_other p(2) by (auto simp: SetNestedValue_def GetNestedValue_def apart_def split: if_splits)
      then show ?thesis using "2.IH"(2) None d f s p by simp
    qed
  next
    case (Some w)
    show ?thesis
    proof (cases "p = path")
      case True
      then show ?thesis using fill_defaults_other [of doc defaults paths doc' path] "2.prems"(1) Some all by simp
    next
      case False
      then show ?thesis using 2 Some s by simp
    qed
  qed
qed simp

lemma fill_defaults_keeps:
  "fill_defaults doc defaults paths = Some doc' \<Longrightarrow> walkPath (JObject doc) qs = Some a \<Longrightarrow> \<not> is_object a \<Longrightarrow>
     walkPath (JObject doc') qs = Some a"
proof (induction doc defaults paths rule: fill_defaults.induct)
  case (2 doc defaults path paths)
  show ?case
  proof (cases "GetNestedValue doc path")
    case None
    then obtain doc1 where d: "SetNestedValue doc path (the (map_of defaults path)) = Some doc1"
      and f: "fill_defaults doc1 defaults paths = Some doc'"
      using "2.prems"(1) by (auto split: option.splits)
    have "walkPath (JObject doc1) qs = Some a"
      using d None set_parts_keeps "2.prems"(2,3)
      by (auto simp: SetNestedValue_def GetNestedValue_def split: if_splits)
    then show ?thesis using "2.IH"(2) None d f "2.prems"(3) by simp
  qed (use 2 in auto)
qed simp

section \<open>Merging\<close>

text \<open>
  \<open>json_ok\<close>: no key twice, at any depth. \<open>shadows v ps\<close>: the document \<open>v\<close> decides what is at \<open>ps\<close>, because
  it reaches that far or ends the path early with a value that is not an object.
\<close>

fun json_ok :: "json \<Rightarrow> bool" where
  "json_ok (JObject m) \<longleftrightarrow> distinct (map fst m) \<and> list_all (\<lambda>kv. json_ok (snd kv)) m"
| "json_ok (JArray xs) \<longleftrightarrow> list_all json_ok xs"
| "json_ok v \<longleftrightarrow> True"

abbreviation claims_ok :: "claims \<Rightarrow> bool" where
  "claims_ok m \<equiv> json_ok (JObject m)"

fun shadows :: "json \<Rightarrow> string list \<Rightarrow> bool" where
  "shadows v [] = True"
| "shadows (JObject m) (p # ps) = (case map_of m p of None \<Rightarrow> False | Some v \<Rightarrow> shadows v ps)"
| "shadows v (p # ps) = True"

lemma lookup_all: "list_all P m \<Longrightarrow> map_of m k = Some v \<Longrightarrow> P (k, v)"
  by (auto simp: list_all_iff dest: map_of_SomeD)

lemma claims_ok_lookup: "claims_ok m \<Longrightarrow> map_of m k = Some v \<Longrightarrow> json_ok v"
  by (auto dest: lookup_all)

definition overlay :: "json option \<Rightarrow> json \<Rightarrow> json" where
  "overlay d v =
     (case v of
        JObject sm \<Rightarrow> (case d of Some (JObject dm) \<Rightarrow> JObject (MergeNestedClaims dm sm) | _ \<Rightarrow> v)
      | _ \<Rightarrow> v)"

lemma MergeNestedClaims_Cons:
  "MergeNestedClaims dst ((k, v) # src) = MergeNestedClaims (AList.update k (overlay (map_of dst k) v) dst) src"
  by (simp add: overlay_def)

lemma MergeNestedClaims_lookup:
  "distinct (map fst src) \<Longrightarrow>
     map_of (MergeNestedClaims dst src) k =
       (case map_of src k of None \<Rightarrow> map_of dst k | Some v \<Rightarrow> Some (overlay (map_of dst k) v))"
proof (induction src arbitrary: dst)
  case (Cons kv src)
  obtain k' v' where kv: "kv = (k', v')" by (cases kv)
  have "map_of src k' = None" using Cons.prems kv by (auto simp: map_of_eq_None_iff)
  with Cons show ?case
    by (auto simp: kv MergeNestedClaims_Cons update_conv simp del: MergeNestedClaims.simps(2) split: option.splits)
qed simp

lemma overlay_atom [simp]: "\<not> is_object v \<Longrightarrow> overlay d v = v"
  by (cases v) (auto simp: overlay_def)

lemma overlay_new [simp]: "(\<And>dm. d \<noteq> Some (JObject dm)) \<Longrightarrow> overlay d v = v"
  by (cases v) (auto simp: overlay_def split: option.splits json.splits)

lemma not_shadows:
  "\<not> shadows v ps \<Longrightarrow> (\<exists>q qs sm. ps = q # qs \<and> v = JObject sm) \<and> walkPath v ps = None"
  by (induction v ps rule: shadows.induct) (auto split: option.splits)

text \<open>The value at a path after a merge, for everything that is not an object.\<close>

lemma MergeNestedClaims_walk:
  assumes "claims_ok src" and "\<not> is_object a" and "ps \<noteq> []"
  shows "walkPath (JObject (MergeNestedClaims dst src)) ps = Some a \<longleftrightarrow>
    (if shadows (JObject src) ps then walkPath (JObject src) ps else walkPath (JObject dst) ps) = Some a"
  using assms
proof (induction ps arbitrary: dst src)
  case (Cons p ps)
  have look: "map_of (MergeNestedClaims dst src) p =
      (case map_of src p of None \<Rightarrow> map_of dst p | Some v \<Rightarrow> Some (overlay (map_of dst p) v))"
    using MergeNestedClaims_lookup [of src dst p] Cons.prems(1) by simp
  show ?case
  proof (cases "map_of src p")
    case None
    then show ?thesis by (simp add: look)
  next
    case (Some v)
    have ok: "json_ok v" using claims_ok_lookup [OF Cons.prems(1) Some] .
    show ?thesis
    proof (cases "\<exists>sm dm. v = JObject sm \<and> map_of dst p = Some (JObject dm)")
      case True
      then obtain sm dm where v: "v = JObject sm" and d: "map_of dst p = Some (JObject dm)" by blast
      show ?thesis
      proof (cases "ps = []")
        case True
        with Some v d Cons.prems(2) show ?thesis by (auto simp: look overlay_def)
      next
        case False
        with Cons.IH [of sm dm] Cons.prems(2) ok v d Some show ?thesis by (simp add: look overlay_def)
      qed
    next
      case False
      then have o: "overlay (map_of dst p) v = v"
        by (metis is_object_iff overlay_atom overlay_new)
      have "walkPath v ps = None \<and> (case map_of dst p of None \<Rightarrow> None | Some w \<Rightarrow> walkPath w ps) = None"
        if n: "\<not> shadows v ps"
      proof -
        obtain q qs sm where "ps = q # qs" "v = JObject sm" using not_shadows [OF n] by blast
        then show ?thesis
          using not_shadows [OF n] False by (cases "map_of dst p") (auto simp: is_object_iff intro!: walkPath_atom)
      qed
      then show ?thesis using Some o by (auto simp: look)
    qed
  qed
qed simp

lemma clearPath_walk:
  assumes "ks \<noteq> []" and "\<not> is_object a"
  shows "walkPath (JObject (clearPath d ks)) qs = Some a \<longleftrightarrow> \<not> prefix ks qs \<and> walkPath (JObject d) qs = Some a"
  using assms
proof (induction d ks arbitrary: qs rule: clearPath.induct)
  case (2 dst k)
  then show ?case by (cases qs) (auto simp: delete_conv)
next
  case (3 dst k k' ks)
  show ?case
  proof (cases qs)
    case Nil
    with 3 show ?thesis by auto
  next
    case (Cons q qs')
    show ?thesis
    proof (cases "q = k \<and> (\<exists>m. map_of dst k = Some (JObject m))")
      case True
      then obtain m where "q = k" "map_of dst k = Some (JObject m)" by blast
      with "3.IH" "3.prems" Cons show ?thesis by (auto simp: update_conv)
    next
      case False
      have "walkPath v qs' = None" if "map_of dst k = Some v" "prefix (k' # ks) qs'" "q = k" for v
        using False that by (cases qs') (auto simp: is_object_iff)
      with False Cons show ?thesis by (auto simp: update_conv split: option.splits json.splits)
    qed
  qed
qed simp

lemma clear_all_walk:
  assumes "\<not> is_object a"
  shows "walkPath (JObject (foldl (\<lambda>d path. clearPath d (parts_of path)) dst rs)) qs = Some a \<longleftrightarrow>
    (\<forall>r\<in>set rs. \<not> prefix (parts_of r) qs) \<and> walkPath (JObject dst) qs = Some a"
  using assms by (induction rs arbitrary: dst) (auto simp: clearPath_walk)

section \<open>Well-formedness\<close>

text \<open>Every operation keeps the keys of each object distinct.\<close>

declare json_ok.simps(1) [simp del]

lemma claims_ok_def: "claims_ok m \<longleftrightarrow> distinct (map fst m) \<and> list_all (\<lambda>kv. json_ok (snd kv)) m"
  by (rule json_ok.simps(1))

lemma claims_ok_Cons: "claims_ok ((k, v) # m) \<longleftrightarrow> k \<notin> fst ` set m \<and> json_ok v \<and> claims_ok m"
  by (auto simp: claims_ok_def)

lemma list_all_update: "P (k, v) \<Longrightarrow> list_all P m \<Longrightarrow> list_all P (AList.update k v m)"
  by (induction m) auto

lemma claims_ok_Nil [simp]: "claims_ok []"
  by (simp add: claims_ok_def)

lemma claims_ok_update: "claims_ok m \<Longrightarrow> json_ok v \<Longrightarrow> claims_ok (AList.update k v m)"
  by (simp add: claims_ok_def distinct_update list_all_update)

lemma claims_ok_delete: "claims_ok m \<Longrightarrow> claims_ok (AList.delete k m)"
  by (auto simp: claims_ok_def AList.delete_eq list_all_iff distinct_map_filter)

lemma claims_ok_set_parts:
  "set_parts doc ks v = Some doc' \<Longrightarrow> claims_ok doc \<Longrightarrow> json_ok v \<Longrightarrow> claims_ok doc'"
proof (induction doc ks v arbitrary: doc' rule: set_parts.induct)
  case (2 doc k v)
  then show ?case using claims_ok_update by auto
next
  case (3 doc k k' ks v)
  have sub: "claims_ok m" if "map_of doc k = Some (JObject m)" for m
    using claims_ok_lookup [OF "3.prems"(2) that] .
  show ?case
  proof (cases "map_of doc k")
    case None
    then obtain m where "set_parts [] (k' # ks) v = Some m" "doc' = AList.update k (JObject m) doc"
      using "3.prems"(1) by auto
    then show ?thesis using "3.IH"(1) None "3.prems"(2,3) claims_ok_update by simp
  next
    case (Some w)
    then obtain m m' where "w = JObject m" "set_parts m (k' # ks) v = Some m'" "doc' = AList.update k (JObject m') doc"
      using "3.prems"(1) by (auto split: json.splits)
    then show ?thesis using "3.IH"(2) Some sub "3.prems"(2,3) claims_ok_update by simp
  qed
qed simp

lemma claims_ok_clearPath: "claims_ok d \<Longrightarrow> claims_ok (clearPath d ks)"
proof (induction d ks rule: clearPath.induct)
  case (2 dst k)
  then show ?case using claims_ok_delete by simp
next
  case (3 dst k k' ks)
  show ?case
  proof (cases "\<exists>m. map_of dst k = Some (JObject m)")
    case True
    then obtain m where m: "map_of dst k = Some (JObject m)" by blast
    then have "claims_ok (clearPath m (k' # ks))" using "3.IH" claims_ok_lookup [OF "3.prems"] by blast
    then show ?thesis using claims_ok_update [OF "3.prems"] m by simp
  next
    case False
    then show ?thesis using "3.prems" by (auto split: option.splits json.splits)
  qed
qed simp

lemma claims_ok_Merge: "claims_ok dst \<Longrightarrow> claims_ok src \<Longrightarrow> claims_ok (MergeNestedClaims dst src)"
proof (induction dst src rule: MergeNestedClaims.induct)
  case (2 dst k v src)
  have v: "json_ok v" and src: "claims_ok src" using "2.prems"(2) by (auto simp: claims_ok_Cons)
  have "json_ok (overlay (map_of dst k) v)"
  proof (cases "\<exists>sm dm. v = JObject sm \<and> map_of dst k = Some (JObject dm)")
    case True
    then obtain sm dm where sd: "v = JObject sm" "map_of dst k = Some (JObject dm)" by blast
    then have "claims_ok (MergeNestedClaims dm sm)"
      using "2.IH"(1) v claims_ok_lookup [OF "2.prems"(1)] by blast
    with sd show ?thesis by (simp add: overlay_def)
  next
    case False
    then have "overlay (map_of dst k) v = v" by (metis is_object_iff overlay_atom overlay_new)
    with v show ?thesis by simp
  qed
  then show ?case
    using "2.IH"(2) claims_ok_update [OF "2.prems"(1), of "overlay (map_of dst k) v" k] src
    by (simp add: overlay_def)
qed simp

lemma json_ok_walk: "json_ok v \<Longrightarrow> walkPath v ps = Some w \<Longrightarrow> json_ok w"
  by (induction v ps rule: walkPath.induct) (auto split: option.splits dest: claims_ok_lookup)

end
