(* ===== verification/ClaimsFilter.thy ===== *)
theory ClaimsFilter
  imports ClaimsLaws
begin

text \<open>
  The filter by declared claims, against its specification: \<open>declares\<close> says that a path of the document lies at
  or under a declared one, \<open>occurs\<close> which values a document holds at which path. What the filter lets
  through occurs in the document and is declared; when no declared path lies under another, that is all
  it drops.
\<close>

section \<open>What a document holds, and what is declared\<close>

text \<open>A path names the member of an object, or with the wildcard key some element of an array.\<close>

inductive occurs :: "json \<Rightarrow> string list \<Rightarrow> json \<Rightarrow> bool" where
  occurs_here: "\<not> is_object a \<Longrightarrow> (\<And>xs. a \<noteq> JArray xs) \<Longrightarrow> occurs a [] a"
| occurs_member: "map_of m k = Some v \<Longrightarrow> occurs v ks a \<Longrightarrow> occurs (JObject m) (k # ks) a"
| occurs_element: "e \<in> set xs \<Longrightarrow> occurs e ks a \<Longrightarrow> occurs (JArray xs) (arrayWildcardKey # ks) a"

inductive_simps occurs_object: "occurs (JObject m) ks a"
inductive_simps occurs_array: "occurs (JArray xs) ks a"

definition declares :: "claim_path list \<Rightarrow> string list \<Rightarrow> bool" where
  "declares vctm ks \<longleftrightarrow> (\<exists>p\<in>set vctm. p \<noteq> [] \<and> hd p \<noteq> None \<and> prefix (map seg_key p) ks)"

section \<open>The tree of declared paths\<close>

fun allows :: "allowNode \<Rightarrow> string list \<Rightarrow> bool" where
  "allows (AllowNode leaf children) [] = leaf"
| "allows (AllowNode leaf children) (k # ks) =
     (leaf \<or> (case map_of children k of None \<Rightarrow> False | Some n \<Rightarrow> allows n ks))"

fun tree_ok :: "allowNode \<Rightarrow> bool" where
  "tree_ok (AllowNode leaf children) \<longleftrightarrow>
     distinct (map fst children) \<and> list_all (\<lambda>kn. tree_ok (snd kn)) children"

lemma allows_fresh [simp]: "\<not> allows (AllowNode False []) ks"
  by (cases ks) auto

lemma allows_insert:
  "allows (insertAllowPath n path) ks \<longleftrightarrow> allows n ks \<or> prefix (map seg_key path) ks"
proof (induction n path arbitrary: ks rule: insertAllowPath.induct)
  case (1 leaf children)
  then show ?case by (cases ks) auto
next
  case (2 leaf children seg path)
  show ?case
  proof (cases ks)
    case (Cons k ks')
    then show ?thesis using 2 [OF refl refl, of ks'] by (auto simp: Let_def update_conv split: option.splits)
  qed (simp add: Let_def)
qed

lemma tree_ok_update:
  "tree_ok (AllowNode leaf children) \<Longrightarrow> tree_ok n \<Longrightarrow> tree_ok (AllowNode leaf (AList.update k n children))"
  by (induction children) (auto simp: dom_update)

lemma tree_ok_child: "tree_ok (AllowNode leaf children) \<Longrightarrow> map_of children k = Some n \<Longrightarrow> tree_ok n"
  by (auto dest: lookup_all)

lemma tree_ok_insert: "tree_ok n \<Longrightarrow> tree_ok (insertAllowPath n path)"
proof (induction n path rule: insertAllowPath.induct)
  case (2 leaf children seg path)
  have "tree_ok (case map_of children (seg_key seg) of None \<Rightarrow> AllowNode False [] | Some n \<Rightarrow> n)"
    using tree_ok_child [OF "2.prems"] by (auto split: option.splits)
  with 2 show ?case by (simp only: insertAllowPath.simps Let_def) (rule tree_ok_update; simp)
qed simp

lemma buildAllowTree_snoc:
  "buildAllowTree (ps @ [p]) =
     (if p = [] \<or> hd p = None then buildAllowTree ps else insertAllowPath (buildAllowTree ps) p)"
  by (simp add: buildAllowTree_def)

lemma buildAllowTree_allows: "allows (buildAllowTree ps) ks \<longleftrightarrow> declares ps ks"
proof (induction ps rule: rev_induct)
  case Nil
  then show ?case by (simp add: buildAllowTree_def declares_def)
next
  case (snoc p ps)
  then show ?case by (auto simp: buildAllowTree_snoc allows_insert declares_def)
qed

lemma buildAllowTree_ok: "tree_ok (buildAllowTree ps)"
proof (induction ps rule: rev_induct)
  case Nil
  then show ?case by (simp add: buildAllowTree_def)
next
  case (snoc p ps)
  then show ?case by (auto simp: buildAllowTree_snoc tree_ok_insert)
qed

section \<open>Only declared claims pass\<close>

lemma filter_children_lookup:
  "distinct (map fst cs) \<Longrightarrow>
     map_of (filter_children cs m) k =
       (if k = arrayWildcardKey then None
        else (case map_of cs k of
                None \<Rightarrow> None
              | Some n \<Rightarrow> (case map_of m k of None \<Rightarrow> None | Some v \<Rightarrow> filterValue n v)))"
proof (induction cs)
  case (Cons c cs)
  obtain k' n where c: "c = (k', n)" by (cases c)
  have "map_of cs k' = None" using Cons.prems c by (auto simp: map_of_eq_None_iff)
  with Cons show ?case by (auto simp: c split: option.splits)
qed simp

lemma allows_leaf [simp]: "allows (AllowNode True children) ks"
  by (cases ks) auto

lemma map_filter_in: "e \<in> set (List.map_filter f xs) \<longleftrightarrow> (\<exists>x\<in>set xs. f x = Some e)"
  by (force simp: map_filter_def)

text \<open>The three ways a value passes: whole, as an object cut down to its children, or element by element.\<close>

lemma filterValue_cases:
  assumes "filterValue (AllowNode leaf children) v = Some w"
  obtains (whole) "leaf" "w = v"
  | (object) m where "\<not> leaf" "v = JObject m" "w = JObject (filter_children children m)"
  | (array) tv wc where "v = JArray tv" "map_of children arrayWildcardKey = Some wc"
      "w = JArray (List.map_filter (filterValue wc) tv)"
  using assms by (cases v) (auto simp: Let_def split: if_splits option.splits)

lemma filter_children_sound:
  assumes "distinct (map fst children)" and "map_of (filter_children children m) k = Some x"
  obtains n v where "map_of children k = Some n" and "map_of m k = Some v" and "filterValue n v = Some x"
  using assms by (auto simp: filter_children_lookup split: if_splits option.splits)

lemma filter_children_occurs:
  assumes "tree_ok (AllowNode leaf children)" and "occurs (JObject (filter_children children m)) ks a"
    and IH: "\<And>n v w ks'. length ks' < length ks \<Longrightarrow> tree_ok n \<Longrightarrow> filterValue n v = Some w \<Longrightarrow>
      occurs w ks' a \<Longrightarrow> occurs v ks' a \<and> allows n ks'"
  shows "occurs (JObject m) ks a \<and> allows (AllowNode leaf children) ks"
proof -
  obtain k ks' x where ks: "ks = k # ks'" and x: "map_of (filter_children children m) k = Some x" "occurs x ks' a"
    using assms(2) by (auto simp: occurs_object)
  have "distinct (map fst children)" using assms(1) by simp
  then obtain n v where n: "map_of children k = Some n" and v: "map_of m k = Some v" and f: "filterValue n v = Some x"
    using x(1) by (rule filter_children_sound)
  have "occurs v ks' a \<and> allows n ks'"
    using IH [OF _ tree_ok_child [OF assms(1) n] f x(2)] ks by simp
  then show ?thesis using n v ks by (auto intro: occurs_member)
qed

lemma filterValue_sound:
  "tree_ok n \<Longrightarrow> filterValue n v = Some w \<Longrightarrow> occurs w ks a \<Longrightarrow> occurs v ks a \<and> allows n ks"
proof (induction ks arbitrary: n v w rule: length_induct)
  case (1 ks)
  obtain leaf children where n: "n = AllowNode leaf children" by (cases n)
  have IH: "occurs v ks' a \<and> allows n ks'"
    if "length ks' < length ks" "tree_ok n" "filterValue n v = Some w" "occurs w ks' a" for n v w ks'
    using 1(1) that by blast
  from 1(3) [unfolded n] show ?case
  proof (cases rule: filterValue_cases)
    case whole
    with 1(4) n show ?thesis by simp
  next
    case (object m)
    then show ?thesis using filter_children_occurs [OF 1(2) [unfolded n] _ IH] 1(4) n by simp
  next
    case (array tv wc)
    obtain e ks' where e: "e \<in> set (List.map_filter (filterValue wc) tv)" "occurs e ks' a" "ks = arrayWildcardKey # ks'"
      using 1(4) by (auto simp: array occurs_array)
    then obtain x where x: "x \<in> set tv" "filterValue wc x = Some e" by (auto simp: map_filter_in)
    have "occurs x ks' a \<and> allows wc ks'"
      using IH [OF _ tree_ok_child [OF 1(2) [unfolded n] array(2)] x(2) e(2)] e(3) by simp
    then show ?thesis using x(1) array n e(3) by (auto intro: occurs_element)
  qed
qed

lemma FilterAgainstVCTM_only:
  assumes "occurs (JObject (FilterAgainstVCTM doc (Some vctm))) ks a"
  shows "occurs (JObject doc) ks a \<and> declares vctm ks"
proof -
  obtain leaf children where t: "buildAllowTree vctm = AllowNode leaf children" by (cases "buildAllowTree vctm")
  have ok: "tree_ok (AllowNode leaf children)" using buildAllowTree_ok [of vctm] t by simp
  have "occurs (JObject doc) ks a \<and> allows (AllowNode leaf children) ks"
    using assms filter_children_occurs [OF ok _ filterValue_sound]
    by (cases leaf) (auto simp: FilterAgainstVCTM_def t Let_def)
  then show ?thesis using buildAllowTree_allows [of vctm ks] t by simp
qed

section \<open>Declared claims pass\<close>

text \<open>
  A node that ends a declared path and has children is where the filter and the declarations part. \<open>lean\<close>
  excludes it. A member whose name is the wildcard key is skipped by the filter; \<open>starless\<close> excludes it.
\<close>

fun lean :: "allowNode \<Rightarrow> bool" where
  "lean (AllowNode leaf children) \<longleftrightarrow> (leaf \<longrightarrow> children = []) \<and> list_all (\<lambda>kn. lean (snd kn)) children"

fun starless :: "json \<Rightarrow> bool" where
  "starless (JObject m) \<longleftrightarrow> list_all (\<lambda>kv. fst kv \<noteq> arrayWildcardKey \<and> starless (snd kv)) m"
| "starless (JArray xs) \<longleftrightarrow> list_all starless xs"
| "starless v \<longleftrightarrow> True"

lemma lean_child: "lean (AllowNode leaf children) \<Longrightarrow> map_of children k = Some n \<Longrightarrow> lean n"
  by (auto dest: lookup_all)

lemma starless_member: "starless (JObject m) \<Longrightarrow> map_of m k = Some v \<Longrightarrow> k \<noteq> arrayWildcardKey \<and> starless v"
  by (auto dest: lookup_all)

lemma filter_children_complete:
  assumes "tree_ok (AllowNode leaf children)" and "starless (JObject m)" and "map_of children k = Some n"
    and "map_of m k = Some v" and "filterValue n v = Some x" and "occurs x ks a"
  shows "occurs (JObject (filter_children children m)) (k # ks) a" and "filter_children children m \<noteq> []"
proof -
  have "map_of (filter_children children m) k = Some x"
    using assms starless_member [OF assms(2,4)] by (simp add: filter_children_lookup)
  then show "occurs (JObject (filter_children children m)) (k # ks) a" "filter_children children m \<noteq> []"
    using assms(6) by (auto intro: occurs_member)
qed

lemma filterValue_complete:
  "tree_ok n \<Longrightarrow> lean n \<Longrightarrow> starless v \<Longrightarrow> occurs v ks a \<Longrightarrow> allows n ks \<Longrightarrow>
     \<exists>w. filterValue n v = Some w \<and> occurs w ks a"
proof (induction ks arbitrary: n v)
  case Nil
  then show ?case by (cases n) auto
next
  case (Cons k ks)
  obtain leaf children where n: "n = AllowNode leaf children" by (cases n)
  show ?case
  proof (cases leaf)
    case True
    with Cons.prems n show ?thesis by auto
  next
    case False
    then obtain n' where n': "map_of children k = Some n'" "allows n' ks"
      using Cons.prems(5) n by (auto split: option.splits)
    note sub = tree_ok_child [OF Cons.prems(1) [unfolded n] n'(1)] lean_child [OF Cons.prems(2) [unfolded n] n'(1)]
    show ?thesis
    proof (cases v)
      case (JObject m)
      then obtain v' where v': "map_of m k = Some v'" "occurs v' ks a"
        using Cons.prems(4) by (auto simp: occurs_object)
      then obtain w where w: "filterValue n' v' = Some w" "occurs w ks a"
        using Cons.IH [OF sub _ _ n'(2)] starless_member Cons.prems(3) JObject by blast
      then show ?thesis
        using filter_children_complete [OF Cons.prems(1) [unfolded n] _ n'(1) v'(1) w] Cons.prems(3) JObject False n
        by (simp add: Let_def)
    next
      case (JArray tv)
      then obtain e where e: "e \<in> set tv" "occurs e ks a" "k = arrayWildcardKey"
        using Cons.prems(4) by (auto simp: occurs_array)
      then obtain w where w: "filterValue n' e = Some w" "occurs w ks a"
        using Cons.IH [OF sub _ _ n'(2)] Cons.prems(3) JArray by (auto simp: list_all_iff)
      then have "w \<in> set (List.map_filter (filterValue n') tv)" using e(1) by (auto simp: map_filter_in)
      then show ?thesis using w(2) e(3) n' JArray False n by (auto simp: Let_def intro: occurs_element)
    qed (use Cons.prems(4) in \<open>auto elim: occurs.cases\<close>)
  qed
qed

text \<open>The nodes of the tree: one for each beginning of a declared path, a leaf where a path ends.\<close>

fun has_node :: "allowNode \<Rightarrow> string list \<Rightarrow> bool" where
  "has_node n [] = True"
| "has_node (AllowNode leaf children) (k # ks) =
     (case map_of children k of None \<Rightarrow> False | Some n \<Rightarrow> has_node n ks)"

fun ends :: "allowNode \<Rightarrow> string list \<Rightarrow> bool" where
  "ends (AllowNode leaf children) [] = leaf"
| "ends (AllowNode leaf children) (k # ks) = (case map_of children k of None \<Rightarrow> False | Some n \<Rightarrow> ends n ks)"

lemma fresh_node [simp]: "has_node (AllowNode False []) ks \<longleftrightarrow> ks = []" "\<not> ends (AllowNode False []) ks"
  by (cases ks; simp)+

lemma has_node_insert: "has_node (insertAllowPath n path) ks \<longleftrightarrow> has_node n ks \<or> prefix ks (map seg_key path)"
proof (induction n path arbitrary: ks rule: insertAllowPath.induct)
  case (1 leaf children)
  then show ?case by (cases ks) auto
next
  case (2 leaf children seg path)
  show ?case
  proof (cases ks)
    case (Cons k ks')
    then show ?thesis using 2 [OF refl refl, of ks'] by (auto simp: Let_def update_conv split: option.splits)
  qed simp
qed

lemma ends_insert: "ends (insertAllowPath n path) ks \<longleftrightarrow> ends n ks \<or> ks = map seg_key path"
proof (induction n path arbitrary: ks rule: insertAllowPath.induct)
  case (1 leaf children)
  then show ?case by (cases ks) auto
next
  case (2 leaf children seg path)
  show ?case
  proof (cases ks)
    case (Cons k ks')
    then show ?thesis using 2 [OF refl refl, of ks'] by (auto simp: Let_def update_conv split: option.splits)
  qed (simp add: Let_def)
qed

definition usable :: "claim_path list \<Rightarrow> string list set" where
  "usable ps = {map seg_key p |p. p \<in> set ps \<and> p \<noteq> [] \<and> hd p \<noteq> None}"

lemma usable_snoc: "usable (ps @ [p]) = (if p = [] \<or> hd p = None then usable ps else insert (map seg_key p) (usable ps))"
  by (auto simp: usable_def)

lemma buildAllowTree_nodes:
  "has_node (buildAllowTree ps) ks \<longleftrightarrow> ks = [] \<or> (\<exists>p\<in>usable ps. prefix ks p)"
  "ends (buildAllowTree ps) ks \<longleftrightarrow> ks \<in> usable ps"
proof (induction ps rule: rev_induct)
  case Nil
  case 1 show ?case by (simp add: buildAllowTree_def usable_def)
  case 2 show ?case by (simp add: buildAllowTree_def usable_def)
next
  case (snoc p ps)
  case 1 show ?case using snoc(1) by (auto simp: buildAllowTree_snoc usable_snoc has_node_insert)
  case 2 show ?case using snoc(2) by (auto simp: buildAllowTree_snoc usable_snoc ends_insert)
qed

lemma leanI:
  "tree_ok n \<Longrightarrow> (\<And>ks k. ends n ks \<Longrightarrow> \<not> has_node n (ks @ [k])) \<Longrightarrow> lean n"
proof (induction n rule: lean.induct)
  case (1 leaf children)
  have "children = []" if leaf
  proof (cases children)
    case (Cons c cs)
    then show ?thesis using "1.prems"(2) [of "[]" "fst c"] that by simp
  qed simp
  moreover have "lean n'" if c: "(k, n') \<in> set children" for k n'
  proof -
    have m: "map_of children k = Some n'" using c "1.prems"(1) by simp
    show ?thesis
    proof (rule "1.IH" [OF c, unfolded snd_conv])
      show "tree_ok n'" using tree_ok_child [OF "1.prems"(1) m] .
      show "\<not> has_node n' (ks @ [l])" if "ends n' ks" for ks l
        using "1.prems"(2) [of "k # ks" l] m that by simp
    qed
  qed
  ultimately show ?case by (auto simp: list_all_iff)
qed

text \<open>No declared path lies under another.\<close>

definition prefix_free :: "claim_path list \<Rightarrow> bool" where
  "prefix_free ps \<longleftrightarrow>
     list_all (\<lambda>p. list_all (\<lambda>q. p = [] \<or> q = [] \<or> \<not> strict_prefix (map seg_key p) (map seg_key q)) ps) ps"

lemma prefix_free_lean: "prefix_free ps \<Longrightarrow> lean (buildAllowTree ps)"
proof (rule leanI [OF buildAllowTree_ok])
  fix ks k
  assume f: "prefix_free ps" and e: "ends (buildAllowTree ps) ks"
  have "\<not> strict_prefix ks q" if "q \<in> usable ps" for q
    using f that e by (auto simp: buildAllowTree_nodes usable_def prefix_free_def list_all_iff)
  moreover have "strict_prefix ks q" if "prefix (ks @ [k]) q" for q
    using that by (auto simp: strict_prefix_def prefix_def)
  ultimately show "\<not> has_node (buildAllowTree ps) (ks @ [k])"
    using buildAllowTree_nodes(1) [of ps "ks @ [k]"] by blast
qed

lemma FilterAgainstVCTM_all:
  assumes "prefix_free vctm" and "starless (JObject doc)" and "occurs (JObject doc) ks a" and "declares vctm ks"
  shows "occurs (JObject (FilterAgainstVCTM doc (Some vctm))) ks a"
proof -
  obtain leaf children where t: "buildAllowTree vctm = AllowNode leaf children" by (cases "buildAllowTree vctm")
  have "\<not> leaf" using buildAllowTree_nodes(2) [of vctm "[]"] t by (auto simp: usable_def)
  moreover obtain w where "filterValue (AllowNode leaf children) (JObject doc) = Some w" "occurs w ks a"
    using filterValue_complete [OF buildAllowTree_ok prefix_free_lean [OF assms(1)] assms(2,3)]
      buildAllowTree_allows [of vctm ks] assms(4) unfolding t by blast
  ultimately show ?thesis by (auto simp: FilterAgainstVCTM_def t Let_def split: if_splits)
qed

end
