(* ===== verification/ClaimsProps.thy ===== *)
theory ClaimsProps
  imports ClaimsFilter
begin

text \<open>
  The guarantees of the operations on claims, and the one declaration the filter does not follow.
\<close>

text \<open>
  C26: a value set at a dotted path is read back from it, and every path that lies neither inside it nor around
  it reads as before.
\<close>

theorem nested_value_roundtrip:
  assumes "SetNestedValue doc path value = Some doc'"
  shows "GetNestedValue doc' path = Some value \<and> (\<forall>q. apart path q \<longrightarrow> GetNestedValue doc' q = GetNestedValue doc q)"
proof -
  have s: "path \<noteq> []" "set_parts doc (parts_of path) value = Some doc'"
    using assms by (auto simp: SetNestedValue_def split: if_splits)
  then have "GetNestedValue doc' q = GetNestedValue doc q" if "apart path q" for q
    using that set_parts_other [OF s(2), of "parts_of q"] by (auto simp: GetNestedValue_def apart_def)
  then show ?thesis using s set_parts_walk by (auto simp: GetNestedValue_def)
qed

theorem nested_value_roundtrip_witness:
  "GetNestedValue [(''id'', JObject [(''a'', JNull), (''b'', JBool True)])] ''id.b'' = Some (JBool True)"
proof -
  have "SetNestedValue [(''id'', JObject [(''a'', JNull)])] ''id.b'' (JBool True) =
      Some [(''id'', JObject [(''a'', JNull), (''b'', JBool True)])]"
    by code_simp
  from nested_value_roundtrip [OF this] show ?thesis by blast
qed

text \<open>
  C25: merging defaults into a document gives every default path its value when the document has none there,
  and changes no value the document has.
\<close>

theorem defaults_fill_gaps_only:
  assumes "MergeDefaults doc defaults = Some doc'" and "distinct (map fst defaults)"
  shows "(\<forall>p v. map_of defaults p = Some v \<longrightarrow>
            GetNestedValue doc' p = Some (case GetNestedValue doc p of Some w \<Rightarrow> w | None \<Rightarrow> v)) \<and>
         (\<forall>ps a. walkPath (JObject doc) ps = Some a \<longrightarrow> \<not> is_object a \<longrightarrow> walkPath (JObject doc') ps = Some a)"
proof -
  let ?paths = "sort_strings (map fst defaults)"
  have no: "\<not> overlapping ?paths" and fill: "fill_defaults doc defaults ?paths = Some doc'"
    using assms(1) by (auto simp: MergeDefaults_def Let_def split: if_splits)
  have ap: "sorted_wrt apart ?paths"
    using not_overlapping_apart [OF no sorted_sort_strings] assms(2) by (simp add: distinct_sort_strings)
  have "GetNestedValue doc' p = Some (case GetNestedValue doc p of Some w \<Rightarrow> w | None \<Rightarrow> v)"
    if "map_of defaults p = Some v" for p v
  proof -
    have "p \<in> set ?paths" using map_of_SomeD [OF that] by force
    from fill_defaults_fills [OF fill ap this] show ?thesis by (auto simp: that split: option.splits)
  qed
  then show ?thesis using fill_defaults_keeps [OF fill] by blast
qed

theorem defaults_fill_gaps_only_witness:
  "GetNestedValue [(''id'', JObject [(''name'', JString ''A''), (''country'', JString ''SE'')])] ''id.country'' =
     Some (JString ''SE'')"
proof -
  have "MergeDefaults [(''id'', JObject [(''name'', JString ''A'')])] [(''id.country'', JString ''SE'')] =
      Some [(''id'', JObject [(''name'', JString ''A''), (''country'', JString ''SE'')])]"
    by code_simp
  moreover have "distinct (map fst [(''id.country'', JString ''SE'')])" by simp
  ultimately have "\<forall>p v. map_of [(''id.country'', JString ''SE'')] p = Some v \<longrightarrow>
      GetNestedValue [(''id'', JObject [(''name'', JString ''A''), (''country'', JString ''SE'')])] p =
        Some (case GetNestedValue [(''id'', JObject [(''name'', JString ''A'')])] p of Some w \<Rightarrow> w | None \<Rightarrow> v)"
    by (rule defaults_fill_gaps_only [THEN conjunct1])
  moreover have "GetNestedValue [(''id'', JObject [(''name'', JString ''A'')])] ''id.country'' = None" by code_simp
  ultimately show ?thesis by fastforce
qed

text \<open>
  C24: merging the output of derivations into a document takes a value from the output wherever the output
  decides the path, and otherwise keeps the document's value, except under a path that a copy replaced.
\<close>

theorem derived_overlay_exact:
  assumes "claims_ok derived" and "\<not> is_object a" and "ps \<noteq> []"
  shows "walkPath (JObject (MergeDerived dst derived replaced)) ps = Some a \<longleftrightarrow>
    (if shadows (JObject derived) ps then walkPath (JObject derived) ps = Some a
     else (\<forall>r\<in>set replaced. \<not> prefix (parts_of r) ps) \<and> walkPath (JObject dst) ps = Some a)"
  using MergeNestedClaims_walk [OF assms] clear_all_walk [OF assms(2)] by (simp add: MergeDerived_def)

theorem derived_overlay_exact_witness:
  "walkPath (JObject (MergeDerived [(''home'', JObject [(''city'', JString ''A''), (''zip'', JString ''1'')])]
     [(''home'', JObject [(''city'', JString ''B'')])] [''home''])) [''home'', ''zip''] \<noteq> Some (JString ''1'')"
proof -
  have "claims_ok [(''home'', JObject [(''city'', JString ''B'')])]" by (simp add: claims_ok_def)
  from derived_overlay_exact [OF this, of "JString ''1''" "[''home'', ''zip'']"
      "[(''home'', JObject [(''city'', JString ''A''), (''zip'', JString ''1'')])]" "[''home'']"]
  show ?thesis by (simp add: parts_of_def prefix_def)
qed

text \<open>
  C23: the filter by a credential type's declared claims lets through only values that the document holds and a
  declared path covers, whatever the document and the declarations are; and when no declared path lies under
  another and no member is called like the wildcard, it lets through all of those.
\<close>

theorem filter_passes_declared_claims:
  "(occurs (JObject (FilterAgainstVCTM doc (Some vctm))) ks a \<longrightarrow> occurs (JObject doc) ks a \<and> declares vctm ks) \<and>
   (prefix_free vctm \<and> starless (JObject doc) \<longrightarrow>
      (occurs (JObject (FilterAgainstVCTM doc (Some vctm))) ks a \<longleftrightarrow> occurs (JObject doc) ks a \<and> declares vctm ks))"
  using FilterAgainstVCTM_only FilterAgainstVCTM_all by blast

definition address_doc :: claims where
  "address_doc =
     [(''name'', JString ''A''),
      (''address'', JObject [(''city'', JString ''B''), (''street'', JString ''C'')]),
      (''degrees'', JArray [JObject [(''type'', JString ''MSc''), (''year'', JString ''2020'')]])]"

theorem filter_passes_declared_claims_witness:
  "occurs (JObject (FilterAgainstVCTM address_doc (Some [[Some ''address'', Some ''city'']])))
     [''address'', ''city''] (JString ''B'') \<and>
   \<not> occurs (JObject (FilterAgainstVCTM address_doc (Some [[Some ''address'', Some ''city'']])))
     [''address'', ''street''] (JString ''C'')"
proof -
  let ?vctm = "[[Some ''address'', Some ''city'']]"
  have p: "prefix_free ?vctm \<and> starless (JObject address_doc)"
    by (simp add: prefix_free_def address_doc_def arrayWildcardKey_def strict_prefix_def)
  have o: "occurs (JObject address_doc) [''address'', ''city''] (JString ''B'')"
    by (auto simp: address_doc_def intro!: occurs.intros)
  have d: "declares ?vctm [''address'', ''city'']" "\<not> declares ?vctm [''address'', ''street'']"
    by (auto simp: declares_def seg_key_def)
  show ?thesis using filter_passes_declared_claims [of address_doc ?vctm] p o d by blast
qed

text \<open>
  The restriction on nested declarations is needed. With both the array \<^verbatim>\<open>degrees\<close> and the type of its elements
  declared, the filter keeps only the types, although a comment in \<^verbatim>\<open>filterValue\<close> promises that the shorter
  path wins and the whole value is allowed; for objects it does.
\<close>

theorem declared_array_is_cut:
  "declares [[Some ''degrees''], [Some ''degrees'', None, Some ''type'']] [''degrees'', arrayWildcardKey, ''year''] \<and>
   FilterAgainstVCTM address_doc (Some [[Some ''degrees''], [Some ''degrees'', None, Some ''type'']]) =
     [(''degrees'', JArray [JObject [(''type'', JString ''MSc'')]])] \<and>
   FilterAgainstVCTM address_doc (Some [[Some ''address''], [Some ''address'', Some ''city'']]) =
     [(''address'', JObject [(''city'', JString ''B''), (''street'', JString ''C'')])]"
proof -
  have "declares [[Some ''degrees''], [Some ''degrees'', None, Some ''type'']] [''degrees'', arrayWildcardKey, ''year'']"
    by (simp add: declares_def seg_key_def)
  moreover have "FilterAgainstVCTM address_doc (Some [[Some ''degrees''], [Some ''degrees'', None, Some ''type'']]) =
     [(''degrees'', JArray [JObject [(''type'', JString ''MSc'')]])]" by code_simp
  moreover have "FilterAgainstVCTM address_doc (Some [[Some ''address''], [Some ''address'', Some ''city'']]) =
     [(''address'', JObject [(''city'', JString ''B''), (''street'', JString ''C'')])]" by code_simp
  ultimately show ?thesis by simp
qed

end
