(* ===== verification/Dates.thy ===== *)
theory Dates
  imports Prelude
begin

text \<open>
  Calendar dates as the sources use Go's package \<^verbatim>\<open>time\<close>: parsing and formatting of full dates
  (\<^verbatim>\<open>2006-01-02\<close>, \<^verbatim>\<open>20060102\<close>) and of RFC 3339 date-times, and the order of dates. A date is a triple of year,
  month and day. The calendar is the proleptic Gregorian one, as Go's.
\<close>

type_synonym date = "int \<times> int \<times> int"

definition is_leap :: "int \<Rightarrow> bool" where
  "is_leap y \<longleftrightarrow> y mod 4 = 0 \<and> (y mod 100 \<noteq> 0 \<or> y mod 400 = 0)"

definition daysIn :: "int \<Rightarrow> int \<Rightarrow> int" where
  "daysIn m y =
     (if m = 2 then (if is_leap y then 29 else 28)
      else if m = 4 \<or> m = 6 \<or> m = 9 \<or> m = 11 then 30 else 31)"

definition valid_date :: "date \<Rightarrow> bool" where
  "valid_date dt = (case dt of (y, m, d) \<Rightarrow> 1 \<le> m \<and> m \<le> 12 \<and> 1 \<le> d \<and> d \<le> daysIn m y)"

text \<open>The chronological order of dates is the lexicographic one.\<close>

definition date_le :: "date \<Rightarrow> date \<Rightarrow> bool" where
  "date_le a b =
     (case (a, b) of ((y, m, d), (y', m', d')) \<Rightarrow>
        y < y' \<or> y = y' \<and> (m < m' \<or> m = m' \<and> d \<le> d'))"

text \<open>Days since 1 January 1970, and the instant a date begins in UTC.\<close>

definition days_before_year :: "int \<Rightarrow> int" where
  "days_before_year y = 365 * y + (y - 1) div 4 - (y - 1) div 100 + (y - 1) div 400"

definition days_before_month :: "int \<Rightarrow> int \<Rightarrow> int" where
  "days_before_month m y = sum_list (map (\<lambda>k. daysIn (int k) y) [1..<nat m])"

definition day_number :: "date \<Rightarrow> int" where
  "day_number dt =
     (case dt of (y, m, d) \<Rightarrow>
        days_before_year y - days_before_year 1970 + days_before_month m y + (d - 1))"

definition midnight :: "date \<Rightarrow> time" where
  "midnight dt = day_number dt * 86400 * second"

section \<open>Digits\<close>

definition digit_val :: "char \<Rightarrow> int" where
  "digit_val c = int (of_char c :: nat) - 48"

definition dec_val :: "string \<Rightarrow> int option" where
  "dec_val s = (if s \<noteq> [] \<and> list_all is_digit s then Some (foldl (\<lambda>n c. 10 * n + digit_val c) 0 s) else None)"

definition digit_char :: "int \<Rightarrow> char" where
  "digit_char n = char_of (nat n + 48)"

definition pad2 :: "int \<Rightarrow> string" where
  "pad2 n = [digit_char (n div 10), digit_char (n mod 10)]"

definition pad4 :: "int \<Rightarrow> string" where
  "pad4 n = [digit_char (n div 1000), digit_char (n div 100 mod 10), digit_char (n div 10 mod 10), digit_char (n mod 10)]"

section \<open>Parsing and formatting\<close>

text \<open>\<^verbatim>\<open>time.Parse\<close> with a layout of four, two and two digits: fixed widths, and the day must exist.\<close>

definition civil :: "string \<Rightarrow> string \<Rightarrow> string \<Rightarrow> date option" where
  "civil ys ms ds =
     (case (dec_val ys, dec_val ms, dec_val ds) of
        (Some y, Some m, Some d) \<Rightarrow> if valid_date (y, m, d) then Some (y, m, d) else None
      | _ \<Rightarrow> None)"

definition parse_DateOnly :: "string \<Rightarrow> date option" where
  "parse_DateOnly s =
     (if length s = 10 \<and> s ! 4 = CHR ''-'' \<and> s ! 7 = CHR ''-''
      then civil (take 4 s) (take 2 (drop 5 s)) (drop 8 s) else None)"

definition parse_compact :: "string \<Rightarrow> date option" where
  "parse_compact s = (if length s = 8 then civil (take 4 s) (take 2 (drop 4 s)) (drop 6 s) else None)"

text \<open>\<^verbatim>\<open>t.Format("2006-01-02")\<close> for a year of four digits.\<close>

definition format_DateOnly :: "date \<Rightarrow> string" where
  "format_DateOnly dt = (case dt of (y, m, d) \<Rightarrow> pad4 y @ ''-'' @ pad2 m @ ''-'' @ pad2 d)"

text \<open>
  \<^verbatim>\<open>time.Parse(time.RFC3339, s)\<close>, reduced to what the sources take from it, the date in UTC. The hour may have one
  digit, a fraction of a second may follow, and the zone is \<^verbatim>\<open>Z\<close> or an offset whose limits are those of Go.
\<close>

definition next_day :: "date \<Rightarrow> date" where
  "next_day dt =
     (case dt of (y, m, d) \<Rightarrow>
        if d < daysIn m y then (y, m, d + 1) else if m < 12 then (y, m + 1, 1) else (y + 1, 1, 1))"

definition prev_day :: "date \<Rightarrow> date" where
  "prev_day dt =
     (case dt of (y, m, d) \<Rightarrow>
        if 1 < d then (y, m, d - 1) else if 1 < m then (y, m - 1, daysIn (m - 1) y) else (y - 1, 12, 31))"

definition add_days :: "int \<Rightarrow> date \<Rightarrow> date" where
  "add_days k dt = (if 0 \<le> k then (next_day ^^ nat k) dt else (prev_day ^^ nat (- k)) dt)"

definition two_digits :: "string \<Rightarrow> (int \<times> string) option" where
  "two_digits s = (case dec_val (take 2 s) of
     Some n \<Rightarrow> if 2 \<le> length s then Some (n, drop 2 s) else None | None \<Rightarrow> None)"

definition hour_digits :: "string \<Rightarrow> (int \<times> string) option" where
  "hour_digits s =
     (case s of
        c # d # rest \<Rightarrow>
          if \<not> is_digit c then None
          else if is_digit d then Some (10 * digit_val c + digit_val d, rest) else Some (digit_val c, d # rest)
      | [c] \<Rightarrow> if is_digit c then Some (digit_val c, []) else None
      | [] \<Rightarrow> None)"

definition literal :: "char \<Rightarrow> string \<Rightarrow> string option" where
  "literal c s = (case s of x # rest \<Rightarrow> if x = c then Some rest else None | [] \<Rightarrow> None)"

definition skip_fraction :: "string \<Rightarrow> string" where
  "skip_fraction s =
     (case s of
        c # d # rest \<Rightarrow> if (c = CHR ''.'' \<or> c = CHR '','') \<and> is_digit d then dropWhile is_digit rest else s
      | _ \<Rightarrow> s)"

definition zone_offset :: "string \<Rightarrow> int option" where
  "zone_offset s =
     (if s = ''Z'' then Some 0
      else if length s = 6 \<and> s ! 3 = CHR '':'' \<and> (s ! 0 = CHR ''+'' \<or> s ! 0 = CHR ''-'')
      then (case (dec_val (take 2 (drop 1 s)), dec_val (drop 4 s)) of
              (Some h, Some m) \<Rightarrow>
                if h \<le> 24 \<and> m \<le> 60 then Some ((if s ! 0 = CHR ''-'' then - 1 else 1) * (h * 3600 + m * 60)) else None
            | _ \<Rightarrow> None)
      else None)"

definition parse_clock :: "string \<Rightarrow> (int \<times> string) option" where
  "parse_clock s =
     Option.bind (hour_digits s) (\<lambda>(h, s1). if 24 \<le> h then None else
     Option.bind (literal (CHR '':'') s1) (\<lambda>s2.
     Option.bind (two_digits s2) (\<lambda>(m, s3). if 60 \<le> m then None else
     Option.bind (literal (CHR '':'') s3) (\<lambda>s4.
     Option.bind (two_digits s4) (\<lambda>(sec, s5). if 60 \<le> sec then None else
       Some (h * 3600 + m * 60 + sec, skip_fraction s5))))))"

definition parse_RFC3339_utc :: "string \<Rightarrow> date option" where
  "parse_RFC3339_utc s =
     Option.bind (parse_DateOnly (take 10 s)) (\<lambda>dt.
     Option.bind (literal (CHR ''T'') (drop 10 s)) (\<lambda>rest.
     Option.bind (parse_clock rest) (\<lambda>(secs, rest').
     Option.bind (zone_offset rest') (\<lambda>off.
       Some (add_days ((secs - off) div 86400) dt)))))"

section \<open>Facts\<close>

lemma date_le_refl [simp]: "date_le a a"
  by (cases a) (simp add: date_le_def)

lemma date_le_trans: "date_le a b \<Longrightarrow> date_le b c \<Longrightarrow> date_le a c"
  by (cases a; cases b; cases c) (auto simp: date_le_def)

lemma date_le_antisym: "date_le a b \<Longrightarrow> date_le b a \<Longrightarrow> a = b"
  by (cases a; cases b) (auto simp: date_le_def)

lemma date_le_linear: "date_le a b \<or> date_le b a"
  by (cases a; cases b) (auto simp: date_le_def)

lemma digit_char_val: "0 \<le> n \<Longrightarrow> n \<le> 9 \<Longrightarrow> is_digit (digit_char n) \<and> digit_val (digit_char n) = n"
  by (auto simp: is_digit_def digit_val_def digit_char_def)

lemma digit_val_char: "is_digit c \<Longrightarrow> digit_char (digit_val c) = c"
  by (auto simp: is_digit_def digit_val_def digit_char_def nat_diff_distrib simp flip: of_nat_diff)

lemma dec_val_pad2: "0 \<le> n \<Longrightarrow> n \<le> 99 \<Longrightarrow> dec_val (pad2 n) = Some n"
  using digit_char_val [of "n div 10"] digit_char_val [of "n mod 10"] by (auto simp: dec_val_def pad2_def)

lemma positional: "n = 10 * p + d \<Longrightarrow> p = 10 * q + c \<Longrightarrow> q = 10 * r + b \<Longrightarrow> 1000 * r + 100 * b + 10 * c + d = (n :: int)"
  by simp

lemma dec_val_four:
  assumes "0 \<le> a" "a \<le> 9" "0 \<le> b" "b \<le> 9" "0 \<le> c" "c \<le> 9" "0 \<le> d" "d \<le> 9"
  shows "dec_val [digit_char a, digit_char b, digit_char c, digit_char d] = Some (1000 * a + 100 * b + 10 * c + d)"
  using digit_char_val [OF assms(1,2)] digit_char_val [OF assms(3,4)] digit_char_val [OF assms(5,6)]
    digit_char_val [OF assms(7,8)]
  by (simp add: dec_val_def)

lemma dec_val_pad4:
  assumes "0 \<le> n" and "n \<le> 9999"
  shows "dec_val (pad4 n) = Some n"
proof -
  have q: "n div 10 div 10 = n div 100" "n div 100 div 10 = n div 1000" by simp_all
  have s: "k = 10 * (k div 10) + k mod 10" for k :: int by (simp only: mult_div_mod_eq)
  have v: "1000 * (n div 1000) + 100 * (n div 100 mod 10) + 10 * (n div 10 mod 10) + n mod 10 = n"
    by (rule positional [OF s [of n] s [of "n div 10", unfolded q] s [of "n div 100", unfolded q]])
  have m: "0 \<le> k mod 10" "k mod 10 \<le> 9" for k :: int by simp_all
  have h: "0 \<le> n div 1000" "n div 1000 \<le> 9"
    using pos_imp_zdiv_nonneg_iff [of 1000 n] zdiv_mono1 [OF assms(2), of 1000] assms(1) by simp_all
  show ?thesis unfolding pad4_def dec_val_four [OF h m m m] v ..
qed

lemma daysIn_le: "daysIn m y \<le> 31"
  by (simp add: daysIn_def)

lemma parse_format_DateOnly:
  assumes "valid_date (y, m, d)" and "0 \<le> y" and "y \<le> 9999"
  shows "parse_DateOnly (format_DateOnly (y, m, d)) = Some (y, m, d)"
proof -
  have "0 \<le> m" "m \<le> 99" "0 \<le> d" "d \<le> 99"
    using assms(1) daysIn_le [of m y] by (auto simp: valid_date_def)
  then have v: "dec_val (pad4 y) = Some y" "dec_val (pad2 m) = Some m" "dec_val (pad2 d) = Some d"
    using assms by (auto simp: dec_val_pad2 dec_val_pad4)
  have l: "length (pad4 y) = 4" "length (pad2 m) = 2" "length (pad2 d) = 2" by (simp_all add: pad4_def pad2_def)
  show ?thesis
    using v l assms(1) by (simp add: parse_DateOnly_def format_DateOnly_def civil_def nth_append)
qed

lemma digit_val_bounds: "is_digit c \<Longrightarrow> 0 \<le> digit_val c \<and> digit_val c \<le> 9"
  by (auto simp: is_digit_def digit_val_def)

lemma pad2_dec_val:
  assumes "length s = 2" and "dec_val s = Some n"
  shows "pad2 n = s"
proof -
  obtain a b where s: "s = [a, b]" using assms(1) by (auto simp: numeral_2_eq_2 length_Suc_conv)
  have d: "is_digit a" "is_digit b" and n: "n = 10 * digit_val a + digit_val b"
    using assms(2) by (auto simp: s dec_val_def split: if_splits)
  have "n div 10 = digit_val a" "n mod 10 = digit_val b"
    using digit_val_bounds [OF d(2)] by (auto simp: n)
  then show ?thesis using d by (simp add: pad2_def s digit_val_char)
qed

lemma pad4_dec_val:
  assumes "length s = 4" and "dec_val s = Some n"
  shows "pad4 n = s"
proof -
  obtain a b c d where s: "s = [a, b, c, d]" using assms(1) by (auto simp: numeral_eq_Suc length_Suc_conv)
  have g: "is_digit a" "is_digit b" "is_digit c" "is_digit d"
    and n: "n = 1000 * digit_val a + 100 * digit_val b + 10 * digit_val c + digit_val d"
    using assms(2) by (auto simp: s dec_val_def split: if_splits)
  note bnd = g [THEN digit_val_bounds]
  have q1: "n div 1000 = digit_val a"
    by (rule int_div_pos_eq [where r = "100 * digit_val b + 10 * digit_val c + digit_val d"]) (use bnd n in auto)
  have q2: "n div 100 = 10 * digit_val a + digit_val b"
    by (rule int_div_pos_eq [where r = "10 * digit_val c + digit_val d"]) (use bnd n in auto)
  have q3: "n div 10 = 100 * digit_val a + 10 * digit_val b + digit_val c"
    by (rule int_div_pos_eq [where r = "digit_val d"]) (use bnd n in auto)
  have r1: "n div 100 mod 10 = digit_val b"
    unfolding q2 by (rule int_mod_pos_eq [where q = "digit_val a"]) (use bnd in auto)
  have r2: "n div 10 mod 10 = digit_val c"
    unfolding q3 by (rule int_mod_pos_eq [where q = "10 * digit_val a + digit_val b"]) (use bnd in auto)
  have r3: "n mod 10 = digit_val d"
    by (rule int_mod_pos_eq [where q = "100 * digit_val a + 10 * digit_val b + digit_val c"]) (use bnd n in auto)
  show ?thesis unfolding pad4_def q1 r1 r2 r3 s using g by (simp add: digit_val_char)
qed

lemma parse_compact_format:
  assumes "parse_compact s = Some dt"
  shows "format_DateOnly dt = take 4 s @ ''-'' @ take 2 (drop 4 s) @ ''-'' @ drop 6 s"
proof -
  obtain y m d where dt: "dt = (y, m, d)" by (cases dt)
  have l: "length s = 8" using assms by (auto simp: parse_compact_def split: if_splits)
  have v: "dec_val (take 4 s) = Some y" "dec_val (take 2 (drop 4 s)) = Some m" "dec_val (drop 6 s) = Some d"
    using assms by (auto simp: parse_compact_def civil_def dt split: if_splits option.splits)
  have "pad4 y = take 4 s" "pad2 m = take 2 (drop 4 s)" "pad2 d = drop 6 s"
    using pad4_dec_val [OF _ v(1)] pad2_dec_val [OF _ v(2)] pad2_dec_val [OF _ v(3)] l by simp_all
  then show ?thesis by (simp add: format_DateOnly_def dt)
qed

end
