(* ===== verification/Primitives.thy ===== *)
theory Primitives
  imports Claims Dates Base64
begin

text \<open>
  The claim derivations of \<^verbatim>\<open>src/pkg/credential/primitives\<close>: each computes new claims from those a source
  supplied. A derivation of the configuration sets one field of the struct \<^verbatim>\<open>Derivation\<close>; it is modelled by the list
  of the fields it sets, so that a malformed entry is one with no or several elements.

  Code outside the repository and the host are collected in \<open>Lib\<close>: the Unicode tables behind \<^verbatim>\<open>strings.ToLower\<close>,
  \<^verbatim>\<open>ToUpper\<close> and \<^verbatim>\<open>TrimSpace\<close> for strings that are not ASCII, the country names of \<^verbatim>\<open>biter777/countries\<close>, the
  calendar date of an instant in the time zone of the host, files, HKDF, HMAC and SHA-256. Random values are
  arguments, one per derivation of a list.
\<close>

record Lib =
  lb_lower :: "string \<Rightarrow> string"
  lb_upper :: "string \<Rightarrow> string"
  lb_trim :: "string \<Rightarrow> string"
  lb_alpha2 :: "string \<Rightarrow> string option"
  lb_alpha3 :: "string \<Rightarrow> string option"
  lb_local :: "time \<Rightarrow> date"
  lb_file :: "string \<Rightarrow> string option"
  lb_hkdf :: "bytes \<Rightarrow> bytes \<Rightarrow> nat \<Rightarrow> bytes option"
  lb_hmac :: "bytes \<Rightarrow> bytes \<Rightarrow> bytes"
  lb_sha256 :: "bytes \<Rightarrow> bytes"

text \<open>The random values of one derivation: a UUID, and bytes for a given length; \<open>None\<close> is a failing source.\<close>

record Rand =
  rd_uuid :: "string option"
  rd_bytes :: "nat \<Rightarrow> bytes option"

section \<open>Errors\<close>

text \<open>\<^verbatim>\<open>ErrInvalidClaimInput\<close> marks a fault of the claims; every other error is one of the configuration.\<close>

datatype deriv_error = ErrInvalidClaimInput | DerivationError

section \<open>Strings\<close>

definition is_ascii :: "string \<Rightarrow> bool" where
  "is_ascii s \<longleftrightarrow> list_all (\<lambda>c. (of_char c :: nat) < 128) s"

definition is_space :: "char \<Rightarrow> bool" where
  "is_space c \<longleftrightarrow> 9 \<le> (of_char c :: nat) \<and> (of_char c :: nat) \<le> 13 \<or> (of_char c :: nat) = 32"

definition LowerCase :: "Lib \<Rightarrow> string \<Rightarrow> string" where
  "LowerCase lb s = (if is_ascii s then map ascii_lower s else lb_lower lb s)"

definition UpperCase :: "Lib \<Rightarrow> string \<Rightarrow> string" where
  "UpperCase lb s = (if is_ascii s then map ascii_upper s else lb_upper lb s)"

definition Trim :: "Lib \<Rightarrow> string \<Rightarrow> string" where
  "Trim lb s = (if is_ascii s then rev (dropWhile is_space (rev (dropWhile is_space s))) else lb_trim lb s)"

definition CountryAlpha2 :: "Lib \<Rightarrow> string \<Rightarrow> string" where
  "CountryAlpha2 lb s = (case lb_alpha2 lb s of None \<Rightarrow> s | Some c \<Rightarrow> c)"

definition CountryAlpha3 :: "Lib \<Rightarrow> string \<Rightarrow> string" where
  "CountryAlpha3 lb s = (case lb_alpha3 lb s of None \<Rightarrow> s | Some c \<Rightarrow> c)"

section \<open>Claims by path\<close>

definition dotted :: "string \<Rightarrow> bool" where
  "dotted path \<longleftrightarrow> CHR ''.'' \<in> set path"

definition lookupClaim :: "claims \<Rightarrow> string \<Rightarrow> json option" where
  "lookupClaim cs path =
     (case map_of cs path of
        Some v \<Rightarrow> Some v
      | None \<Rightarrow> if dotted path then walkPath (JObject cs) (parts_of path) else None)"

definition setClaim :: "claims \<Rightarrow> string \<Rightarrow> json \<Rightarrow> deriv_error + claims" where
  "setClaim dst path v =
     (if path = [] then Inl DerivationError
      else if \<not> dotted path then Inr (AList.update path v dst)
      else (case set_parts dst (parts_of path) v of None \<Rightarrow> Inl DerivationError | Some d \<Rightarrow> Inr d))"

definition output_of :: "string \<Rightarrow> string \<Rightarrow> string" where
  "output_of input output = (if output = [] then input else output)"

text \<open>\<^verbatim>\<open>applyStringElementwise\<close>: a string, or the strings of an array; no claim is no output.\<close>

definition map_string :: "(string \<Rightarrow> string) \<Rightarrow> json \<Rightarrow> json" where
  "map_string f e = (case e of JString s \<Rightarrow> JString (f s) | _ \<Rightarrow> e)"

definition applyStringElementwise ::
  "string \<Rightarrow> string \<Rightarrow> claims \<Rightarrow> (string \<Rightarrow> string) \<Rightarrow> deriv_error + claims"
where
  "applyStringElementwise input output cs f =
     (case lookupClaim cs input of
        None \<Rightarrow> Inr []
      | Some (JString s) \<Rightarrow> setClaim [] (output_of input output) (JString (f s))
      | Some (JArray xs) \<Rightarrow> setClaim [] (output_of input output) (JArray (map (map_string f) xs))
      | Some _ \<Rightarrow> Inl DerivationError)"

section \<open>Ages\<close>

fun show_nat :: "nat \<Rightarrow> string" where
  "show_nat n = (if n < 10 then [char_of (n + 48)] else show_nat (n div 10) @ [char_of (n mod 10 + 48)])"

definition show_int :: "int \<Rightarrow> string" where
  "show_int n = (if n < 0 then ''-'' @ show_nat (nat (- n)) else show_nat (nat n))"

declare show_nat.simps [simp del]

definition age_over_key :: "int \<Rightarrow> string" where
  "age_over_key n = ''age_over_'' @ show_int n"

definition this_year_key :: "int \<Rightarrow> string" where
  "this_year_key n = ''over_'' @ show_int n @ ''_this_year''"

text \<open>Completed years between a birth date and the date of today.\<close>

definition age_at :: "date \<Rightarrow> date \<Rightarrow> int" where
  "age_at bd today =
     (case (bd, today) of ((y, m, d), (ny, nm, nd)) \<Rightarrow>
        if nm < m \<or> nm = m \<and> nd < d then ny - y - 1 else ny - y)"

definition AgeOverThresholds :: "Lib \<Rightarrow> string \<Rightarrow> time \<Rightarrow> int list \<Rightarrow> deriv_error + claims" where
  "AgeOverThresholds lb birthdate now thresholds =
     (if birthdate = [] then Inl ErrInvalidClaimInput
      else (case parse_DateOnly birthdate of
              None \<Rightarrow> Inl ErrInvalidClaimInput
            | Some bd \<Rightarrow>
                if midnight bd > now then Inl ErrInvalidClaimInput
                else
                  let today = lb_local lb now; age = age_at bd today; ageThisYear = fst today - fst bd in
                  Inr (foldl (\<lambda>out t.
                         AList.update (this_year_key t) (JBool (t \<le> ageThisYear))
                           (AList.update (age_over_key t) (JBool (t \<le> age)) out)) [] thresholds)))"

definition apply_age :: "Lib \<Rightarrow> string \<Rightarrow> int list \<Rightarrow> claims \<Rightarrow> time \<Rightarrow> deriv_error + claims" where
  "apply_age lb input thresholds cs now =
     (case map_of cs input of
        None \<Rightarrow> Inl DerivationError
      | Some (JString bd) \<Rightarrow> AgeOverThresholds lb bd now thresholds
      | Some _ \<Rightarrow> Inl ErrInvalidClaimInput)"

section \<open>Dates and assurance levels\<close>

definition YYYYMMDDToISO :: "string \<Rightarrow> deriv_error + string" where
  "YYYYMMDDToISO s = (case parse_compact s of None \<Rightarrow> Inl DerivationError | Some dt \<Rightarrow> Inr (format_DateOnly dt))"

definition apply_date :: "string \<Rightarrow> string \<Rightarrow> claims \<Rightarrow> deriv_error + claims" where
  "apply_date input output cs =
     (case map_of cs input of
        None \<Rightarrow> Inr []
      | Some (JString s) \<Rightarrow>
          if s = [] then Inl DerivationError
          else res_bind (YYYYMMDDToISO s) (\<lambda>iso. Inr [(output_of input output, JString iso)])
      | Some _ \<Rightarrow> Inl DerivationError)"

definition swamidAssuranceRank :: "(string \<times> nat) list" where
  "swamidAssuranceRank =
     [(''http://www.swamid.se/policy/assurance/al1'', 1),
      (''http://www.swamid.se/policy/assurance/al2'', 2),
      (''http://www.swamid.se/policy/assurance/al3'', 3)]"

fun best_level :: "Lib \<Rightarrow> string \<Rightarrow> nat \<Rightarrow> string list \<Rightarrow> string" where
  "best_level lb bestURI bestRank [] = bestURI"
| "best_level lb bestURI bestRank (u # us) =
     (case map_of swamidAssuranceRank (Trim lb u) of
        None \<Rightarrow> best_level lb bestURI bestRank us
      | Some r \<Rightarrow>
          if bestRank < r then best_level lb (Trim lb u) r us else best_level lb bestURI bestRank us)"

definition assurance_uris :: "json \<Rightarrow> string list" where
  "assurance_uris v =
     (case v of
        JString s \<Rightarrow> [s]
      | JArray xs \<Rightarrow> List.map_filter (\<lambda>e. case e of JString s \<Rightarrow> Some s | _ \<Rightarrow> None) xs
      | _ \<Rightarrow> [])"

definition SWAMIDHighestAssuranceLevel :: "Lib \<Rightarrow> json \<Rightarrow> string" where
  "SWAMIDHighestAssuranceLevel lb v = best_level lb [] 0 (assurance_uris v)"

definition apply_swamid :: "Lib \<Rightarrow> string \<Rightarrow> string \<Rightarrow> claims \<Rightarrow> deriv_error + claims" where
  "apply_swamid lb input output cs =
     (case map_of cs input of
        None \<Rightarrow> Inr []
      | Some v \<Rightarrow>
          let uri = SWAMIDHighestAssuranceLevel lb v in
          if uri = [] then Inl DerivationError else Inr [(output_of input output, JString uri)])"

section \<open>Random claims and copies\<close>

definition hex_digit :: "nat \<Rightarrow> char" where
  "hex_digit n = (if n < 10 then char_of (n + 48) else char_of (n + 87))"

definition hex_encode :: "bytes \<Rightarrow> string" where
  "hex_encode bs = concat (map (\<lambda>b. [hex_digit (unat b div 16), hex_digit (unat b mod 16)]) bs)"

definition defaultRandomBytes :: int where "defaultRandomBytes = 16"
definition minRandomBytes :: int where "minRandomBytes = 8"
definition maxRandomBytes :: int where "maxRandomBytes = 64"

record RandomArgs =
  ra_Output :: string
  ra_Format :: string
  ra_Bytes :: int
  ra_Overwrite :: bool

definition generate :: "Rand \<Rightarrow> RandomArgs \<Rightarrow> deriv_error + string" where
  "generate rd a =
     (let format = (if ra_Format a = [] then ''uuid'' else ra_Format a);
          n = (if ra_Bytes a = 0 then defaultRandomBytes else ra_Bytes a)
      in if format = ''uuid'' then (case rd_uuid rd of None \<Rightarrow> Inl DerivationError | Some u \<Rightarrow> Inr u)
         else if n < minRandomBytes \<or> maxRandomBytes < n then Inl DerivationError
         else (case rd_bytes rd (nat n) of
                 None \<Rightarrow> Inl DerivationError
               | Some buf \<Rightarrow>
                   if format = ''hex'' then Inr (hex_encode buf)
                   else if format = ''base64url'' then Inr (EncodeToString buf)
                   else Inl DerivationError))"

text \<open>\<^verbatim>\<open>checkOutputParent\<close>: every parent of the output that exists is an object.\<close>

fun parents_ok :: "json \<Rightarrow> string list \<Rightarrow> bool" where
  "parents_ok (JObject m) [] = True"
| "parents_ok (JObject m) (p # ps) = (case map_of m p of None \<Rightarrow> True | Some v \<Rightarrow> parents_ok v ps)"
| "parents_ok v ps = False"

definition checkOutputParent :: "claims \<Rightarrow> string \<Rightarrow> bool" where
  "checkOutputParent cs path = parents_ok (JObject cs) (butlast (parts_of path))"

definition isBlankClaim :: "json \<Rightarrow> bool" where
  "isBlankClaim v \<longleftrightarrow> v = JNull \<or> v = JString [] \<or> v = JArray []"

definition apply_random :: "Rand \<Rightarrow> RandomArgs \<Rightarrow> claims \<Rightarrow> deriv_error + claims" where
  "apply_random rd a cs =
     (if ra_Output a = [] then Inl DerivationError
      else if \<not> checkOutputParent cs (ra_Output a) then Inl DerivationError
      else if \<not> ra_Overwrite a \<and> (case lookupClaim cs (ra_Output a) of None \<Rightarrow> False | Some v \<Rightarrow> \<not> isBlankClaim v)
      then Inr []
      else res_bind (generate rd a) (\<lambda>value. setClaim [] (ra_Output a) (JString value)))"

definition apply_copy :: "string \<Rightarrow> string \<Rightarrow> claims \<Rightarrow> deriv_error + claims" where
  "apply_copy input output cs =
     (case lookupClaim cs input of None \<Rightarrow> Inr [] | Some v \<Rightarrow> setClaim [] output v)"

section \<open>Openings of hash commitments\<close>

text \<open>The fields of \<^verbatim>\<open>OpeningArgs\<close>; the two keyed ones share their struct.\<close>

record KeyedOpeningArgs =
  ko_SecretPath :: string
  ko_Inputs :: "string list"
  ko_Bytes :: int

datatype generator = HKDF KeyedOpeningArgs | HMAC KeyedOpeningArgs | RandomOpening int | ClaimOpening string

type_synonym OpeningArgs = "generator list"

definition openingLengths_check :: "int \<Rightarrow> int \<Rightarrow> bool" where
  "openingLengths_check mx n \<longleftrightarrow> 16 \<le> n \<and> n \<le> mx"

definition maxField :: nat where
  "maxField = 65535"

text \<open>\<^verbatim>\<open>appendField\<close>: the length in 16 bits, big-endian, then the bytes of the field.\<close>

definition field_bytes :: "string \<Rightarrow> bytes" where
  "field_bytes field =
     (let n = word_of_nat (length field) :: 16 word
      in [ucast (drop_bit 8 n), ucast n] @ string_bytes field)"

definition checkFieldValue :: "Lib \<Rightarrow> string \<Rightarrow> bool" where
  "checkFieldValue lb v \<longleftrightarrow> Trim lb v \<noteq> [] \<and> length v \<le> maxField"

definition keyed_label :: "bool \<Rightarrow> string" where
  "keyed_label hkdf = (if hkdf then ''vc/hash_commitment/hkdf/v1'' else ''vc/hash_commitment/hmac/v1'')"

definition message :: "Lib \<Rightarrow> bool \<Rightarrow> KeyedOpeningArgs \<Rightarrow> string list \<Rightarrow> deriv_error + bytes" where
  "message lb hkdf a values =
     (if length values \<noteq> length (ko_Inputs a) then Inl ErrInvalidClaimInput
      else if \<not> list_all (checkFieldValue lb) values then Inl ErrInvalidClaimInput
      else Inr (concat (map field_bytes ([keyed_label hkdf, show_int (ko_Bytes a)] @ values))))"

definition Decode_base64url :: "Lib \<Rightarrow> string \<Rightarrow> bytes option" where
  "Decode_base64url lb value =
     (case DecodeString (rev (dropWhile (\<lambda>c. c = CHR ''='') (rev (Trim lb value)))) of
        None \<Rightarrow> None
      | Some bs \<Rightarrow> if bs = [] then None else Some bs)"

definition opening_key :: "Lib \<Rightarrow> bool \<Rightarrow> KeyedOpeningArgs \<Rightarrow> deriv_error + bytes" where
  "opening_key lb hkdf a =
     (if \<not> openingLengths_check (if hkdf then 64 else 32) (ko_Bytes a) then Inl DerivationError
      else (case Option.bind (lb_file lb (ko_SecretPath a)) (Decode_base64url lb) of
              None \<Rightarrow> Inl DerivationError
            | Some secret \<Rightarrow> if length secret < 32 then Inl DerivationError else Inr secret))"

definition OpenValues :: "Lib \<Rightarrow> bool \<Rightarrow> KeyedOpeningArgs \<Rightarrow> string list \<Rightarrow> deriv_error + bytes" where
  "OpenValues lb hkdf a values =
     res_bind (message lb hkdf a values) (\<lambda>msg.
     res_bind (opening_key lb hkdf a) (\<lambda>secret.
       if hkdf then (case lb_hkdf lb secret msg (nat (ko_Bytes a)) of None \<Rightarrow> Inl DerivationError | Some o' \<Rightarrow> Inr o')
       else Inr (take (nat (ko_Bytes a)) (lb_hmac lb secret msg))))"

definition inputClaim :: "claims \<Rightarrow> string \<Rightarrow> deriv_error + string" where
  "inputClaim cs path = (case lookupClaim cs path of Some (JString s) \<Rightarrow> Inr s | _ \<Rightarrow> Inl ErrInvalidClaimInput)"

fun input_values :: "claims \<Rightarrow> string list \<Rightarrow> deriv_error + string list" where
  "input_values cs [] = Inr []"
| "input_values cs (p # ps) = res_bind (inputClaim cs p) (\<lambda>v. res_bind (input_values cs ps) (\<lambda>vs. Inr (v # vs)))"

definition open_with :: "Lib \<Rightarrow> Rand \<Rightarrow> generator \<Rightarrow> claims \<Rightarrow> deriv_error + bytes" where
  "open_with lb rd g cs =
     (case g of
        HKDF a \<Rightarrow> res_bind (input_values cs (ko_Inputs a)) (OpenValues lb True a)
      | HMAC a \<Rightarrow> res_bind (input_values cs (ko_Inputs a)) (OpenValues lb False a)
      | RandomOpening n \<Rightarrow> (case rd_bytes rd (nat n) of None \<Rightarrow> Inl DerivationError | Some bs \<Rightarrow> Inr bs)
      | ClaimOpening input \<Rightarrow>
          res_bind (inputClaim cs input) (\<lambda>v.
            case Decode_base64url lb v of
              None \<Rightarrow> Inl ErrInvalidClaimInput
            | Some bs \<Rightarrow> if openingLengths_check 64 (int (length bs)) then Inr bs else Inl ErrInvalidClaimInput))"

record HashCommitmentArgs =
  hc_Path :: "string list"
  hc_Opening :: OpeningArgs

definition NewOpening :: "Lib \<Rightarrow> Rand \<Rightarrow> HashCommitmentArgs \<Rightarrow> claims \<Rightarrow> deriv_error + bytes" where
  "NewOpening lb rd a cs = (case hc_Opening a of [g] \<Rightarrow> open_with lb rd g cs | _ \<Rightarrow> Inl DerivationError)"

section \<open>Derivations\<close>

datatype primitive =
    PAgeOverThresholds string "int list"
  | PLowercase string string
  | PUppercase string string
  | PTrim string string
  | PCountryAlpha2 string string
  | PCountryAlpha3 string string
  | PYYYYMMDDToISO string string
  | PSWAMIDHighestAssuranceLevel string string
  | PRandom RandomArgs
  | PCopy string string
  | PHashCommitment HashCommitmentArgs

type_synonym Derivation = "primitive list"

definition selected :: "Derivation \<Rightarrow> primitive option" where
  "selected d = (case d of [p] \<Rightarrow> Some p | _ \<Rightarrow> None)"

definition apply_primitive :: "Lib \<Rightarrow> Rand \<Rightarrow> primitive \<Rightarrow> claims \<Rightarrow> time \<Rightarrow> deriv_error + claims" where
  "apply_primitive lb rd p cs now =
     (case p of
        PAgeOverThresholds input ts \<Rightarrow> apply_age lb input ts cs now
      | PLowercase input output \<Rightarrow> applyStringElementwise input output cs (LowerCase lb)
      | PUppercase input output \<Rightarrow> applyStringElementwise input output cs (UpperCase lb)
      | PTrim input output \<Rightarrow> applyStringElementwise input output cs (Trim lb)
      | PCountryAlpha2 input output \<Rightarrow> applyStringElementwise input output cs (CountryAlpha2 lb)
      | PCountryAlpha3 input output \<Rightarrow> applyStringElementwise input output cs (CountryAlpha3 lb)
      | PYYYYMMDDToISO input output \<Rightarrow> apply_date input output cs
      | PSWAMIDHighestAssuranceLevel input output \<Rightarrow> apply_swamid lb input output cs
      | PRandom a \<Rightarrow> apply_random rd a cs
      | PCopy input output \<Rightarrow> apply_copy input output cs
      | PHashCommitment a \<Rightarrow> Inl DerivationError)"

definition Derivation_Apply :: "Lib \<Rightarrow> Rand \<Rightarrow> Derivation \<Rightarrow> claims \<Rightarrow> time \<Rightarrow> deriv_error + claims" where
  "Derivation_Apply lb rd d cs now =
     (case selected d of None \<Rightarrow> Inl DerivationError | Some p \<Rightarrow> apply_primitive lb rd p cs now)"

definition InputClaim :: "Derivation \<Rightarrow> string" where
  "InputClaim d =
     (case selected d of
        Some (PAgeOverThresholds input ts) \<Rightarrow> input
      | Some (PLowercase input output) \<Rightarrow> input
      | Some (PUppercase input output) \<Rightarrow> input
      | Some (PTrim input output) \<Rightarrow> input
      | Some (PCountryAlpha2 input output) \<Rightarrow> input
      | Some (PCountryAlpha3 input output) \<Rightarrow> input
      | Some (PYYYYMMDDToISO input output) \<Rightarrow> input
      | Some (PSWAMIDHighestAssuranceLevel input output) \<Rightarrow> input
      | Some (PCopy input output) \<Rightarrow> input
      | _ \<Rightarrow> [])"

definition ReformatsInput :: "Derivation \<Rightarrow> bool" where
  "ReformatsInput d =
     list_ex (\<lambda>p. case p of PAgeOverThresholds _ _ \<Rightarrow> False | PRandom _ \<Rightarrow> False | PHashCommitment _ \<Rightarrow> False | _ \<Rightarrow> True) d"

definition hash_commitment :: "Derivation \<Rightarrow> HashCommitmentArgs option" where
  "hash_commitment d =
     (case List.map_filter (\<lambda>p. case p of PHashCommitment a \<Rightarrow> Some a | _ \<Rightarrow> None) d of a # _ \<Rightarrow> Some a | [] \<Rightarrow> None)"

definition copy_args :: "Derivation \<Rightarrow> (string \<times> string) option" where
  "copy_args d =
     (case List.map_filter (\<lambda>p. case p of PCopy i o' \<Rightarrow> Some (i, o') | _ \<Rightarrow> None) d of a # _ \<Rightarrow> Some a | [] \<Rightarrow> None)"

fun HashCommitmentFor :: "Derivation list \<Rightarrow> string list \<Rightarrow> HashCommitmentArgs option" where
  "HashCommitmentFor [] path = None"
| "HashCommitmentFor (d # ds) path =
     (case hash_commitment d of
        Some a \<Rightarrow> if hc_Path a = path then Some a else HashCommitmentFor ds path
      | None \<Rightarrow> HashCommitmentFor ds path)"

end
