(* ===== verification/Derivations.thy ===== *)
theory Derivations
  imports Primitives ClaimsLaws
begin

text \<open>
  The derivation chain of \<^verbatim>\<open>src/pkg/credential/derivations.go\<close> and the way the Credential Endpoint runs it over a
  cached document (\<^verbatim>\<open>VCICredential\<close>, \<^verbatim>\<open>provedClaims\<close> and \<^verbatim>\<open>restoreProvedClaims\<close>): what the holder proved in a
  presentation is pinned, every step reads it unchanged, and it wins over what a step computed.

  \<^verbatim>\<open>out\<close> and \<^verbatim>\<open>working\<close> may share nested maps in the source. Every write to one is made to the other at the same
  path with the same value, and a copy clones what it reads, so the sharing is not observable and both are
  plain values here; cloning is the identity.
\<close>

section \<open>The chain\<close>

text \<open>The map \<^verbatim>\<open>generated\<close> of claim paths; an absent path counts as false.\<close>

fun recordProvenance :: "(string \<Rightarrow> bool) \<Rightarrow> claims \<Rightarrow> claims \<Rightarrow> string \<Rightarrow> bool \<Rightarrow> string \<Rightarrow> bool" where
  "recordProvenance gen existing [] pre isGenerated = gen"
| "recordProvenance gen existing ((k, v) # derived) pre isGenerated =
     (let path = pre @ k;
          gen1 = (case v of
                    JObject sub \<Rightarrow>
                      (case map_of existing k of
                         Some (JObject prior) \<Rightarrow> recordProvenance gen prior sub (path @ ''.'') isGenerated
                       | _ \<Rightarrow> recordProvenance (gen(path := True)) [] sub (path @ ''.'') isGenerated)
                  | _ \<Rightarrow> gen(path := isGenerated))
      in recordProvenance gen1 existing derived pre isGenerated)"

definition copyProvenance :: "(string \<Rightarrow> bool) \<Rightarrow> string \<Rightarrow> string \<Rightarrow> string \<Rightarrow> bool" where
  "copyProvenance gen input output =
     (let from = input @ ''.''; to = output @ ''.'';
          moved = (\<lambda>p. if HasPrefix p to then gen (from @ drop (length to) p) else gen p)
      in moved(output := moved input))"

definition copyOutput :: "claims \<Rightarrow> Derivation \<Rightarrow> string list option" where
  "copyOutput derived d =
     (case copy_args d of
        None \<Rightarrow> None
      | Some (input, output) \<Rightarrow>
          if walkPath (JObject derived) (parts_of output) = None then None else Some (parts_of output))"

definition mergeReplacing :: "claims \<Rightarrow> claims \<Rightarrow> string list option \<Rightarrow> claims" where
  "mergeReplacing dst derived copied =
     MergeNestedClaims (case copied of None \<Rightarrow> dst | Some parts \<Rightarrow> clearPath dst parts) derived"

definition restore :: "claims \<Rightarrow> claims \<Rightarrow> claims" where
  "restore pinned working = foldl (\<lambda>w (name, value). AList.update name value w) working pinned"

record Chain =
  ch_out :: claims
  ch_replaced :: "string list"
  ch_working :: claims
  ch_generated :: "string \<Rightarrow> bool"

text \<open>One derivation; an invalid input that an earlier step generated is a fault of the configuration.\<close>

definition derive_step :: "Lib \<Rightarrow> Rand \<Rightarrow> claims \<Rightarrow> time \<Rightarrow> Derivation \<Rightarrow> Chain \<Rightarrow> deriv_error + Chain" where
  "derive_step lb rd pinned now d c =
     (if hash_commitment d \<noteq> None then Inr c
      else (case Derivation_Apply lb rd d (ch_working c) now of
              Inl e \<Rightarrow> Inl (if e = ErrInvalidClaimInput \<and> ch_generated c (InputClaim d) then DerivationError else e)
            | Inr derived \<Rightarrow>
                let gen = recordProvenance (ch_generated c) (ch_working c) derived []
                            (\<not> ReformatsInput d \<or> ch_generated c (InputClaim d));
                    copied = copyOutput derived d
                in Inr \<lparr>ch_out = mergeReplacing (ch_out c) derived copied,
                        ch_replaced = ch_replaced c @ (if copied = None then [] else [snd (the (copy_args d))]),
                        ch_working = restore pinned (mergeReplacing (ch_working c) derived copied),
                        ch_generated =
                          (if copied = None then gen
                           else copyProvenance gen (fst (the (copy_args d))) (snd (the (copy_args d))))\<rparr>))"

fun derive_steps :: "Lib \<Rightarrow> (nat \<Rightarrow> Rand) \<Rightarrow> claims \<Rightarrow> time \<Rightarrow> nat \<Rightarrow> Derivation list \<Rightarrow> Chain \<Rightarrow> deriv_error + Chain" where
  "derive_steps lb rd pinned now i [] c = Inr c"
| "derive_steps lb rd pinned now i (d # ds) c =
     res_bind (derive_step lb (rd i) pinned now d c) (derive_steps lb rd pinned now (Suc i) ds)"

definition start_chain :: "claims \<Rightarrow> claims \<Rightarrow> Chain" where
  "start_chain pinned cs =
     \<lparr>ch_out = [], ch_replaced = [], ch_working = restore pinned cs, ch_generated = (\<lambda>_. False)\<rparr>"

definition ApplyDerivationsReplacing ::
  "Lib \<Rightarrow> (nat \<Rightarrow> Rand) \<Rightarrow> Derivation list \<Rightarrow> claims \<Rightarrow> time \<Rightarrow> claims \<Rightarrow> deriv_error + claims \<times> string list"
where
  "ApplyDerivationsReplacing lb rd ds cs now pinned =
     res_bind (derive_steps lb rd pinned now 0 ds (start_chain pinned cs)) (\<lambda>c. Inr (ch_out c, ch_replaced c))"

definition ApplyDerivations ::
  "Lib \<Rightarrow> (nat \<Rightarrow> Rand) \<Rightarrow> Derivation list \<Rightarrow> claims \<Rightarrow> time \<Rightarrow> deriv_error + claims"
where
  "ApplyDerivations lb rd ds cs now = res_bind (ApplyDerivationsReplacing lb rd ds cs now []) (\<lambda>r. Inr (fst r))"

section \<open>Claims the holder proved\<close>

definition provedClaims :: "claims \<Rightarrow> string list \<Rightarrow> claims" where
  "provedClaims docData presented =
     foldl (\<lambda>proved c. case map_of docData c of None \<Rightarrow> proved | Some v \<Rightarrow> AList.update c v proved) [] presented"

text \<open>\<^verbatim>\<open>restoreProvedClaims\<close>; the conflicts it returns are only logged.\<close>

definition restoreProvedClaims :: "claims \<Rightarrow> claims \<Rightarrow> claims" where
  "restoreProvedClaims docData proved = restore proved docData"

text \<open>The block of \<^verbatim>\<open>VCICredential\<close> that applies a scope's derivations to the cached document.\<close>

definition derive_document ::
  "Lib \<Rightarrow> (nat \<Rightarrow> Rand) \<Rightarrow> Derivation list \<Rightarrow> claims \<Rightarrow> string list \<Rightarrow> time \<Rightarrow> deriv_error + claims"
where
  "derive_document lb rd ds docData presented now =
     (if ds = [] then Inr docData
      else
        let proved = provedClaims docData presented in
        res_bind (ApplyDerivationsReplacing lb rd ds docData now proved) (\<lambda>(derived, replaced).
          Inr (restoreProvedClaims (MergeDerived docData derived replaced) proved)))"

section \<open>Pinned claims\<close>

lemma restore_Nil [simp]: "restore [] w = w"
  by (simp add: restore_def)

lemma restore_Cons [simp]: "restore ((k, v) # ps) w = restore ps (AList.update k v w)"
  by (simp add: restore_def)

lemma restore_other: "n \<notin> fst ` set pinned \<Longrightarrow> map_of (restore pinned w) n = map_of w n"
  by (induction pinned arbitrary: w) (auto simp: update_conv)

lemma restore_pinned: "distinct (map fst pinned) \<Longrightarrow> map_of pinned n = Some v \<Longrightarrow> map_of (restore pinned w) n = Some v"
  by (induction pinned arbitrary: w) (auto simp: update_conv restore_other split: if_splits)

lemma claims_ok_restore: "claims_ok w \<Longrightarrow> claims_ok pinned \<Longrightarrow> claims_ok (restore pinned w)"
  by (induction pinned arbitrary: w) (auto simp: claims_ok_update claims_ok_Cons)

end
