(* ===== verification/DerivationProps.thy ===== *)
theory DerivationProps
  imports Derivations
begin

text \<open>
  The guarantees of the derivation chain: what the holder proved is issued as proved and is what every step
  computes from, documents stay well-formed, ages, dates and assurance levels are right, and the message of a
  keyed opening determines what it was made from.
\<close>

section \<open>Steps\<close>

lemma json_ok_atoms [simp]: "json_ok (JString s)" "json_ok (JBool b)" "json_ok JNull" "json_ok (JNumber n)"
  by simp_all

lemma setClaim_ok: "setClaim dst path v = Inr d \<Longrightarrow> claims_ok dst \<Longrightarrow> json_ok v \<Longrightarrow> claims_ok d"
  by (auto simp: setClaim_def claims_ok_update split: if_splits option.splits intro: claims_ok_set_parts)

lemma lookupClaim_ok: "lookupClaim cs path = Some v \<Longrightarrow> claims_ok cs \<Longrightarrow> json_ok v"
  by (cases "map_of cs path")
    (auto simp: lookupClaim_def claims_ok_lookup split: if_splits intro: json_ok_walk [of "JObject cs"])

lemma json_ok_map_string: "json_ok v \<Longrightarrow> json_ok (map_string f v)"
  by (cases v) (auto simp: map_string_def)

lemma applyStringElementwise_ok:
  assumes "applyStringElementwise i o' cs f = Inr d" and "claims_ok cs"
  shows "claims_ok d"
proof (cases "lookupClaim cs i")
  case None
  then show ?thesis using assms(1) by (simp add: applyStringElementwise_def)
next
  case (Some v)
  have "json_ok v" using lookupClaim_ok [OF Some assms(2)] .
  then have "json_ok (JArray (map (map_string f) xs))" if "v = JArray xs" for xs
    using that json_ok_map_string by (auto simp: list_all_iff)
  then show ?thesis
    using assms(1) Some setClaim_ok by (fastforce simp: applyStringElementwise_def split: json.splits)
qed

lemma age_claims_ok:
  assumes "claims_ok out"
  shows "claims_ok (foldl (\<lambda>out t. AList.update (k1 t) (JBool (p1 t)) (AList.update (k2 t) (JBool (p2 t)) out)) out ts)"
  using assms by (induction ts arbitrary: out) (simp_all add: claims_ok_update)

lemma apply_primitive_ok:
  assumes "apply_primitive lb rd p cs now = Inr d" and "claims_ok cs"
  shows "claims_ok d"
proof (cases p)
  case (PAgeOverThresholds input ts)
  then show ?thesis
    using assms(1)
    by (auto simp: apply_primitive_def apply_age_def AgeOverThresholds_def Let_def
        split: option.splits json.splits if_splits intro!: age_claims_ok)
next
  case (PRandom a)
  then show ?thesis
    using assms(1) setClaim_ok
    by (auto simp: apply_primitive_def apply_random_def res_bind_Inr_iff split: if_splits)
next
  case (PCopy i o')
  then show ?thesis
    using assms setClaim_ok lookupClaim_ok
    by (fastforce simp: apply_primitive_def apply_copy_def split: option.splits)
qed (use assms applyStringElementwise_ok in
    \<open>auto simp: apply_primitive_def apply_date_def apply_swamid_def res_bind_Inr_iff Let_def claims_ok_Cons
      split: option.splits json.splits if_splits\<close>)

lemma mergeReplacing_ok: "claims_ok dst \<Longrightarrow> claims_ok d \<Longrightarrow> claims_ok (mergeReplacing dst d copied)"
  by (auto simp: mergeReplacing_def split: option.splits intro: claims_ok_Merge claims_ok_clearPath)

text \<open>
  The invariant of the chain: its documents are well-formed, and the working claims hold every pinned value.
\<close>

definition chain_ok :: "claims \<Rightarrow> Chain \<Rightarrow> bool" where
  "chain_ok pinned c \<longleftrightarrow>
     claims_ok (ch_out c) \<and> claims_ok (ch_working c) \<and>
     (\<forall>n v. map_of pinned n = Some v \<longrightarrow> map_of (ch_working c) n = Some v)"

lemma derive_step_cases:
  assumes "derive_step lb rd pinned now d c = Inr c'"
  obtains (skipped) "hash_commitment d \<noteq> None" "c' = c"
  | (derived) derived p where "hash_commitment d = None" "selected d = Some p"
      "apply_primitive lb rd p (ch_working c) now = Inr derived"
      "ch_out c' = mergeReplacing (ch_out c) derived (copyOutput derived d)"
      "ch_working c' = restore pinned (mergeReplacing (ch_working c) derived (copyOutput derived d))"
  using assms
  by (auto simp: derive_step_def Derivation_Apply_def Let_def split: if_splits sum.splits option.splits)

lemma derive_step_ok:
  assumes "derive_step lb rd pinned now d c = Inr c'" and "chain_ok pinned c" and "claims_ok pinned"
  shows "chain_ok pinned c'"
  using assms(1)
proof (cases rule: derive_step_cases)
  case skipped
  then show ?thesis using assms(2) by simp
next
  case (derived derived p)
  have "claims_ok derived" using apply_primitive_ok [OF derived(3)] assms(2) by (simp add: chain_ok_def)
  moreover have "distinct (map fst pinned)" using assms(3) by (simp add: claims_ok_def)
  ultimately show ?thesis
    using assms(2,3) derived(4,5) by (auto simp: chain_ok_def intro!: mergeReplacing_ok claims_ok_restore restore_pinned)
qed

lemma derive_steps_ok:
  "derive_steps lb rd pinned now i ds c = Inr c' \<Longrightarrow> chain_ok pinned c \<Longrightarrow> claims_ok pinned \<Longrightarrow> chain_ok pinned c'"
proof (induction ds arbitrary: i c)
  case (Cons d ds)
  then show ?case using derive_step_ok by (fastforce simp: res_bind_Inr_iff)
qed simp

lemma start_chain_ok: "claims_ok cs \<Longrightarrow> claims_ok pinned \<Longrightarrow> chain_ok pinned (start_chain pinned cs)"
  using restore_pinned [of pinned] claims_ok_def [of pinned] claims_ok_restore
  by (auto simp: chain_ok_def start_chain_def)

lemma derive_steps_append:
  "derive_steps lb rd pinned now i (ds @ es) c =
     res_bind (derive_steps lb rd pinned now i ds c) (derive_steps lb rd pinned now (i + length ds) es)"
proof (induction ds arbitrary: i c)
  case (Cons d ds)
  then show ?case by (cases "derive_step lb (rd i) pinned now d c") auto
qed simp

lemma provedClaims_Nil [simp]: "provedClaims doc [] = []"
  by (simp add: provedClaims_def)

lemma provedClaims_snoc:
  "provedClaims doc (cs @ [c]) =
     (case map_of doc c of None \<Rightarrow> provedClaims doc cs | Some v \<Rightarrow> AList.update c v (provedClaims doc cs))"
  by (cases "map_of doc c") (simp_all add: provedClaims_def)

lemma provedClaims_lookup:
  "map_of (provedClaims doc presented) n = (if n \<in> set presented then map_of doc n else None)"
  by (induction presented rule: rev_induct) (auto simp: provedClaims_snoc update_conv split: option.splits)

lemma provedClaims_ok:
  assumes "claims_ok doc"
  shows "claims_ok (provedClaims doc presented)"
proof (induction presented rule: rev_induct)
  case (snoc c cs)
  then show ?case
    using claims_ok_update [OF snoc] claims_ok_lookup [OF assms, of c] by (auto simp: provedClaims_snoc split: option.splits)
qed simp

lemma clear_all_ok: "claims_ok d \<Longrightarrow> claims_ok (foldl (\<lambda>d path. clearPath d (parts_of path)) d rs)"
  by (induction rs arbitrary: d) (auto intro: claims_ok_clearPath)

lemma MergeDerived_ok: "claims_ok dst \<Longrightarrow> claims_ok derived \<Longrightarrow> claims_ok (MergeDerived dst derived rs)"
  by (simp add: MergeDerived_def claims_ok_Merge clear_all_ok)

text \<open>A derived document, with the chain that made it.\<close>

lemma derive_document_chain:
  assumes "derive_document lb rd ds doc presented now = Inr doc'" and "ds \<noteq> []"
  obtains c where "derive_steps lb rd (provedClaims doc presented) now 0 ds (start_chain (provedClaims doc presented) doc) = Inr c"
    and "doc' = restore (provedClaims doc presented) (MergeDerived doc (ch_out c) (ch_replaced c))"
  using assms
  by (auto simp: derive_document_def ApplyDerivationsReplacing_def restoreProvedClaims_def Let_def res_bind_Inr_iff)

section \<open>Ages\<close>

lemma age_at_iff: "t \<le> age_at (y, m, d) (ny, nm, nd) \<longleftrightarrow> date_le (y + t, m, d) (ny, nm, nd)"
  by (auto simp: age_at_def date_le_def)

fun read_nat :: "string \<Rightarrow> nat" where
  "read_nat [] = 0"
| "read_nat (c # cs) = 10 * read_nat cs + (of_char c - 48)"

lemma read_show_nat: "read_nat (rev (show_nat n)) = n"
proof (induction n rule: show_nat.induct)
  case (1 n)
  have c: "(of_char (char_of (k + 48) :: char) :: nat) = k + 48" if "k < 10" for k :: nat using that by simp
  show ?case
  proof (cases "n < 10")
    case True
    then show ?thesis by (simp add: show_nat.simps [of n] c)
  next
    case False
    then show ?thesis using 1 c [of "n mod 10"] by (simp add: show_nat.simps [of n])
  qed
qed

lemma show_nat_inj: "show_nat m = show_nat n \<Longrightarrow> m = n"
  by (metis read_show_nat)

lemma show_nat_digits: "list_all is_digit (show_nat n) \<and> show_nat n \<noteq> []"
proof (induction n rule: show_nat.induct)
  case (1 n)
  have d: "is_digit (char_of (k + 48))" if "k < 10" for k :: nat using that by (simp add: is_digit_def)
  then show ?case using 1 d [of n] d [of "n mod 10"] by (auto simp: show_nat.simps [of n])
qed

lemma show_int_inj: "show_int m = show_int n \<Longrightarrow> m = n"
proof -
  assume e: "show_int m = show_int n"
  have "\<not> is_digit (CHR ''-'')" by (simp add: is_digit_def)
  then have h: "hd (show_nat k) \<noteq> CHR ''-''" for k using show_nat_digits [of k] by (cases "show_nat k") auto
  show "m = n"
  proof (cases "m < 0 \<longleftrightarrow> n < 0")
    case True
    then show ?thesis using e show_nat_inj [of "nat (- m)" "nat (- n)"] show_nat_inj [of "nat m" "nat n"]
      by (auto simp: show_int_def split: if_splits)
  next
    case False
    then show ?thesis using e h by (auto simp: show_int_def split: if_splits) (metis list.sel(1))+
  qed
qed

lemma age_claims_lookup:
  assumes "t \<in> set ts"
  shows "map_of (foldl (\<lambda>out t. AList.update (this_year_key t) (JBool (q t))
            (AList.update (age_over_key t) (JBool (p t)) out)) out ts) (age_over_key t) = Some (JBool (p t))"
  using assms
proof (induction ts rule: rev_induct)
  case (snoc u us)
  have "age_over_key t \<noteq> this_year_key u" by (simp add: age_over_key_def this_year_key_def)
  moreover have "age_over_key t = age_over_key u \<Longrightarrow> t = u" using show_int_inj by (auto simp: age_over_key_def)
  ultimately show ?case using snoc by (auto simp: update_conv)
qed simp

lemma apply_age_value:
  assumes "apply_age lb c ts cs now = Inr derived" and "map_of cs c = Some (JString bd)" and "t \<in> set ts"
  obtains y m d where "parse_DateOnly bd = Some (y, m, d)" and "midnight (y, m, d) \<le> now"
    and "map_of derived (age_over_key t) = Some (JBool (date_le (y + t, m, d) (lb_local lb now)))"
proof -
  obtain y m d where p: "parse_DateOnly bd = Some (y, m, d)" "midnight (y, m, d) \<le> now"
    using assms(1,2) by (auto simp: apply_age_def AgeOverThresholds_def split: if_splits option.splits)
  obtain ny nm nd where l: "lb_local lb now = (ny, nm, nd)" by (cases "lb_local lb now")
  have "map_of derived (age_over_key t) = Some (JBool (t \<le> age_at (y, m, d) (lb_local lb now)))"
    using assms p by (auto simp: apply_age_def AgeOverThresholds_def Let_def age_claims_lookup split: if_splits)
  then show thesis using that [OF p] by (simp add: l age_at_iff)
qed

section \<open>The message of a keyed opening\<close>

lemma char_byte_inj: "char_byte a = char_byte b \<Longrightarrow> a = b"
proof -
  assume "char_byte a = char_byte b"
  then have "(word_of_nat (of_char a) :: 8 word) = word_of_nat (of_char b)" by (simp add: char_byte_def)
  then have "take_bit 8 (of_char a :: nat) = take_bit 8 (of_char b :: nat)"
    by (simp add: word_of_nat_eq_iff)
  then show "a = b" by (simp add: take_bit_nat_eq_self)
qed

lemma string_bytes_inj: "string_bytes s = string_bytes t \<Longrightarrow> s = t"
  by (metis char_byte_inj injI inj_map_eq_map string_bytes_def)

lemma length_from_prefix:
  fixes n :: "16 word"
  shows "unat n = 256 * unat (ucast (drop_bit 8 n) :: 8 word) + unat (ucast n :: 8 word)"
proof -
  have "unat n < 256 * 256" using unsigned_less [of n] by simp
  then have "unat n div 256 < 256" by (simp add: less_mult_imp_div_less)
  then have "unat (ucast (drop_bit 8 n) :: 8 word) = unat n div 256"
    by (simp add: unsigned_ucast_eq take_bit_eq_mod drop_bit_eq_div unat_div)
  moreover have "unat (ucast n :: 8 word) = unat n mod 256" by (simp add: unsigned_ucast_eq take_bit_eq_mod)
  ultimately show ?thesis by simp
qed

lemma field_bytes_prefix_free:
  assumes "length f \<le> maxField" and "length g \<le> maxField" and e: "field_bytes f @ xs = field_bytes g @ ys"
  shows "f = g \<and> xs = ys"
proof -
  let ?n = "\<lambda>f. word_of_nat (length f) :: 16 word"
  have u: "unat (?n h) = length h" if "length h \<le> maxField" for h :: string
    using that by (simp add: unat_of_nat maxField_def)
  have h: "ucast (drop_bit 8 (?n f)) = (ucast (drop_bit 8 (?n g)) :: 8 word)" "ucast (?n f) = (ucast (?n g) :: 8 word)"
    and r: "string_bytes f @ xs = string_bytes g @ ys"
    using e by (auto simp: field_bytes_def Let_def)
  have "length f = length g"
    using length_from_prefix [of "?n f"] length_from_prefix [of "?n g"] h u assms(1,2) by metis
  then have "string_bytes f = string_bytes g \<and> xs = ys" using r by (simp add: string_bytes_def)
  then show ?thesis using string_bytes_inj by blast
qed

lemma fields_inj:
  "concat (map field_bytes fs) = concat (map field_bytes gs) \<Longrightarrow>
     list_all (\<lambda>f. length f \<le> maxField) fs \<Longrightarrow> list_all (\<lambda>f. length f \<le> maxField) gs \<Longrightarrow> fs = gs"
proof (induction fs arbitrary: gs)
  case Nil
  then show ?case by (cases gs) (auto simp: field_bytes_def Let_def)
next
  case (Cons f fs)
  then obtain g gs' where g: "gs = g # gs'" by (cases gs) (auto simp: field_bytes_def Let_def)
  then have "f = g \<and> concat (map field_bytes fs) = concat (map field_bytes gs')"
    using Cons.prems field_bytes_prefix_free [of f g] by simp
  then show ?case using Cons g by simp
qed

lemma length_show_nat: "n < 10 ^ Suc k \<Longrightarrow> length (show_nat n) \<le> Suc k"
proof (induction k arbitrary: n)
  case 0
  then show ?case by (simp add: show_nat.simps [of n])
next
  case (Suc k)
  have "n div 10 < 10 ^ Suc k" using Suc.prems by (simp add: less_mult_imp_div_less mult.commute)
  then show ?case using Suc.IH [of "n div 10"] by (simp add: show_nat.simps [of n])
qed

definition is_int64 :: "int \<Rightarrow> bool" where
  "is_int64 n \<longleftrightarrow> - (2 ^ 63) \<le> n \<and> n < 2 ^ 63"

lemma length_show_int: "is_int64 n \<Longrightarrow> length (show_int n) \<le> maxField"
proof -
  assume "is_int64 n"
  then have "nat n < 10 ^ Suc 19" "nat (- n) < 10 ^ Suc 19" by (auto simp: is_int64_def)
  then show "length (show_int n) \<le> maxField"
    using length_show_nat [of "nat n" 19] length_show_nat [of "nat (- n)" 19] by (simp add: show_int_def maxField_def)
qed

section \<open>Guarantees\<close>

text \<open>
  C21: when a scope's derivations run over a cached document, every claim that was copied from the holder's
  verified presentation is issued with the value the holder presented, whatever the derivations write, and the
  issued document is well-formed.
\<close>

theorem presented_claims_prevail:
  assumes "derive_document lb rd ds doc presented now = Inr doc'" and "claims_ok doc"
  shows "claims_ok doc' \<and> (\<forall>n v. n \<in> set presented \<longrightarrow> map_of doc n = Some v \<longrightarrow> map_of doc' n = Some v)"
proof (cases "ds = []")
  case True
  then show ?thesis using assms by (simp add: derive_document_def)
next
  case False
  let ?p = "provedClaims doc presented"
  have ok: "claims_ok ?p" using provedClaims_ok [OF assms(2)] .
  obtain c where run: "derive_steps lb rd ?p now 0 ds (start_chain ?p doc) = Inr c"
    and doc': "doc' = restore ?p (MergeDerived doc (ch_out c) (ch_replaced c))"
    using derive_document_chain [OF assms(1) False] .
  have "chain_ok ?p c" using derive_steps_ok [OF run start_chain_ok [OF assms(2) ok] ok] .
  then have "claims_ok doc'" unfolding doc'
    by (intro claims_ok_restore MergeDerived_ok assms(2) ok) (simp add: chain_ok_def)
  moreover have "distinct (map fst ?p)" using ok by (simp add: claims_ok_def)
  ultimately show ?thesis using restore_pinned [of ?p] by (auto simp: doc' provedClaims_lookup)
qed

text \<open>
  C22: an age claim that the last derivation computes from a birth date the holder proved is the age of that
  date, on the calendar date of the host, even if an earlier derivation wrote another birth date.
\<close>

theorem derived_age_is_of_proved_date:
  assumes "derive_document lb rd (ds @ [[PAgeOverThresholds c ts]]) doc presented now = Inr doc'" and "claims_ok doc"
    and "c \<in> set presented" and "map_of doc c = Some (JString bd)"
    and "t \<in> set ts" and "age_over_key t \<notin> set presented"
  shows "\<exists>y m d. parse_DateOnly bd = Some (y, m, d) \<and> midnight (y, m, d) \<le> now \<and>
    map_of doc' (age_over_key t) = Some (JBool (date_le (y + t, m, d) (lb_local lb now)))"
proof -
  let ?p = "provedClaims doc presented"
  have ok: "claims_ok ?p" using provedClaims_ok [OF assms(2)] .
  obtain c' where run: "derive_steps lb rd ?p now 0 (ds @ [[PAgeOverThresholds c ts]]) (start_chain ?p doc) = Inr c'"
    and doc': "doc' = restore ?p (MergeDerived doc (ch_out c') (ch_replaced c'))"
    using derive_document_chain [OF assms(1)] by blast
  then obtain c1 where run1: "derive_steps lb rd ?p now 0 ds (start_chain ?p doc) = Inr c1"
    and last: "derive_step lb (rd (length ds)) ?p now [PAgeOverThresholds c ts] c1 = Inr c'"
    by (auto simp: derive_steps_append res_bind_Inr_iff)
  have ok1: "chain_ok ?p c1" using derive_steps_ok [OF run1 start_chain_ok [OF assms(2) ok] ok] .
  have bd: "map_of (ch_working c1) c = Some (JString bd)"
    using ok1 assms(3,4) by (simp add: chain_ok_def provedClaims_lookup)
  obtain derived where ap: "apply_age lb c ts (ch_working c1) now = Inr derived"
    and out: "ch_out c' = MergeNestedClaims (ch_out c1) derived"
    using last by (cases rule: derive_step_cases)
      (auto simp: hash_commitment_def selected_def apply_primitive_def copyOutput_def copy_args_def mergeReplacing_def)
  obtain y m d where ymd: "parse_DateOnly bd = Some (y, m, d)" "midnight (y, m, d) \<le> now"
    and v: "map_of derived (age_over_key t) = Some (JBool (date_le (y + t, m, d) (lb_local lb now)))"
    using apply_age_value [OF ap bd assms(5)] .
  have "claims_ok derived" "claims_ok (ch_out c')"
    using apply_primitive_ok [of lb undefined "PAgeOverThresholds c ts" "ch_working c1" now derived] ap ok1
      derive_step_ok [OF last ok1 ok] by (auto simp: apply_primitive_def chain_ok_def)
  then have "map_of (MergeDerived doc (ch_out c') (ch_replaced c')) (age_over_key t) =
      Some (JBool (date_le (y + t, m, d) (lb_local lb now)))"
    using v by (simp add: MergeDerived_def out MergeNestedClaims_lookup claims_ok_def)
  moreover have "age_over_key t \<notin> fst ` set ?p"
    using assms(6) provedClaims_lookup [of doc presented "age_over_key t"] by (simp add: map_of_eq_None_iff)
  ultimately show ?thesis using ymd by (auto simp: doc' restore_other)
qed

text \<open>
  C27: two keyed openings are derived from the same message only if they use the same keyed function, the same
  length and the same input values in the same order, so no two subjects share a message.
\<close>

theorem opening_message_injective:
  assumes "message lb h a vs = Inr m" and "message lb h' a' vs' = Inr m"
    and "is_int64 (ko_Bytes a)" and "is_int64 (ko_Bytes a')"
  shows "h = h' \<and> ko_Bytes a = ko_Bytes a' \<and> vs = vs'"
proof -
  have l: "length (keyed_label b) \<le> maxField" for b by (simp add: keyed_label_def maxField_def)
  have v: "list_all (\<lambda>f. length f \<le> maxField) vs" "list_all (\<lambda>f. length f \<le> maxField) vs'"
    using assms(1,2) by (auto simp: message_def checkFieldValue_def list_all_iff split: if_splits)
  have "concat (map field_bytes ([keyed_label h, show_int (ko_Bytes a)] @ vs)) =
      concat (map field_bytes ([keyed_label h', show_int (ko_Bytes a')] @ vs'))"
    using assms(1,2) by (auto simp: message_def split: if_splits)
  from fields_inj [OF this] have "keyed_label h = keyed_label h' \<and> show_int (ko_Bytes a) = show_int (ko_Bytes a') \<and> vs = vs'"
    using l v length_show_int assms(3,4) by simp
  then show ?thesis using show_int_inj by (auto simp: keyed_label_def split: if_splits)
qed

end
