(* ===== verification/DerivationExamples.thy ===== *)
theory DerivationExamples
  imports DerivationProps
begin

text \<open>
  A document with a stored birth date of 1970 and a presented one of 2000, on the first day of 2026: the chain
  converts the stored date onto the presented claim and then computes ages.
\<close>

definition sample_lib :: Lib where
  "sample_lib =
     \<lparr>lb_lower = (\<lambda>s. s), lb_upper = (\<lambda>s. s), lb_trim = (\<lambda>s. s), lb_alpha2 = (\<lambda>_. None), lb_alpha3 = (\<lambda>_. None),
      lb_local = (\<lambda>_. (2026, 1, 1)), lb_file = (\<lambda>_. None), lb_hkdf = (\<lambda>_ _ _. None), lb_hmac = (\<lambda>_ _. []),
      lb_sha256 = (\<lambda>_. [])\<rparr>"

definition sample_rand :: "nat \<Rightarrow> Rand" where
  "sample_rand = (\<lambda>_. \<lparr>rd_uuid = None, rd_bytes = (\<lambda>_. None)\<rparr>)"

definition sample_doc :: claims where
  "sample_doc = [(''birth_date'', JString ''2000-02-01''), (''stored'', JString ''19700101'')]"

definition sample_steps :: "Derivation list" where
  "sample_steps = [[PYYYYMMDDToISO ''stored'' ''birth_date'']]"

definition sample_ages :: Derivation where
  "sample_ages = [PAgeOverThresholds ''birth_date'' [30]]"

definition sample_now :: time where
  "sample_now = 1767225600000000000"

definition sample_issued :: claims where
  "sample_issued =
     [(''birth_date'', JString ''2000-02-01''), (''stored'', JString ''19700101''),
      (''age_over_30'', JBool False), (''over_30_this_year'', JBool False)]"

lemma sample_derived:
  "derive_document sample_lib sample_rand (sample_steps @ [sample_ages]) sample_doc [''birth_date''] sample_now =
     Inr sample_issued"
  by code_simp

lemma sample_doc_ok: "claims_ok sample_doc"
  by (simp add: sample_doc_def claims_ok_def)

theorem presented_claims_prevail_witness:
  "claims_ok sample_issued \<and> map_of sample_issued ''birth_date'' = Some (JString ''2000-02-01'')"
  using presented_claims_prevail [OF sample_derived sample_doc_ok] by (simp add: sample_doc_def)

theorem derived_age_is_of_proved_date_witness:
  "\<exists>y m d. parse_DateOnly ''2000-02-01'' = Some (y, m, d) \<and>
     map_of sample_issued (age_over_key 30) = Some (JBool (date_le (y + 30, m, d) (2026, 1, 1)))"
proof -
  have "age_over_key 30 \<notin> set [''birth_date'']" by (simp add: age_over_key_def)
  with derived_age_is_of_proved_date
    [OF sample_derived [unfolded sample_ages_def] sample_doc_ok, of "''2000-02-01''" 30]
  show ?thesis by (auto simp: sample_doc_def sample_lib_def)
qed

definition sample_opening :: KeyedOpeningArgs where
  "sample_opening = \<lparr>ko_SecretPath = ''seed'', ko_Inputs = [''country'', ''number''], ko_Bytes = 16\<rparr>"

theorem opening_message_injective_witness:
  "message sample_lib True sample_opening [''SE'', ''12''] \<noteq> message sample_lib True sample_opening [''SE1'', ''2'']"
proof
  assume e: "message sample_lib True sample_opening [''SE'', ''12''] = message sample_lib True sample_opening [''SE1'', ''2'']"
  obtain m where m: "message sample_lib True sample_opening [''SE'', ''12''] = Inr m"
    by (simp add: message_def sample_opening_def checkFieldValue_def Trim_def is_ascii_def is_space_def maxField_def)
  have "is_int64 (ko_Bytes sample_opening)" by (simp add: is_int64_def sample_opening_def)
  with opening_message_injective [OF m m [unfolded e]] show False by simp
qed

end
