(* ===== verification/StatusList.thy ===== *)
theory StatusList
  imports Base64 Prelude
begin

text \<open>
  Token status lists, \<^verbatim>\<open>pkg/tokenstatuslist/types.go\<close> and \<^verbatim>\<open>jwt.go\<close>: the list of status bytes with its bounds
  checks, its compressed encoding with the guard against decompression bombs, and the claims of the signed
  token. zlib, signing and the parsing of a JWT are parameters: \<open>deflate\<close> for the writer (\<open>None\<close> is its
  error) and \<open>inflate\<close> for the reader, which delivers bytes and then ends either well or in an error.
\<close>

section \<open>Statuses\<close>

definition StatusValid :: "8 word" where "StatusValid = 0"
definition StatusInvalid :: "8 word" where "StatusInvalid = 1"
definition StatusSuspended :: "8 word" where "StatusSuspended = 2"

definition Bits :: int where "Bits = 8"

record StatusList =
  sl_statuses :: bytes
  sl_Issuer :: string
  sl_Subject :: string
  sl_TTL :: int
  sl_ExpiresIn :: duration
  sl_KeyID :: string
  sl_AggregationURI :: string

definition NewWithConfig :: "bytes \<Rightarrow> string \<Rightarrow> string \<Rightarrow> StatusList" where
  "NewWithConfig statuses issuer subject =
     \<lparr>sl_statuses = statuses, sl_Issuer = issuer, sl_Subject = subject, sl_TTL = 0, sl_ExpiresIn = 0,
      sl_KeyID = [], sl_AggregationURI = []\<rparr>"

definition StatusList_Len :: "StatusList \<Rightarrow> int" where
  "StatusList_Len sl = int (length (sl_statuses sl))"

text \<open>\<open>None\<close> is \<^verbatim>\<open>ErrInvalidStatusIndex\<close>.\<close>

definition GetStatus :: "bytes \<Rightarrow> int \<Rightarrow> 8 word option" where
  "GetStatus statuses index =
     (if index < 0 \<or> index \<ge> int (length statuses) then None else Some (statuses ! nat index))"

definition StatusList_Get :: "StatusList \<Rightarrow> int \<Rightarrow> 8 word option" where
  "StatusList_Get sl index =
     (if index < 0 \<or> index \<ge> int (length (sl_statuses sl)) then None else Some (sl_statuses sl ! nat index))"

definition StatusList_Set :: "StatusList \<Rightarrow> int \<Rightarrow> 8 word \<Rightarrow> StatusList option" where
  "StatusList_Set sl index status =
     (if index < 0 \<or> index \<ge> int (length (sl_statuses sl)) then None
      else Some (sl\<lparr>sl_statuses := (sl_statuses sl)[nat index := status]\<rparr>))"

section \<open>Compression\<close>

definition CompressStatuses :: "(bytes \<Rightarrow> bytes option) \<Rightarrow> bytes \<Rightarrow> bytes option" where
  "CompressStatuses deflate statuses = deflate statuses"

definition CompressAndEncode :: "(bytes \<Rightarrow> bytes option) \<Rightarrow> bytes \<Rightarrow> string option" where
  "CompressAndEncode deflate statuses = map_option EncodeToString (CompressStatuses deflate statuses)"

definition maxDecompressedSize :: int where
  "maxDecompressedSize = 50 * 2 ^ 20"

text \<open>
  \<^verbatim>\<open>io.ReadAll\<close> of an \<^verbatim>\<open>io.LimitReader\<close>: at most \<open>n\<close> bytes; an error of the reader is seen only if its bytes
  end before the limit.
\<close>

definition read_limited :: "int \<Rightarrow> bytes \<times> bool \<Rightarrow> bytes option" where
  "read_limited n r =
     (case r of (b, ok) \<Rightarrow>
        if int (length b) < n then (if ok then Some b else None) else Some (take (nat n) b))"

definition DecompressStatuses :: "(bytes \<Rightarrow> (bytes \<times> bool) option) \<Rightarrow> bytes \<Rightarrow> bytes option" where
  "DecompressStatuses inflate compressed =
     (case inflate compressed of
        None \<Rightarrow> None
      | Some r \<Rightarrow>
          (case read_limited (maxDecompressedSize + 1) r of
             None \<Rightarrow> None
           | Some b \<Rightarrow> if int (length b) > maxDecompressedSize then None else Some b))"

definition DecodeAndDecompress :: "(bytes \<Rightarrow> (bytes \<times> bool) option) \<Rightarrow> string \<Rightarrow> bytes option" where
  "DecodeAndDecompress inflate encoded =
     (case DecodeString encoded of
        None \<Rightarrow> None
      | Some compressed \<Rightarrow> DecompressStatuses inflate compressed)"

section \<open>The signed token\<close>

record StatusListClaim =
  slc_Bits :: int
  slc_Lst :: string
  slc_AggregationURI :: string

record JWTClaims =
  jc_Subject :: string
  jc_Issuer :: string
  jc_IssuedAt :: int
  jc_ExpiresAt :: "int option"
  jc_StatusList :: StatusListClaim
  jc_TTL :: int

definition status_list_claims :: "(bytes \<Rightarrow> bytes option) \<Rightarrow> time \<Rightarrow> StatusList \<Rightarrow> JWTClaims option" where
  "status_list_claims deflate now sl =
     (case CompressAndEncode deflate (sl_statuses sl) of
        None \<Rightarrow> None
      | Some lst \<Rightarrow>
          Some \<lparr>jc_Subject = sl_Subject sl, jc_Issuer = sl_Issuer sl, jc_IssuedAt = unix now,
                jc_ExpiresAt = (if sl_ExpiresIn sl > 0 then Some (unix (now + sl_ExpiresIn sl)) else None),
                jc_StatusList = \<lparr>slc_Bits = Bits, slc_Lst = lst, slc_AggregationURI = sl_AggregationURI sl\<rparr>,
                jc_TTL = (if sl_TTL sl > 0 then sl_TTL sl else 0)\<rparr>)"

text \<open>\<open>sign typ kid claims\<close> stands for the configured key: its header, serialisation and signature.\<close>

definition JWTTypHeader :: string where
  "JWTTypHeader = ''statuslist+jwt''"

definition GenerateJWT ::
  "(bytes \<Rightarrow> bytes option) \<Rightarrow> (string \<Rightarrow> string \<Rightarrow> JWTClaims \<Rightarrow> string option) \<Rightarrow> time \<Rightarrow> StatusList \<Rightarrow> string option"
where
  "GenerateJWT deflate sign now sl =
     (case status_list_claims deflate now sl of
        None \<Rightarrow> None
      | Some claims \<Rightarrow> sign JWTTypHeader (sl_KeyID sl) claims)"

definition GetStatusFromJWT :: "(bytes \<Rightarrow> (bytes \<times> bool) option) \<Rightarrow> JWTClaims \<Rightarrow> int \<Rightarrow> 8 word option" where
  "GetStatusFromJWT inflate claims index =
     (case DecodeAndDecompress inflate (slc_Lst (jc_StatusList claims)) of
        None \<Rightarrow> None
      | Some statuses \<Rightarrow> GetStatus statuses index)"

section \<open>Lemmas\<close>

text \<open>What zlib documents: what the writer produced, the reader delivers in full.\<close>

definition zlib_ok :: "(bytes \<Rightarrow> bytes option) \<Rightarrow> (bytes \<Rightarrow> (bytes \<times> bool) option) \<Rightarrow> bool" where
  "zlib_ok deflate inflate \<longleftrightarrow> (\<forall>b c. deflate b = Some c \<longrightarrow> inflate c = Some (b, True))"

lemma read_limited_length: "0 \<le> n \<Longrightarrow> read_limited n r = Some b \<Longrightarrow> int (length b) \<le> n"
  by (auto simp: read_limited_def split: prod.splits if_splits)

lemma DecodeAndDecompress_CompressAndEncode:
  assumes "zlib_ok deflate inflate" and "CompressAndEncode deflate statuses = Some e"
  shows "DecodeAndDecompress inflate e = (if int (length statuses) \<le> maxDecompressedSize then Some statuses else None)"
proof -
  obtain c where c: "deflate statuses = Some c" "e = EncodeToString c"
    using assms(2) by (auto simp: CompressAndEncode_def CompressStatuses_def)
  then have "inflate c = Some (statuses, True)" using assms(1) by (simp add: zlib_ok_def)
  then show ?thesis
    using c(2) by (auto simp: DecodeAndDecompress_def DecodeString_EncodeToString DecompressStatuses_def read_limited_def)
qed

text \<open>
  C28: the published list reads back. The status a relying party gets from the token at an index is the
  status of the list at that index, for every index in range and for lists up to the decompression limit;
  every other index is an error, and a list above the limit is refused whole.
\<close>

theorem status_list_token_roundtrip:
  assumes "zlib_ok deflate inflate" and "status_list_claims deflate now sl = Some claims"
  shows "GetStatusFromJWT inflate claims i =
    (if StatusList_Len sl \<le> maxDecompressedSize then StatusList_Get sl i else None)"
proof -
  obtain lst where "CompressAndEncode deflate (sl_statuses sl) = Some lst" "slc_Lst (jc_StatusList claims) = lst"
    using assms(2) by (auto simp: status_list_claims_def split: option.splits)
  then show ?thesis
    using DecodeAndDecompress_CompressAndEncode [OF assms(1)]
    by (simp add: GetStatusFromJWT_def GetStatus_def StatusList_Get_def StatusList_Len_def)
qed

theorem status_list_token_roundtrip_witness:
  "GetStatusFromJWT (\<lambda>c. Some (c, True))
     (the (status_list_claims Some 0 (NewWithConfig [0, 1, 2] ''iss'' ''sub''))) 1 = Some StatusInvalid"
proof -
  let ?sl = "NewWithConfig [0, 1, 2] ''iss'' ''sub''"
  have z: "zlib_ok Some (\<lambda>c. Some (c, True))" by (simp add: zlib_ok_def)
  obtain claims where c: "status_list_claims Some 0 ?sl = Some claims"
    by (simp add: status_list_claims_def CompressAndEncode_def CompressStatuses_def)
  have "GetStatusFromJWT (\<lambda>c. Some (c, True)) claims 1 = Some StatusInvalid"
    using status_list_token_roundtrip [OF z c, of 1]
    by (simp add: StatusList_Len_def StatusList_Get_def NewWithConfig_def maxDecompressedSize_def StatusInvalid_def)
  then show ?thesis using c by simp
qed

text \<open>
  Decompression is bounded. Whatever bytes come from the network, what is decoded has at most fifty
  megabytes, and at most one byte more than that was read.
\<close>

theorem decompression_bounded:
  assumes "DecodeAndDecompress inflate e = Some b"
  shows "int (length b) \<le> maxDecompressedSize \<and>
    (\<exists>c r. DecodeString e = Some c \<and> inflate c = Some r \<and> b = fst r \<and> snd r)"
proof -
  obtain c r where c: "DecodeString e = Some c" "inflate c = Some r" "read_limited (maxDecompressedSize + 1) r = Some b"
    and l: "int (length b) \<le> maxDecompressedSize"
    using assms by (auto simp: DecodeAndDecompress_def DecompressStatuses_def split: option.splits if_splits)
  have "0 \<le> maxDecompressedSize" by (simp add: maxDecompressedSize_def)
  then have "b = fst r \<and> snd r"
    using c(3) l by (auto simp: read_limited_def split: prod.splits if_splits)
  then show ?thesis using c l by blast
qed

theorem decompression_bounded_witness:
  "int (length ([7] :: bytes)) \<le> maxDecompressedSize"
proof -
  have "DecodeAndDecompress (\<lambda>c. Some (c, True)) (EncodeToString [7]) = Some [7]"
    using DecodeAndDecompress_CompressAndEncode [of Some "\<lambda>c. Some (c, True)" "[7]"]
    by (simp add: zlib_ok_def CompressAndEncode_def CompressStatuses_def maxDecompressedSize_def del: EncodeToString.simps)
  from decompression_bounded [OF this] show ?thesis ..
qed

end
