(* ===== verification/StatusRegistry.thy ===== *)
theory StatusRegistry
  imports StatusList
begin

text \<open>
  The registry's side of the token status lists, \<^verbatim>\<open>internal/registry/db/methods_token_status_list.go\<close> and
  \<^verbatim>\<open>tokenstatuslistissuer/methods.go\<close>. A section is created full of decoys with random statuses; issuing a
  credential claims one of them, chosen at random, and repaints a few others, so that an observer of the
  published list cannot tell which entry changed.

  The MongoDB collection is a parameter, a record of the driver calls the code makes on a state \<open>'db\<close>. A
  filter is the predicate it denotes and an update the change it makes to the document it matches. Other
  instances of the registry share the collection, so what is known of a call is what MongoDB documents of
  one atomic operation among others (\<open>mongo_ok\<close> below). Random numbers are arguments: a raw number per call
  of \<^verbatim>\<open>rand.Int\<close>, reduced to the range asked for.
\<close>

unbundle bit_operations_syntax

section \<open>The collection\<close>

record TokenStatusListDoc =
  td_Index :: int
  td_Status :: "8 word"
  td_Decoy :: bool
  td_Section :: int

datatype registry_error =
    MongoError
  | NoDecoys
  | RetriesExhausted
  | RandPanic

type_synonym doc_filter = "TokenStatusListDoc \<Rightarrow> bool"
type_synonym doc_update = "TokenStatusListDoc \<Rightarrow> TokenStatusListDoc"

record 'db StatusColl =
  co_Count :: "'db \<Rightarrow> doc_filter \<Rightarrow> int \<Rightarrow> registry_error + int"
  co_FindOne :: "'db \<Rightarrow> doc_filter \<Rightarrow> registry_error + TokenStatusListDoc option"
  co_Find :: "'db \<Rightarrow> doc_filter \<Rightarrow> registry_error + TokenStatusListDoc list"
  co_InsertMany :: "'db \<Rightarrow> TokenStatusListDoc list \<Rightarrow> (registry_error + unit) \<times> 'db"
  co_UpdateOne :: "'db \<Rightarrow> doc_filter \<Rightarrow> doc_update \<Rightarrow> (registry_error + int) \<times> 'db"
  co_BulkWrite :: "'db \<Rightarrow> (doc_filter \<times> doc_update) list \<Rightarrow> (registry_error + unit) \<times> 'db"

text \<open>The filters the code writes.\<close>

definition at_entry :: "int \<Rightarrow> int \<Rightarrow> doc_filter" where
  "at_entry sec i d \<longleftrightarrow> td_Section d = sec \<and> td_Index d = i"

definition at_decoy :: "int \<Rightarrow> int \<Rightarrow> doc_filter" where
  "at_decoy sec i d \<longleftrightarrow> td_Index d = i \<and> td_Section d = sec \<and> td_Decoy d"

definition in_section :: "int \<Rightarrow> doc_filter" where
  "in_section sec d \<longleftrightarrow> td_Section d = sec"

definition decoy_in :: "int \<Rightarrow> doc_filter" where
  "decoy_in sec d \<longleftrightarrow> td_Section d = sec \<and> td_Decoy d"

definition set_doc :: "TokenStatusListDoc \<Rightarrow> doc_update" where
  "set_doc new d = new"

definition set_status :: "8 word \<Rightarrow> doc_update" where
  "set_status st d = d\<lparr>td_Status := st\<rparr>"

section \<open>Random numbers\<close>

record SLDraws =
  rd_index :: "nat \<Rightarrow> nat \<Rightarrow> nat"
  rd_pick :: "nat \<Rightarrow> nat"
  rd_noise :: "nat \<Rightarrow> nat \<Rightarrow> nat"
  rd_seed :: "nat \<Rightarrow> nat"

definition maxRandomLimit :: nat where
  "maxRandomLimit = 3"

definition cryptoRandIntn :: "nat \<Rightarrow> nat \<Rightarrow> nat" where
  "cryptoRandIntn n raw = raw mod n"

section \<open>Operations of the collection\<close>

definition decoy_doc :: "SLDraws \<Rightarrow> int \<Rightarrow> nat \<Rightarrow> TokenStatusListDoc" where
  "decoy_doc draws section i =
     \<lparr>td_Index = int i, td_Status = of_nat (cryptoRandIntn maxRandomLimit (rd_seed draws i)) AND 255,
      td_Decoy = True, td_Section = section\<rparr>"

definition CreateNewSection :: "'db StatusColl \<Rightarrow> SLDraws \<Rightarrow> int \<Rightarrow> int \<Rightarrow> 'db \<Rightarrow> (registry_error + unit) \<times> 'db" where
  "CreateNewSection coll draws section sectionSize db =
     co_InsertMany coll db (map (decoy_doc draws section) [0..<nat sectionSize])"

definition CountAll :: "'db StatusColl \<Rightarrow> 'db \<Rightarrow> registry_error + int" where
  "CountAll coll db = co_Count coll db (\<lambda>_. True) 0"

definition InitializeIfEmpty :: "'db StatusColl \<Rightarrow> SLDraws \<Rightarrow> int \<Rightarrow> 'db \<Rightarrow> (registry_error + unit) \<times> 'db" where
  "InitializeIfEmpty coll draws sectionSize db =
     (case CountAll coll db of
        Inl e \<Rightarrow> (Inl e, db)
      | Inr count \<Rightarrow> if count > 0 then (Inr (), db) else CreateNewSection coll draws 0 sectionSize db)"

definition CountDecoysInSectionWithLimit :: "'db StatusColl \<Rightarrow> 'db \<Rightarrow> int \<Rightarrow> int \<Rightarrow> registry_error + int" where
  "CountDecoysInSectionWithLimit coll db section limit = co_Count coll db (decoy_in section) limit"

definition want_decoys :: nat where
  "want_decoys = 10"

definition maxAttempts :: nat where
  "maxAttempts = 50"

text \<open>The loop of \<^verbatim>\<open>getRandomDecoys\<close>, with the attempts that are left.\<close>

fun decoy_loop ::
  "'db StatusColl \<Rightarrow> 'db \<Rightarrow> int \<Rightarrow> int \<Rightarrow> (nat \<Rightarrow> nat) \<Rightarrow> nat \<Rightarrow> int list \<Rightarrow> TokenStatusListDoc list \<Rightarrow>
   registry_error + TokenStatusListDoc list"
where
  "decoy_loop coll db section secSize raw 0 seen docs = Inr docs"
| "decoy_loop coll db section secSize raw (Suc left) seen docs =
     (if length docs \<ge> want_decoys then Inr docs
      else if secSize \<le> 0 then Inl RandPanic
      else
        (let idx = int (raw (maxAttempts - Suc left)) mod secSize in
         if idx \<in> set seen then decoy_loop coll db section secSize raw left seen docs
         else (case co_FindOne coll db (at_entry section idx) of
                 Inl e \<Rightarrow> Inl e
               | Inr None \<Rightarrow> decoy_loop coll db section secSize raw left (idx # seen) docs
               | Inr (Some doc) \<Rightarrow>
                   if \<not> td_Decoy doc then decoy_loop coll db section secSize raw left (idx # seen) docs
                   else decoy_loop coll db section secSize raw left (idx # seen) (docs @ [doc]))))"

definition getRandomDecoys ::
  "'db StatusColl \<Rightarrow> 'db \<Rightarrow> int \<Rightarrow> int \<Rightarrow> (nat \<Rightarrow> nat) \<Rightarrow> registry_error + TokenStatusListDoc list"
where
  "getRandomDecoys coll db section sectionSize raw =
     (case decoy_loop coll db section sectionSize raw maxAttempts [] [] of
        Inl e \<Rightarrow> Inl e
      | Inr docs \<Rightarrow> if docs = [] then Inl NoDecoys else Inr docs)"

definition noise_updates :: "int \<Rightarrow> int \<Rightarrow> (nat \<Rightarrow> nat) \<Rightarrow> TokenStatusListDoc list \<Rightarrow> (doc_filter \<times> doc_update) list" where
  "noise_updates section index raw decoys =
     map (\<lambda>(k, d). (at_decoy section (td_Index d), set_status (of_nat (cryptoRandIntn maxRandomLimit (raw k)))))
       (filter (\<lambda>(k, d). td_Index d \<noteq> index) (enumerate 0 decoys))"

definition maxRetries :: nat where
  "maxRetries = 3"

text \<open>The retries of \<^verbatim>\<open>Add\<close>; a failure of the noise updates is only logged.\<close>

fun add_retry ::
  "'db StatusColl \<Rightarrow> SLDraws \<Rightarrow> int \<Rightarrow> int \<Rightarrow> 8 word \<Rightarrow> nat \<Rightarrow> 'db \<Rightarrow> (registry_error + int) \<times> 'db"
where
  "add_retry coll draws sectionSize section status 0 db = (Inl RetriesExhausted, db)"
| "add_retry coll draws sectionSize section status (Suc left) db =
     (let retry = maxRetries - Suc left in
      case getRandomDecoys coll db section sectionSize (rd_index draws retry) of
        Inl e \<Rightarrow> (Inl e, db)
      | Inr decoys \<Rightarrow>
          (let index = td_Index (decoys ! cryptoRandIntn (length decoys) (rd_pick draws retry));
               doc = \<lparr>td_Index = index, td_Status = status, td_Decoy = False, td_Section = section\<rparr>
           in case co_UpdateOne coll db (at_decoy section index) (set_doc doc) of
                (Inl e, db1) \<Rightarrow> (Inl e, db1)
              | (Inr matched, db1) \<Rightarrow>
                  if matched = 0 then add_retry coll draws sectionSize section status left db1
                  else if length decoys > 1
                  then (Inr index, snd (co_BulkWrite coll db1 (noise_updates section index (rd_noise draws retry) decoys)))
                  else (Inr index, db1)))"

definition Add :: "'db StatusColl \<Rightarrow> SLDraws \<Rightarrow> int \<Rightarrow> int \<Rightarrow> 8 word \<Rightarrow> 'db \<Rightarrow> (registry_error + int) \<times> 'db" where
  "Add coll draws sectionSize section status db = add_retry coll draws sectionSize section status maxRetries db"

definition GetAllStatusesForSection :: "'db StatusColl \<Rightarrow> 'db \<Rightarrow> int \<Rightarrow> registry_error + bytes" where
  "GetAllStatusesForSection coll db section =
     (case co_Find coll db (in_section section) of
        Inl e \<Rightarrow> Inl e
      | Inr docs \<Rightarrow> Inr (map td_Status docs))"

definition UpdateStatus :: "'db StatusColl \<Rightarrow> int \<Rightarrow> int \<Rightarrow> 8 word \<Rightarrow> 'db \<Rightarrow> (registry_error + unit) \<times> 'db" where
  "UpdateStatus coll section index status db =
     (case co_UpdateOne coll db (at_entry section index) (set_status status) of
        (Inl e, db1) \<Rightarrow> (Inl e, db1)
      | (Inr _, db1) \<Rightarrow> (Inr (), db1))"

section \<open>The issuer of status entries\<close>

text \<open>
  The metadata collection holds one document with the current section and all sections, \<open>None\<close> before it is
  initialised. Its driver calls are parameters too.
\<close>

record TokenStatusListMetadataDoc =
  tm_CurrentSection :: int
  tm_Sections :: "int list"

record 'db MetaColl =
  me_FindOne :: "'db \<Rightarrow> registry_error + TokenStatusListMetadataDoc option"
  me_InsertOne :: "'db \<Rightarrow> TokenStatusListMetadataDoc \<Rightarrow> (registry_error + unit) \<times> 'db"
  me_UpdateOne :: "'db \<Rightarrow> TokenStatusListMetadataDoc \<Rightarrow> (registry_error + unit) \<times> 'db"

definition initMetadataDoc :: "'db MetaColl \<Rightarrow> 'db \<Rightarrow> (registry_error + unit) \<times> 'db" where
  "initMetadataDoc meta db =
     (case me_FindOne meta db of
        Inl e \<Rightarrow> (Inl e, db)
      | Inr (Some _) \<Rightarrow> (Inr (), db)
      | Inr None \<Rightarrow> me_InsertOne meta db \<lparr>tm_CurrentSection = 0, tm_Sections = [0]\<rparr>)"

definition GetCurrentSection :: "'db MetaColl \<Rightarrow> 'db \<Rightarrow> registry_error + int" where
  "GetCurrentSection meta db =
     (case me_FindOne meta db of
        Inl e \<Rightarrow> Inl e
      | Inr None \<Rightarrow> Inl MongoError
      | Inr (Some doc) \<Rightarrow> Inr (tm_CurrentSection doc))"

definition UpdateCurrentSection :: "'db MetaColl \<Rightarrow> int \<Rightarrow> 'db \<Rightarrow> (registry_error + unit) \<times> 'db" where
  "UpdateCurrentSection meta newSection db =
     (case me_FindOne meta db of
        Inl e \<Rightarrow> (Inl e, db)
      | Inr None \<Rightarrow> (Inl MongoError, db)
      | Inr (Some doc) \<Rightarrow>
          me_UpdateOne meta db \<lparr>tm_CurrentSection = newSection, tm_Sections = tm_Sections doc @ [newSection]\<rparr>)"

definition GetAllSections :: "'db MetaColl \<Rightarrow> 'db \<Rightarrow> registry_error + int list" where
  "GetAllSections meta db =
     (case me_FindOne meta db of
        Inl e \<Rightarrow> Inl e
      | Inr None \<Rightarrow> Inl MongoError
      | Inr (Some doc) \<Rightarrow> Inr (tm_Sections doc))"

definition CreateNewSectionIfNeeded ::
  "'db StatusColl \<Rightarrow> 'db MetaColl \<Rightarrow> SLDraws \<Rightarrow> int \<Rightarrow> 'db \<Rightarrow> (registry_error + int) \<times> 'db"
where
  "CreateNewSectionIfNeeded coll meta draws sectionSize db =
     (case GetCurrentSection meta db of
        Inl e \<Rightarrow> (Inl e, db)
      | Inr currentSection \<Rightarrow>
          (case CountDecoysInSectionWithLimit coll db currentSection 1001 of
             Inl e \<Rightarrow> (Inl e, db)
           | Inr numberOfDecoyDocs \<Rightarrow>
               if numberOfDecoyDocs \<le> 1000 then
                 and_then (CreateNewSection coll draws (currentSection + 1) sectionSize db) (\<lambda>_ db1.
                 and_then (UpdateCurrentSection meta (currentSection + 1) db1) (\<lambda>_ db2.
                   (Inr (currentSection + 1), db2)))
               else (Inr currentSection, db)))"

definition AddStatus ::
  "'db StatusColl \<Rightarrow> 'db MetaColl \<Rightarrow> SLDraws \<Rightarrow> int \<Rightarrow> 8 word \<Rightarrow> 'db \<Rightarrow> (registry_error + int \<times> int) \<times> 'db"
where
  "AddStatus coll meta draws sectionSize status db =
     and_then (CreateNewSectionIfNeeded coll meta draws sectionSize db) (\<lambda>currentSection db1.
     and_then (Add coll draws sectionSize currentSection status db1) (\<lambda>index db2.
       (Inr (currentSection, index), db2)))"

section \<open>What MongoDB documents\<close>

text \<open>
  \<open>docs\<close> reads the documents of a state by section and index, which a unique index makes a key. An update
  applies to one document that matches its filter, atomically, and reports whether there was one; an
  operation that fails may or may not have been applied. \<open>env\<close> is what other clients may have done before
  the operation took effect.
\<close>

type_synonym entries = "int \<times> int \<rightharpoonup> TokenStatusListDoc"

definition doc_key :: "TokenStatusListDoc \<Rightarrow> int \<times> int" where
  "doc_key d = (td_Section d, td_Index d)"

definition update_one :: "doc_filter \<Rightarrow> doc_update \<Rightarrow> entries \<Rightarrow> int \<Rightarrow> entries \<Rightarrow> bool" where
  "update_one F f m n m' \<longleftrightarrow>
     (\<exists>k d. m k = Some d \<and> F d \<and> n = 1 \<and> m' = m(k \<mapsto> f d)) \<or>
     ((\<forall>k d. m k = Some d \<longrightarrow> \<not> F d) \<and> n = 0 \<and> m' = m)"

inductive bulk_write :: "(entries \<Rightarrow> entries \<Rightarrow> bool) \<Rightarrow> (doc_filter \<times> doc_update) list \<Rightarrow> entries \<Rightarrow> entries \<Rightarrow> bool"
  for env where
  bulk_stop: "env m m' \<Longrightarrow> bulk_write env us m m'"
| bulk_step: "env m m1 \<Longrightarrow> update_one F f m1 n m2 \<Longrightarrow> bulk_write env us m2 m' \<Longrightarrow> bulk_write env ((F, f) # us) m m'"

definition insert_many :: "TokenStatusListDoc list \<Rightarrow> bool \<Rightarrow> entries \<Rightarrow> entries \<Rightarrow> bool" where
  "insert_many ds done m m' \<longleftrightarrow>
     (\<forall>k d. m k = Some d \<longrightarrow> m' k = Some d) \<and>
     (\<forall>k d. m k = None \<longrightarrow> m' k = Some d \<longrightarrow> d \<in> set ds \<and> k = doc_key d) \<and>
     (done \<longrightarrow> (\<forall>d\<in>set ds. m (doc_key d) = None \<and> m' (doc_key d) = Some d))"

text \<open>An update that leaves section and index of what it matches alone; the code makes no other.\<close>

definition key_fixed :: "doc_filter \<Rightarrow> doc_update \<Rightarrow> bool" where
  "key_fixed F f \<longleftrightarrow> (\<forall>d. F d \<longrightarrow> doc_key (f d) = doc_key d)"

definition mongo_ok ::
  "(entries \<Rightarrow> entries \<Rightarrow> bool) \<Rightarrow> 'db StatusColl \<Rightarrow> ('db \<Rightarrow> entries) \<Rightarrow> bool"
where
  "mongo_ok env coll docs \<longleftrightarrow>
     (\<forall>db k d. docs db k = Some d \<longrightarrow> k = doc_key d) \<and>
     (\<forall>db F ds. co_Find coll db F = Inr ds \<longrightarrow>
        sorted (map td_Index ds) \<and> distinct ds \<and> set ds = {d. \<exists>k. docs db k = Some d \<and> F d}) \<and>
     (\<forall>db F f r db'. co_UpdateOne coll db F f = (r, db') \<longrightarrow> key_fixed F f \<longrightarrow>
        (\<exists>m. env (docs db) m \<and> (\<forall>k d. m k = Some d \<longrightarrow> k = doc_key d) \<and>
           (case r of Inr n \<Rightarrow> update_one F f m n (docs db')
            | Inl _ \<Rightarrow> docs db' = m \<or> (\<exists>n. update_one F f m n (docs db'))))) \<and>
     (\<forall>db us r db'. co_BulkWrite coll db us = (r, db') \<longrightarrow> (\<forall>(F, f)\<in>set us. key_fixed F f) \<longrightarrow> bulk_write env us (docs db) (docs db')) \<and>
     (\<forall>db ds r db'. co_InsertMany coll db ds = (r, db') \<longrightarrow>
        (\<exists>m. env (docs db) m \<and> insert_many ds (is_ok r) m (docs db')))"

text \<open>The metadata calls leave the entries to the other clients.\<close>

definition meta_ok :: "(entries \<Rightarrow> entries \<Rightarrow> bool) \<Rightarrow> 'db MetaColl \<Rightarrow> ('db \<Rightarrow> entries) \<Rightarrow> bool" where
  "meta_ok env meta docs \<longleftrightarrow> (\<forall>db doc r db'. me_UpdateOne meta db doc = (r, db') \<longrightarrow> env (docs db) (docs db'))"

section \<open>Allocation\<close>

definition allocated :: "entries \<Rightarrow> (int \<times> int) set" where
  "allocated m = {k. \<exists>d. m k = Some d \<and> \<not> td_Decoy d}"

text \<open>\<open>preserving env\<close>: the other clients are registries too, they never give an allocated entry back.\<close>

definition preserving :: "(entries \<Rightarrow> entries \<Rightarrow> bool) \<Rightarrow> bool" where
  "preserving env \<longleftrightarrow> (\<forall>m m'. env m m' \<longrightarrow> allocated m \<subseteq> allocated m')"

lemma update_one_allocated:
  assumes "update_one F f m n m'" and "\<And>d. F d \<Longrightarrow> \<not> td_Decoy d \<Longrightarrow> \<not> td_Decoy (f d)"
  shows "allocated m \<subseteq> allocated m'"
  using assms by (auto simp: update_one_def allocated_def)

lemma set_status_decoy [simp]: "td_Decoy (set_status st d) = td_Decoy d"
  by (simp add: set_status_def)

lemma noise_keeps: "(F, f) \<in> set (noise_updates sec i raw ds) \<Longrightarrow> F d \<Longrightarrow> td_Decoy d \<and> td_Decoy (f d)"
  by (auto simp: noise_updates_def at_decoy_def)

lemma bulk_write_allocated:
  assumes "bulk_write env us m m'" and "preserving env" and "\<And>F f d. (F, f) \<in> set us \<Longrightarrow> F d \<Longrightarrow> td_Decoy d"
  shows "allocated m \<subseteq> allocated m'"
  using assms
proof (induction rule: bulk_write.induct)
  case (bulk_stop m m' us)
  then show ?case by (simp add: preserving_def)
next
  case (bulk_step m m1 F f n m2 us m')
  have "allocated m \<subseteq> allocated m1" using bulk_step.hyps(1) bulk_step.prems(1) by (simp add: preserving_def)
  moreover have "F d \<Longrightarrow> td_Decoy d" for d using bulk_step.prems(2) [of F f] by simp
  then have "allocated m1 \<subseteq> allocated m2" using update_one_allocated [OF bulk_step.hyps(2)] by blast
  moreover have "allocated m2 \<subseteq> allocated m'" using bulk_step.IH bulk_step.prems by auto
  ultimately show ?case by blast
qed

lemma mongo_okD:
  assumes "mongo_ok env coll docs"
  shows "docs db k = Some d \<Longrightarrow> k = doc_key d"
    and "co_UpdateOne coll db F f = (r, db') \<Longrightarrow> key_fixed F f \<Longrightarrow> \<exists>m. env (docs db) m \<and> (\<forall>k d. m k = Some d \<longrightarrow> k = doc_key d) \<and>
           (case r of Inr n \<Rightarrow> update_one F f m n (docs db')
            | Inl _ \<Rightarrow> docs db' = m \<or> (\<exists>n. update_one F f m n (docs db')))"
    and "co_BulkWrite coll db us = (r', db') \<Longrightarrow> \<forall>(F, f)\<in>set us. key_fixed F f \<Longrightarrow> bulk_write env us (docs db) (docs db')"
    and "co_InsertMany coll db ds = (r', db') \<Longrightarrow> \<exists>m. env (docs db) m \<and> insert_many ds (is_ok r') m (docs db')"
  using assms unfolding mongo_ok_def by (elim conjE, simp_all only: simp_thms)

lemma key_fixed_updates [simp]:
  "key_fixed F (set_status st)" "doc_key doc = (sec, i) \<Longrightarrow> key_fixed (at_decoy sec i) (set_doc doc)"
  "\<forall>(F, f)\<in>set (noise_updates sec i raw ds). key_fixed F f"
  by (auto simp: key_fixed_def doc_key_def set_status_def set_doc_def at_decoy_def noise_updates_def)

lemma update_allocated:
  assumes ok: "mongo_ok env coll docs" "preserving env" and op: "co_UpdateOne coll db F f = (r, db')" "key_fixed F f"
    and f: "\<And>d. F d \<Longrightarrow> \<not> td_Decoy d \<Longrightarrow> \<not> td_Decoy (f d)"
  shows "allocated (docs db) \<subseteq> allocated (docs db')"
proof -
  obtain m where m: "env (docs db) m" "case r of Inr n \<Rightarrow> update_one F f m n (docs db')
      | Inl _ \<Rightarrow> docs db' = m \<or> (\<exists>n. update_one F f m n (docs db'))"
    using mongo_okD(2) [OF ok(1) op] by blast
  have "allocated (docs db) \<subseteq> allocated m" using m(1) ok(2) by (simp add: preserving_def)
  moreover have "allocated m \<subseteq> allocated (docs db')"
    using m(2) update_one_allocated [where F = F and f = f] f by (auto split: sum.splits)
  ultimately show ?thesis by blast
qed

text \<open>The claim itself: it succeeds only on a decoy, and the entry is allocated afterwards.\<close>

lemma claim_allocates:
  assumes ok: "mongo_ok env coll docs" "preserving env"
    and op: "co_UpdateOne coll db (at_decoy sec i) (set_doc doc) = (Inr n, db')" and n: "n \<noteq> 0"
    and doc: "\<not> td_Decoy doc" "doc_key doc = (sec, i)"
  shows "(sec, i) \<notin> allocated (docs db)" and "(sec, i) \<in> allocated (docs db')"
proof -
  obtain m where env: "env (docs db) m" and key: "\<forall>k d. m k = Some d \<longrightarrow> k = doc_key d"
    and u: "update_one (at_decoy sec i) (set_doc doc) m n (docs db')"
    using mongo_okD(2) [OF ok(1) op] doc(2) by auto
  obtain k d where d: "m k = Some d" "at_decoy sec i d" "docs db' = m(k \<mapsto> doc)"
    using u n by (auto simp: update_one_def set_doc_def)
  have "k = doc_key d" using key d(1) by blast
  then have "k = (sec, i)" using d(2) by (simp add: at_decoy_def doc_key_def)
  then show "(sec, i) \<in> allocated (docs db')" using d doc by (simp add: allocated_def)
  have "(sec, i) \<notin> allocated m" using \<open>k = (sec, i)\<close> d by (simp add: allocated_def at_decoy_def)
  then show "(sec, i) \<notin> allocated (docs db)" using env ok(2) by (auto simp: preserving_def)
qed

text \<open>What one round of \<^verbatim>\<open>Add\<close> can come to.\<close>

definition issued_doc :: "int \<Rightarrow> 8 word \<Rightarrow> int \<Rightarrow> TokenStatusListDoc" where
  "issued_doc sec status i = \<lparr>td_Index = i, td_Status = status, td_Decoy = False, td_Section = sec\<rparr>"

lemma issued_doc [simp]: "doc_key (issued_doc sec status i) = (sec, i)" "\<not> td_Decoy (issued_doc sec status i)"
  by (simp_all add: issued_doc_def doc_key_def)

lemma add_round:
  assumes "add_retry coll draws secSize sec status (Suc left) db = (r, db')"
  obtains (none) e where "r = Inl e" "db' = db"
    | (failed) i e where "co_UpdateOne coll db (at_decoy sec i) (set_doc (issued_doc sec status i)) = (Inl e, db')" "r = Inl e"
    | (lost) i db1 where "co_UpdateOne coll db (at_decoy sec i) (set_doc (issued_doc sec status i)) = (Inr 0, db1)"
        "add_retry coll draws secSize sec status left db1 = (r, db')"
    | (claimed) i n db1 raw decoys where "co_UpdateOne coll db (at_decoy sec i) (set_doc (issued_doc sec status i)) = (Inr n, db1)"
        "n \<noteq> 0" "r = Inr i" "db' = db1 \<or> db' = snd (co_BulkWrite coll db1 (noise_updates sec i raw decoys))"
proof (cases "getRandomDecoys coll db sec secSize (rd_index draws (maxRetries - Suc left))")
  case (Inl e)
  then show thesis using assms none [of e] by (simp add: Let_def)
next
  case (Inr decoys)
  define i where "i = td_Index (decoys ! cryptoRandIntn (length decoys) (rd_pick draws (maxRetries - Suc left)))"
  obtain u db1 where u: "co_UpdateOne coll db (at_decoy sec i) (set_doc (issued_doc sec status i)) = (u, db1)" by fastforce
  have step: "(case u of Inl e \<Rightarrow> (Inl e, db1) | Inr n \<Rightarrow>
      if n = 0 then add_retry coll draws secSize sec status left db1
      else if length decoys > 1
      then (Inr i, snd (co_BulkWrite coll db1 (noise_updates sec i (rd_noise draws (maxRetries - Suc left)) decoys)))
      else (Inr i, db1)) = (r, db')"
    using assms Inr u by (cases u) (auto simp: Let_def i_def issued_doc_def split: if_splits)
  show thesis
  proof (cases u)
    case (Inl e)
    then have "r = Inl e" "db' = db1" using step by auto
    then show thesis using failed [of i e] u Inl by blast
  next
    case (Inr n)
    show thesis
    proof (cases "n = 0")
      case True
      then show thesis using lost [of i db1] u step Inr by simp
    next
      case False
      then have "r = Inr i"
        "db' = db1 \<or> db' = snd (co_BulkWrite coll db1 (noise_updates sec i (rd_noise draws (maxRetries - Suc left)) decoys))"
        using step Inr by (auto split: if_splits)
      then show thesis using claimed [of i n db1] u Inr False by blast
    qed
  qed
qed

lemma add_retry_allocates:
  assumes ok: "mongo_ok env coll docs" "preserving env"
    and op: "add_retry coll draws secSize sec status left db = (r, db')"
  shows "allocated (docs db) \<subseteq> allocated (docs db') \<and>
    (\<forall>i. r = Inr i \<longrightarrow> (sec, i) \<notin> allocated (docs db) \<and> (sec, i) \<in> allocated (docs db'))"
  using op
proof (induction left arbitrary: db)
  case 0
  then show ?case by auto
next
  case (Suc left)
  have up: "allocated (docs db) \<subseteq> allocated (docs db1)"
    if "co_UpdateOne coll db (at_decoy sec i) (set_doc (issued_doc sec status i)) = (u, db1)" for i u db1
    using update_allocated [OF ok that] by (simp add: set_doc_def)
  from Suc.prems show ?case
  proof (cases rule: add_round)
    case (claimed i n db1 raw decoys)
    have c: "(sec, i) \<notin> allocated (docs db)" "(sec, i) \<in> allocated (docs db1)"
      using claim_allocates [OF ok claimed(1,2)] by simp_all
    have "allocated (docs db1) \<subseteq> allocated (docs db')"
      using claimed(4)
    proof
      assume "db' = snd (co_BulkWrite coll db1 (noise_updates sec i raw decoys))"
      then have "bulk_write env (noise_updates sec i raw decoys) (docs db1) (docs db')"
        using mongo_okD(3) [OF ok(1)] key_fixed_updates(3) by (metis prod.collapse)
      then show ?thesis using bulk_write_allocated [OF _ ok(2)] noise_keeps by blast
    qed simp
    then show ?thesis using up [OF claimed(1)] c claimed(3) by blast
  next
    case (lost i db1)
    then show ?thesis using Suc.IH [OF lost(2)] up [OF lost(1)] by blast
  qed (use up in auto)
qed

lemma CreateNewSection_allocated:
  assumes ok: "mongo_ok env coll docs" "preserving env" and op: "CreateNewSection coll draws sec n db = (r, db')"
  shows "allocated (docs db) \<subseteq> allocated (docs db')"
proof -
  obtain m where "env (docs db) m" and i: "insert_many (map (decoy_doc draws sec) [0..<nat n]) (is_ok r) m (docs db')"
    using mongo_okD(4) [OF ok(1) op [unfolded CreateNewSection_def]] by blast
  then have "allocated (docs db) \<subseteq> allocated m" using ok(2) by (simp add: preserving_def)
  also have "\<dots> \<subseteq> allocated (docs db')" using i by (auto simp: insert_many_def allocated_def)
  finally show ?thesis .
qed

lemma UpdateCurrentSection_allocated:
  assumes "meta_ok env meta docs" "preserving env" and "UpdateCurrentSection meta sec db = (r, db')"
  shows "allocated (docs db) \<subseteq> allocated (docs db')"
  using assms by (auto simp: UpdateCurrentSection_def meta_ok_def preserving_def split: sum.splits option.splits)

lemma CreateNewSectionIfNeeded_allocated:
  assumes ok: "mongo_ok env coll docs" "meta_ok env meta docs" "preserving env"
    and op: "CreateNewSectionIfNeeded coll meta draws n db = (r, db')"
  shows "allocated (docs db) \<subseteq> allocated (docs db')"
proof -
  have two: "allocated (docs db) \<subseteq> allocated (docs (snd (and_then (CreateNewSection coll draws sec n db)
      (\<lambda>_ db1. and_then (UpdateCurrentSection meta sec db1) (\<lambda>_ db2. (Inr sec, db2))))))" for sec
  proof (rule and_then_rel [where R = "\<lambda>a b. allocated (docs a) \<subseteq> allocated (docs b)"])
    show "allocated (docs db) \<subseteq> allocated (docs (snd (CreateNewSection coll draws sec n db)))"
      using CreateNewSection_allocated [OF ok(1,3)] by (metis prod.collapse)
    show "allocated (docs s1) \<subseteq> allocated (docs (snd (and_then (UpdateCurrentSection meta sec s1) (\<lambda>_ db2. (Inr sec, db2)))))" for s1
      using UpdateCurrentSection_allocated [OF ok(2,3), of sec s1]
      by (cases "UpdateCurrentSection meta sec s1"; cases "fst (UpdateCurrentSection meta sec s1)") auto
  qed auto
  show ?thesis
    using op two by (auto simp: CreateNewSectionIfNeeded_def split: sum.splits if_splits) (metis snd_conv subsetD)
qed

lemma AddStatus_allocates:
  assumes ok: "mongo_ok env coll docs" "meta_ok env meta docs" "preserving env"
    and op: "AddStatus coll meta draws n status db = (r, db')"
  shows "allocated (docs db) \<subseteq> allocated (docs db')"
    and "r = Inr k \<Longrightarrow> k \<notin> allocated (docs db) \<and> k \<in> allocated (docs db')"
proof -
  obtain c db1 where c: "CreateNewSectionIfNeeded coll meta draws n db = (c, db1)" by fastforce
  have a: "allocated (docs db) \<subseteq> allocated (docs db1)" using CreateNewSectionIfNeeded_allocated [OF ok c] .
  have "allocated (docs db1) \<subseteq> allocated (docs db') \<and>
      (\<forall>sec i. r = Inr (sec, i) \<longrightarrow> (sec, i) \<notin> allocated (docs db1) \<and> (sec, i) \<in> allocated (docs db'))"
  proof (cases c)
    case (Inl e)
    then show ?thesis using op c by (auto simp: AddStatus_def)
  next
    case (Inr sec)
    obtain i db2 where "Add coll draws n sec status db1 = (i, db2)" by fastforce
    then show ?thesis
      using op c Inr add_retry_allocates [OF ok(1,3), of draws n sec status maxRetries db1 i db2]
      by (cases i) (auto simp: AddStatus_def Add_def)
  qed
  then show "allocated (docs db) \<subseteq> allocated (docs db')"
    and "r = Inr k \<Longrightarrow> k \<notin> allocated (docs db) \<and> k \<in> allocated (docs db')"
    using a by (cases k, blast)+
qed

section \<open>Runs of the registry\<close>

datatype status_call =
    CallAdd SLDraws "8 word"
  | CallUpdate int int "8 word"

fun status_step ::
  "'db StatusColl \<Rightarrow> 'db MetaColl \<Rightarrow> int \<Rightarrow> 'db \<Rightarrow> status_call \<Rightarrow> (int \<times> int) option \<times> 'db"
where
  "status_step coll meta n db (CallAdd draws status) =
     (case AddStatus coll meta draws n status db of (Inr k, db') \<Rightarrow> (Some k, db') | (Inl _, db') \<Rightarrow> (None, db'))"
| "status_step coll meta n db (CallUpdate sec i status) = (None, snd (UpdateStatus coll sec i status db))"

lemma UpdateStatus_allocated:
  assumes "mongo_ok env coll docs" "preserving env" and "UpdateStatus coll sec i st db = (r, db')"
  shows "allocated (docs db) \<subseteq> allocated (docs db')"
  using assms update_allocated [OF assms(1,2), of db "at_entry sec i" "set_status st"]
  by (auto simp: UpdateStatus_def split: sum.splits prod.splits)

lemma status_step_allocates:
  assumes ok: "mongo_ok env coll docs" "meta_ok env meta docs" "preserving env"
  shows "allocated (docs db) \<subseteq> allocated (docs (snd (status_step coll meta n db c)))"
    and "fst (status_step coll meta n db c) = Some k \<Longrightarrow>
      k \<notin> allocated (docs db) \<and> k \<in> allocated (docs (snd (status_step coll meta n db c)))"
proof -
  show "allocated (docs db) \<subseteq> allocated (docs (snd (status_step coll meta n db c)))"
    using AddStatus_allocates(1) [OF ok] UpdateStatus_allocated [OF ok(1,3)]
    by (cases c) (auto split: prod.splits sum.splits, (metis prod.collapse subsetD)+)
  show "fst (status_step coll meta n db c) = Some k \<Longrightarrow>
      k \<notin> allocated (docs db) \<and> k \<in> allocated (docs (snd (status_step coll meta n db c)))"
    using AddStatus_allocates(2) [OF ok]
    by (cases c) (auto split: prod.splits sum.splits)
qed

text \<open>
  C15: no status entry is given to two credentials. In every sequence of issuances and status changes, with
  other registries working on the same collection at the same time, a section and index is returned at
  most once.
\<close>

theorem status_entry_allocated_once:
  assumes "mongo_ok env coll docs" and "meta_ok env meta docs" and "preserving env"
  shows "length (filter (\<lambda>r. r = Some k) (fst (run (status_step coll meta n) db calls))) \<le> 1"
proof (rule run_at_most_once [where Q = "\<lambda>db. k \<in> allocated (docs db)" and I = "\<lambda>_. True"])
  show "k \<in> allocated (docs (snd (status_step coll meta n s c))) \<and> fst (status_step coll meta n s c) \<noteq> Some k"
    if "k \<in> allocated (docs s)" for s c
    using status_step_allocates [OF assms, where db = s and n = n and c = c] that by blast
  show "k \<in> allocated (docs (snd (status_step coll meta n s c)))" if "fst (status_step coll meta n s c) = Some k" for s c
    using status_step_allocates(2) [OF assms that] by blast
qed simp_all

section \<open>The published list\<close>

text \<open>
  Without interference the collection refines an array per section: the documents of a full section, in the
  order of their index, are its elements. \<open>section_full\<close> is what \<^verbatim>\<open>CreateNewSection\<close> establishes and every
  operation keeps.
\<close>

definition section_full :: "entries \<Rightarrow> int \<Rightarrow> int \<Rightarrow> bool" where
  "section_full m sec n \<longleftrightarrow> (\<forall>i. m (sec, i) \<noteq> None \<longleftrightarrow> 0 \<le> i \<and> i < n)"

definition section_statuses :: "entries \<Rightarrow> int \<Rightarrow> int \<Rightarrow> bytes" where
  "section_statuses m sec n = map (\<lambda>i. td_Status (the (m (sec, int i)))) [0..<nat n]"

lemma sorted_indices:
  assumes "sorted (map td_Index ds)" and "distinct (map td_Index ds)" and "set (map td_Index ds) = {0..<n}"
  shows "map td_Index ds = map int [0..<nat n]"
proof (rule map_sorted_distinct_set_unique [where f = id, simplified])
  show "sorted (map int [0..<nat n])" by (simp add: sorted_map sorted_wrt_upt less_imp_le sorted_wrt_mono_rel)
  show "distinct (map int [0..<nat n])" by (simp add: distinct_map)
  have "set (map int [0..<nat n]) = {0..<n}" by (cases "0 \<le> n") (simp_all add: image_int_atLeastLessThan)
  then show "set (map td_Index ds) = set (map int [0..<nat n])" using assms(3) by simp
qed (use assms in simp_all)

lemma GetAllStatuses_array:
  assumes ok: "mongo_ok env coll docs" and full: "section_full (docs db) sec n"
    and g: "GetAllStatusesForSection coll db sec = Inr L"
  shows "L = section_statuses (docs db) sec n"
proof -
  obtain ds where f: "co_Find coll db (in_section sec) = Inr ds" and L: "L = map td_Status ds"
    using g by (auto simp: GetAllStatusesForSection_def split: sum.splits)
  have key: "docs db k = Some d \<Longrightarrow> k = doc_key d" for k d using mongo_okD(1) [OF ok] .
  have so: "sorted (map td_Index ds)" "distinct ds" "set ds = {d. \<exists>k. docs db k = Some d \<and> in_section sec d}"
    using ok f unfolding mongo_ok_def by (elim conjE, simp_all only: simp_thms)
  have mem: "d \<in> set ds \<longleftrightarrow> td_Section d = sec \<and> docs db (sec, td_Index d) = Some d" for d
    using so(3) key by (auto simp: in_section_def doc_key_def)
  have "inj_on td_Index (set ds)" by (rule inj_onI) (use mem in force)
  then have di: "distinct (map td_Index ds)" using so(2) by (simp add: distinct_map)
  have "i \<in> td_Index ` set ds \<longleftrightarrow> 0 \<le> i \<and> i < n" for i
  proof -
    have "i \<in> td_Index ` set ds \<longleftrightarrow> docs db (sec, i) \<noteq> None"
      using mem key by (force simp: doc_key_def)
    then show ?thesis using full by (simp add: section_full_def)
  qed
  then have "set (map td_Index ds) = {0..<n}" by (simp add: set_eq_iff)
  then have ix: "map td_Index ds = map int [0..<nat n]" using sorted_indices [OF so(1) di] by blast
  have "map td_Status ds = map (\<lambda>d. td_Status (the (docs db (sec, td_Index d)))) ds" using mem by simp
  also have "\<dots> = map (\<lambda>i. td_Status (the (docs db (sec, i)))) (map td_Index ds)" by simp
  finally show ?thesis unfolding L ix section_statuses_def by simp
qed

lemma UpdateStatus_exact:
  assumes ok: "mongo_ok (=) coll docs" and op: "UpdateStatus coll sec i st db = (Inr (), db')"
  shows "docs db' = (case docs db (sec, i) of None \<Rightarrow> docs db | Some d \<Rightarrow> (docs db)((sec, i) \<mapsto> d\<lparr>td_Status := st\<rparr>))"
proof -
  obtain n where "co_UpdateOne coll db (at_entry sec i) (set_status st) = (Inr n, db')"
    using op by (auto simp: UpdateStatus_def split: sum.splits prod.splits)
  then have u: "update_one (at_entry sec i) (set_status st) (docs db) n (docs db')"
    using mongo_okD(2) [OF ok] by fastforce
  have key: "docs db k = Some d \<Longrightarrow> k = doc_key d" for k d using mongo_okD(1) [OF ok] .
  show ?thesis
  proof (cases "docs db (sec, i)")
    case None
    then have "docs db k = Some d \<Longrightarrow> \<not> at_entry sec i d" for k d
      using key [of k d] by (auto simp: at_entry_def doc_key_def)
    then show ?thesis using u None by (auto simp: update_one_def)
  next
    case (Some d)
    then have "at_entry sec i d" using key [of "(sec, i)" d] by (simp add: at_entry_def doc_key_def)
    then obtain k e where "docs db k = Some e" "at_entry sec i e" "docs db' = (docs db)(k \<mapsto> set_status st e)"
      using u Some by (auto simp: update_one_def)
    moreover from this have "k = (sec, i)" using key [of k e] by (simp add: at_entry_def doc_key_def)
    ultimately show ?thesis using Some by (simp add: set_status_def)
  qed
qed

text \<open>
  C16: changing a status refines the update of an array. On a full section, a status change that succeeds turns
  the published list into the list with that one element replaced, exactly as \<^verbatim>\<open>StatusList.Set\<close> does, and the
  section stays full; an index outside the section changes nothing.
\<close>

theorem update_refines_array:
  assumes ok: "mongo_ok (=) coll docs" and full: "section_full (docs db) sec n"
    and op: "UpdateStatus coll sec i st db = (Inr (), db')"
    and g: "GetAllStatusesForSection coll db sec = Inr L" "GetAllStatusesForSection coll db' sec = Inr L'"
  shows "section_full (docs db') sec n \<and>
    L' = (case StatusList_Set (NewWithConfig L iss sub) i st of None \<Rightarrow> L | Some sl \<Rightarrow> sl_statuses sl)"
proof -
  have u: "docs db' = (case docs db (sec, i) of None \<Rightarrow> docs db | Some d \<Rightarrow> (docs db)((sec, i) \<mapsto> d\<lparr>td_Status := st\<rparr>))"
    using UpdateStatus_exact [OF ok op] .
  have full': "section_full (docs db') sec n"
    using full u by (auto simp: section_full_def split: option.splits)
  have L: "L = section_statuses (docs db) sec n" "L' = section_statuses (docs db') sec n"
    using GetAllStatuses_array [OF ok full g(1)] GetAllStatuses_array [OF ok full' g(2)] by simp_all
  show ?thesis
  proof (cases "0 \<le> i \<and> i < n")
    case True
    then obtain d where d: "docs db (sec, i) = Some d" using full by (auto simp: section_full_def)
    have "L' = L[nat i := st]"
      using True d u by (auto simp: L section_statuses_def nth_list_update intro!: nth_equalityI)
    then show ?thesis using full' True by (auto simp: StatusList_Set_def NewWithConfig_def L section_statuses_def)
  next
    case False
    then have "docs db (sec, i) = None" using full by (auto simp: section_full_def)
    then show ?thesis using full' False u by (auto simp: StatusList_Set_def NewWithConfig_def L section_statuses_def)
  qed
qed

section \<open>Issuing leaves the issued alone\<close>

definition same_allocated :: "entries \<Rightarrow> entries \<Rightarrow> bool" where
  "same_allocated m m' \<longleftrightarrow> (\<forall>k d. m k = Some d \<longrightarrow> \<not> td_Decoy d \<longrightarrow> m' k = Some d)"

lemma same_allocated_trans: "same_allocated a b \<Longrightarrow> same_allocated b c \<Longrightarrow> same_allocated a c"
  by (simp add: same_allocated_def)

lemma update_one_decoy: "update_one F f m n m' \<Longrightarrow> (\<And>d. F d \<Longrightarrow> td_Decoy d) \<Longrightarrow> same_allocated m m'"
  by (auto simp: update_one_def same_allocated_def)

lemma bulk_write_same:
  assumes "bulk_write (=) us m m'" and "\<And>F f d. (F, f) \<in> set us \<Longrightarrow> F d \<Longrightarrow> td_Decoy d"
  shows "same_allocated m m'"
  using assms
proof (induction rule: bulk_write.induct)
  case (bulk_stop m m' us)
  then show ?case by (simp add: same_allocated_def)
next
  case (bulk_step m m1 F f n m2 us m')
  have "same_allocated m1 m2" using update_one_decoy [OF bulk_step.hyps(2)] bulk_step.prems by auto
  moreover have "same_allocated m2 m'" using bulk_step.IH bulk_step.prems by auto
  ultimately show ?case using bulk_step.hyps(1) same_allocated_trans by simp
qed

lemma claim_exact:
  assumes ok: "mongo_ok (=) coll docs"
    and op: "co_UpdateOne coll db (at_decoy sec i) (set_doc doc) = (r, db')" and key: "doc_key doc = (sec, i)"
  shows "same_allocated (docs db) (docs db')" and "r = Inr n \<Longrightarrow> n \<noteq> 0 \<Longrightarrow> docs db' (sec, i) = Some doc"
proof -
  have u: "case r of Inr n \<Rightarrow> update_one (at_decoy sec i) (set_doc doc) (docs db) n (docs db')
      | Inl _ \<Rightarrow> docs db' = docs db \<or> (\<exists>n. update_one (at_decoy sec i) (set_doc doc) (docs db) n (docs db'))"
    using mongo_okD(2) [OF ok op] key by auto
  then show "same_allocated (docs db) (docs db')"
    using update_one_decoy [of "at_decoy sec i"] by (auto simp: at_decoy_def same_allocated_def split: sum.splits)
  assume r: "r = Inr n" "n \<noteq> 0"
  then obtain k d where d: "docs db k = Some d" "at_decoy sec i d" "docs db' = (docs db)(k \<mapsto> doc)"
    using u by (auto simp: update_one_def set_doc_def)
  have "k = (sec, i)" using mongo_okD(1) [OF ok d(1)] d(2) by (simp add: doc_key_def at_decoy_def)
  then show "docs db' (sec, i) = Some doc" using d(3) by simp
qed

text \<open>One round of \<^verbatim>\<open>Add\<close> that claimed its entry.\<close>

lemma claimed_round:
  assumes ok: "mongo_ok (=) coll docs"
    and u: "co_UpdateOne coll db (at_decoy sec i) (set_doc doc) = (Inr n, db1)" "n \<noteq> 0"
    and doc: "doc_key doc = (sec, i)" "\<not> td_Decoy doc"
    and db': "db' = db1 \<or> db' = snd (co_BulkWrite coll db1 (noise_updates sec i raw decoys))"
  shows "same_allocated (docs db) (docs db')" and "docs db' (sec, i) = Some doc"
proof -
  note c = claim_exact [OF ok u(1) doc(1)]
  have "same_allocated (docs db1) (docs db')"
    using db'
  proof
    assume "db' = snd (co_BulkWrite coll db1 (noise_updates sec i raw decoys))"
    then have "bulk_write (=) (noise_updates sec i raw decoys) (docs db1) (docs db')"
      using mongo_okD(3) [OF ok] key_fixed_updates(3) by (metis prod.collapse)
    then show ?thesis using bulk_write_same noise_keeps by blast
  qed (simp add: same_allocated_def)
  then show "same_allocated (docs db) (docs db')" and "docs db' (sec, i) = Some doc"
    using c u(2) doc(2) same_allocated_trans by (auto simp: same_allocated_def)
qed

lemma add_retry_exact:
  assumes ok: "mongo_ok (=) coll docs" and op: "add_retry coll draws secSize sec status left db = (r, db')"
  shows "same_allocated (docs db) (docs db') \<and> (\<forall>i. r = Inr i \<longrightarrow> docs db' (sec, i) = Some (issued_doc sec status i))"
  using op
proof (induction left arbitrary: db)
  case 0
  then show ?case by (auto simp: same_allocated_def)
next
  case (Suc left)
  from Suc.prems show ?case
  proof (cases rule: add_round)
    case (none e)
    then show ?thesis by (simp add: same_allocated_def)
  next
    case (failed i e)
    then show ?thesis using claim_exact(1) [OF ok failed(1)] by simp
  next
    case (lost i db1)
    then show ?thesis using claim_exact(1) [OF ok lost(1)] Suc.IH [OF lost(2)] same_allocated_trans by auto
  next
    case (claimed i n db1 raw decoys)
    then show ?thesis using claimed_round [OF ok claimed(1,2) _ _ claimed(4)] by simp
  qed
qed

text \<open>
  C17: issuing a credential leaves the issued ones alone. Whatever decoys are repainted along the way, every
  allocated entry keeps its status; the new entry carries the status asked for, and it is no decoy.
\<close>

theorem issuing_keeps_issued_statuses:
  assumes "mongo_ok (=) coll docs" and "Add coll draws secSize sec status db = (Inr i, db')"
  shows "docs db' (sec, i) = Some (issued_doc sec status i) \<and>
    (\<forall>k d. docs db k = Some d \<and> \<not> td_Decoy d \<longrightarrow> docs db' k = Some d)"
  using add_retry_exact [OF assms(1) assms(2) [unfolded Add_def]] by (auto simp: same_allocated_def)

end
