(* ===== verification/TTLCache.thy ===== *)
theory TTLCache
  imports Prelude
begin

text \<open>
  The expiring map under every in-memory store: \<^verbatim>\<open>ttlcache.Cache\<close> as the repository vendors it
  (\<^verbatim>\<open>src/vendor/github.com/jellydator/ttlcache/v3\<close>), and the wrapper \<^verbatim>\<open>MemoryCache\<close> of
  \<^verbatim>\<open>src/pkg/cache/generic_memory.go\<close>, which holds DPoP proof identifiers, nonces and the
  cached status list tokens.

  An \<open>Item\<close> carries its value, its time to live and the moment it expires; a \<open>Cache\<close> is the map
  from keys to items with the default time to live. The repository configures neither a capacity,
  nor a maximal cost, nor a loader, nor a version, so the list that orders items by use and those
  counters have no effect on any result and are left out. Each operation takes the current time.
  An eviction hands the evicted item to the subscribers on a goroutine of their own: \<open>Delete\<close>
  and \<open>evict_expired\<close> therefore return the evicted item next to the new cache.

  The lemmas give each operation's effect on what a later \<open>Get\<close> finds. The locales
  \<open>replay_guard\<close> and \<open>one_shot\<close> state what the callers rely on; their interpretations on
  \<open>MemoryCache_SetNX\<close> and \<open>MemoryCache_GetAndDelete\<close> give one winner per retention window and
  one taker per value.
\<close>

section \<open>Items\<close>

record 'v Item =
  i_value :: 'v
  i_ttl :: duration
  i_expiresAt :: time

definition NoTTL :: duration where
  "NoTTL = -1"

definition PreviousOrDefaultTTL :: duration where
  "PreviousOrDefaultTTL = -2"

definition DefaultTTL :: duration where
  "DefaultTTL = 0"

definition touchUnsafe :: "time \<Rightarrow> 'v Item \<Rightarrow> 'v Item" where
  "touchUnsafe now it =
     (if i_ttl it \<le> 0 then it else it\<lparr>i_expiresAt := now + i_ttl it\<rparr>)"

definition isExpiredUnsafe :: "time \<Rightarrow> 'v Item \<Rightarrow> bool" where
  "isExpiredUnsafe now it = (if i_ttl it \<le> 0 then False else i_expiresAt it < now)"

definition item_update :: "time \<Rightarrow> 'v \<Rightarrow> duration \<Rightarrow> 'v Item \<Rightarrow> 'v Item" where
  "item_update now v ttl it =
     (let it' = it\<lparr>i_value := v\<rparr> in
      if ttl \<noteq> PreviousOrDefaultTTL
      then touchUnsafe now (it'\<lparr>i_ttl := ttl, i_expiresAt := zero_time\<rparr>)
      else it')"

definition NewItem :: "time \<Rightarrow> 'v \<Rightarrow> duration \<Rightarrow> 'v Item" where
  "NewItem now v ttl = touchUnsafe now \<lparr>i_value = v, i_ttl = ttl, i_expiresAt = zero_time\<rparr>"

section \<open>The cache\<close>

record ('k, 'v) Cache =
  c_values :: "'k \<rightharpoonup> 'v Item"
  c_ttl :: duration

definition New :: "duration \<Rightarrow> ('k, 'v) Cache" where
  "New ttl = \<lparr>c_values = Map.empty, c_ttl = ttl\<rparr>"

definition get :: "time \<Rightarrow> 'k \<Rightarrow> bool \<Rightarrow> bool \<Rightarrow> ('k, 'v) Cache \<Rightarrow> 'v Item option \<times> ('k, 'v) Cache"
where
  "get now key touch includeExpired c =
     (case c_values c key of
        None \<Rightarrow> (None, c)
      | Some it \<Rightarrow>
          if \<not> includeExpired \<and> isExpiredUnsafe now it then (None, c)
          else if touch \<and> i_ttl it > 0 then
            (let it' = touchUnsafe now it
             in (Some it', c\<lparr>c_values := (c_values c)(key \<mapsto> it')\<rparr>))
          else (Some it, c))"

definition set_item :: "time \<Rightarrow> 'k \<Rightarrow> 'v \<Rightarrow> duration \<Rightarrow> ('k, 'v) Cache \<Rightarrow> 'v Item \<times> ('k, 'v) Cache"
where
  "set_item now key v ttl0 c =
     (let ttl = (if ttl0 = DefaultTTL then c_ttl c else ttl0) in
      case get now key False True c of
        (Some it, _) \<Rightarrow>
          (let it' = item_update now v ttl it
           in (it', c\<lparr>c_values := (c_values c)(key \<mapsto> it')\<rparr>))
      | (None, _) \<Rightarrow>
          (let ttl' = (if ttl = PreviousOrDefaultTTL then c_ttl c else ttl);
               it' = NewItem now v ttl'
           in (it', c\<lparr>c_values := (c_values c)(key \<mapsto> it')\<rparr>)))"

text \<open>\<^verbatim>\<open>Set\<close>: the returned item is not used by any caller here.\<close>

definition Set :: "time \<Rightarrow> 'k \<Rightarrow> 'v \<Rightarrow> duration \<Rightarrow> ('k, 'v) Cache \<Rightarrow> ('k, 'v) Cache" where
  "Set now key v ttl c = snd (set_item now key v ttl c)"

text \<open>\<^verbatim>\<open>Get\<close>: no option disables the touch on a hit, and no loader is configured.\<close>

definition Get :: "time \<Rightarrow> 'k \<Rightarrow> ('k, 'v) Cache \<Rightarrow> 'v Item option \<times> ('k, 'v) Cache" where
  "Get now key c = get now key True False c"

text \<open>\<^verbatim>\<open>Delete\<close>: the evicted item, if there was one, goes to the eviction subscribers.\<close>

definition Delete :: "'k \<Rightarrow> ('k, 'v) Cache \<Rightarrow> 'v Item option \<times> ('k, 'v) Cache" where
  "Delete key c =
     (case c_values c key of
        None \<Rightarrow> (None, c)
      | Some it \<Rightarrow> (Some it, c\<lparr>c_values := (c_values c)(key := None)\<rparr>))"

text \<open>\<^verbatim>\<open>GetOrSet\<close>, with the duration a \<^verbatim>\<open>WithTTL\<close> option gives, if any.\<close>

definition GetOrSet ::
  "time \<Rightarrow> 'k \<Rightarrow> 'v \<Rightarrow> duration option \<Rightarrow> ('k, 'v) Cache \<Rightarrow> ('v Item \<times> bool) \<times> ('k, 'v) Cache"
where
  "GetOrSet now key v opt_ttl c =
     (case get now key True False c of
        (Some it, c') \<Rightarrow> ((it, True), c')
      | (None, c') \<Rightarrow>
          (let (it, c'') = set_item now key v (case opt_ttl of Some d \<Rightarrow> d | None \<Rightarrow> c_ttl c') c'
           in ((it, False), c'')))"

definition GetAndDelete :: "time \<Rightarrow> 'k \<Rightarrow> ('k, 'v) Cache \<Rightarrow> 'v Item option \<times> ('k, 'v) Cache" where
  "GetAndDelete now key c =
     (case get now key True False c of
        (None, c') \<Rightarrow> (None, c')
      | (Some it, c') \<Rightarrow> (Some it, snd (Delete key c')))"

text \<open>
  The janitor: \<^verbatim>\<open>DeleteExpired\<close> evicts from the front of the expiration queue while that item
  has expired. \<open>evict_expired\<close> is one such eviction and \<open>DeleteExpired\<close> the loop over the keys
  in the order of the queue.
\<close>

definition evict_expired :: "time \<Rightarrow> 'k \<Rightarrow> ('k, 'v) Cache \<Rightarrow> 'v Item option \<times> ('k, 'v) Cache" where
  "evict_expired now key c =
     (case c_values c key of
        None \<Rightarrow> (None, c)
      | Some it \<Rightarrow> if isExpiredUnsafe now it then Delete key c else (None, c))"

fun DeleteExpired :: "time \<Rightarrow> 'k list \<Rightarrow> ('k, 'v) Cache \<Rightarrow> 'v Item list \<times> ('k, 'v) Cache" where
  "DeleteExpired now [] c = ([], c)"
| "DeleteExpired now (k # ks) c =
     (case evict_expired now k c of
        (None, c') \<Rightarrow> ([], c')
      | (Some it, c') \<Rightarrow> (let (its, c'') = DeleteExpired now ks c' in (it # its, c'')))"

section \<open>The generic in-memory cache\<close>

type_synonym 'v MemoryCache = "(string, 'v) Cache"

definition NewMemoryCache :: "duration \<Rightarrow> 'v MemoryCache" where
  "NewMemoryCache ttl = New ttl"

definition MemoryCache_Get :: "time \<Rightarrow> 'v MemoryCache \<Rightarrow> string \<Rightarrow> 'v option \<times> 'v MemoryCache" where
  "MemoryCache_Get now m key =
     (case Get now key m of (None, m') \<Rightarrow> (None, m') | (Some it, m') \<Rightarrow> (Some (i_value it), m'))"

text \<open>\<^verbatim>\<open>GetErr\<close>: the unit error is \<^verbatim>\<open>ErrNoDocuments\<close>, the only one this backend has.\<close>

definition MemoryCache_GetErr :: "time \<Rightarrow> 'v MemoryCache \<Rightarrow> string \<Rightarrow> (unit + 'v) \<times> 'v MemoryCache" where
  "MemoryCache_GetErr now m key =
     (case Get now key m of (None, m') \<Rightarrow> (Inl (), m') | (Some it, m') \<Rightarrow> (Inr (i_value it), m'))"

definition MemoryCache_Set :: "time \<Rightarrow> 'v MemoryCache \<Rightarrow> string \<Rightarrow> 'v \<Rightarrow> 'v MemoryCache" where
  "MemoryCache_Set now m key v = Set now key v DefaultTTL m"

definition MemoryCache_SetNX :: "time \<Rightarrow> 'v MemoryCache \<Rightarrow> string \<Rightarrow> 'v \<Rightarrow> bool \<times> 'v MemoryCache" where
  "MemoryCache_SetNX now m key v =
     (let ((_, found), m') = GetOrSet now key v None m in (\<not> found, m'))"

definition MemoryCache_SetNXWithTTL ::
  "time \<Rightarrow> 'v MemoryCache \<Rightarrow> string \<Rightarrow> 'v \<Rightarrow> duration \<Rightarrow> bool \<times> 'v MemoryCache"
where
  "MemoryCache_SetNXWithTTL now m key v ttl =
     (if ttl \<le> 0 then MemoryCache_SetNX now m key v
      else (let ((_, found), m') = GetOrSet now key v (Some ttl) m in (\<not> found, m')))"

definition MemoryCache_SetWithTTL ::
  "time \<Rightarrow> 'v MemoryCache \<Rightarrow> string \<Rightarrow> 'v \<Rightarrow> duration \<Rightarrow> 'v MemoryCache"
where
  "MemoryCache_SetWithTTL now m key v ttl = Set now key v ttl m"

definition MemoryCache_Delete :: "'v MemoryCache \<Rightarrow> string \<Rightarrow> 'v MemoryCache" where
  "MemoryCache_Delete m key = snd (Delete key m)"

definition MemoryCache_GetAndDelete ::
  "time \<Rightarrow> 'v MemoryCache \<Rightarrow> string \<Rightarrow> 'v option \<times> 'v MemoryCache"
where
  "MemoryCache_GetAndDelete now m key =
     (case GetAndDelete now key m of
        (None, m') \<Rightarrow> (None, m')
      | (Some it, m') \<Rightarrow> (Some (i_value it), m'))"

section \<open>What a lookup finds\<close>

text \<open>
  The abstraction: \<open>live now c k\<close> is the value a \<open>Get\<close> at \<open>now\<close> returns, \<open>deadline c k\<close> the
  last moment at which the item is still returned (\<open>None\<close> for an item that never expires).
\<close>

definition live :: "time \<Rightarrow> ('k, 'v) Cache \<Rightarrow> 'k \<Rightarrow> 'v option" where
  "live now c k =
     (case c_values c k of
        None \<Rightarrow> None
      | Some it \<Rightarrow> if isExpiredUnsafe now it then None else Some (i_value it))"

definition deadline :: "('k, 'v) Cache \<Rightarrow> 'k \<Rightarrow> time option" where
  "deadline c k =
     (case c_values c k of
        None \<Rightarrow> None
      | Some it \<Rightarrow> if i_ttl it \<le> 0 then None else Some (i_expiresAt it))"

lemmas item_defs =
  touchUnsafe_def isExpiredUnsafe_def item_update_def NewItem_def
  NoTTL_def PreviousOrDefaultTTL_def DefaultTTL_def

lemmas cache_defs =
  get_def set_item_def Set_def Get_def Delete_def GetOrSet_def GetAndDelete_def evict_expired_def

lemma not_expired_after_touch [simp]: "0 \<le> i_ttl it \<Longrightarrow> \<not> isExpiredUnsafe now (touchUnsafe now it)"
  by (simp add: item_defs)

lemma touchUnsafe_value [simp]: "i_value (touchUnsafe now it) = i_value it"
  by (simp add: touchUnsafe_def)

lemma touchUnsafe_ttl [simp]: "i_ttl (touchUnsafe now it) = i_ttl it"
  by (simp add: touchUnsafe_def)

lemma Get_result [cache_simps]:
  "map_option i_value (fst (Get now k c)) = live now c k"
  by (simp add: cache_defs live_def Let_def split: option.splits)

lemma live_New [cache_simps]: "live now (New ttl) k = None"
  by (simp add: live_def New_def)

lemma live_Delete [cache_simps]: "live now (snd (Delete k c)) k' = (if k' = k then None else live now c k')"
  by (auto simp: cache_defs live_def split: option.splits)

lemma c_ttl_ops [cache_simps]:
  "c_ttl (snd (Get now k c)) = c_ttl c"
  "c_ttl (Set now k v ttl c) = c_ttl c"
  "c_ttl (snd (Delete k c)) = c_ttl c"
  "c_ttl (snd (evict_expired now k c)) = c_ttl c"
  by (auto simp: cache_defs Let_def split: option.splits prod.splits)

text \<open>A \<open>Get\<close> changes no value; it can only move the deadline of a live item forward.\<close>

lemma live_Get [cache_simps]:
  assumes "now \<le> later"
  shows "live later (snd (Get now k c)) k' =
    (case c_values c k of
       None \<Rightarrow> live later c k'
     | Some it \<Rightarrow>
         if k' = k \<and> \<not> isExpiredUnsafe now it \<and> 0 < i_ttl it
         then (if later \<le> now + i_ttl it then Some (i_value it) else None)
         else live later c k')"
  using assms by (auto simp: cache_defs item_defs live_def Let_def split: option.splits)

lemma live_Get_now [cache_simps]: "live now (snd (Get now k c)) k' = live now c k'"
  by (auto simp: cache_defs item_defs live_def Let_def split: option.splits)

text \<open>
  A \<open>Set\<close> with the default time to live: the value is found until that time has passed.
\<close>

lemma live_Set_default [cache_simps]:
  assumes "0 < c_ttl c"
  shows "live later (Set now k v DefaultTTL c) k' =
    (if k' = k then (if later \<le> now + c_ttl c then Some v else None) else live later c k')"
  using assms
  by (auto simp: cache_defs item_defs live_def Let_def split: option.splits prod.splits)

text \<open>
  A \<open>Set\<close> that keeps the previous time to live, on a present item: the value changes and the
  deadline does not.
\<close>

lemma live_Set_previous [cache_simps]:
  assumes "c_values c k = Some it"
  shows "live later (Set now k v PreviousOrDefaultTTL c) k' =
    (if k' = k then (if isExpiredUnsafe later it then None else Some v) else live later c k')"
  using assms
  by (auto simp: cache_defs item_defs live_def Let_def split: option.splits prod.splits)

lemma deadline_Set_previous:
  assumes "c_values c k = Some it"
  shows "deadline (Set now k v PreviousOrDefaultTTL c) k = deadline c k"
  using assms by (simp add: cache_defs item_defs deadline_def Let_def)

lemma deadline_Get:
  assumes "live now c k = Some v" and "deadline c k = Some d"
  shows "\<exists>it. c_values c k = Some it \<and> deadline (snd (Get now k c)) k = Some (now + i_ttl it)"
  using assms
  by (auto simp: cache_defs item_defs live_def deadline_def Let_def split: option.splits if_splits)

lemma evict_expired_live [cache_simps]:
  assumes "now \<le> later"
  shows "live later (snd (evict_expired now k c)) k' =
    (if k' = k \<and> live now c k = None then None else live later c k')"
  using assms
  by (auto simp: cache_defs item_defs live_def split: option.splits if_splits)

lemma evict_expired_live_now [cache_simps]:
  "live now (snd (evict_expired now k c)) k' = live now c k'"
  by (auto simp: cache_defs item_defs live_def split: option.splits if_splits)

section \<open>Deadlines never move backwards\<close>

text \<open>
  With a clock that does not run backwards no item expires later than its time to live from now:
  the invariant under which a touch can only extend a deadline.
\<close>

definition clock_ok :: "time \<Rightarrow> ('k, 'v) Cache \<Rightarrow> bool" where
  "clock_ok now c \<longleftrightarrow>
     0 < c_ttl c \<and>
     (\<forall>k it. c_values c k = Some it \<longrightarrow> 0 < i_ttl it \<longrightarrow> i_expiresAt it \<le> now + i_ttl it)"

lemma clock_ok_mono: "clock_ok now c \<Longrightarrow> now \<le> later \<Longrightarrow> clock_ok later c"
  unfolding clock_ok_def by fastforce

lemma clock_ok_New: "0 < ttl \<Longrightarrow> clock_ok now (New ttl)"
  by (simp add: clock_ok_def New_def)

lemma clock_ok_Get: "clock_ok now c \<Longrightarrow> clock_ok now (snd (Get now k c))"
  by (auto simp: clock_ok_def cache_defs item_defs Let_def split: option.splits if_splits)

lemma clock_ok_Set: "clock_ok now c \<Longrightarrow> clock_ok now (Set now k v ttl c)"
  by (auto simp: clock_ok_def cache_defs item_defs Let_def split: option.splits prod.splits if_splits)

lemma clock_ok_Delete: "clock_ok now c \<Longrightarrow> clock_ok now (snd (Delete k c))"
  by (auto simp: clock_ok_def cache_defs split: option.splits if_splits)

lemma clock_ok_GetOrSet: "clock_ok now c \<Longrightarrow> clock_ok now (snd (GetOrSet now k v d c))"
  by (auto simp: clock_ok_def cache_defs item_defs Let_def split: option.splits prod.splits if_splits)

lemma clock_ok_GetAndDelete: "clock_ok now c \<Longrightarrow> clock_ok now (snd (GetAndDelete now k c))"
  by (auto simp: clock_ok_def cache_defs item_defs Let_def split: option.splits prod.splits if_splits)

lemma c_ttl_GetOrSet [cache_simps]: "c_ttl (snd (GetOrSet now k v d c)) = c_ttl c"
  by (auto simp: cache_defs Let_def split: option.splits prod.splits)

lemma live_expires: "live now c k = None \<Longrightarrow> now \<le> later \<Longrightarrow> live later c k = None"
  by (auto simp: live_def item_defs split: option.splits if_splits)

text \<open>What \<open>GetOrSet\<close> does to the map: nothing to other keys, and the key stays or becomes live.\<close>

lemma GetOrSet_found: "snd (fst (GetOrSet now k v d c)) \<longleftrightarrow> live now c k \<noteq> None"
  by (auto simp: cache_defs live_def Let_def split: option.splits prod.splits)

lemma GetOrSet_other: "k' \<noteq> k \<Longrightarrow> live later (snd (GetOrSet now k v d c)) k' = live later c k'"
  by (auto simp: cache_defs live_def Let_def split: option.splits prod.splits)

lemma GetOrSet_stored:
  assumes "live now c k = None" and "0 < c_ttl c" and "later \<le> now + c_ttl c"
  shows "live later (snd (GetOrSet now k v None c)) k = Some v"
  using assms
  by (auto simp: cache_defs item_defs live_def Let_def split: option.splits prod.splits if_splits)

lemma GetOrSet_kept:
  assumes "clock_ok now c" and "now \<le> later" and "live later c k = Some w"
  shows "live later (snd (GetOrSet now k v d c)) k = Some w"
  using assms
  by (fastforce simp: clock_ok_def cache_defs item_defs live_def Let_def
      split: option.splits prod.splits if_splits)

section \<open>Replay guards: one winner per window\<close>

text \<open>
  The contract a caller needs to use a key once: a claim wins exactly when the key is free, a won
  key is held for the whole window, and no claim frees a key. The Token Endpoint relies on it for
  the identifiers of DPoP proofs and of client assertions.
\<close>

definition guard_call :: "(time \<Rightarrow> 'm \<Rightarrow> 'k \<Rightarrow> bool \<times> 'm) \<Rightarrow> 'm \<Rightarrow> time \<times> 'k \<Rightarrow> ('k \<times> bool) \<times> 'm" where
  "guard_call claim m c = (let (won, m') = claim (fst c) m (snd c) in ((snd c, won), m'))"

lemma guard_call_simps:
  "fst (guard_call claim m (t, k)) = (k, fst (claim t m k))"
  "snd (guard_call claim m (t, k)) = snd (claim t m k)"
  by (simp_all add: guard_call_def Let_def split_def)

locale replay_guard =
  fixes claim :: "time \<Rightarrow> 'm \<Rightarrow> 'k \<Rightarrow> bool \<times> 'm"
    and held :: "time \<Rightarrow> 'm \<Rightarrow> 'k \<Rightarrow> bool"
    and window :: "'m \<Rightarrow> duration"
    and invar :: "time \<Rightarrow> 'm \<Rightarrow> bool"
  assumes claim_wins: "invar now m \<Longrightarrow> fst (claim now m k) \<longleftrightarrow> \<not> held now m k"
    and claim_holds: "invar now m \<Longrightarrow> fst (claim now m k) \<Longrightarrow> now \<le> later \<Longrightarrow> later \<le> now + window m
          \<Longrightarrow> held later (snd (claim now m k)) k"
    and claim_keeps: "invar now m \<Longrightarrow> now \<le> later \<Longrightarrow> held later m k'
          \<Longrightarrow> held later (snd (claim now m k)) k'"
    and invar_claim: "invar now m \<Longrightarrow> invar now (snd (claim now m k))"
    and invar_mono: "invar now m \<Longrightarrow> now \<le> later \<Longrightarrow> invar later m"
    and window_claim: "window (snd (claim now m k)) = window m"
begin

lemma no_win_while_held:
  assumes "sorted (map fst calls)" and "invar t0 m" and "\<forall>c\<in>set calls. t0 \<le> fst c \<and> fst c \<le> T"
    and "\<And>t. t0 \<le> t \<Longrightarrow> t \<le> T \<Longrightarrow> held t m k"
  shows "filter (\<lambda>r. fst r = k \<and> snd r) (fst (run (guard_call claim) m calls)) = []"
  using assms
proof (induction calls arbitrary: m t0)
  case Nil
  then show ?case by simp
next
  case (Cons c calls)
  obtain t k' where c: "c = (t, k')" by (cases c)
  have t: "t0 \<le> t" "t \<le> T" using Cons.prems(3) c by auto
  have inv: "invar t m" using Cons.prems(2) t(1) by (rule invar_mono)
  have "\<not> (k' = k \<and> fst (claim t m k'))"
    using claim_wins [OF inv] Cons.prems(4) [OF t] by auto
  moreover have "filter (\<lambda>r. fst r = k \<and> snd r) (fst (run (guard_call claim) (snd (guard_call claim m c)) calls)) = []"
  proof (rule Cons.IH)
    show "sorted (map fst calls)" using Cons.prems(1) by simp
    show "invar t (snd (guard_call claim m c))" using invar_claim [OF inv] by (simp add: c guard_call_simps)
    show "\<forall>c\<in>set calls. t \<le> fst c \<and> fst c \<le> T" using Cons.prems(1,3) c by auto
    show "held u (snd (guard_call claim m c)) k" if "t \<le> u" "u \<le> T" for u
      using claim_keeps [OF inv that(1)] Cons.prems(4) [of u] that t(1) by (simp add: c guard_call_simps)
  qed
  ultimately show ?case by (simp add: c guard_call_simps Let_def split_def)
qed

lemma at_most_one_win:
  assumes "sorted (map fst calls)" and "invar t0 m"
    and "\<forall>c\<in>set calls. t0 \<le> fst c \<and> fst c \<le> t0 + window m"
  shows "length (filter (\<lambda>r. fst r = k \<and> snd r) (fst (run (guard_call claim) m calls))) \<le> 1"
proof -
  have "length (filter (\<lambda>r. fst r = k \<and> snd r) (fst (run (guard_call claim) m calls))) \<le> 1"
    if "sorted (map fst calls)" "invar t1 m" "t0 \<le> t1"
      "\<forall>c\<in>set calls. t1 \<le> fst c \<and> fst c \<le> t0 + window m" for t1
    using that
  proof (induction calls arbitrary: m t1)
    case Nil
    then show ?case by simp
  next
    case (Cons c calls)
    obtain t k' where c: "c = (t, k')" by (cases c)
    have t: "t1 \<le> t" "t \<le> t0 + window m" using Cons.prems(4) c by auto
    have inv: "invar t m" using Cons.prems(2) t(1) by (rule invar_mono)
    let ?m' = "snd (guard_call claim m c)"
    have inv': "invar t ?m'" using invar_claim [OF inv] by (simp add: c guard_call_simps)
    have win: "window ?m' = window m" by (simp add: c guard_call_simps window_claim)
    have times: "\<forall>c\<in>set calls. t \<le> fst c \<and> fst c \<le> t0 + window m"
      using Cons.prems(1,4) c by auto
    have srt: "sorted (map fst calls)" using Cons.prems(1) by simp
    show ?case
    proof (cases "k' = k \<and> fst (claim t m k')")
      case True
      have "held u ?m' k" if "t \<le> u" "u \<le> t0 + window m" for u
        using claim_holds [OF inv, of k u] True that t Cons.prems(3) by (auto simp: c guard_call_simps)
      then have "filter (\<lambda>r. fst r = k \<and> snd r) (fst (run (guard_call claim) ?m' calls)) = []"
        using no_win_while_held [OF srt inv' times] by blast
      then show ?thesis by (auto simp: c guard_call_simps Let_def split_def)
    next
      case False
      have "length (filter (\<lambda>r. fst r = k \<and> snd r) (fst (run (guard_call claim) ?m' calls))) \<le> 1"
        using Cons.IH [OF srt inv'] times win t(1) Cons.prems(3) by simp
      with False show ?thesis by (auto simp: c guard_call_simps Let_def split_def)
    qed
  qed
  from this [of t0] show ?thesis using assms by simp
qed

end

interpretation setnx: replay_guard
  "\<lambda>now m k. MemoryCache_SetNX now m k v" "\<lambda>now m k. live now m k \<noteq> None" c_ttl clock_ok
  for v :: 'v
proof unfold_locales
  fix now later :: time and m :: "'v MemoryCache" and k k' :: string
  assume inv: "clock_ok now m"
  have fst: "fst (MemoryCache_SetNX now m k v) = (\<not> snd (fst (GetOrSet now k v None m)))"
    and snd: "snd (MemoryCache_SetNX now m k v) = snd (GetOrSet now k v None m)"
    by (simp_all add: MemoryCache_SetNX_def Let_def split_def)
  show "fst (MemoryCache_SetNX now m k v) \<longleftrightarrow> \<not> live now m k \<noteq> None"
    by (simp add: fst GetOrSet_found)
  show "live later (snd (MemoryCache_SetNX now m k v)) k \<noteq> None"
    if "fst (MemoryCache_SetNX now m k v)" "now \<le> later" "later \<le> now + c_ttl m"
    using that inv GetOrSet_stored [of now m k later v]
    by (auto simp: fst snd GetOrSet_found clock_ok_def)
  show "live later (snd (MemoryCache_SetNX now m k v)) k' \<noteq> None"
    if "now \<le> later" "live later m k' \<noteq> None"
    using that inv GetOrSet_other [of k' k later now v None m] GetOrSet_kept [of now m later k]
    by (cases "k' = k") (auto simp: snd)
  show "clock_ok now (snd (MemoryCache_SetNX now m k v))"
    using inv by (simp add: snd clock_ok_GetOrSet)
  show "clock_ok later m" if "now \<le> later"
    using inv that by (rule clock_ok_mono)
next
  fix now and m :: "'v MemoryCache" and k
  show "c_ttl (snd (MemoryCache_SetNX now m k v)) = c_ttl m"
    by (simp add: MemoryCache_SetNX_def Let_def split_def cache_simps)
qed

section \<open>One-shot values: one taker\<close>

text \<open>
  The contract of a value that is handed out once: a take removes it, and no take makes another
  value appear. The credential nonces are consumed this way.
\<close>

locale one_shot =
  fixes take_out :: "time \<Rightarrow> 'm \<Rightarrow> 'k \<Rightarrow> 'v option \<times> 'm"
    and present :: "'m \<Rightarrow> 'k \<Rightarrow> bool"
  assumes take_present: "fst (take_out now m k) = Some v \<Longrightarrow> present m k"
    and take_removes: "fst (take_out now m k) = Some v \<Longrightarrow> \<not> present (snd (take_out now m k)) k"
    and take_adds_nothing: "present (snd (take_out now m k)) k' \<Longrightarrow> present m k'"
begin

lemma at_most_one_taker:
  "length (filter (\<lambda>r. r \<noteq> None) (fst (run (\<lambda>m t. take_out t m k) m ts))) \<le> 1"
proof (rule run_at_most_once [where Q = "\<lambda>m. \<not> present m k" and I = "\<lambda>_. True"])
  fix m t
  assume "\<not> present m k"
  then show "\<not> present (snd (take_out t m k)) k \<and> \<not> fst (take_out t m k) \<noteq> None"
    using take_adds_nothing take_present by blast
next
  fix m t
  assume "fst (take_out t m k) \<noteq> None"
  then show "\<not> present (snd (take_out t m k)) k" using take_removes by blast
qed simp_all

end

interpretation nonce_take: one_shot MemoryCache_GetAndDelete "\<lambda>m k. c_values m k \<noteq> None"
  by unfold_locales
    (auto simp: MemoryCache_GetAndDelete_def cache_defs Let_def split: option.splits prod.splits if_splits)

section \<open>Properties\<close>

text \<open>
  C37: \<^verbatim>\<open>SetNX\<close> is a replay guard. Whatever the order of the calls and whatever other keys they
  claim, among the calls made within one retention period at most one call for a key is told
  that it stored the value. The cache may hold anything before the first call.
\<close>

theorem SetNX_one_winner_per_window:
  assumes "sorted (map fst calls)" and "clock_ok t0 m"
    and "\<forall>c\<in>set calls. t0 \<le> fst c \<and> fst c \<le> t0 + c_ttl m"
  shows "length (filter (\<lambda>r. fst r = k \<and> snd r)
           (fst (run (guard_call (\<lambda>now m k. MemoryCache_SetNX now m k v)) m calls))) \<le> 1"
  using assms by (rule setnx.at_most_one_win)

theorem SetNX_one_winner_per_window_witness:
  "length (filter (\<lambda>r. fst r = ''jti'' \<and> snd r)
     (fst (run (guard_call (\<lambda>now m k. MemoryCache_SetNX now m k True)) (NewMemoryCache (5 * minute))
       [(10, ''jti''), (10, ''other''), (20, ''jti'')]))) \<le> 1 \<and>
   fst (run (guard_call (\<lambda>now m k. MemoryCache_SetNX now m k True)) (NewMemoryCache (5 * minute))
       [(10, ''jti''), (10, ''other''), (20, ''jti'')]) = [(''jti'', True), (''other'', True), (''jti'', False)]"
proof
  show "length (filter (\<lambda>r. fst r = ''jti'' \<and> snd r)
     (fst (run (guard_call (\<lambda>now m k. MemoryCache_SetNX now m k True)) (NewMemoryCache (5 * minute))
       [(10, ''jti''), (10, ''other''), (20, ''jti'')]))) \<le> 1"
    by (rule SetNX_one_winner_per_window [where ?t0.0 = 10])
      (simp_all add: NewMemoryCache_def New_def clock_ok_def minute_def second_def)
qed code_simp

text \<open>
  \<^verbatim>\<open>GetAndDelete\<close> hands a value out once: however often and whenever it is called for one
  key, at most one call returns a value.
\<close>

theorem GetAndDelete_one_taker:
  "length (filter (\<lambda>r. r \<noteq> None) (fst (run (\<lambda>m t. MemoryCache_GetAndDelete t m k) m ts))) \<le> 1"
  by (rule nonce_take.at_most_one_taker)

end
