(* ===== verification/StatusService.thy ===== *)
theory StatusService
  imports StatusRegistry TTLCache
begin

text \<open>
  The registry service around the status lists: the CWT form of a token (\<^verbatim>\<open>pkg/tokenstatuslist/cwt.go\<close>), the
  issuer that signs a section and caches the result (\<^verbatim>\<open>tokenstatuslistissuer/service.go\<close> and \<^verbatim>\<open>methods.go\<close>),
  the caches (\<^verbatim>\<open>internal/registry/cache/service.go\<close>) and the handlers (\<^verbatim>\<open>apiv1/handlers_token_status_list.go\<close>,
  \<^verbatim>\<open>handlers_admin.go\<close>, \<^verbatim>\<open>grpcserver/endpoints.go\<close>).

  A refresh of a section reads the collection, signs, and stores the token. The service runs it in the
  background, one at a time per section; a request for a refresh that is already running joins it. The
  state machine at the end keeps the two halves apart, so that other operations can come in between.
\<close>

section \<open>The CWT form\<close>

record CWTStatusList =
  cl_Bits :: int
  cl_Lst :: bytes
  cl_AggregationURI :: string

record CWTClaims =
  cc_Iss :: string
  cc_Sub :: string
  cc_Iat :: int
  cc_Exp :: "int option"
  cc_TTL :: "int option"
  cc_StatusList :: CWTStatusList

datatype signing_key = EcdsaP256 | EcdsaP384 | EcdsaP521 | EcdsaOtherCurve | RsaKey | OtherKey

definition CoseAlgES256 :: int where "CoseAlgES256 = - 7"
definition CoseAlgES384 :: int where "CoseAlgES384 = - 35"
definition CoseAlgES512 :: int where "CoseAlgES512 = - 36"
definition CoseAlgPS256 :: int where "CoseAlgPS256 = - 37"
definition CoseAlgPS384 :: int where "CoseAlgPS384 = - 38"
definition CoseAlgPS512 :: int where "CoseAlgPS512 = - 39"

fun detectCOSEAlgorithm :: "signing_key \<Rightarrow> int option" where
  "detectCOSEAlgorithm EcdsaP256 = Some CoseAlgES256"
| "detectCOSEAlgorithm EcdsaP384 = Some CoseAlgES384"
| "detectCOSEAlgorithm EcdsaP521 = Some CoseAlgES512"
| "detectCOSEAlgorithm EcdsaOtherCurve = None"
| "detectCOSEAlgorithm RsaKey = Some CoseAlgPS256"
| "detectCOSEAlgorithm OtherKey = None"

text \<open>
  \<^verbatim>\<open>signCOSE\<close> picks the primitive by the algorithm, and the primitive insists on its kind of key. \<open>crypto\<close>
  stands for CBOR and the primitives of the Go library, by algorithm.
\<close>

definition is_ecdsa :: "signing_key \<Rightarrow> bool" where
  "is_ecdsa key \<longleftrightarrow> key \<in> {EcdsaP256, EcdsaP384, EcdsaP521, EcdsaOtherCurve}"

definition signCOSE :: "(int \<Rightarrow> 'm \<Rightarrow> bytes option) \<Rightarrow> signing_key \<Rightarrow> int \<Rightarrow> 'm \<Rightarrow> bytes option" where
  "signCOSE crypto key alg msg =
     (if alg \<in> {CoseAlgES256, CoseAlgES384, CoseAlgES512} then (if is_ecdsa key then crypto alg msg else None)
      else if alg \<in> {CoseAlgPS256, CoseAlgPS384, CoseAlgPS512} then (if key = RsaKey then crypto alg msg else None)
      else None)"

definition CWTTypHeader :: string where
  "CWTTypHeader = ''statuslist+cwt''"

definition GenerateCWT ::
  "(bytes \<Rightarrow> bytes option) \<Rightarrow> (int \<Rightarrow> string \<times> string \<times> CWTClaims \<Rightarrow> bytes option) \<Rightarrow> time \<Rightarrow> signing_key \<Rightarrow> int \<Rightarrow>
   StatusList \<Rightarrow> bytes option"
where
  "GenerateCWT deflate crypto now key algorithm sl =
     (case CompressStatuses deflate (sl_statuses sl) of
        None \<Rightarrow> None
      | Some compressed \<Rightarrow>
          (let claims = \<lparr>cc_Iss = sl_Issuer sl, cc_Sub = sl_Subject sl, cc_Iat = unix now,
                 cc_Exp = (if sl_ExpiresIn sl > 0 then Some (unix (now + sl_ExpiresIn sl)) else None),
                 cc_TTL = (if sl_TTL sl > 0 then Some (sl_TTL sl) else None),
                 cc_StatusList = \<lparr>cl_Bits = Bits, cl_Lst = compressed, cl_AggregationURI = sl_AggregationURI sl\<rparr>\<rparr>
           in case (if algorithm = 0 then detectCOSEAlgorithm key else Some algorithm) of
                None \<Rightarrow> None
              | Some alg \<Rightarrow> signCOSE crypto key alg (CWTTypHeader, sl_KeyID sl, claims)))"

text \<open>
  What \<^verbatim>\<open>cbor.Unmarshal\<close> leaves in an \<^verbatim>\<open>any\<close>, as far as the readers of a token look: maps with keys of any
  type, in the order they are iterated, maps with \<^verbatim>\<open>int\<close> keys, and byte strings.
\<close>

datatype cbor_key = KeyInt int | KeyInt64 int | KeyUint64 int | KeyOther

datatype cbor_any =
    CborBytes bytes
  | CborText string
  | CborMapAny "(cbor_key \<times> cbor_any) list"
  | CborMapInt "(int \<times> cbor_any) list"
  | CborOther

definition statusListKeyLst :: int where "statusListKeyLst = 2"

fun lst_entry :: "cbor_key \<times> cbor_any \<Rightarrow> bytes option \<Rightarrow> bytes option" where
  "lst_entry (KeyInt k, CborBytes b) lst = (if k = statusListKeyLst then Some b else lst)"
| "lst_entry (KeyInt64 k, CborBytes b) lst = (if k = statusListKeyLst then Some b else lst)"
| "lst_entry (KeyUint64 k, CborBytes b) lst = (if k = statusListKeyLst then Some b else lst)"
| "lst_entry _ lst = lst"

fun status_list_lst :: "cbor_any \<Rightarrow> bytes option" where
  "status_list_lst (CborMapAny m) = fold lst_entry m None"
| "status_list_lst (CborMapInt m) = (case map_of m statusListKeyLst of Some (CborBytes b) \<Rightarrow> Some b | _ \<Rightarrow> None)"
| "status_list_lst _ = None"

definition GetStatusFromCWT :: "(bytes \<Rightarrow> (bytes \<times> bool) option) \<Rightarrow> (int \<rightharpoonup> cbor_any) \<Rightarrow> int \<Rightarrow> 8 word option" where
  "GetStatusFromCWT inflate claims index =
     (case claims 65534 of
        None \<Rightarrow> None
      | Some raw \<Rightarrow>
          (case status_list_lst raw of
             None \<Rightarrow> None
           | Some lst \<Rightarrow>
               (case DecompressStatuses inflate lst of None \<Rightarrow> None | Some statuses \<Rightarrow> GetStatus statuses index)))"

section \<open>The service\<close>

text \<open>
  What lies outside: zlib, the signing key with the JWT and COSE encoders, and \<^verbatim>\<open>net/url\<close>, as \<^verbatim>\<open>url.JoinPath\<close> and
  as the list URI the gRPC handler builds from the public URL and a section. A signer of another type than
  \<^verbatim>\<open>KeyMaterialSigner\<close> is one whose every signature fails.
\<close>

record SLWorld =
  sw_deflate :: "bytes \<Rightarrow> bytes option"
  sw_sign :: "string \<Rightarrow> string \<Rightarrow> JWTClaims \<Rightarrow> string option"
  sw_key :: signing_key
  sw_cose :: "int \<Rightarrow> string \<times> string \<times> CWTClaims \<Rightarrow> bytes option"
  sw_JoinPath :: "string \<Rightarrow> string list \<Rightarrow> string option"
  sw_ListURI :: "string \<Rightarrow> int \<Rightarrow> string option"

record TokenStatusLists_cfg =
  tl_PublicURL :: string
  tl_TokenRefreshInterval :: int
  tl_SectionSize :: int

record 'db TSLService =
  ts_db :: 'db
  ts_JWT :: "string MemoryCache"
  ts_CWT :: "bytes MemoryCache"

definition tokenValidity :: "TokenStatusLists_cfg \<Rightarrow> duration" where
  "tokenValidity cfg = tl_TokenRefreshInterval cfg * second - 5 * minute"

text \<open>The caches live as long as the tokens; the service starts on a collection with at least one section.\<close>

definition New_registry :: "'db StatusColl \<Rightarrow> SLDraws \<Rightarrow> TokenStatusLists_cfg \<Rightarrow> 'db \<Rightarrow> (registry_error + 'db TSLService) \<times> 'db" where
  "New_registry coll draws cfg db =
     and_then (InitializeIfEmpty coll draws (tl_SectionSize cfg) db) (\<lambda>_ db1.
       (Inr \<lparr>ts_db = db1, ts_JWT = NewMemoryCache (tokenValidity cfg), ts_CWT = NewMemoryCache (tokenValidity cfg)\<rparr>, db1))"

fun dec_digits :: "nat \<Rightarrow> string" where
  "dec_digits n = (if n < 10 then [char_of (48 + n)] else dec_digits (n div 10) @ [char_of (48 + n mod 10)])"

definition FormatInt :: "int \<Rightarrow> string" where
  "FormatInt n = (if n < 0 then ''-'' @ dec_digits (nat (- n)) else dec_digits (nat n))"

record TokenConfig =
  tk_Subject :: string
  tk_Issuer :: string
  tk_Statuses :: bytes
  tk_TTL :: int
  tk_ExpiresIn :: duration
  tk_KeyID :: string
  tk_AggregationURI :: string

definition configured_list :: "TokenConfig \<Rightarrow> StatusList" where
  "configured_list cfg =
     (NewWithConfig (tk_Statuses cfg) (tk_Issuer cfg) (tk_Subject cfg))
       \<lparr>sl_TTL := tk_TTL cfg, sl_ExpiresIn := tk_ExpiresIn cfg, sl_KeyID := tk_KeyID cfg,
        sl_AggregationURI := tk_AggregationURI cfg\<rparr>"

definition GenerateStatusListTokenJWT :: "SLWorld \<Rightarrow> time \<Rightarrow> TokenConfig \<Rightarrow> string option" where
  "GenerateStatusListTokenJWT w now cfg = GenerateJWT (sw_deflate w) (sw_sign w) now (configured_list cfg)"

definition GenerateStatusListTokenCWT :: "SLWorld \<Rightarrow> time \<Rightarrow> TokenConfig \<Rightarrow> bytes option" where
  "GenerateStatusListTokenCWT w now cfg = GenerateCWT (sw_deflate w) (sw_cose w) now (sw_key w) 0 (configured_list cfg)"

definition section_token :: "TokenStatusLists_cfg \<Rightarrow> string \<Rightarrow> bytes \<Rightarrow> TokenConfig" where
  "section_token cfg subject statuses =
     \<lparr>tk_Subject = subject, tk_Issuer = tl_PublicURL cfg, tk_Statuses = statuses, tk_TTL = tl_TokenRefreshInterval cfg,
      tk_ExpiresIn = tokenValidity cfg, tk_KeyID = [], tk_AggregationURI = []\<rparr>"

text \<open>The second half of \<^verbatim>\<open>refreshSection\<close>, from the statuses it read; a token that cannot be made leaves the old one.\<close>

definition publish :: "SLWorld \<Rightarrow> TokenStatusLists_cfg \<Rightarrow> time \<Rightarrow> int \<Rightarrow> bytes \<Rightarrow> 'db TSLService \<Rightarrow> 'db TSLService" where
  "publish w cfg now section statuses s =
     (let key = FormatInt section in
      case sw_JoinPath w (tl_PublicURL cfg) [''/statuslists'', key] of
        None \<Rightarrow> s
      | Some subject \<Rightarrow>
          (let tokenCfg = section_token cfg subject statuses;
               s1 = (case GenerateStatusListTokenJWT w now tokenCfg of
                       None \<Rightarrow> s | Some t \<Rightarrow> s\<lparr>ts_JWT := MemoryCache_Set now (ts_JWT s) key t\<rparr>)
           in case GenerateStatusListTokenCWT w now tokenCfg of
                None \<Rightarrow> s1 | Some t \<Rightarrow> s1\<lparr>ts_CWT := MemoryCache_Set now (ts_CWT s1) key t\<rparr>))"

definition refreshSection ::
  "'db StatusColl \<Rightarrow> SLWorld \<Rightarrow> TokenStatusLists_cfg \<Rightarrow> time \<Rightarrow> int \<Rightarrow> 'db TSLService \<Rightarrow> 'db TSLService"
where
  "refreshSection coll w cfg now section s =
     (case GetAllStatusesForSection coll (ts_db s) section of
        Inl _ \<Rightarrow> s
      | Inr statuses \<Rightarrow> if statuses = [] then s else publish w cfg now section statuses s)"

definition refreshAllSections ::
  "'db StatusColl \<Rightarrow> 'db MetaColl \<Rightarrow> SLWorld \<Rightarrow> TokenStatusLists_cfg \<Rightarrow> time \<Rightarrow> 'db TSLService \<Rightarrow> 'db TSLService"
where
  "refreshAllSections coll meta w cfg now s =
     (case GetAllSections meta (ts_db s) of
        Inl _ \<Rightarrow> s
      | Inr sections \<Rightarrow> fold (refreshSection coll w cfg now) sections s)"

definition GetCachedJWT :: "time \<Rightarrow> int \<Rightarrow> 'db TSLService \<Rightarrow> string \<times> 'db TSLService" where
  "GetCachedJWT now section s =
     (let (v, m) = MemoryCache_Get now (ts_JWT s) (FormatInt section) in
      (case v of None \<Rightarrow> [] | Some t \<Rightarrow> t, s\<lparr>ts_JWT := m\<rparr>))"

definition GetCachedCWT :: "time \<Rightarrow> int \<Rightarrow> 'db TSLService \<Rightarrow> bytes option \<times> 'db TSLService" where
  "GetCachedCWT now section s =
     (let (v, m) = MemoryCache_Get now (ts_CWT s) (FormatInt section) in (v, s\<lparr>ts_CWT := m\<rparr>))"

definition HealthProbe :: "'db StatusColl \<Rightarrow> 'db MetaColl \<Rightarrow> bool \<Rightarrow> 'db \<Rightarrow> registry_error + unit" where
  "HealthProbe coll meta signerLoaded db =
     (if \<not> signerLoaded then Inl MongoError
      else case GetCurrentSection meta db of
             Inl e \<Rightarrow> Inl e
           | Inr section \<Rightarrow>
               (case CountDecoysInSectionWithLimit coll db section 1 of Inl e \<Rightarrow> Inl e | Inr _ \<Rightarrow> Inr ()))"

section \<open>Handlers\<close>

definition MediaTypeJWT :: string where "MediaTypeJWT = ''application/statuslist+jwt''"
definition MediaTypeCWT :: string where "MediaTypeCWT = ''application/statuslist+cwt''"

record TokenStatusListsRequest =
  tr_ID :: int
  tr_Time :: "int option"
  tr_Accept :: string

record TokenStatusListsResponse =
  tp_Token :: bytes
  tp_ContentType :: string

datatype lists_error =
    ErrHistoricalResolutionNotSupported
  | ErrSectionNotFound
  | ErrStatusListURI
  | ErrStore registry_error
  | ErrNotConfigured
  | ErrStatusRange

definition go_bytes :: "string \<Rightarrow> bytes" where
  "go_bytes s = map (\<lambda>c. word_of_nat (of_char c)) s"

definition go_string :: "bytes \<Rightarrow> string" where
  "go_string b = map (\<lambda>w. char_of (unat w)) b"

definition TokenStatusLists ::
  "time \<Rightarrow> TokenStatusListsRequest \<Rightarrow> 'db TSLService \<Rightarrow> (lists_error + TokenStatusListsResponse) \<times> 'db TSLService"
where
  "TokenStatusLists now req s =
     (if tr_Time req \<noteq> None then (Inl ErrHistoricalResolutionNotSupported, s)
      else if tr_Accept req = MediaTypeCWT then
        (let (t, s1) = GetCachedCWT now (tr_ID req) s in
         (case t of None \<Rightarrow> Inl ErrSectionNotFound | Some b \<Rightarrow> Inr \<lparr>tp_Token = b, tp_ContentType = MediaTypeCWT\<rparr>, s1))
      else
        (let (t, s1) = GetCachedJWT now (tr_ID req) s in
         (if t = [] then Inl ErrSectionNotFound else Inr \<lparr>tp_Token = go_bytes t, tp_ContentType = MediaTypeJWT\<rparr>, s1)))"

fun section_uris :: "SLWorld \<Rightarrow> string \<Rightarrow> int list \<Rightarrow> lists_error + string list" where
  "section_uris w url [] = Inr []"
| "section_uris w url (n # ns) =
     (case sw_JoinPath w url [''/statuslists'', FormatInt n] of
        None \<Rightarrow> Inl ErrStatusListURI
      | Some uri \<Rightarrow> (case section_uris w url ns of Inl e \<Rightarrow> Inl e | Inr us \<Rightarrow> Inr (uri # us)))"

definition TokenStatusListAggregation ::
  "'db MetaColl \<Rightarrow> SLWorld \<Rightarrow> TokenStatusLists_cfg \<Rightarrow> 'db \<Rightarrow> lists_error + string list"
where
  "TokenStatusListAggregation meta w cfg db =
     (case GetAllSections meta db of
        Inl e \<Rightarrow> Inl (ErrStore e)
      | Inr sections \<Rightarrow> section_uris w (tl_PublicURL cfg) sections)"

text \<open>The admin page changes the collection only: no issuer has the method it asks for to drop the cached token.\<close>

definition Admin_UpdateStatus ::
  "'db StatusColl \<Rightarrow> bool \<Rightarrow> int \<Rightarrow> int \<Rightarrow> 8 word \<Rightarrow> 'db \<Rightarrow> (lists_error + unit) \<times> 'db"
where
  "Admin_UpdateStatus coll configured section index status db =
     (if \<not> configured then (Inl ErrNotConfigured, db)
      else case UpdateStatus coll section index status db of
             (Inl e, db1) \<Rightarrow> (Inl (ErrStore e), db1)
           | (Inr _, db1) \<Rightarrow> (Inr (), db1))"

text \<open>The subjects of credentials; their collection is a parameter like the others.\<close>

record CredentialSubjectDoc =
  cs_Identifier :: string
  cs_Section :: int
  cs_Index :: int

record 'db SubjectColl =
  su_Find :: "'db \<Rightarrow> (CredentialSubjectDoc \<Rightarrow> bool) \<Rightarrow> registry_error + CredentialSubjectDoc list"
  su_InsertOne :: "'db \<Rightarrow> CredentialSubjectDoc \<Rightarrow> (registry_error + unit) \<times> 'db"

definition Search :: "'db SubjectColl \<Rightarrow> string \<Rightarrow> 'db \<Rightarrow> registry_error + CredentialSubjectDoc list" where
  "Search subj identifier db = su_Find subj db (\<lambda>d. identifier \<noteq> [] \<longrightarrow> cs_Identifier d = identifier)"

definition SaveCredentialSubject ::
  "'db SubjectColl option \<Rightarrow> string \<Rightarrow> int \<Rightarrow> int \<Rightarrow> 'db \<Rightarrow> (registry_error + unit) \<times> 'db"
where
  "SaveCredentialSubject subj identifier section index db =
     (case subj of
        None \<Rightarrow> (Inr (), db)
      | Some c \<Rightarrow> su_InsertOne c db \<lparr>cs_Identifier = identifier, cs_Section = section, cs_Index = index\<rparr>)"

definition FindOne :: "'db StatusColl \<Rightarrow> 'db \<Rightarrow> int \<Rightarrow> int \<Rightarrow> registry_error + TokenStatusListDoc" where
  "FindOne coll db section index =
     (case co_FindOne coll db (at_entry section index) of
        Inl e \<Rightarrow> Inl e | Inr None \<Rightarrow> Inl MongoError | Inr (Some d) \<Rightarrow> Inr d)"

definition SearchPerson ::
  "'db StatusColl option \<Rightarrow> 'db SubjectColl option \<Rightarrow> string \<Rightarrow> 'db \<Rightarrow>
   lists_error + (CredentialSubjectDoc \<times> 8 word) list"
where
  "SearchPerson admin subj identifier db =
     (case subj of
        None \<Rightarrow> Inl ErrNotConfigured
      | Some c \<Rightarrow>
          (case Search c identifier db of
             Inl e \<Rightarrow> Inl (ErrStore e)
           | Inr docs \<Rightarrow>
               Inr (map (\<lambda>d. (d, case admin of
                                    None \<Rightarrow> 0
                                  | Some coll \<Rightarrow>
                                      (case FindOne coll db (cs_Section d) (cs_Index d) of
                                         Inl _ \<Rightarrow> 0 | Inr t \<Rightarrow> td_Status t))) docs)))"

section \<open>Background refreshes\<close>

text \<open>
  A refresh that is running has started, or has read the section and is signing. \<open>start_refresh\<close> is the
  call of the single-flight group, from \<^verbatim>\<open>refreshSectionAsync\<close> and from the periodic loop: it starts a refresh
  unless one is running for the section.
\<close>

datatype flight = Started | Fetched bytes

record 'db TSLNode =
  tn_service :: "'db TSLService"
  tn_flight :: "int \<rightharpoonup> flight"

definition start_refresh :: "int \<Rightarrow> 'db TSLNode \<Rightarrow> 'db TSLNode" where
  "start_refresh section n =
     (if tn_flight n section = None then n\<lparr>tn_flight := (tn_flight n)(section \<mapsto> Started)\<rparr> else n)"

definition with_db :: "'db \<Rightarrow> 'db TSLNode \<Rightarrow> 'db TSLNode" where
  "with_db db n = n\<lparr>tn_service := (tn_service n)\<lparr>ts_db := db\<rparr>\<rparr>"

definition TSL_AddStatus ::
  "'db StatusColl \<Rightarrow> 'db MetaColl \<Rightarrow> TokenStatusLists_cfg \<Rightarrow> SLDraws \<Rightarrow> 8 word \<Rightarrow> 'db TSLNode \<Rightarrow>
   (registry_error + int \<times> int) \<times> 'db TSLNode"
where
  "TSL_AddStatus coll meta cfg draws status n =
     (case AddStatus coll meta draws (tl_SectionSize cfg) status (ts_db (tn_service n)) of
        (Inl e, db) \<Rightarrow> (Inl e, with_db db n)
      | (Inr (section, index), db) \<Rightarrow> (Inr (section, index), start_refresh section (with_db db n)))"

definition TSL_UpdateStatus ::
  "'db StatusColl \<Rightarrow> int \<Rightarrow> int \<Rightarrow> 8 word \<Rightarrow> 'db TSLNode \<Rightarrow> (registry_error + unit) \<times> 'db TSLNode"
where
  "TSL_UpdateStatus coll section index status n =
     (case UpdateStatus coll section index status (ts_db (tn_service n)) of
        (Inl e, db) \<Rightarrow> (Inl e, with_db db n)
      | (Inr _, db) \<Rightarrow> (Inr (), start_refresh section (with_db db n)))"

text \<open>The gRPC handlers; a status is a \<^verbatim>\<open>uint32\<close> on the wire.\<close>

definition TokenStatusListAddStatus ::
  "'db StatusColl \<Rightarrow> 'db MetaColl \<Rightarrow> SLWorld \<Rightarrow> TokenStatusLists_cfg \<Rightarrow> SLDraws \<Rightarrow> 32 word \<Rightarrow> 'db TSLNode \<Rightarrow>
   (lists_error + int \<times> int \<times> string) \<times> 'db TSLNode"
where
  "TokenStatusListAddStatus coll meta w cfg draws status n =
     (if status > 255 then (Inl ErrStatusRange, n)
      else case TSL_AddStatus coll meta cfg draws (ucast status) n of
             (Inl e, n1) \<Rightarrow> (Inl (ErrStore e), n1)
           | (Inr (section, index), n1) \<Rightarrow>
               (case sw_ListURI w (tl_PublicURL cfg) section of
                  None \<Rightarrow> (Inl ErrStatusListURI, n1)
                | Some uri \<Rightarrow> (Inr (section, index, uri), n1)))"

definition TokenStatusListUpdateStatus ::
  "'db StatusColl \<Rightarrow> int \<Rightarrow> int \<Rightarrow> 32 word \<Rightarrow> 'db TSLNode \<Rightarrow> (lists_error + unit) \<times> 'db TSLNode"
where
  "TokenStatusListUpdateStatus coll section index status n =
     (if status > 255 then (Inl ErrStatusRange, n)
      else case TSL_UpdateStatus coll section index (ucast status) n of
             (Inl e, n1) \<Rightarrow> (Inl (ErrStore e), n1)
           | (Inr _, n1) \<Rightarrow> (Inr (), n1))"

text \<open>The two halves of a running \<^verbatim>\<open>refreshSection\<close>, and the tick of \<^verbatim>\<open>refreshLoop\<close> for one section.\<close>

definition fetch_half :: "'db StatusColl \<Rightarrow> int \<Rightarrow> 'db TSLNode \<Rightarrow> 'db TSLNode" where
  "fetch_half coll section n =
     (if tn_flight n section \<noteq> Some Started then n
      else case GetAllStatusesForSection coll (ts_db (tn_service n)) section of
             Inl _ \<Rightarrow> n\<lparr>tn_flight := (tn_flight n)(section := None)\<rparr>
           | Inr statuses \<Rightarrow>
               n\<lparr>tn_flight := (tn_flight n)(section := if statuses = [] then None else Some (Fetched statuses))\<rparr>)"

definition publish_half :: "SLWorld \<Rightarrow> TokenStatusLists_cfg \<Rightarrow> time \<Rightarrow> int \<Rightarrow> 'db TSLNode \<Rightarrow> 'db TSLNode" where
  "publish_half w cfg now section n =
     (case tn_flight n section of
        Some (Fetched statuses) \<Rightarrow>
          \<lparr>tn_service = publish w cfg now section statuses (tn_service n), tn_flight = (tn_flight n)(section := None)\<rparr>
      | _ \<Rightarrow> n)"

end
