(* ===== verification/Revocation.thy ===== *)
theory Revocation
  imports StatusService DCQL
begin

text \<open>
  The verifier's side of revocation, \<^verbatim>\<open>pkg/revocation\<close>: the reference to a status list in a credential
  (\<^verbatim>\<open>extract.go\<close>), the checker that fetches, verifies and caches status lists (\<^verbatim>\<open>status_list.go\<close>), the registry
  of checkers (\<^verbatim>\<open>registry.go\<close>), certificate revocation lists (\<^verbatim>\<open>crl.go\<close>), and the gate in
  \<^verbatim>\<open>internal/verifier/apiv1/handlers_verification.go\<close> that refuses revoked presentations.

  HTTP, the JWT, CBOR, COSE, PEM and X.509 decoders, the signature checks and the key resolver are
  parameters, gathered in \<open>RevWorld\<close>; the checker calls them in the order of the code.
\<close>

section \<open>References\<close>

datatype rev_status = RevValid | RevInvalid | RevSuspended | RevUnknown

definition SchemeStatusList :: string where "SchemeStatusList = ''status_list''"

record Reference =
  rf_Scheme :: string
  rf_URI :: string
  rf_Index :: int

record CheckResult =
  cr_Status :: rev_status
  cr_StatusCode :: "8 word"
  cr_CheckedAt :: time
  cr_URI :: string
  cr_Index :: int

text \<open>
  What a claim can hold. A \<^verbatim>\<open>float64\<close> is \<open>AFloat m e\<close> for the number \<open>m * 2 ^ e\<close>; the conversion of a number
  outside \<^verbatim>\<open>int64\<close> does not give it back, as on amd64. Maps list their entries.
\<close>

datatype go_any =
    AFloat int int
  | AInt64 int
  | AInt int
  | ANumber string
  | AString string
  | AMap "(string \<times> go_any) list"
  | AOther

definition int64_range :: "int \<Rightarrow> bool" where
  "int64_range i \<longleftrightarrow> - (2 ^ 63) \<le> i \<and> i < 2 ^ 63"

definition float_int64 :: "int \<Rightarrow> int \<Rightarrow> int option" where
  "float_int64 m e =
     (if e \<ge> 0 then (if int64_range (m * 2 ^ nat e) then Some (m * 2 ^ nat e) else None)
      else if m mod 2 ^ nat (- e) = 0 \<and> int64_range (m div 2 ^ nat (- e)) then Some (m div 2 ^ nat (- e))
      else None)"

fun claim_index :: "go_any \<Rightarrow> int option" where
  "claim_index (AFloat m e) = float_int64 m e"
| "claim_index (AInt64 i) = Some i"
| "claim_index (AInt i) = Some i"
| "claim_index (ANumber s) = Atoi s"
| "claim_index _ = None"

definition ExtractStatusListReference :: "(string \<times> go_any) list \<Rightarrow> Reference option" where
  "ExtractStatusListReference claims =
     (case map_of claims ''status'' of
        Some (AMap statusMap) \<Rightarrow>
          (case map_of statusMap ''status_list'' of
             Some (AMap statusList) \<Rightarrow>
               (case map_of statusList ''uri'' of
                  Some (AString uri) \<Rightarrow>
                    if uri = [] then None
                    else (case map_of statusList ''idx'' of
                            None \<Rightarrow> None
                          | Some v \<Rightarrow>
                              (case claim_index v of
                                 None \<Rightarrow> None
                               | Some index \<Rightarrow> Some \<lparr>rf_Scheme = SchemeStatusList, rf_URI = uri, rf_Index = index\<rparr>))
                | _ \<Rightarrow> None)
           | _ \<Rightarrow> None)
      | _ \<Rightarrow> None)"

section \<open>The status list checker\<close>

datatype rev_error =
    ErrReference
  | ErrScheme
  | ErrURI
  | ErrIndex
  | ErrRequest
  | ErrFetch
  | ErrHTTPStatus int
  | ErrBody
  | ErrTooLarge
  | ErrToken
  | ErrKey
  | ErrSignature
  | ErrClaim
  | ErrList
  | ErrOutOfRange
  | ErrNoChecker
  | ErrCertificate
  | ErrUnreached

record HTTPResponse =
  hr_StatusCode :: int
  hr_ContentType :: string
  hr_Body :: "bytes \<times> bool"

text \<open>A decoded status list JWT: \<open>lt_Lst\<close> is \<^verbatim>\<open>status_list.lst\<close>, where the claim is an object and the member a string.\<close>

record ListToken =
  lt_Alg :: string
  lt_Kid :: string
  lt_Iss :: string
  lt_Exp :: "time option"
  lt_Nbf :: "time option"
  lt_Lst :: "string option"

text \<open>
  \<open>rw_scheme\<close>: the scheme of a URL that makes a request. \<open>rw_cose\<close>: tag number and, for an array of four,
  the protected header, payload and signature (empty where a component is no byte string). \<open>rw_kid\<close>: the key
  id of a protected header, empty if there is none. \<open>rw_Verify1\<close>: no error and no panic.
\<close>

record RevWorld =
  rw_scheme :: "string \<Rightarrow> string option"
  rw_Do :: "string \<Rightarrow> HTTPResponse option"
  rw_ResolveKey :: "string \<Rightarrow> string \<Rightarrow> string option"
  rw_jwt :: "string \<Rightarrow> ListToken option"
  rw_sig_ok :: "string \<Rightarrow> string \<Rightarrow> bool"
  rw_cose :: "bytes \<Rightarrow> (int \<times> (bytes \<times> bytes \<times> bytes) option) option"
  rw_kid :: "bytes \<Rightarrow> string option"
  rw_cwt :: "bytes \<Rightarrow> (int \<rightharpoonup> cbor_any) option"
  rw_Verify1 :: "bytes \<Rightarrow> bytes \<Rightarrow> bytes \<Rightarrow> string \<Rightarrow> bool"
  rw_inflate :: "bytes \<Rightarrow> (bytes \<times> bool) option"

definition maxStatusListSize :: int where
  "maxStatusListSize = 10 * 2 ^ 20"

definition allowed_algs :: "string list" where
  "allowed_algs = [''ES256'', ''ES384'', ''ES512'', ''RS256'', ''RS384'', ''RS512'', ''PS256'', ''PS384'', ''PS512'', ''EdDSA'']"

text \<open>
  \<^verbatim>\<open>parseJWTStatusList\<close>: the method, the key for the issuer and key id of the token, the signature, and the
  library's checks of \<^verbatim>\<open>exp\<close> and \<^verbatim>\<open>nbf\<close> where they are present.
\<close>

definition parseJWTStatusList :: "RevWorld \<Rightarrow> time \<Rightarrow> bytes \<Rightarrow> rev_error + bytes" where
  "parseJWTStatusList w now data =
     (let tokenString = go_string data in
      case rw_jwt w tokenString of
        None \<Rightarrow> Inl ErrToken
      | Some t \<Rightarrow>
          if lt_Alg t \<notin> set allowed_algs then Inl ErrToken
          else if lt_Iss t = [] then Inl ErrKey
          else (case rw_ResolveKey w (lt_Iss t) (lt_Kid t) of
                  None \<Rightarrow> Inl ErrKey
                | Some key \<Rightarrow>
                    if \<not> rw_sig_ok w tokenString key then Inl ErrSignature
                    else if (case lt_Exp t of None \<Rightarrow> False | Some e \<Rightarrow> \<not> now < e) then Inl ErrToken
                    else if (case lt_Nbf t of None \<Rightarrow> False | Some b \<Rightarrow> now < b) then Inl ErrToken
                    else (case lt_Lst t of
                            None \<Rightarrow> Inl ErrClaim
                          | Some lst \<Rightarrow>
                              (case DecodeAndDecompress (rw_inflate w) lst of
                                 None \<Rightarrow> Inl ErrList | Some statuses \<Rightarrow> Inr statuses))))"

definition parseCWTStatusList :: "RevWorld \<Rightarrow> bytes \<Rightarrow> rev_error + bytes" where
  "parseCWTStatusList w data =
     (case rw_cose w data of
        None \<Rightarrow> Inl ErrToken
      | Some (tag, components) \<Rightarrow>
          if tag \<noteq> 18 then Inl ErrToken
          else (case components of
                  None \<Rightarrow> Inl ErrToken
                | Some (protected, payload, signature) \<Rightarrow>
                    (case rw_kid w protected of
                       None \<Rightarrow> Inl ErrToken
                     | Some kid \<Rightarrow>
                         (case rw_cwt w payload of
                            None \<Rightarrow> Inl ErrToken
                          | Some claims \<Rightarrow>
                              (let issuer = (case claims 1 of Some (CborText s) \<Rightarrow> s | _ \<Rightarrow> []) in
                               case rw_ResolveKey w issuer kid of
                                 None \<Rightarrow> Inl ErrKey
                               | Some key \<Rightarrow>
                                   if \<not> rw_Verify1 w protected payload signature key then Inl ErrSignature
                                   else (case claims 65534 of
                                           None \<Rightarrow> Inl ErrClaim
                                         | Some raw \<Rightarrow>
                                             (case status_list_lst raw of
                                                None \<Rightarrow> Inl ErrClaim
                                              | Some lst \<Rightarrow>
                                                  (case DecompressStatuses (rw_inflate w) lst of
                                                     None \<Rightarrow> Inl ErrList | Some statuses \<Rightarrow> Inr statuses))))))))"

definition parseStatusListToken :: "RevWorld \<Rightarrow> time \<Rightarrow> bytes \<Rightarrow> string \<Rightarrow> rev_error + bytes" where
  "parseStatusListToken w now data contentType =
     (if contentType = MediaTypeCWT then parseCWTStatusList w data
      else if contentType = MediaTypeJWT then parseJWTStatusList w now data
      else if data \<noteq> [] \<and> hd data = 0xD2 then parseCWTStatusList w data
      else parseJWTStatusList w now data)"

definition fetchStatusList :: "RevWorld \<Rightarrow> time \<Rightarrow> string \<Rightarrow> rev_error + bytes" where
  "fetchStatusList w now uri =
     (case rw_scheme w uri of
        None \<Rightarrow> Inl ErrRequest
      | Some sch \<Rightarrow>
          if sch \<noteq> ''http'' \<and> sch \<noteq> ''https'' then Inl ErrScheme
          else (case rw_Do w uri of
                  None \<Rightarrow> Inl ErrFetch
                | Some resp \<Rightarrow>
                    if hr_StatusCode resp \<noteq> 200 then Inl (ErrHTTPStatus (hr_StatusCode resp))
                    else (case read_limited (maxStatusListSize + 1) (hr_Body resp) of
                            None \<Rightarrow> Inl ErrBody
                          | Some body \<Rightarrow>
                              if int (length body) > maxStatusListSize then Inl ErrTooLarge
                              else parseStatusListToken w now body (hr_ContentType resp))))"

definition getStatusList ::
  "RevWorld \<Rightarrow> time \<Rightarrow> string \<Rightarrow> bytes MemoryCache \<Rightarrow> (rev_error + bytes) \<times> bytes MemoryCache"
where
  "getStatusList w now uri m =
     (case MemoryCache_Get now m uri of
        (Some statuses, m1) \<Rightarrow> (Inr statuses, m1)
      | (None, m1) \<Rightarrow>
          (case fetchStatusList w now uri of
             Inl e \<Rightarrow> (Inl e, m1)
           | Inr statuses \<Rightarrow> (Inr statuses, MemoryCache_Set now m1 uri statuses)))"

definition mapStatusCode :: "8 word \<Rightarrow> rev_status" where
  "mapStatusCode code =
     (if code = StatusValid then RevValid
      else if code = StatusInvalid then RevInvalid
      else if code = StatusSuspended then RevSuspended
      else RevUnknown)"

definition CheckStatus ::
  "RevWorld \<Rightarrow> time \<Rightarrow> Reference \<Rightarrow> bytes MemoryCache \<Rightarrow> (rev_error + CheckResult) \<times> bytes MemoryCache"
where
  "CheckStatus w now ref m =
     (if rf_Scheme ref \<noteq> SchemeStatusList then (Inl ErrScheme, m)
      else if rf_URI ref = [] then (Inl ErrURI, m)
      else if rf_Index ref < 0 then (Inl ErrIndex, m)
      else (case getStatusList w now (rf_URI ref) m of
              (Inl e, m1) \<Rightarrow> (Inl e, m1)
            | (Inr statuses, m1) \<Rightarrow>
                if rf_Index ref \<ge> int (length statuses) then (Inl ErrOutOfRange, m1)
                else (let statusCode = statuses ! nat (rf_Index ref) in
                      (Inr \<lparr>cr_Status = mapStatusCode statusCode, cr_StatusCode = statusCode, cr_CheckedAt = now,
                            cr_URI = rf_URI ref, cr_Index = rf_Index ref\<rparr>, m1))))"

text \<open>
  The registry holds one checker, the one above. \<^verbatim>\<open>Validate\<close> answers nothing for a credential without a
  reference; \<^verbatim>\<open>CheckStatus\<close> of the registry dispatches on the scheme.
\<close>

definition Validate_revocation ::
  "RevWorld \<Rightarrow> time \<Rightarrow> (string \<times> go_any) list \<Rightarrow> bytes MemoryCache \<Rightarrow>
   (rev_error + CheckResult option) \<times> bytes MemoryCache"
where
  "Validate_revocation w now claims m =
     (case ExtractStatusListReference claims of
        None \<Rightarrow> (Inr None, m)
      | Some ref \<Rightarrow>
          (case CheckStatus w now ref m of
             (Inl e, m1) \<Rightarrow> (Inl e, m1)
           | (Inr r, m1) \<Rightarrow> (Inr (Some r), m1)))"

definition Registry_CheckStatus ::
  "RevWorld \<Rightarrow> time \<Rightarrow> Reference option \<Rightarrow> bytes MemoryCache \<Rightarrow>
   (rev_error + CheckResult option) \<times> bytes MemoryCache"
where
  "Registry_CheckStatus w now ref m =
     (case ref of
        None \<Rightarrow> (Inr None, m)
      | Some r \<Rightarrow>
          if rf_Scheme r = SchemeStatusList then
            (case CheckStatus w now r m of (Inl e, m1) \<Rightarrow> (Inl e, m1) | (Inr c, m1) \<Rightarrow> (Inr (Some c), m1))
          else (Inl ErrNoChecker, m))"

section \<open>The gate for presentations\<close>

record RevocationConfig =
  rc_Enabled :: bool
  rc_FailOpen :: bool
  rc_SkipScopes :: "string list"

text \<open>\<open>None\<close> refuses the presentation. Each credential of a scope is checked in turn.\<close>

fun check_credentials ::
  "RevWorld \<Rightarrow> time \<Rightarrow> bool \<Rightarrow> (string \<times> go_any) list list \<Rightarrow> bytes MemoryCache \<Rightarrow> unit option \<times> bytes MemoryCache"
where
  "check_credentials w now failOpen [] m = (Some (), m)"
| "check_credentials w now failOpen (c # cs) m =
     (case Validate_revocation w now c m of
        (Inl e, m1) \<Rightarrow> if failOpen then check_credentials w now failOpen cs m1 else (None, m1)
      | (Inr (Some r), m1) \<Rightarrow>
          if cr_Status r \<noteq> RevValid then (None, m1) else check_credentials w now failOpen cs m1
      | (Inr None, m1) \<Rightarrow> check_credentials w now failOpen cs m1)"

fun check_scopes ::
  "RevWorld \<Rightarrow> time \<Rightarrow> RevocationConfig \<Rightarrow> (string \<Rightarrow> (string \<times> go_any) list list) \<Rightarrow> string list \<Rightarrow>
   bytes MemoryCache \<Rightarrow> unit option \<times> bytes MemoryCache"
where
  "check_scopes w now cfg creds [] m = (Some (), m)"
| "check_scopes w now cfg creds (scope # scopes) m =
     (if scope \<in> set (rc_SkipScopes cfg) then check_scopes w now cfg creds scopes m
      else case check_credentials w now (rc_FailOpen cfg) (creds scope) m of
             (None, m1) \<Rightarrow> (None, m1)
           | (Some _, m1) \<Rightarrow> check_scopes w now cfg creds scopes m1)"

definition revocation_gate ::
  "RevWorld \<Rightarrow> time \<Rightarrow> RevocationConfig option \<Rightarrow> (string \<Rightarrow> (string \<times> go_any) list list) \<Rightarrow> string list \<Rightarrow>
   bytes MemoryCache \<Rightarrow> unit option \<times> bytes MemoryCache"
where
  "revocation_gate w now cfg creds scopes m =
     (case cfg of
        None \<Rightarrow> (Some (), m)
      | Some c \<Rightarrow> if rc_Enabled c then check_scopes w now c creds scopes m else (Some (), m))"

section \<open>Certificate revocation lists\<close>

record X509Cert =
  xc_SerialNumber :: int
  xc_RawIssuer :: bytes

record RevocationList =
  rl_RawIssuer :: bytes
  rl_ThisUpdate :: "time option"
  rl_NextUpdate :: "time option"
  rl_Revoked :: "int option list"

text \<open>
  \<open>cw_points\<close> is the go-trust function that lists the distribution points; \<open>cw_pem\<close> the type and bytes of a PEM
  block, if the body is one. An absent time is the zero time.
\<close>

record CRLWorld =
  cw_points :: "X509Cert \<Rightarrow> string list"
  cw_scheme :: "string \<Rightarrow> string option"
  cw_Do :: "string \<Rightarrow> HTTPResponse option"
  cw_pem :: "bytes \<Rightarrow> (string \<times> bytes) option"
  cw_parse :: "bytes \<Rightarrow> RevocationList option"
  cw_signed :: "RevocationList \<Rightarrow> X509Cert \<Rightarrow> bool"

definition maxCRLBytes :: int where
  "maxCRLBytes = 16 * 2 ^ 20"

definition fetch_crl :: "CRLWorld \<Rightarrow> string \<Rightarrow> RevocationList option" where
  "fetch_crl w uri =
     (case cw_scheme w uri of
        None \<Rightarrow> None
      | Some sch \<Rightarrow>
          if sch \<noteq> ''http'' \<and> sch \<noteq> ''https'' then None
          else (case cw_Do w uri of
                  None \<Rightarrow> None
                | Some resp \<Rightarrow>
                    if hr_StatusCode resp \<noteq> 200 then None
                    else (case read_limited (maxCRLBytes + 1) (hr_Body resp) of
                            None \<Rightarrow> None
                          | Some body \<Rightarrow>
                              if int (length body) > maxCRLBytes then None
                              else (case cw_pem w body of
                                      None \<Rightarrow> cw_parse w body
                                    | Some (typ, der) \<Rightarrow>
                                        if typ \<noteq> ''X509 CRL'' \<and> typ \<noteq> ''CRL'' then None else cw_parse w der))))"

definition verifyList :: "CRLWorld \<Rightarrow> RevocationList \<Rightarrow> X509Cert \<Rightarrow> X509Cert \<Rightarrow> time \<Rightarrow> bool" where
  "verifyList w list cert issuer now \<longleftrightarrow>
     rl_RawIssuer list = xc_RawIssuer cert \<and> cw_signed w list issuer \<and>
     (case rl_NextUpdate list of None \<Rightarrow> True | Some t \<Rightarrow> \<not> now > t) \<and>
     (case rl_ThisUpdate list of None \<Rightarrow> True | Some t \<Rightarrow> \<not> now < t)"

text \<open>The loop over the distribution points: the result so far, and whether one was reached.\<close>

fun crl_loop ::
  "CRLWorld \<Rightarrow> X509Cert \<Rightarrow> X509Cert \<Rightarrow> string list \<Rightarrow> bool \<Rightarrow> CheckResult \<Rightarrow> CheckResult \<times> rev_error option"
where
  "crl_loop w cert issuer [] reached result =
     (if \<not> reached then (result, Some ErrUnreached) else (result\<lparr>cr_Status := RevValid\<rparr>, None))"
| "crl_loop w cert issuer (uri # uris) reached result =
     (case fetch_crl w uri of
        None \<Rightarrow> crl_loop w cert issuer uris reached result
      | Some list \<Rightarrow>
          if \<not> verifyList w list cert issuer (cr_CheckedAt result) then crl_loop w cert issuer uris reached result
          else if Some (xc_SerialNumber cert) \<in> set (rl_Revoked list)
          then (result\<lparr>cr_URI := uri, cr_Status := RevInvalid\<rparr>, None)
          else crl_loop w cert issuer uris True (result\<lparr>cr_URI := uri\<rparr>))"

definition CheckCertificate ::
  "CRLWorld \<Rightarrow> time \<Rightarrow> X509Cert option \<Rightarrow> X509Cert option \<Rightarrow> CheckResult \<times> rev_error option"
where
  "CheckCertificate w now cert issuer =
     (let result = \<lparr>cr_Status = RevUnknown, cr_StatusCode = 0, cr_CheckedAt = now, cr_URI = [], cr_Index = 0\<rparr> in
      case cert of
        None \<Rightarrow> (result, Some ErrCertificate)
      | Some c \<Rightarrow>
          (case issuer of
             None \<Rightarrow> (result, Some ErrCertificate)
           | Some i \<Rightarrow>
               if cw_points w c = [] then (result, Some ErrCertificate)
               else crl_loop w c i (cw_points w c) False result))"

end
