(* ===== verification/StatusExamples.thy ===== *)
theory StatusExamples
  imports StatusRegistry
begin

text \<open>
  The registry at work on a collection that holds a single document: the smallest one that satisfies what the
  lemmas of \<open>StatusRegistry\<close> ask of MongoDB.
\<close>

section \<open>A collection of one document\<close>

type_synonym one_db = "TokenStatusListDoc option"

fun one_docs :: "one_db \<Rightarrow> entries" where
  "one_docs None = Map.empty"
| "one_docs (Some d) = [doc_key d \<mapsto> d]"

fun one_update :: "one_db \<Rightarrow> doc_filter \<Rightarrow> doc_update \<Rightarrow> (registry_error + int) \<times> one_db" where
  "one_update None F f = (Inr 0, None)"
| "one_update (Some d) F f =
     (if \<not> F d then (Inr 0, Some d)
      else if doc_key (f d) \<noteq> doc_key d then (Inl MongoError, Some d)
      else (Inr 1, Some (f d)))"

fun one_bulk :: "one_db \<Rightarrow> (doc_filter \<times> doc_update) list \<Rightarrow> (registry_error + unit) \<times> one_db" where
  "one_bulk db [] = (Inr (), db)"
| "one_bulk db (u # us) = one_bulk (snd (one_update db (fst u) (snd u))) us"

fun one_find :: "one_db \<Rightarrow> doc_filter \<Rightarrow> registry_error + TokenStatusListDoc list" where
  "one_find None F = Inr []"
| "one_find (Some d) F = Inr (if F d then [d] else [])"

definition one_coll :: "one_db StatusColl" where
  "one_coll = \<lparr>co_Count = \<lambda>_ _ _. Inr 1001,
     co_FindOne = \<lambda>db F. Inr (case db of Some d \<Rightarrow> if F d then Some d else None | None \<Rightarrow> None),
     co_Find = one_find, co_InsertMany = \<lambda>db _. (Inl MongoError, db),
     co_UpdateOne = one_update, co_BulkWrite = one_bulk\<rparr>"

definition one_meta :: "one_db MetaColl" where
  "one_meta = \<lparr>me_FindOne = \<lambda>_. Inr (Some \<lparr>tm_CurrentSection = 7, tm_Sections = [7]\<rparr>),
     me_InsertOne = \<lambda>db _. (Inl MongoError, db), me_UpdateOne = \<lambda>db _. (Inl MongoError, db)\<rparr>"

lemma one_coll_calls [simp]:
  "co_Count one_coll db F n = Inr 1001"
  "co_FindOne one_coll db F = Inr (case db of Some d \<Rightarrow> if F d then Some d else None | None \<Rightarrow> None)"
  "co_Find one_coll = one_find" "co_InsertMany one_coll db ds = (Inl MongoError, db)"
  "co_UpdateOne one_coll = one_update" "co_BulkWrite one_coll = one_bulk"
  by (simp_all add: one_coll_def)

lemma one_update_exact:
  assumes "key_fixed F f" and "one_update db F f = (r, db')"
  shows "\<exists>n. r = Inr n \<and> update_one F f (one_docs db) n (one_docs db')"
proof (cases db)
  case (Some d)
  then show ?thesis using assms by (cases "F d") (auto simp: key_fixed_def update_one_def doc_key_def)
qed (use assms in \<open>simp add: update_one_def\<close>)

lemma one_bulk_exact:
  assumes "\<forall>(F, f)\<in>set us. key_fixed F f"
  shows "bulk_write (=) us (one_docs db) (one_docs (snd (one_bulk db us)))"
  using assms
proof (induction us arbitrary: db)
  case Nil
  then show ?case by (simp add: bulk_stop)
next
  case (Cons u us)
  obtain F f where u: "u = (F, f)" by fastforce
  obtain r db1 where s: "one_update db F f = (r, db1)" by fastforce
  then obtain n where "update_one F f (one_docs db) n (one_docs db1)"
    using one_update_exact Cons.prems u by fastforce
  then show ?case using bulk_step [of "(=)", OF refl] Cons.IH [of db1] Cons.prems s u by simp
qed

lemma one_find_exact:
  "one_find db F = Inr ds \<Longrightarrow> sorted (map td_Index ds) \<and> distinct ds \<and> set ds = {d. \<exists>k. one_docs db k = Some d \<and> F d}"
  by (cases db) (auto simp: doc_key_def split: if_splits)

lemma one_coll_ok: "mongo_ok (=) one_coll one_docs"
  unfolding mongo_ok_def
proof (intro conjI allI impI)
  show "k = doc_key d" if "one_docs db k = Some d" for db k d
    using that by (cases db) (auto split: if_splits)
  show "sorted (map td_Index ds)" "distinct ds" "set ds = {d. \<exists>k. one_docs db k = Some d \<and> F d}"
    if "co_Find one_coll db F = Inr ds" for db F ds
    using one_find_exact that by simp_all
  show "\<exists>m. one_docs db = m \<and> (\<forall>k d. m k = Some d \<longrightarrow> k = doc_key d) \<and>
      (case r of Inl _ \<Rightarrow> one_docs db' = m \<or> (\<exists>n. update_one F f m n (one_docs db'))
       | Inr n \<Rightarrow> update_one F f m n (one_docs db'))"
    if "co_UpdateOne one_coll db F f = (r, db')" "key_fixed F f" for db F f r db'
    using one_update_exact [OF that(2), of db r db'] that(1)
    by (cases db) (auto split: if_splits)
  show "bulk_write (=) us (one_docs db) (one_docs db')"
    if "co_BulkWrite one_coll db us = (r, db')" "\<forall>(F, f)\<in>set us. key_fixed F f" for db us r db'
    using one_bulk_exact [OF that(2), of db] that(1) by simp
  show "\<exists>m. one_docs db = m \<and> insert_many ds (is_ok r) m (one_docs db')"
    if "co_InsertMany one_coll db ds = (r, db')" for db ds r db'
    using that by (auto simp: insert_many_def)
qed

lemma one_meta_ok: "meta_ok (=) one_meta one_docs"
  by (simp add: meta_ok_def one_meta_def)

lemma preserving_eq: "preserving (=)"
  by (simp add: preserving_def)

section \<open>Issuing from it\<close>

definition one_decoy :: TokenStatusListDoc where
  "one_decoy = \<lparr>td_Index = 0, td_Status = 2, td_Decoy = True, td_Section = 7\<rparr>"

definition zero_draws :: SLDraws where
  "zero_draws = \<lparr>rd_index = \<lambda>_ _. 0, rd_pick = \<lambda>_. 0, rd_noise = \<lambda>_ _. 0, rd_seed = \<lambda>_. 0\<rparr>"

lemma decoy_loop_seen:
  "0 \<in> set seen \<Longrightarrow> 0 < n \<Longrightarrow> decoy_loop coll db sec n (\<lambda>_. 0) left seen ds = Inr ds"
  by (induction left) (auto simp: Let_def)

lemma one_random_decoys:
  "getRandomDecoys one_coll (Some d) 7 1 (\<lambda>_. 0) =
     (if at_entry 7 0 d \<and> td_Decoy d then Inr [d] else Inl NoDecoys)"
proof -
  obtain k where k: "maxAttempts = Suc k" by (metis maxAttempts_def numeral_eq_Suc)
  have "decoy_loop one_coll (Some d) 7 1 (\<lambda>_. 0) (Suc k) [] [] = Inr (if at_entry 7 0 d \<and> td_Decoy d then [d] else [])"
    by (simp add: decoy_loop_seen want_decoys_def)
  then show ?thesis by (simp add: getRandomDecoys_def k)
qed

lemma one_add:
  "Add one_coll zero_draws 1 7 st (Some d) =
     (if at_entry 7 0 d \<and> td_Decoy d then (Inr 0, Some (issued_doc 7 st 0)) else (Inl NoDecoys, Some d))"
proof -
  obtain k where k: "maxRetries = Suc k" by (metis maxRetries_def numeral_eq_Suc)
  show ?thesis
    by (auto simp: Add_def k zero_draws_def one_random_decoys Let_def cryptoRandIntn_def)
      (auto simp: at_entry_def at_decoy_def issued_doc_def set_doc_def doc_key_def)
qed

lemma one_AddStatus:
  "AddStatus one_coll one_meta zero_draws 1 st (Some d) =
     (if at_entry 7 0 d \<and> td_Decoy d then (Inr (7, 0), Some (issued_doc 7 st 0)) else (Inl NoDecoys, Some d))"
  by (simp add: AddStatus_def CreateNewSectionIfNeeded_def GetCurrentSection_def one_meta_def
      CountDecoysInSectionWithLimit_def one_add)

theorem status_entry_allocated_once_witness:
  "fst (run (status_step one_coll one_meta 1) (Some one_decoy) [CallAdd zero_draws 0, CallUpdate 7 0 1, CallAdd zero_draws 0]) =
     [Some (7, 0), None, None] \<and>
   length (filter (\<lambda>r. r = Some (7, 0)) (fst (run (status_step one_coll one_meta 1) (Some one_decoy)
     [CallAdd zero_draws 0, CallUpdate 7 0 1, CallAdd zero_draws 0]))) \<le> 1"
proof
  have u: "UpdateStatus one_coll 7 0 1 (Some (issued_doc 7 0 0)) = (Inr (), Some (issued_doc 7 1 0))"
    by (simp add: UpdateStatus_def at_entry_def set_status_def issued_doc_def doc_key_def)
  show "fst (run (status_step one_coll one_meta 1) (Some one_decoy) [CallAdd zero_draws 0, CallUpdate 7 0 1, CallAdd zero_draws 0]) =
     [Some (7, 0), None, None]"
    by (simp add: one_AddStatus u) (simp add: one_decoy_def at_entry_def issued_doc_def)
qed (rule status_entry_allocated_once [OF one_coll_ok one_meta_ok preserving_eq])

theorem update_refines_array_witness:
  "section_full (one_docs (Some (one_decoy\<lparr>td_Status := 1\<rparr>))) 7 1 \<and>
   [1] = (case StatusList_Set (NewWithConfig [2] ''iss'' ''sub'') 0 1 of None \<Rightarrow> [2] | Some sl \<Rightarrow> sl_statuses sl)"
proof (rule update_refines_array [OF one_coll_ok])
  show "section_full (one_docs (Some one_decoy)) 7 1"
    by (auto simp: section_full_def one_decoy_def doc_key_def)
  show "UpdateStatus one_coll 7 0 1 (Some one_decoy) = (Inr (), Some (one_decoy\<lparr>td_Status := 1\<rparr>))"
    by (simp add: UpdateStatus_def one_decoy_def at_entry_def set_status_def doc_key_def)
  show "GetAllStatusesForSection one_coll (Some one_decoy) 7 = Inr [2]"
    "GetAllStatusesForSection one_coll (Some (one_decoy\<lparr>td_Status := 1\<rparr>)) 7 = Inr [1]"
    by (simp_all add: GetAllStatusesForSection_def one_decoy_def in_section_def)
qed

theorem issuing_keeps_issued_statuses_witness:
  "Add one_coll zero_draws 1 7 0 (Some one_decoy) = (Inr 0, Some (issued_doc 7 0 0)) \<and>
   one_docs (Some (issued_doc 7 0 0)) (7, 0) = Some (issued_doc 7 0 0)"
proof
  show a: "Add one_coll zero_draws 1 7 0 (Some one_decoy) = (Inr 0, Some (issued_doc 7 0 0))"
    by (simp add: one_add) (simp add: one_decoy_def at_entry_def)
  show "one_docs (Some (issued_doc 7 0 0)) (7, 0) = Some (issued_doc 7 0 0)"
    using issuing_keeps_issued_statuses [OF one_coll_ok a] by blast
qed

end
