(* ===== verification/StatusPublished.thy ===== *)
theory StatusPublished
  imports StatusService StatusExamples
begin

text \<open>
  What the status list endpoint serves: after a refresh, the statuses of the collection; for how long; and
  two runs in which it serves something else.
\<close>

section \<open>A refreshed section\<close>

text \<open>What a JWT library documents: a token it signed parses to what was signed.\<close>

definition signer_ok ::
  "(string \<Rightarrow> string \<Rightarrow> JWTClaims \<Rightarrow> string option) \<Rightarrow> (string \<Rightarrow> (string \<times> JWTClaims) option) \<Rightarrow> bool"
where
  "signer_ok sign parse \<longleftrightarrow> (\<forall>typ kid c t. sign typ kid c = Some t \<longrightarrow> t \<noteq> [] \<and> parse t = Some (typ, c))"

lemma go_string_bytes [simp]: "go_string (go_bytes s) = s"
proof -
  have "char_of (unat (word_of_nat (of_char c) :: 8 word)) = c" for c
  proof -
    have "(of_char c :: nat) < 2 ^ LENGTH(8)" using nat_of_char_less_256 [of c] by simp
    then show ?thesis by (simp add: unat_of_nat)
  qed
  then show ?thesis by (induction s) (simp_all add: go_string_def go_bytes_def)
qed

lemma MemoryCache_Get_live: "fst (MemoryCache_Get now m k) = live now m k"
  using Get_result [of now k m] by (auto simp: MemoryCache_Get_def split: prod.splits option.splits)

text \<open>The token \<open>publish\<close> leaves in the cache.\<close>

lemma publish_JWT:
  assumes "sw_JoinPath w (tl_PublicURL cfg) [''/statuslists'', FormatInt sec] = Some subject"
    and "GenerateStatusListTokenJWT w now (section_token cfg subject L) = Some t"
  shows "ts_JWT (publish w cfg now sec L s) = MemoryCache_Set now (ts_JWT s) (FormatInt sec) t"
  using assms by (simp add: publish_def Let_def split: option.splits)

lemma served_JWT:
  assumes "0 < c_ttl (ts_JWT s)" and "later \<le> now + c_ttl (ts_JWT s)" and "t \<noteq> []" and "accept \<noteq> MediaTypeCWT"
    and "ts_JWT s' = MemoryCache_Set now (ts_JWT s) (FormatInt sec) t"
  shows "fst (TokenStatusLists later \<lparr>tr_ID = sec, tr_Time = None, tr_Accept = accept\<rparr> s') =
    Inr \<lparr>tp_Token = go_bytes t, tp_ContentType = MediaTypeJWT\<rparr>"
proof -
  have "fst (MemoryCache_Get later (ts_JWT s') (FormatInt sec)) = Some t"
    using assms by (simp add: MemoryCache_Get_live MemoryCache_Set_def live_Set_default)
  then show ?thesis
    using assms(3,4) by (simp add: TokenStatusLists_def GetCachedJWT_def Let_def split_def)
qed

lemma GenerateJWT_ok:
  assumes "signer_ok (sw_sign w) parse" and "GenerateStatusListTokenJWT w now cfg = Some t"
  obtains claims where "status_list_claims (sw_deflate w) now (configured_list cfg) = Some claims"
    and "parse t = Some (JWTTypHeader, claims)" and "t \<noteq> []"
  using assms by (auto simp: GenerateStatusListTokenJWT_def GenerateJWT_def signer_ok_def split: option.splits)

lemma claims_fields:
  assumes "status_list_claims deflate now sl = Some claims"
  shows "jc_Subject claims = sl_Subject sl" "jc_IssuedAt claims = unix now"
    "jc_ExpiresAt claims = (if sl_ExpiresIn sl > 0 then Some (unix (now + sl_ExpiresIn sl)) else None)"
  using assms by (auto simp: status_list_claims_def split: option.splits)

lemma claims_statuses:
  assumes "zlib_ok deflate inflate" and "status_list_claims deflate now sl = Some claims"
    and "int (length (sl_statuses sl)) \<le> maxDecompressedSize"
  shows "GetStatusFromJWT inflate claims i = StatusList_Get sl i"
proof -
  obtain lst where "CompressAndEncode deflate (sl_statuses sl) = Some lst" "slc_Lst (jc_StatusList claims) = lst"
    using assms(2) by (auto simp: status_list_claims_def split: option.splits)
  then show ?thesis
    using DecodeAndDecompress_CompressAndEncode [OF assms(1)] assms(3)
    by (simp add: GetStatusFromJWT_def GetStatus_def StatusList_Get_def)
qed

lemma configured_list_fields [simp]:
  "sl_statuses (configured_list c) = tk_Statuses c" "sl_Subject (configured_list c) = tk_Subject c"
  "sl_ExpiresIn (configured_list c) = tk_ExpiresIn c"
  by (simp_all add: configured_list_def NewWithConfig_def)

lemma section_token_fields [simp]:
  "tk_Statuses (section_token cfg subject L) = L" "tk_Subject (section_token cfg subject L) = subject"
  "tk_ExpiresIn (section_token cfg subject L) = tokenValidity cfg"
  by (simp_all add: section_token_def)

lemma array_lookup:
  assumes "section_full m sec n" and "L = section_statuses m sec n"
  shows "(if i < 0 \<or> int (length L) \<le> i then None else Some (L ! nat i)) = map_option td_Status (m (sec, i))"
proof (cases "0 \<le> i \<and> i < n")
  case True
  then obtain d where "m (sec, i) = Some d" using assms(1) by (auto simp: section_full_def)
  then show ?thesis using True by (simp add: assms(2) section_statuses_def)
next
  case False
  then have "m (sec, i) = None" using assms(1) by (auto simp: section_full_def)
  then show ?thesis using False by (auto simp: assms(2) section_statuses_def)
qed

text \<open>
  C18: the endpoint serves the collection. After a refresh of a full section, and until the validity of the
  token has passed, a request that does not ask for the CWT form gets a token that parses, names the
  section's URI, expires at the end of that time, and tells for every index the status stored there, and
  for every other index nothing.
\<close>

theorem published_list_is_current:
  assumes ok: "mongo_ok env coll docs" and full: "section_full (docs (ts_db s)) sec n" "0 < n" "n \<le> maxDecompressedSize"
    and g: "GetAllStatusesForSection coll (ts_db s) sec = Inr L"
    and z: "zlib_ok (sw_deflate w) inflate" and sgn: "signer_ok (sw_sign w) parse"
    and url: "sw_JoinPath w (tl_PublicURL cfg) [''/statuslists'', FormatInt sec] = Some subject"
    and gen: "GenerateStatusListTokenJWT w now (section_token cfg subject L) \<noteq> None"
    and ttl: "c_ttl (ts_JWT s) = tokenValidity cfg" "0 < tokenValidity cfg"
    and later: "later \<le> now + tokenValidity cfg" and accept: "accept \<noteq> MediaTypeCWT"
  shows "\<exists>t claims. fst (TokenStatusLists later \<lparr>tr_ID = sec, tr_Time = None, tr_Accept = accept\<rparr>
        (refreshSection coll w cfg now sec s)) = Inr \<lparr>tp_Token = go_bytes t, tp_ContentType = MediaTypeJWT\<rparr> \<and>
      parse t = Some (JWTTypHeader, claims) \<and> jc_Subject claims = subject \<and>
      jc_ExpiresAt claims = Some (unix (now + tokenValidity cfg)) \<and>
      (\<forall>i. GetStatusFromJWT inflate claims i = map_option td_Status (docs (ts_db s) (sec, i)))"
proof -
  obtain t where t: "GenerateStatusListTokenJWT w now (section_token cfg subject L) = Some t" using gen by blast
  obtain claims where c: "status_list_claims (sw_deflate w) now (configured_list (section_token cfg subject L)) = Some claims"
    and p: "parse t = Some (JWTTypHeader, claims)" "t \<noteq> []"
    using GenerateJWT_ok [OF sgn t] by blast
  have L: "L = section_statuses (docs (ts_db s)) sec n" using GetAllStatuses_array [OF ok full(1) g] .
  then have len: "int (length L) = n" using full(2) by (simp add: section_statuses_def)
  then have "L \<noteq> []" using full(2) by auto
  then have "ts_JWT (refreshSection coll w cfg now sec s) = MemoryCache_Set now (ts_JWT s) (FormatInt sec) t"
    using g publish_JWT [OF url t] by (simp add: refreshSection_def)
  then have "fst (TokenStatusLists later \<lparr>tr_ID = sec, tr_Time = None, tr_Accept = accept\<rparr> (refreshSection coll w cfg now sec s)) =
      Inr \<lparr>tp_Token = go_bytes t, tp_ContentType = MediaTypeJWT\<rparr>"
    using served_JWT [of s later now t accept] ttl later p(2) accept by simp
  moreover have "GetStatusFromJWT inflate claims i = map_option td_Status (docs (ts_db s) (sec, i))" for i
  proof -
    have "GetStatusFromJWT inflate claims i = StatusList_Get (configured_list (section_token cfg subject L)) i"
      using claims_statuses [OF z c] len full(3) by simp
    also have "\<dots> = (if i < 0 \<or> int (length L) \<le> i then None else Some (L ! nat i))" by (simp add: StatusList_Get_def)
    finally show ?thesis using array_lookup [OF full(1) L, of i] by simp
  qed
  ultimately show ?thesis
    using p claims_fields [OF c] ttl(2) by auto
qed

section \<open>An example\<close>

definition demo_tsl :: TokenStatusLists_cfg where
  "demo_tsl = \<lparr>tl_PublicURL = ''https://r'', tl_TokenRefreshInterval = 3600, tl_SectionSize = 1\<rparr>"

definition demo_token :: "bytes \<Rightarrow> TokenConfig" where
  "demo_token L = section_token demo_tsl ''https://r/statuslists/7'' L"

text \<open>A signer that knows one token: the list \<open>L\<close> signed at time \<open>0\<close>.\<close>

definition demo_claims :: "bytes \<Rightarrow> JWTClaims" where
  "demo_claims L = the (status_list_claims Some 0 (configured_list (demo_token L)))"

definition demo_sign :: "bytes \<Rightarrow> string \<Rightarrow> string \<Rightarrow> JWTClaims \<Rightarrow> string option" where
  "demo_sign L typ kid c = (if typ = JWTTypHeader \<and> c = demo_claims L then Some ''jwt'' else None)"

definition demo_parse :: "bytes \<Rightarrow> string \<Rightarrow> (string \<times> JWTClaims) option" where
  "demo_parse L t = (if t = ''jwt'' then Some (JWTTypHeader, demo_claims L) else None)"

definition demo_world :: "bytes \<Rightarrow> SLWorld" where
  "demo_world L = \<lparr>sw_deflate = Some, sw_sign = demo_sign L, sw_key = EcdsaP256, sw_cose = \<lambda>_ _. Some [210],
     sw_JoinPath = \<lambda>u ps. Some (u @ concat (map (\<lambda>p. if p = ''/statuslists'' then p else ''/'' @ p) ps)),
     sw_ListURI = \<lambda>u n. Some (u @ ''/statuslists/'' @ FormatInt n)\<rparr>"

definition demo_service :: "one_db TSLService" where
  "demo_service = \<lparr>ts_db = Some one_decoy, ts_JWT = NewMemoryCache (tokenValidity demo_tsl),
     ts_CWT = NewMemoryCache (tokenValidity demo_tsl)\<rparr>"

lemma FormatInt_7: "FormatInt 7 = ''7''"
  by code_simp

lemma demo_url: "sw_JoinPath (demo_world L) (tl_PublicURL demo_tsl) [''/statuslists'', FormatInt 7] = Some ''https://r/statuslists/7''"
  by (simp add: demo_world_def demo_tsl_def FormatInt_7)

lemma demo_signed: "GenerateStatusListTokenJWT (demo_world L) 0 (demo_token L) = Some ''jwt''"
proof -
  obtain c where "status_list_claims Some 0 (configured_list (demo_token L)) = Some c"
    by (simp add: status_list_claims_def CompressAndEncode_def CompressStatuses_def)
  then show ?thesis
    by (simp add: GenerateStatusListTokenJWT_def GenerateJWT_def demo_world_def demo_sign_def demo_claims_def)
qed

lemmas demo_published = publish_JWT [OF demo_url demo_signed [unfolded demo_token_def]]

lemma demo_signer_ok: "signer_ok (sw_sign (demo_world L)) (demo_parse L)"
  by (simp add: signer_ok_def demo_world_def demo_sign_def demo_parse_def)

lemma demo_validity: "tokenValidity demo_tsl = 55 * minute"
  by (simp add: tokenValidity_def demo_tsl_def minute_def second_def)

lemma one_statuses: "GetAllStatusesForSection one_coll (Some one_decoy) 7 = Inr [2]"
  by (simp add: GetAllStatusesForSection_def one_decoy_def in_section_def)

theorem published_list_is_current_witness:
  "\<exists>t claims. fst (TokenStatusLists (30 * minute) \<lparr>tr_ID = 7, tr_Time = None, tr_Accept = ''*/*''\<rparr>
        (refreshSection one_coll (demo_world [2]) demo_tsl 0 7 demo_service)) =
      Inr \<lparr>tp_Token = go_bytes t, tp_ContentType = MediaTypeJWT\<rparr> \<and>
    demo_parse [2] t = Some (JWTTypHeader, claims) \<and> jc_Subject claims = ''https://r/statuslists/7'' \<and>
    jc_ExpiresAt claims = Some (unix (0 + tokenValidity demo_tsl)) \<and>
    (\<forall>i. GetStatusFromJWT (\<lambda>c. Some (c, True)) claims i = map_option td_Status (one_docs (ts_db demo_service) (7, i)))"
proof (rule published_list_is_current [OF one_coll_ok, where n = 1 and L = "[2]"])
  show "section_full (one_docs (ts_db demo_service)) 7 1"
    by (auto simp: section_full_def demo_service_def one_decoy_def doc_key_def)
  show "zlib_ok (sw_deflate (demo_world [2])) (\<lambda>c. Some (c, True))" by (simp add: zlib_ok_def demo_world_def)
  show "signer_ok (sw_sign (demo_world [2])) (demo_parse [2])" by (rule demo_signer_ok)
  show "GenerateStatusListTokenJWT (demo_world [2]) 0 (section_token demo_tsl ''https://r/statuslists/7'' [2]) \<noteq> None"
    using demo_signed [of "[2]"] by (simp add: demo_token_def)
qed (simp_all add: demo_service_def one_statuses demo_url NewMemoryCache_def New_def demo_validity minute_def second_def
      maxDecompressedSize_def MediaTypeCWT_def)

section \<open>Two gaps\<close>

text \<open>
  A refresh that has read the section before a status changes publishes the old status, and the change's own
  request for a refresh has joined it: when everything has come to rest, the collection says revoked and
  the list served says suspended, until the next tick of the refresh loop.
\<close>

definition demo_node :: "one_db TSLNode" where
  "demo_node = \<lparr>tn_service = demo_service, tn_flight = Map.empty\<rparr>"

definition overtaken :: "one_db TSLNode" where
  "overtaken = publish_half (demo_world [2]) demo_tsl 0 7
     (snd (TSL_UpdateStatus one_coll 7 0 1 (fetch_half one_coll 7 (start_refresh 7 demo_node))))"

lemma coalesced_refresh_misses_update:
  "tn_flight overtaken = Map.empty \<and>
   map_option td_Status (one_docs (ts_db (tn_service overtaken)) (7, 0)) = Some StatusInvalid \<and>
   fst (TokenStatusLists minute \<lparr>tr_ID = 7, tr_Time = None, tr_Accept = []\<rparr> (tn_service overtaken)) =
     Inr \<lparr>tp_Token = go_bytes ''jwt'', tp_ContentType = MediaTypeJWT\<rparr> \<and>
   (\<exists>claims. demo_parse [2] ''jwt'' = Some (JWTTypHeader, claims) \<and>
     GetStatusFromJWT (\<lambda>c. Some (c, True)) claims 0 = Some StatusSuspended)"
proof -
  have u: "UpdateStatus one_coll 7 0 1 (Some one_decoy) = (Inr (), Some (one_decoy\<lparr>td_Status := 1\<rparr>))"
    by (simp add: UpdateStatus_def one_decoy_def at_entry_def set_status_def doc_key_def)
  let ?n = "\<lparr>tn_service = demo_service\<lparr>ts_db := Some (one_decoy\<lparr>td_Status := 1\<rparr>)\<rparr>, tn_flight = [7 \<mapsto> Fetched [2]]\<rparr>"
  have n: "overtaken = publish_half (demo_world [2]) demo_tsl 0 7 ?n"
    by (simp add: overtaken_def demo_node_def start_refresh_def fetch_half_def TSL_UpdateStatus_def with_db_def
        demo_service_def one_statuses u)
  have j: "ts_JWT (tn_service overtaken) = MemoryCache_Set 0 (ts_JWT demo_service) (FormatInt 7) ''jwt''"
    by (simp add: n publish_half_def demo_published)
  have d: "ts_db (tn_service overtaken) = Some (one_decoy\<lparr>td_Status := 1\<rparr>)"
    by (simp add: n publish_half_def publish_def Let_def split: option.splits)
  have s: "fst (TokenStatusLists minute \<lparr>tr_ID = 7, tr_Time = None, tr_Accept = []\<rparr> (tn_service overtaken)) =
      Inr \<lparr>tp_Token = go_bytes ''jwt'', tp_ContentType = MediaTypeJWT\<rparr>"
    by (rule served_JWT [OF _ _ _ _ j])
      (simp_all add: demo_service_def NewMemoryCache_def New_def demo_validity minute_def second_def MediaTypeCWT_def)
  obtain c where c: "status_list_claims Some 0 (configured_list (demo_token [2])) = Some c"
    by (simp add: status_list_claims_def CompressAndEncode_def CompressStatuses_def)
  have "GetStatusFromJWT (\<lambda>c. Some (c, True)) c 0 = Some StatusSuspended"
    using claims_statuses [OF _ c, of "\<lambda>c. Some (c, True)" 0]
    by (simp add: zlib_ok_def demo_token_def maxDecompressedSize_def StatusList_Get_def StatusSuspended_def)
  then show ?thesis using s d by (simp add: n publish_half_def one_decoy_def doc_key_def StatusInvalid_def demo_parse_def demo_claims_def c)
qed

text \<open>
  A cached token is served past its expiry: every request starts its time in the cache anew. One request at
  fifty minutes is enough for the token, which expires after fifty-five, to be served at an hour and a half.
\<close>

lemma expired_token_served:
  "fst (TokenStatusLists (90 * minute) \<lparr>tr_ID = 7, tr_Time = None, tr_Accept = []\<rparr>
     (snd (TokenStatusLists (50 * minute) \<lparr>tr_ID = 7, tr_Time = None, tr_Accept = []\<rparr>
        (publish (demo_world [2]) demo_tsl 0 7 [2] demo_service)))) =
     Inr \<lparr>tp_Token = go_bytes ''jwt'', tp_ContentType = MediaTypeJWT\<rparr> \<and>
   jc_ExpiresAt (demo_claims [2]) = Some (unix (55 * minute))"
proof
  define P where "P = publish (demo_world [2]) demo_tsl 0 7 [2] demo_service"
  have j: "ts_JWT P = MemoryCache_Set 0 (New (55 * minute)) (FormatInt 7) ''jwt''"
    unfolding P_def demo_published by (simp add: demo_service_def NewMemoryCache_def demo_validity)
  show "fst (TokenStatusLists (90 * minute) \<lparr>tr_ID = 7, tr_Time = None, tr_Accept = []\<rparr>
     (snd (TokenStatusLists (50 * minute) \<lparr>tr_ID = 7, tr_Time = None, tr_Accept = []\<rparr>
        (publish (demo_world [2]) demo_tsl 0 7 [2] demo_service)))) =
     Inr \<lparr>tp_Token = go_bytes ''jwt'', tp_ContentType = MediaTypeJWT\<rparr>"
    unfolding P_def [symmetric]
    by (simp add: TokenStatusLists_def GetCachedJWT_def j MediaTypeCWT_def Let_def MemoryCache_Get_def
        MemoryCache_Set_def cache_defs item_defs New_def minute_def second_def)
  show "jc_ExpiresAt (demo_claims [2]) = Some (unix (55 * minute))"
    using claims_fields(3) [of Some 0 "configured_list (demo_token [2])"]
    by (auto simp: demo_claims_def status_list_claims_def CompressAndEncode_def CompressStatuses_def demo_token_def
        demo_validity minute_def second_def)
qed

end
