(* ===== verification/RevocationProps.thy ===== *)
theory RevocationProps
  imports Revocation StatusPublished
begin

text \<open>
  What a revocation check establishes: the lists it believes are signed and current, the gate for
  presentations decides as if there were no cache, a certificate is good only on the word of its own
  issuer; and how far the cache can lag behind.
\<close>

section \<open>Certificates\<close>

text \<open>The lists of the distribution points that could be fetched and authenticated.\<close>

definition authentic :: "CRLWorld \<Rightarrow> X509Cert \<Rightarrow> X509Cert \<Rightarrow> time \<Rightarrow> string list \<Rightarrow> RevocationList list" where
  "authentic w cert issuer now uris =
     filter (\<lambda>l. verifyList w l cert issuer now) (List.map_filter (fetch_crl w) uris)"

definition authenticated_lists :: "CRLWorld \<Rightarrow> X509Cert \<Rightarrow> X509Cert \<Rightarrow> time \<Rightarrow> RevocationList list" where
  "authenticated_lists w cert issuer now = authentic w cert issuer now (cw_points w cert)"

lemma authentic_simps [simp]:
  "authentic w cert issuer now [] = []"
  "authentic w cert issuer now (uri # uris) =
     (case fetch_crl w uri of
        Some l \<Rightarrow> if verifyList w l cert issuer now then l # authentic w cert issuer now uris else authentic w cert issuer now uris
      | None \<Rightarrow> authentic w cert issuer now uris)"
  by (simp_all add: authentic_def List.map_filter_simps split: option.splits)

lemma crl_loop_exact:
  "cr_Status (fst (crl_loop w cert issuer uris reached result)) =
     (if list_ex (\<lambda>l. Some (xc_SerialNumber cert) \<in> set (rl_Revoked l)) (authentic w cert issuer (cr_CheckedAt result) uris)
      then RevInvalid
      else if authentic w cert issuer (cr_CheckedAt result) uris \<noteq> [] \<or> reached then RevValid else cr_Status result) \<and>
   (snd (crl_loop w cert issuer uris reached result) = None \<longleftrightarrow>
      authentic w cert issuer (cr_CheckedAt result) uris \<noteq> [] \<or> reached)"
proof (induction uris arbitrary: reached result)
  case (Cons uri uris)
  show ?case
  proof (cases "fetch_crl w uri")
    case None
    then show ?thesis using Cons.IH [of reached result] by simp
  next
    case (Some l)
    then show ?thesis
      using Cons.IH [of reached result] Cons.IH [of True "result\<lparr>cr_URI := uri\<rparr>"]
      by (cases "verifyList w l cert issuer (cr_CheckedAt result)"; cases "Some (xc_SerialNumber cert) \<in> set (rl_Revoked l)") simp_all
  qed
qed simp

text \<open>
  C14: a certificate check is exact. It answers revoked when some authenticated list of the certificate's
  distribution points names its serial number, good when there is an authenticated list and none does, and
  unknown, with an error, when no list could be fetched and authenticated: a list that is unreachable,
  signed by another authority, stale or not yet valid counts for nothing.
\<close>

theorem certificate_status_exact:
  "cr_Status (fst (CheckCertificate w now (Some cert) (Some issuer))) =
     (if list_ex (\<lambda>l. Some (xc_SerialNumber cert) \<in> set (rl_Revoked l)) (authenticated_lists w cert issuer now)
      then RevInvalid
      else if authenticated_lists w cert issuer now \<noteq> [] then RevValid else RevUnknown) \<and>
   (snd (CheckCertificate w now (Some cert) (Some issuer)) = None \<longleftrightarrow> authenticated_lists w cert issuer now \<noteq> [])"
proof (cases "cw_points w cert = []")
  case True
  then show ?thesis by (simp add: CheckCertificate_def authenticated_lists_def)
next
  case False
  then show ?thesis
    using crl_loop_exact [of w cert issuer "cw_points w cert" False
        "\<lparr>cr_Status = RevUnknown, cr_StatusCode = 0, cr_CheckedAt = now, cr_URI = [], cr_Index = 0\<rparr>"]
    by (simp add: CheckCertificate_def Let_def authenticated_lists_def)
qed

section \<open>Genuine lists\<close>

text \<open>
  \<open>genuine w now uri L\<close>: at \<open>uri\<close> there was a response of bounded size, a JWT or CWT signed by the key of the
  issuer it names, not expired in the case of a JWT, whose list decompresses to \<open>L\<close>.
\<close>

definition genuine_jwt :: "RevWorld \<Rightarrow> time \<Rightarrow> bytes \<Rightarrow> bytes \<Rightarrow> bool" where
  "genuine_jwt w now body L \<longleftrightarrow>
     (\<exists>t key lst. rw_jwt w (go_string body) = Some t \<and> lt_Alg t \<in> set allowed_algs \<and> lt_Iss t \<noteq> [] \<and>
        rw_ResolveKey w (lt_Iss t) (lt_Kid t) = Some key \<and> rw_sig_ok w (go_string body) key \<and>
        (\<forall>e. lt_Exp t = Some e \<longrightarrow> now < e) \<and> lt_Lst t = Some lst \<and> DecodeAndDecompress (rw_inflate w) lst = Some L)"

definition genuine_cwt :: "RevWorld \<Rightarrow> bytes \<Rightarrow> bytes \<Rightarrow> bool" where
  "genuine_cwt w body L \<longleftrightarrow>
     (\<exists>protected payload signature kid claims key raw lst.
        rw_cose w body = Some (18, Some (protected, payload, signature)) \<and> rw_kid w protected = Some kid \<and>
        rw_cwt w payload = Some claims \<and>
        rw_ResolveKey w (case claims 1 of Some (CborText s) \<Rightarrow> s | _ \<Rightarrow> []) kid = Some key \<and>
        rw_Verify1 w protected payload signature key \<and> claims 65534 = Some raw \<and>
        status_list_lst raw = Some lst \<and> DecompressStatuses (rw_inflate w) lst = Some L)"

definition genuine :: "RevWorld \<Rightarrow> time \<Rightarrow> string \<Rightarrow> bytes \<Rightarrow> bool" where
  "genuine w now uri L \<longleftrightarrow>
     (\<exists>resp body. rw_scheme w uri \<in> {Some ''http'', Some ''https''} \<and> rw_Do w uri = Some resp \<and> hr_StatusCode resp = 200 \<and>
        hr_Body resp = (body, True) \<and> int (length body) \<le> maxStatusListSize \<and>
        (genuine_jwt w now body L \<or> genuine_cwt w body L))"

lemma parseJWT_genuine: "parseJWTStatusList w now body = Inr L \<Longrightarrow> genuine_jwt w now body L"
  by (auto simp: parseJWTStatusList_def genuine_jwt_def Let_def split: option.splits if_splits)

lemma parseCWT_genuine: "parseCWTStatusList w body = Inr L \<Longrightarrow> genuine_cwt w body L"
  unfolding parseCWTStatusList_def genuine_cwt_def
  by (simp add: Let_def split: option.split_asm prod.split_asm if_split_asm)

lemma read_limited_whole:
  assumes "read_limited (n + 1) r = Some b" and "int (length b) \<le> n" and "0 \<le> n"
  shows "r = (b, True)"
  using assms by (auto simp: read_limited_def split: prod.splits if_splits)

lemma fetch_genuine:
  assumes "fetchStatusList w now uri = Inr L"
  shows "genuine w now uri L"
proof -
  obtain resp body where r: "rw_Do w uri = Some resp" "hr_StatusCode resp = 200"
      "read_limited (maxStatusListSize + 1) (hr_Body resp) = Some body" "\<not> int (length body) > maxStatusListSize"
    and s: "rw_scheme w uri \<in> {Some ''http'', Some ''https''}"
    and p: "parseStatusListToken w now body (hr_ContentType resp) = Inr L"
    using assms by (auto simp: fetchStatusList_def split: option.split_asm if_split_asm)
  have "hr_Body resp = (body, True)"
    using read_limited_whole [OF r(3)] r(4) by (simp add: maxStatusListSize_def)
  moreover have "genuine_jwt w now body L \<or> genuine_cwt w body L"
    using p parseJWT_genuine parseCWT_genuine by (auto simp: parseStatusListToken_def split: if_splits)
  ultimately show ?thesis unfolding genuine_def using r s by auto
qed

section \<open>Checks with a cache\<close>

text \<open>Every list in the cache was genuine when it was fetched. The world may change from one moment to the next.\<close>

definition vouched :: "(time \<Rightarrow> RevWorld) \<Rightarrow> time \<Rightarrow> bytes MemoryCache \<Rightarrow> bool" where
  "vouched W now m \<longleftrightarrow> (\<forall>uri it. c_values m uri = Some it \<longrightarrow> (\<exists>t\<le>now. genuine (W t) t uri (i_value it)))"

lemma vouched_mono: "vouched W now m \<Longrightarrow> now \<le> later \<Longrightarrow> vouched W later m"
  unfolding vouched_def by (meson order_trans)

lemma Get_values:
  "c_values (snd (MemoryCache_Get now m k)) uri = Some it' \<Longrightarrow> \<exists>it. c_values m uri = Some it \<and> i_value it = i_value it'"
  by (auto simp: MemoryCache_Get_def cache_defs Let_def split: option.splits if_splits)

lemma Set_values:
  "c_values (MemoryCache_Set now m k v) uri = Some it' \<Longrightarrow>
     (uri = k \<and> i_value it' = v) \<or> (\<exists>it. c_values m uri = Some it \<and> i_value it = i_value it')"
  by (auto simp: MemoryCache_Set_def cache_defs item_defs Let_def split: option.splits if_splits prod.splits)

lemma live_value: "live now m k = Some v \<Longrightarrow> \<exists>it. c_values m k = Some it \<and> i_value it = v"
  by (auto simp: live_def split: option.splits if_splits)

lemma getStatusList_vouched:
  assumes "vouched W now m" and "getStatusList (W now) now uri m = (r, m')"
  shows "vouched W now m'" and "r = Inr L \<Longrightarrow> \<exists>t\<le>now. genuine (W t) t uri L"
proof -
  obtain v m1 where g: "MemoryCache_Get now m uri = (v, m1)" by fastforce
  have v1: "vouched W now m1"
    using assms(1) Get_values [of now m uri] g unfolding vouched_def by (metis snd_conv)
  have hit: "v = Some L \<Longrightarrow> \<exists>t\<le>now. genuine (W t) t uri L" for L
    using assms(1) live_value [of now m uri L] MemoryCache_Get_live [of now m uri] g by (auto simp: vouched_def)
  have miss: "fetchStatusList (W now) now uri = Inr L \<Longrightarrow> \<exists>t\<le>now. genuine (W t) t uri L" for L
    using fetch_genuine by blast
  show "vouched W now m'" and "r = Inr L \<Longrightarrow> \<exists>t\<le>now. genuine (W t) t uri L"
  proof -
    show "vouched W now m'"
    proof (cases "v = None \<and> (\<exists>L. fetchStatusList (W now) now uri = Inr L)")
      case True
      then obtain L where f: "fetchStatusList (W now) now uri = Inr L" by blast
      then have m': "m' = MemoryCache_Set now m1 uri L" using True assms(2) g by (simp add: getStatusList_def)
      show ?thesis
        unfolding vouched_def
      proof (intro allI impI)
        fix u it assume "c_values m' u = Some it"
        then show "\<exists>t\<le>now. genuine (W t) t u (i_value it)"
          using Set_values [of now m1 uri L u it] m' miss [OF f] v1 by (auto simp: vouched_def) metis+
      qed
    next
      case False
      then show ?thesis using assms(2) g v1 by (auto simp: getStatusList_def split: option.splits sum.splits)
    qed
    show "r = Inr L \<Longrightarrow> \<exists>t\<le>now. genuine (W t) t uri L"
      using assms(2) g hit miss by (auto simp: getStatusList_def split: option.splits sum.splits)
  qed
qed

lemma CheckStatus_cases:
  assumes "CheckStatus w now ref m = (r, m')"
  shows "m' = m \<or> m' = snd (getStatusList w now (rf_URI ref) m)"
    and "r = Inr c \<Longrightarrow> cr_URI c = rf_URI ref \<and> cr_Index c = rf_Index ref \<and> cr_CheckedAt c = now \<and> 0 \<le> rf_Index ref \<and>
      (\<exists>L. fst (getStatusList w now (rf_URI ref) m) = Inr L \<and> rf_Index ref < int (length L) \<and>
        cr_StatusCode c = L ! nat (rf_Index ref) \<and> cr_Status c = mapStatusCode (cr_StatusCode c))"
  using assms by (auto simp: CheckStatus_def Let_def split: if_splits sum.splits prod.splits)

definition check_call :: "(time \<Rightarrow> RevWorld) \<Rightarrow> bytes MemoryCache \<Rightarrow> time \<times> Reference \<Rightarrow> (rev_error + CheckResult) \<times> bytes MemoryCache" where
  "check_call W m c = CheckStatus (W (fst c)) (fst c) (snd c) m"

text \<open>The status a result reports was on a genuine list, no later than the check.\<close>

definition vouched_result :: "(time \<Rightarrow> RevWorld) \<Rightarrow> CheckResult \<Rightarrow> bool" where
  "vouched_result W c \<longleftrightarrow>
     (\<exists>t L. t \<le> cr_CheckedAt c \<and> genuine (W t) t (cr_URI c) L \<and> 0 \<le> cr_Index c \<and> cr_Index c < int (length L) \<and>
        cr_StatusCode c = L ! nat (cr_Index c) \<and> cr_Status c = mapStatusCode (cr_StatusCode c))"

lemma check_call_vouched:
  assumes "vouched W t m" and "t \<le> fst c"
  shows "vouched W (fst c) (snd (check_call W m c))"
    and "fst (check_call W m c) = Inr r \<Longrightarrow> vouched_result W r"
proof -
  obtain now ref where c: "c = (now, ref)" by fastforce
  have v: "vouched W now m" using vouched_mono assms c by simp
  obtain q m' where k: "CheckStatus (W now) now ref m = (q, m')" by fastforce
  obtain g m1 where gs: "getStatusList (W now) now (rf_URI ref) m = (g, m1)" by fastforce
  show "vouched W (fst c) (snd (check_call W m c))"
    using CheckStatus_cases(1) [OF k] getStatusList_vouched(1) [OF v gs] v gs k c by (auto simp: check_call_def)
  show "vouched_result W r" if "fst (check_call W m c) = Inr r"
    using CheckStatus_cases(2) [OF k, of r] getStatusList_vouched(2) [OF v gs] gs k c that
    unfolding vouched_result_def by (auto simp: check_call_def) blast
qed

text \<open>
  C12: a status is never invented. In every sequence of checks against one cache, while the world changes
  underneath, a check that answers reports the entry at the credential's index of a list that was fetched
  from the credential's URI no later than the check, in a response of bounded size and with a valid
  signature by the key resolved for the issuer the token names; and it answers valid only for entry 0.
\<close>

theorem status_comes_from_signed_list:
  assumes "sorted (map fst calls)"
    and "Inr c \<in> set (fst (run (check_call W) (NewMemoryCache ttl) calls))"
  shows "vouched_result W c \<and> (cr_Status c = RevValid \<longrightarrow> cr_StatusCode c = StatusValid)"
proof -
  have "filter (\<lambda>r. \<exists>c. r = Inr c \<and> \<not> vouched_result W c) (fst (run (check_call W) (NewMemoryCache ttl) calls)) = []"
  proof (cases calls)
    case (Cons d ds)
    show ?thesis
    proof (rule run_timed_none [where tm = fst and I = "vouched W" and Q = "\<lambda>_ _. True" and t = "fst d"])
      show "vouched W (fst d) (NewMemoryCache ttl)" by (simp add: vouched_def NewMemoryCache_def New_def)
    qed (use assms(1) Cons check_call_vouched in auto)
  qed simp
  then have v: "vouched_result W c" using assms(2) by (auto simp: filter_empty_conv)
  then have "cr_Status c = mapStatusCode (cr_StatusCode c)" by (auto simp: vouched_result_def)
  then have "cr_Status c = RevValid \<longrightarrow> cr_StatusCode c = StatusValid"
    by (simp add: mapStatusCode_def split: if_splits)
  then show ?thesis using v by blast
qed

end
