(* ===== verification/RevocationFlow.thy ===== *)
theory RevocationFlow
  imports RevocationProps
begin

text \<open>
  The gate for presentations against a cache-free reference, how long a cached list can be used, and the way
  of a revocation from the registry to the verifier.
\<close>

section \<open>The gate\<close>

text \<open>What a verifier would decide if it looked every list up once: in its cache, else at its URI.\<close>

definition list_at :: "RevWorld \<Rightarrow> time \<Rightarrow> bytes MemoryCache \<Rightarrow> string \<Rightarrow> rev_error + bytes" where
  "list_at w now m uri = (case live now m uri of Some L \<Rightarrow> Inr L | None \<Rightarrow> fetchStatusList w now uri)"

definition reference_status :: "RevWorld \<Rightarrow> time \<Rightarrow> bytes MemoryCache \<Rightarrow> Reference \<Rightarrow> rev_error + rev_status" where
  "reference_status w now m ref =
     (if rf_Scheme ref \<noteq> SchemeStatusList then Inl ErrScheme
      else if rf_URI ref = [] then Inl ErrURI
      else if rf_Index ref < 0 then Inl ErrIndex
      else case list_at w now m (rf_URI ref) of
             Inl e \<Rightarrow> Inl e
           | Inr L \<Rightarrow>
               if int (length L) \<le> rf_Index ref then Inl ErrOutOfRange else Inr (mapStatusCode (L ! nat (rf_Index ref))))"

definition accepted :: "RevWorld \<Rightarrow> time \<Rightarrow> bytes MemoryCache \<Rightarrow> bool \<Rightarrow> (string \<times> go_any) list \<Rightarrow> bool" where
  "accepted w now m failOpen claims =
     (case ExtractStatusListReference claims of
        None \<Rightarrow> True
      | Some ref \<Rightarrow> (case reference_status w now m ref of Inl _ \<Rightarrow> failOpen | Inr st \<Rightarrow> st = RevValid))"

lemma live_Set_now:
  "live now (MemoryCache_Set now m k v) k' = (if k' = k then live now (MemoryCache_Set now m k v) k else live now m k')"
  "live now (MemoryCache_Set now m k v) k = Some v \<or> live now (MemoryCache_Set now m k v) k = None"
  by (auto simp: MemoryCache_Set_def cache_defs item_defs live_def Let_def split: option.splits prod.splits)

lemma live_MemoryCache_Get_now: "live now (snd (MemoryCache_Get now m k)) k' = live now m k'"
  using live_Get_now [of now k m k'] by (auto simp: MemoryCache_Get_def split: prod.splits option.splits)

lemma getStatusList_at:
  "fst (getStatusList w now uri m) = list_at w now m uri"
  "list_at w now (snd (getStatusList w now uri m)) = list_at w now m"
proof -
  obtain v m1 where g: "MemoryCache_Get now m uri = (v, m1)" by fastforce
  then have v: "v = live now m uri" and m1: "live now m1 k = live now m k" for k
    using MemoryCache_Get_live [of now m uri] live_MemoryCache_Get_now [of now m uri k] by simp_all
  show "fst (getStatusList w now uri m) = list_at w now m uri"
    using g v by (simp add: getStatusList_def list_at_def split: option.splits sum.splits)
  show "list_at w now (snd (getStatusList w now uri m)) = list_at w now m"
  proof
    fix u
    show "list_at w now (snd (getStatusList w now uri m)) u = list_at w now m u"
    proof (cases "v = None \<and> (\<exists>L. fetchStatusList w now uri = Inr L)")
      case True
      then obtain L where f: "fetchStatusList w now uri = Inr L" by blast
      have "snd (getStatusList w now uri m) = MemoryCache_Set now m1 uri L" using True f g by (simp add: getStatusList_def)
      then show ?thesis
        using True f v m1 live_Set_now(1) [of now m1 uri L u] live_Set_now(2) [of now m1 uri L]
        by (cases "u = uri") (auto simp: list_at_def)
    next
      case False
      then have "snd (getStatusList w now uri m) = m1"
        using g by (auto simp: getStatusList_def split: option.splits sum.splits)
      then show ?thesis using m1 by (simp add: list_at_def)
    qed
  qed
qed

lemma CheckStatus_at:
  "map_sum id cr_Status (fst (CheckStatus w now ref m)) = reference_status w now m ref"
  "list_at w now (snd (CheckStatus w now ref m)) = list_at w now m"
proof -
  obtain g m1 where gs: "getStatusList w now (rf_URI ref) m = (g, m1)" by fastforce
  then have g: "g = list_at w now m (rf_URI ref)" and m1: "list_at w now m1 = list_at w now m"
    using getStatusList_at [of w now "rf_URI ref" m] by simp_all
  show "map_sum id cr_Status (fst (CheckStatus w now ref m)) = reference_status w now m ref"
    using gs g by (auto simp: CheckStatus_def reference_status_def Let_def split: sum.splits)
  show "list_at w now (snd (CheckStatus w now ref m)) = list_at w now m"
    using gs m1 by (auto simp: CheckStatus_def Let_def split: sum.splits)
qed

lemma accepted_cong:
  assumes "list_at w now m' = list_at w now m"
  shows "accepted w now m' = accepted w now m"
proof -
  have eq: "reference_status w now m' = reference_status w now m" using assms by (simp add: fun_eq_iff reference_status_def)
  show ?thesis unfolding accepted_def [abs_def] eq ..
qed

lemma Validate_at:
  assumes v: "Validate_revocation w now c m = (r, m1)"
  shows "list_at w now m1 = list_at w now m"
    and "accepted w now m failOpen c = (case r of Inl _ \<Rightarrow> failOpen | Inr None \<Rightarrow> True | Inr (Some x) \<Rightarrow> cr_Status x = RevValid)"
proof -
  show "list_at w now m1 = list_at w now m"
  proof (cases "ExtractStatusListReference c")
    case (Some ref)
    then show ?thesis
      using v CheckStatus_at(2) [of w now ref m]
      by (cases "CheckStatus w now ref m") (auto simp: Validate_revocation_def split: sum.splits)
  qed (use v in \<open>simp add: Validate_revocation_def\<close>)
  show "accepted w now m failOpen c = (case r of Inl _ \<Rightarrow> failOpen | Inr None \<Rightarrow> True | Inr (Some x) \<Rightarrow> cr_Status x = RevValid)"
  proof (cases "ExtractStatusListReference c")
    case (Some ref)
    then show ?thesis
      using v CheckStatus_at(1) [of w now ref m, symmetric]
      by (cases "CheckStatus w now ref m") (auto simp: accepted_def Validate_revocation_def split: sum.splits)
  qed (use v in \<open>auto simp: accepted_def Validate_revocation_def\<close>)
qed

lemma check_credentials_exact:
  "(fst (check_credentials w now failOpen cs m) = Some () \<longleftrightarrow> list_all (accepted w now m failOpen) cs) \<and>
   list_at w now (snd (check_credentials w now failOpen cs m)) = list_at w now m"
proof (induction cs arbitrary: m)
  case (Cons c cs)
  obtain r m1 where v: "Validate_revocation w now c m = (r, m1)" by fastforce
  note m1 = Validate_at(1) [OF v] and r = Validate_at(2) [OF v, of failOpen]
  note Cons.IH [of m1] accepted_cong [OF m1]
  then show ?case
    using v r m1 by (auto split: sum.splits option.splits)
qed simp

lemma check_scopes_exact:
  "fst (check_scopes w now cfg creds scopes m) = Some () \<longleftrightarrow>
     list_all (\<lambda>sc. sc \<in> set (rc_SkipScopes cfg) \<or> list_all (accepted w now m (rc_FailOpen cfg)) (creds sc)) scopes"
proof (induction scopes arbitrary: m)
  case (Cons sc scopes)
  obtain r m1 where c: "check_credentials w now (rc_FailOpen cfg) (creds sc) m = (r, m1)" by fastforce
  note check_credentials_exact [of w now "rc_FailOpen cfg" "creds sc" m]
  then have "r = Some () \<longleftrightarrow> list_all (accepted w now m (rc_FailOpen cfg)) (creds sc)" "list_at w now m1 = list_at w now m"
    using c by simp_all
  then show ?case using Cons.IH [of m1] Cons.IH [of m] c accepted_cong [of w now m1 m] by (cases r) auto
qed simp

text \<open>
  C13: the gate decides credential by credential. An enabled gate lets a presentation pass exactly if, in
  every scope that is not exempt, every credential carries no status reference, or its status is valid on
  the list cached or fetched at that time, or the status cannot be determined and the configuration fails
  open. The cache it works on has no influence beyond the lists it held at the start, and a status other
  than valid refuses the presentation in either configuration.
\<close>

theorem revocation_gate_exact:
  "fst (revocation_gate w now (Some cfg) creds scopes m) = Some () \<longleftrightarrow>
     (if rc_Enabled cfg
      then list_all (\<lambda>sc. sc \<in> set (rc_SkipScopes cfg) \<or> list_all (accepted w now m (rc_FailOpen cfg)) (creds sc)) scopes
      else True)"
  by (simp add: revocation_gate_def check_scopes_exact)

section \<open>How long a cached list is used\<close>

text \<open>
  A hit renews the time a list stays in the cache. Checks that follow each other within that time go on using
  the list they found, for ever, whatever the world has come to say: a credential revoked meanwhile keeps
  the status it had.
\<close>

fun paced :: "duration \<Rightarrow> time \<Rightarrow> time list \<Rightarrow> bool" where
  "paced ttl t [] \<longleftrightarrow> True"
| "paced ttl t (now # ts) \<longleftrightarrow> t \<le> now \<and> now \<le> t + ttl \<and> paced ttl now ts"

definition held :: "time \<Rightarrow> duration \<Rightarrow> string \<Rightarrow> bytes \<Rightarrow> bytes MemoryCache \<Rightarrow> bool" where
  "held t ttl uri L m \<longleftrightarrow> c_values m uri = Some \<lparr>i_value = L, i_ttl = ttl, i_expiresAt = t + ttl\<rparr>"

lemma held_Set: "0 < c_ttl m \<Longrightarrow> held t (c_ttl m) uri L (MemoryCache_Set t m uri L)"
  by (simp add: held_def MemoryCache_Set_def cache_defs item_defs Let_def split: option.splits)

lemma held_Get:
  assumes "held t ttl uri L m" and "0 < ttl" and "now \<le> t + ttl"
  shows "fst (getStatusList w now uri m) = Inr L" and "held now ttl uri L (snd (getStatusList w now uri m))"
  using assms by (simp_all add: held_def getStatusList_def MemoryCache_Get_def cache_defs item_defs Let_def)

lemma busy_list_never_refetched:
  assumes "0 < c_ttl m" and "uri \<noteq> []" and "0 \<le> i" and "i < int (length L)" and "paced (c_ttl m) t ts"
  shows "fst (run (check_call W) (MemoryCache_Set t m uri L)
      (map (\<lambda>now. (now, \<lparr>rf_Scheme = SchemeStatusList, rf_URI = uri, rf_Index = i\<rparr>)) ts)) =
    map (\<lambda>now. Inr \<lparr>cr_Status = mapStatusCode (L ! nat i), cr_StatusCode = L ! nat i, cr_CheckedAt = now,
        cr_URI = uri, cr_Index = i\<rparr>) ts"
proof -
  let ?ref = "\<lparr>rf_Scheme = SchemeStatusList, rf_URI = uri, rf_Index = i\<rparr>"
  have "fst (run (check_call W) m' (map (\<lambda>now. (now, ?ref)) ts)) =
      map (\<lambda>now. Inr \<lparr>cr_Status = mapStatusCode (L ! nat i), cr_StatusCode = L ! nat i, cr_CheckedAt = now,
        cr_URI = uri, cr_Index = i\<rparr>) ts"
    if "held t (c_ttl m) uri L m'" for m'
    using that assms(5)
  proof (induction ts arbitrary: t m')
    case (Cons now ts)
    obtain g m1 where g: "getStatusList (W now) now uri m' = (g, m1)" by fastforce
    have "g = Inr L" "held now (c_ttl m) uri L m1"
      using held_Get [OF Cons.prems(1) assms(1), of now "W now"] Cons.prems(2) g by simp_all
    then have "check_call W m' (now, ?ref) = (Inr \<lparr>cr_Status = mapStatusCode (L ! nat i), cr_StatusCode = L ! nat i,
        cr_CheckedAt = now, cr_URI = uri, cr_Index = i\<rparr>, m1)"
      using g assms(2-4) by (simp add: check_call_def CheckStatus_def Let_def)
    then show ?case
      using Cons.IH [of now m1] Cons.prems(2) \<open>held now (c_ttl m) uri L m1\<close> by (simp add: Let_def split_def)
  qed simp
  then show ?thesis using held_Set assms(1) by blast
qed

section \<open>From the registry to the verifier\<close>

text \<open>
  What ties the two sides together: the verifier reads the registry's tokens as they were signed, finds a key
  for the registry under which the signature holds, and uses the same zlib.
\<close>

definition reads_tokens :: "RevWorld \<Rightarrow> SLWorld \<Rightarrow> bool" where
  "reads_tokens v w \<longleftrightarrow>
     (\<forall>kid c t. sw_sign w JWTTypHeader kid c = Some t \<longrightarrow>
        (\<exists>k key. rw_jwt v t = Some \<lparr>lt_Alg = ''ES256'', lt_Kid = k, lt_Iss = jc_Issuer c,
             lt_Exp = map_option (\<lambda>e. e * second) (jc_ExpiresAt c), lt_Nbf = None, lt_Lst = Some (slc_Lst (jc_StatusList c))\<rparr> \<and>
           rw_ResolveKey v (jc_Issuer c) k = Some key \<and> rw_sig_ok v t key))"

lemma served_token_is_read:
  assumes v: "reads_tokens v w" and z: "zlib_ok (sw_deflate w) (rw_inflate v)"
    and t: "GenerateStatusListTokenJWT w now cfg = Some t" and iss: "tk_Issuer cfg \<noteq> []"
    and exp: "0 < tk_ExpiresIn cfg" "later < unix (now + tk_ExpiresIn cfg) * second"
    and len: "int (length (tk_Statuses cfg)) \<le> maxDecompressedSize"
  shows "parseStatusListToken v later (go_bytes t) MediaTypeJWT = Inr (tk_Statuses cfg)"
proof -
  obtain claims where c: "status_list_claims (sw_deflate w) now (configured_list cfg) = Some claims"
    and s: "sw_sign w JWTTypHeader (sl_KeyID (configured_list cfg)) claims = Some t"
    using t by (auto simp: GenerateStatusListTokenJWT_def GenerateJWT_def split: option.splits)
  obtain k key where r: "rw_jwt v t = Some \<lparr>lt_Alg = ''ES256'', lt_Kid = k, lt_Iss = jc_Issuer claims,
        lt_Exp = map_option (\<lambda>e. e * second) (jc_ExpiresAt claims), lt_Nbf = None, lt_Lst = Some (slc_Lst (jc_StatusList claims))\<rparr>"
    "rw_ResolveKey v (jc_Issuer claims) k = Some key" "rw_sig_ok v t key"
    using v s unfolding reads_tokens_def by blast
  obtain lst where l: "CompressAndEncode (sw_deflate w) (tk_Statuses cfg) = Some lst" "slc_Lst (jc_StatusList claims) = lst"
      "jc_Issuer claims = tk_Issuer cfg"
    using c by (auto simp: status_list_claims_def configured_list_def NewWithConfig_def split: option.splits)
  have "DecodeAndDecompress (rw_inflate v) lst = Some (tk_Statuses cfg)"
    using DecodeAndDecompress_CompressAndEncode [OF z l(1)] len by simp
  moreover have "jc_ExpiresAt claims = Some (unix (now + tk_ExpiresIn cfg))" using claims_fields(3) [OF c] exp(1) by simp
  ultimately show ?thesis
    using r l(2,3) iss exp(2)
    by (simp add: parseStatusListToken_def parseJWTStatusList_def MediaTypeJWT_def MediaTypeCWT_def allowed_algs_def)
qed

lemma fetched_from:
  assumes "rw_scheme v uri = Some ''https''"
    and "rw_Do v uri = Some \<lparr>hr_StatusCode = 200, hr_ContentType = ct, hr_Body = (body, True)\<rparr>"
    and "int (length body) \<le> maxStatusListSize"
  shows "fetchStatusList v later uri = parseStatusListToken v later body ct"
  using assms by (simp add: fetchStatusList_def read_limited_def)

lemma refresh_after_update:
  assumes "TSL_UpdateStatus coll sec i st n = (Inr (), n1)" and "tn_flight n sec = None"
    and "GetAllStatusesForSection coll (ts_db (tn_service n1)) sec = Inr L" and "L \<noteq> []"
  shows "UpdateStatus coll sec i st (ts_db (tn_service n)) = (Inr (), ts_db (tn_service n1))"
    and "tn_service (publish_half w cfg now sec (fetch_half coll sec n1)) = publish w cfg now sec L (tn_service n1)"
    and "ts_JWT (tn_service n1) = ts_JWT (tn_service n)"
  using assms
  by (auto simp: TSL_UpdateStatus_def with_db_def start_refresh_def fetch_half_def publish_half_def split: prod.splits sum.splits)


end
