(* ===== verification/RevocationExamples.thy ===== *)
theory RevocationExamples
  imports RevocationFlow
begin

text \<open>A revocation followed through, on the registry of one document and a verifier that asks it.\<close>

definition demo_rev :: "bytes \<Rightarrow> RevWorld" where
  "demo_rev L = \<lparr>rw_scheme = \<lambda>_. Some ''https'',
     rw_Do = \<lambda>_. Some \<lparr>hr_StatusCode = 200, hr_ContentType = MediaTypeJWT, hr_Body = (go_bytes ''jwt'', True)\<rparr>,
     rw_ResolveKey = \<lambda>_ _. Some ''key'',
     rw_jwt = \<lambda>t. if t = ''jwt''
       then Some \<lparr>lt_Alg = ''ES256'', lt_Kid = [], lt_Iss = jc_Issuer (demo_claims L),
         lt_Exp = map_option (\<lambda>e. e * second) (jc_ExpiresAt (demo_claims L)), lt_Nbf = None,
         lt_Lst = Some (slc_Lst (jc_StatusList (demo_claims L)))\<rparr>
       else None,
     rw_sig_ok = \<lambda>_ _. True, rw_cose = \<lambda>_. None, rw_kid = \<lambda>_. None, rw_cwt = \<lambda>_. None,
     rw_Verify1 = \<lambda>_ _ _ _. False, rw_inflate = \<lambda>c. Some (c, True)\<rparr>"

definition demo_uri :: string where
  "demo_uri = ''https://r/statuslists/7''"

definition demo_ref :: Reference where
  "demo_ref = \<lparr>rf_Scheme = SchemeStatusList, rf_URI = demo_uri, rf_Index = 0\<rparr>"

definition demo_credential :: "(string \<times> go_any) list" where
  "demo_credential = [(''vct'', AString ''urn:pid''),
     (''status'', AMap [(''status_list'', AMap [(''idx'', AFloat 0 0), (''uri'', AString demo_uri)])])]"

lemma demo_reads: "reads_tokens (demo_rev L) (demo_world L)"
  by (simp add: reads_tokens_def demo_world_def demo_sign_def demo_rev_def)

lemma demo_zlib: "zlib_ok (sw_deflate (demo_world L)) (rw_inflate (demo_rev L))"
  by (simp add: zlib_ok_def demo_world_def demo_rev_def)

lemma demo_fetch:
  assumes "now < 55 * minute" and "int (length L) \<le> maxDecompressedSize"
  shows "fetchStatusList (demo_rev L) now demo_uri = Inr L"
proof -
  have "fetchStatusList (demo_rev L) now demo_uri = parseStatusListToken (demo_rev L) now (go_bytes ''jwt'') MediaTypeJWT"
    by (rule fetched_from) (simp_all add: demo_rev_def maxStatusListSize_def go_bytes_def)
  also have "\<dots> = Inr (tk_Statuses (demo_token L))"
    by (rule served_token_is_read [OF demo_reads demo_zlib demo_signed])
      (use assms in \<open>simp_all add: demo_token_def section_token_def demo_tsl_def tokenValidity_def unix_def minute_def second_def\<close>)
  finally show ?thesis by (simp add: demo_token_def)
qed

theorem status_comes_from_signed_list_witness:
  "vouched_result (\<lambda>_. demo_rev [1]) \<lparr>cr_Status = RevInvalid, cr_StatusCode = 1, cr_CheckedAt = minute,
     cr_URI = demo_uri, cr_Index = 0\<rparr>"
proof -
  let ?c = "\<lparr>cr_Status = RevInvalid, cr_StatusCode = 1, cr_CheckedAt = minute, cr_URI = demo_uri, cr_Index = 0\<rparr>"
  have f: "fetchStatusList (demo_rev [1]) minute demo_uri = Inr [1]"
    by (rule demo_fetch) (simp_all add: maxDecompressedSize_def minute_def second_def)
  have "Inr ?c \<in> set (fst (run (check_call (\<lambda>_. demo_rev [1])) (NewMemoryCache minute) [(minute, demo_ref)]))"
    using f by (simp add: check_call_def CheckStatus_def getStatusList_def MemoryCache_Get_def cache_defs NewMemoryCache_def
        New_def demo_ref_def demo_uri_def mapStatusCode_def StatusValid_def StatusInvalid_def Let_def)
  then show ?thesis using status_comes_from_signed_list [of "[(minute, demo_ref)]" ?c "\<lambda>_. demo_rev [1]" minute] by simp
qed


end
