(* ===== verification/AuthContextStore.thy ===== *)
theory AuthContextStore
  imports TTLCache AuthContextTypes
begin

text \<open>
  \<^verbatim>\<open>MemoryStore\<close> of \<^verbatim>\<open>src/pkg/cache/authcontext.go\<close>: the in-memory store of authorization contexts,
  an expiring cache from session ids to documents with a map of secondary indices from
  \<^verbatim>\<open>field:value\<close> to session ids.

  The cache holds pointers, and \<^verbatim>\<open>Get\<close> hands them out, so the model has a heap: \<open>ms_heap\<close> is the
  document behind each address, \<open>ms_next\<close> the next fresh address, and the operations that copy
  (\<^verbatim>\<open>updated := *stored\<close>) allocate while those that write through the pointer update in place.
  An argument of type \<^verbatim>\<open>*AuthorizationContext\<close> that the store keeps is an optional address,
  \<open>None\<close> being nil; a query, which is only read, is an optional document.

  Every operation runs under the store's lock, so it is one step: it takes the current time and
  the store and returns its result with the new store. The eviction callback runs on a
  goroutine of its own some time after the eviction; \<open>ms_evicted\<close> is the queue of callbacks
  still to run.
\<close>

datatype store_error =
    ErrNoDocuments
  | ErrTXCodeAttemptsExceeded
  | ErrNilArgument
  | ErrEmptyArgument
  | ErrSessionIDRequired
  | ErrValidationFailed
  | ErrNoSearchableField
  | ErrCodeOrRequestURIRequired
  | ErrAlreadyForfeited
  | ErrAlreadyRedeemed
  | ErrMaxRedemptions
  | ErrThumbprintRequired
  | ErrThumbprintTooLong
  | ErrSessionMismatch

record MemoryStore =
  ms_heap :: "nat \<Rightarrow> AuthorizationContext"
  ms_next :: nat
  ms_cache :: "(string, nat) Cache"
  ms_indices :: "string \<rightharpoonup> string"
  ms_evicted :: "nat list"

type_synonym 'a store_result = "(store_error + 'a) \<times> MemoryStore"

section \<open>Heap and cache access\<close>

definition deref :: "MemoryStore \<Rightarrow> nat \<Rightarrow> AuthorizationContext" where
  "deref s p = ms_heap s p"

definition write_doc :: "nat \<Rightarrow> AuthorizationContext \<Rightarrow> MemoryStore \<Rightarrow> MemoryStore" where
  "write_doc p doc s = s\<lparr>ms_heap := (ms_heap s)(p := doc)\<rparr>"

definition alloc :: "AuthorizationContext \<Rightarrow> MemoryStore \<Rightarrow> nat \<times> MemoryStore" where
  "alloc doc s = (ms_next s, s\<lparr>ms_heap := (ms_heap s)(ms_next s := doc), ms_next := Suc (ms_next s)\<rparr>)"

definition cache_get :: "time \<Rightarrow> string \<Rightarrow> MemoryStore \<Rightarrow> nat option \<times> MemoryStore" where
  "cache_get now sid s =
     (let (it, c) = Get now sid (ms_cache s) in (map_option i_value it, s\<lparr>ms_cache := c\<rparr>))"

definition cache_set :: "time \<Rightarrow> string \<Rightarrow> nat \<Rightarrow> duration \<Rightarrow> MemoryStore \<Rightarrow> MemoryStore" where
  "cache_set now sid p ttl s = s\<lparr>ms_cache := Set now sid p ttl (ms_cache s)\<rparr>"

section \<open>Secondary indices\<close>

definition index_key :: "string \<Rightarrow> string \<Rightarrow> string" where
  "index_key name v = name @ '':'' @ v"

definition index_fields :: "AuthorizationContext \<Rightarrow> (string \<times> string) list" where
  "index_fields doc =
     [(''request_uri'', RequestURI doc),
      (''code'', Code doc),
      (''state'', State doc),
      (''verifier_response_code'', VerifierResponseCode doc),
      (''ephemeral_key_id'', EphemeralEncryptionKeyID doc),
      (''request_object_id'', RequestObjectID doc),
      (''auth_session'', AuthSession doc),
      (''issuer_state'', IssuerState doc),
      (''access_token'', case Token doc of None \<Rightarrow> [] | Some t \<Rightarrow> tok_AccessToken t),
      (''access_token'', AccessToken doc),
      (''refresh_token'', RefreshToken doc)]"

definition index_entries :: "AuthorizationContext \<Rightarrow> (string \<times> string) list" where
  "index_entries doc = filter (\<lambda>e. snd e \<noteq> []) (index_fields doc)"

definition updateIndices :: "AuthorizationContext \<Rightarrow> MemoryStore \<Rightarrow> MemoryStore" where
  "updateIndices doc s =
     s\<lparr>ms_indices :=
        fold (\<lambda>e m. m(index_key (fst e) (snd e) \<mapsto> SessionID doc)) (index_entries doc) (ms_indices s)\<rparr>"

definition deleteIndices :: "AuthorizationContext \<Rightarrow> MemoryStore \<Rightarrow> MemoryStore" where
  "deleteIndices doc s =
     s\<lparr>ms_indices :=
        fold (\<lambda>e m. m(index_key (fst e) (snd e) := None)) (index_entries doc) (ms_indices s)\<rparr>"

definition delete_index :: "string \<Rightarrow> MemoryStore \<Rightarrow> MemoryStore" where
  "delete_index key s = s\<lparr>ms_indices := (ms_indices s)(key := None)\<rparr>"

section \<open>Construction, eviction\<close>

definition NewMemoryStore :: "duration \<Rightarrow> MemoryStore" where
  "NewMemoryStore ttl =
     \<lparr>ms_heap = (\<lambda>_. zero_AuthorizationContext), ms_next = 0, ms_cache = New ttl,
      ms_indices = Map.empty, ms_evicted = []\<rparr>"

definition MemoryStore_TTL :: "MemoryStore \<Rightarrow> duration" where
  "MemoryStore_TTL s = c_ttl (ms_cache s)"

text \<open>The cache's janitor evicts an expired item and queues the callback.\<close>

definition evict_session :: "time \<Rightarrow> string \<Rightarrow> MemoryStore \<Rightarrow> MemoryStore" where
  "evict_session now sid s =
     (case evict_expired now sid (ms_cache s) of
        (None, c) \<Rightarrow> s\<lparr>ms_cache := c\<rparr>
      | (Some it, c) \<Rightarrow> s\<lparr>ms_cache := c, ms_evicted := ms_evicted s @ [i_value it]\<rparr>)"

text \<open>The callback registered in \<^verbatim>\<open>NewMemoryStore\<close>, run on the oldest pending eviction.\<close>

definition onEviction :: "MemoryStore \<Rightarrow> MemoryStore" where
  "onEviction s =
     (case ms_evicted s of
        [] \<Rightarrow> s
      | p # ps \<Rightarrow> (deleteIndices (deref s p) s)\<lparr>ms_evicted := ps\<rparr>)"

section \<open>Operations\<close>

definition MemoryStore_Save :: "time \<Rightarrow> nat option \<Rightarrow> MemoryStore \<Rightarrow> unit store_result" where
  "MemoryStore_Save now docp s =
     (case docp of
        None \<Rightarrow> (Inl ErrNilArgument, s)
      | Some p \<Rightarrow>
          if SessionID (deref s p) = [] then (Inl ErrSessionIDRequired, s)
          else if \<not> Validate (deref s p) then (Inl ErrValidationFailed, s)
          else
            (let s1 =
               (if CreatedAt (deref s p) = zero_time then
                  (let (item, s') = cache_get now (SessionID (deref s p)) s in
                   case item of
                     Some q \<Rightarrow>
                       if CreatedAt (deref s' q) \<noteq> zero_time
                       then write_doc p ((deref s' p)\<lparr>CreatedAt := CreatedAt (deref s' q)\<rparr>) s'
                       else write_doc p ((deref s' p)\<lparr>CreatedAt := now\<rparr>) s'
                   | None \<Rightarrow> write_doc p ((deref s' p)\<lparr>CreatedAt := now\<rparr>) s')
                else s);
                 s2 = cache_set now (SessionID (deref s1 p)) p DefaultTTL s1
             in (Inr (), updateIndices (deref s2 p) s2)))"

definition MemoryStore_Create :: "time \<Rightarrow> nat option \<Rightarrow> MemoryStore \<Rightarrow> unit store_result" where
  "MemoryStore_Create now docp s = MemoryStore_Save now docp s"

text \<open>The fields a query is resolved by, in the order they are tried.\<close>

definition query_fields :: "AuthorizationContext \<Rightarrow> (string \<times> string) list" where
  "query_fields q =
     [(''request_uri'', RequestURI q),
      (''code'', Code q),
      (''state'', State q),
      (''verifier_response_code'', VerifierResponseCode q),
      (''ephemeral_key_id'', EphemeralEncryptionKeyID q),
      (''request_object_id'', RequestObjectID q),
      (''auth_session'', AuthSession q),
      (''issuer_state'', IssuerState q)]"

fun resolve_loop :: "(string \<times> string) list \<Rightarrow> (string \<rightharpoonup> string) \<Rightarrow> store_error + string" where
  "resolve_loop [] ix = Inl ErrNoSearchableField"
| "resolve_loop ((name, v) # rest) ix =
     (if v = [] then resolve_loop rest ix
      else (case ix (index_key name v) of None \<Rightarrow> Inl ErrNoDocuments | Some sid \<Rightarrow> Inr sid))"

definition resolveSessionIDLocked :: "AuthorizationContext \<Rightarrow> MemoryStore \<Rightarrow> store_error + string" where
  "resolveSessionIDLocked q s =
     (if SessionID q \<noteq> [] then Inr (SessionID q) else resolve_loop (query_fields q) (ms_indices s))"

definition getLocked :: "time \<Rightarrow> AuthorizationContext option \<Rightarrow> MemoryStore \<Rightarrow> nat store_result" where
  "getLocked now query s =
     (case query of
        None \<Rightarrow> (Inl ErrNilArgument, s)
      | Some q \<Rightarrow>
          (case resolveSessionIDLocked q s of
             Inl e \<Rightarrow> (Inl e, s)
           | Inr sid \<Rightarrow>
               (case cache_get now sid s of
                  (None, s') \<Rightarrow> (Inl ErrNoDocuments, s')
                | (Some p, s') \<Rightarrow> (Inr p, s'))))"

definition MemoryStore_Get :: "time \<Rightarrow> AuthorizationContext option \<Rightarrow> MemoryStore \<Rightarrow> nat store_result" where
  "MemoryStore_Get now query s = getLocked now query s"

definition MemoryStore_GetSnapshot ::
  "time \<Rightarrow> AuthorizationContext option \<Rightarrow> MemoryStore \<Rightarrow> nat store_result"
where
  "MemoryStore_GetSnapshot now query s =
     (case getLocked now query s of
        (Inl e, s') \<Rightarrow> (Inl e, s')
      | (Inr p, s') \<Rightarrow> (let (p', s'') = alloc (deref s' p) s' in (Inr p', s'')))"

text \<open>
  The lookup the operations share: a value resolved through its index, then through the cache.
  It returns the session id with the address.
\<close>

definition by_index :: "time \<Rightarrow> string \<Rightarrow> string \<Rightarrow> MemoryStore \<Rightarrow> (string \<times> nat) store_result" where
  "by_index now name v s =
     (case ms_indices s (index_key name v) of
        None \<Rightarrow> (Inl ErrNoDocuments, s)
      | Some sid \<Rightarrow>
          (case cache_get now sid s of
             (None, s') \<Rightarrow> (Inl ErrNoDocuments, s')
           | (Some p, s') \<Rightarrow> (Inr (sid, p), s')))"

definition get_by :: "time \<Rightarrow> string \<Rightarrow> string \<Rightarrow> MemoryStore \<Rightarrow> nat store_result" where
  "get_by now name v s =
     (if v = [] then (Inl ErrEmptyArgument, s)
      else (case by_index now name v s of
              (Inl e, s') \<Rightarrow> (Inl e, s')
            | (Inr (sid, p), s') \<Rightarrow> (Inr p, s')))"

definition MemoryStore_GetWithAccessToken :: "time \<Rightarrow> string \<Rightarrow> MemoryStore \<Rightarrow> nat store_result" where
  "MemoryStore_GetWithAccessToken now token s = get_by now ''access_token'' token s"

definition MemoryStore_GetByAccessToken :: "time \<Rightarrow> string \<Rightarrow> MemoryStore \<Rightarrow> nat store_result" where
  "MemoryStore_GetByAccessToken now token s = get_by now ''access_token'' token s"

definition MemoryStore_GetByAuthorizationCode :: "time \<Rightarrow> string \<Rightarrow> MemoryStore \<Rightarrow> nat store_result" where
  "MemoryStore_GetByAuthorizationCode now code s = get_by now ''code'' code s"

definition MemoryStore_GetByRefreshToken :: "time \<Rightarrow> string \<Rightarrow> MemoryStore \<Rightarrow> nat store_result" where
  "MemoryStore_GetByRefreshToken now token s = get_by now ''refresh_token'' token s"

text \<open>The lookups by session id, with the emptiness check of the callers.\<close>

definition by_session :: "time \<Rightarrow> string \<Rightarrow> MemoryStore \<Rightarrow> nat store_result" where
  "by_session now sid s =
     (case cache_get now sid s of
        (None, s') \<Rightarrow> (Inl ErrNoDocuments, s')
      | (Some p, s') \<Rightarrow> (Inr p, s'))"

definition MemoryStore_GetByID :: "time \<Rightarrow> string \<Rightarrow> MemoryStore \<Rightarrow> nat store_result" where
  "MemoryStore_GetByID now sid s =
     (if sid = [] then (Inl ErrEmptyArgument, s) else by_session now sid s)"

text \<open>
  The two ways an operation stores its change: through the pointer, or as a replacement that is a
  fresh copy.
\<close>

definition store_in_place ::
  "time \<Rightarrow> string \<Rightarrow> nat \<Rightarrow> AuthorizationContext \<Rightarrow> duration \<Rightarrow> MemoryStore \<Rightarrow> MemoryStore"
where
  "store_in_place now sid p doc ttl s = cache_set now sid p ttl (write_doc p doc s)"

definition store_copy ::
  "time \<Rightarrow> string \<Rightarrow> AuthorizationContext \<Rightarrow> duration \<Rightarrow> MemoryStore \<Rightarrow> MemoryStore"
where
  "store_copy now sid doc ttl s = (let (p, s') = alloc doc s in cache_set now sid p ttl s')"

definition MemoryStore_ForfeitAuthorizationCode ::
  "time \<Rightarrow> AuthorizationContext option \<Rightarrow> MemoryStore \<Rightarrow> nat store_result"
where
  "MemoryStore_ForfeitAuthorizationCode now query s =
     (case query of
        None \<Rightarrow> (Inl ErrNilArgument, s)
      | Some q \<Rightarrow>
          if Code q = [] \<and> RequestURI q = [] then (Inl ErrCodeOrRequestURIRequired, s)
          else
            (case (if Code q \<noteq> [] then by_index now ''code'' (Code q) s
                   else by_index now ''request_uri'' (RequestURI q) s) of
               (Inl e, s') \<Rightarrow> (Inl e, s')
             | (Inr (sid, p), s') \<Rightarrow>
                 if Forfeited (deref s' p) then (Inl ErrAlreadyForfeited, s')
                 else
                   (let doc = (deref s' p)\<lparr>Forfeited := True\<rparr>
                    in (Inr p, updateIndices doc (store_in_place now sid p doc DefaultTTL s')))))"

definition MemoryStore_RedeemPreAuthorizedCode ::
  "time \<Rightarrow> string \<Rightarrow> string \<Rightarrow> MemoryStore \<Rightarrow> nat store_result"
where
  "MemoryStore_RedeemPreAuthorizedCode now code thumb s =
     (if code = [] then (Inl ErrEmptyArgument, s)
      else if thumb = [] then (Inl ErrThumbprintRequired, s)
      else if length thumb > 128 then (Inl ErrThumbprintTooLong, s)
      else
        (case by_index now ''code'' code s of
           (Inl e, s') \<Rightarrow> (Inl e, s')
         | (Inr (sid, p), s') \<Rightarrow>
             (let doc = deref s' p in
              if Forfeited doc then (Inl ErrAlreadyForfeited, s')
              else if thumb \<in> set (RedeemedBy doc) then (Inl ErrAlreadyRedeemed, s')
              else if length (RedeemedBy doc) \<ge> MaxPreAuthRedeemers then (Inl ErrMaxRedemptions, s')
              else (Inr p, store_in_place now sid p (doc\<lparr>RedeemedBy := RedeemedBy doc @ [thumb]\<rparr>)
                             PreviousOrDefaultTTL s'))))"

definition MemoryStore_ConsumeTXCodeAttempt :: "time \<Rightarrow> string \<Rightarrow> MemoryStore \<Rightarrow> nat store_result" where
  "MemoryStore_ConsumeTXCodeAttempt now code s =
     (if code = [] then (Inl ErrEmptyArgument, s)
      else
        (case by_index now ''code'' code s of
           (Inl e, s') \<Rightarrow> (Inl e, s')
         | (Inr (sid, p), s') \<Rightarrow>
             (let doc = deref s' p in
              if Forfeited doc then (Inl ErrAlreadyForfeited, s')
              else if TXCodeAttempts doc \<ge> MaxTXCodeAttempts then
                (Inl ErrTXCodeAttemptsExceeded,
                 store_in_place now sid p (doc\<lparr>Forfeited := True\<rparr>) PreviousOrDefaultTTL s')
              else
                (Inr p, store_in_place now sid p (doc\<lparr>TXCodeAttempts := TXCodeAttempts doc + 1\<rparr>)
                          PreviousOrDefaultTTL s'))))"

definition MemoryStore_Consent ::
  "time \<Rightarrow> AuthorizationContext option \<Rightarrow> MemoryStore \<Rightarrow> unit store_result"
where
  "MemoryStore_Consent now query s =
     (case query of
        None \<Rightarrow> (Inl ErrEmptyArgument, s)
      | Some q \<Rightarrow>
          if RequestURI q = [] then (Inl ErrEmptyArgument, s)
          else
            (case by_index now ''request_uri'' (RequestURI q) s of
               (Inl e, s') \<Rightarrow> (Inl e, s')
             | (Inr (sid, p), s') \<Rightarrow>
                 (let doc = (deref s' p)\<lparr>Consent := True\<rparr>
                  in (Inr (), updateIndices doc (store_in_place now sid p doc DefaultTTL s')))))"

definition MemoryStore_ExtendExpiry ::
  "time \<Rightarrow> AuthorizationContext option \<Rightarrow> int \<Rightarrow> MemoryStore \<Rightarrow> unit store_result"
where
  "MemoryStore_ExtendExpiry now query expiresAt s =
     (case query of
        None \<Rightarrow> (Inl ErrNilArgument, s)
      | Some q \<Rightarrow>
          (case resolveSessionIDLocked q s of
             Inl e \<Rightarrow> (Inl e, s)
           | Inr sid \<Rightarrow>
               (case by_session now sid s of
                  (Inl e, s') \<Rightarrow> (Inl e, s')
                | (Inr p, s') \<Rightarrow>
                    if ExpiresAt (deref s' p) \<ge> expiresAt then (Inr (), s')
                    else
                      (let updated = (deref s' p)\<lparr>ExpiresAt := expiresAt\<rparr>
                       in (Inr (), updateIndices updated (store_copy now sid updated DefaultTTL s'))))))"

definition MemoryStore_AddToken ::
  "time \<Rightarrow> string \<Rightarrow> Token option \<Rightarrow> MemoryStore \<Rightarrow> unit store_result"
where
  "MemoryStore_AddToken now code token s =
     (if code = [] then (Inl ErrEmptyArgument, s)
      else
        (case by_index now ''code'' code s of
           (Inl e, s') \<Rightarrow> (Inl e, s')
         | (Inr (sid, p), s') \<Rightarrow>
             (let doc = (deref s' p)\<lparr>Token := token\<rparr>
              in (Inr (), updateIndices doc (store_in_place now sid p doc DefaultTTL s')))))"

definition MemoryStore_RotateRefreshToken ::
  "time \<Rightarrow> string \<Rightarrow> nat option \<Rightarrow> MemoryStore \<Rightarrow> unit store_result"
where
  "MemoryStore_RotateRefreshToken now oldToken updated s =
     (if oldToken = [] then (Inl ErrEmptyArgument, s)
      else
        (case updated of
           None \<Rightarrow> (Inl ErrSessionIDRequired, s)
         | Some u \<Rightarrow>
             if SessionID (deref s u) = [] then (Inl ErrSessionIDRequired, s)
             else
               (case ms_indices s (index_key ''refresh_token'' oldToken) of
                  None \<Rightarrow> (Inl ErrNoDocuments, s)
                | Some sid \<Rightarrow>
                    if SessionID (deref s u) \<noteq> sid then (Inl ErrSessionMismatch, s)
                    else
                      (case by_session now sid s of
                         (Inl e, s') \<Rightarrow> (Inl e, s')
                       | (Inr p, s') \<Rightarrow>
                           if RefreshToken (deref s' p) \<noteq> oldToken then (Inl ErrNoDocuments, s')
                           else
                             (let s2 = cache_set now sid u DefaultTTL (deleteIndices (deref s' p) s')
                              in (Inr (), updateIndices (deref s2 u) s2))))))"

definition MemoryStore_SetAuthenticSource ::
  "time \<Rightarrow> AuthorizationContext option \<Rightarrow> string \<Rightarrow> MemoryStore \<Rightarrow> unit store_result"
where
  "MemoryStore_SetAuthenticSource now query src s =
     (if src = [] then (Inl ErrEmptyArgument, s)
      else
        (case query of
           None \<Rightarrow> (Inl ErrEmptyArgument, s)
         | Some q \<Rightarrow>
             if SessionID q = [] then (Inl ErrEmptyArgument, s)
             else
               (case by_session now (SessionID q) s of
                  (Inl e, s') \<Rightarrow> (Inl e, s')
                | (Inr p, s') \<Rightarrow>
                    (Inr (), store_in_place now (SessionID q) p
                               ((deref s' p)\<lparr>AuthenticSource := src\<rparr>) DefaultTTL s'))))"

definition MemoryStore_SetIdentifier ::
  "time \<Rightarrow> AuthorizationContext option \<Rightarrow> string \<Rightarrow> MemoryStore \<Rightarrow> unit store_result"
where
  "MemoryStore_SetIdentifier now query identifier s =
     (case query of
        None \<Rightarrow> (Inl ErrNilArgument, s)
      | Some q \<Rightarrow>
          if identifier = [] then (Inl ErrEmptyArgument, s)
          else if SessionID q = [] then (Inl ErrEmptyArgument, s)
          else
            (case by_session now (SessionID q) s of
               (Inl e, s') \<Rightarrow> (Inl e, s')
             | (Inr p, s') \<Rightarrow>
                 (Inr (), store_in_place now (SessionID q) p
                            ((deref s' p)\<lparr>Identifier := identifier\<rparr>) DefaultTTL s')))"

definition MemoryStore_Update :: "time \<Rightarrow> nat option \<Rightarrow> MemoryStore \<Rightarrow> unit store_result" where
  "MemoryStore_Update now docp s =
     (case docp of
        None \<Rightarrow> (Inl ErrNilArgument, s)
      | Some d \<Rightarrow>
          if SessionID (deref s d) = [] then (Inl ErrSessionIDRequired, s)
          else if \<not> Validate (deref s d) then (Inl ErrValidationFailed, s)
          else
            (case by_session now (SessionID (deref s d)) s of
               (Inl e, s') \<Rightarrow> (Inl e, s')
             | (Inr p, s') \<Rightarrow>
                 (let s2 = cache_set now (SessionID (deref s' d)) d DefaultTTL
                             (deleteIndices (deref s' p) s')
                  in (Inr (), updateIndices (deref s2 d) s2))))"

definition MemoryStore_Delete :: "time \<Rightarrow> string \<Rightarrow> MemoryStore \<Rightarrow> unit store_result" where
  "MemoryStore_Delete now sid s =
     (if sid = [] then (Inl ErrEmptyArgument, s)
      else
        (let (item, s') = cache_get now sid s;
             s2 = (case item of None \<Rightarrow> s' | Some p \<Rightarrow> deleteIndices (deref s' p) s');
             (evicted, c) = Delete sid (ms_cache s2)
         in (Inr (),
             s2\<lparr>ms_cache := c,
                ms_evicted := ms_evicted s2 @ (case evicted of None \<Rightarrow> [] | Some it \<Rightarrow> [i_value it])\<rparr>)))"

definition MemoryStore_MarkCodeAsForfeited :: "time \<Rightarrow> string \<Rightarrow> MemoryStore \<Rightarrow> unit store_result" where
  "MemoryStore_MarkCodeAsForfeited now sid s =
     (if sid = [] then (Inl ErrEmptyArgument, s)
      else
        (case by_session now sid s of
           (Inl e, s') \<Rightarrow> (Inl e, s')
         | (Inr p, s') \<Rightarrow>
             if Forfeited (deref s' p) then (Inl ErrAlreadyForfeited, s')
             else (Inr (), store_in_place now sid p ((deref s' p)\<lparr>Forfeited := True\<rparr>) DefaultTTL s')))"

text \<open>
  The lookup of a one-shot handle: a stale index entry is removed, and a document that no longer
  carries the handle counts as not found.
\<close>

definition claim_lookup ::
  "time \<Rightarrow> string \<Rightarrow> string \<Rightarrow> (AuthorizationContext \<Rightarrow> string) \<Rightarrow> MemoryStore \<Rightarrow> (string \<times> nat) store_result"
where
  "claim_lookup now name handle rd s =
     (case ms_indices s (index_key name handle) of
        None \<Rightarrow> (Inl ErrNoDocuments, s)
      | Some sid \<Rightarrow>
          (case cache_get now sid s of
             (None, s') \<Rightarrow> (Inl ErrNoDocuments, delete_index (index_key name handle) s')
           | (Some p, s') \<Rightarrow>
               if rd (deref s' p) \<noteq> handle then (Inl ErrNoDocuments, s') else (Inr (sid, p), s')))"

definition claimIndexedHandle ::
  "time \<Rightarrow> string \<Rightarrow> string \<Rightarrow> (AuthorizationContext \<Rightarrow> string) \<Rightarrow>
   (AuthorizationContext \<Rightarrow> AuthorizationContext) \<Rightarrow> MemoryStore \<Rightarrow> nat store_result"
where
  "claimIndexedHandle now name handle rd clr s =
     (case claim_lookup now name handle rd s of
        (Inl e, s') \<Rightarrow> (Inl e, s')
      | (Inr (sid, p), s') \<Rightarrow>
          (let (claimed, s1) = alloc (clr (deref s' p)) s';
               s2 = delete_index (index_key name handle) s1
           in (Inr claimed, store_copy now sid (clr (deref s' p)) PreviousOrDefaultTTL s2)))"

definition MemoryStore_ClaimAuthSession :: "time \<Rightarrow> string \<Rightarrow> MemoryStore \<Rightarrow> nat store_result" where
  "MemoryStore_ClaimAuthSession now handle s =
     (if handle = [] then (Inl ErrEmptyArgument, s)
      else claimIndexedHandle now ''auth_session'' handle AuthSession (\<lambda>d. d\<lparr>AuthSession := []\<rparr>) s)"

definition MemoryStore_ClaimIssuerState ::
  "time \<Rightarrow> string \<Rightarrow> AuthorizationContext option \<Rightarrow> MemoryStore \<Rightarrow> nat store_result"
where
  "MemoryStore_ClaimIssuerState now handle opened s =
     (if handle = [] then (Inl ErrEmptyArgument, s)
      else
        (case opened of
           None \<Rightarrow> (Inl ErrSessionIDRequired, s)
         | Some op \<Rightarrow>
             if SessionID op = [] then (Inl ErrSessionIDRequired, s)
             else
               (let stored = op\<lparr>IssuerState := []\<rparr> in
                if \<not> Validate stored then (Inl ErrValidationFailed, s)
                else
                  (case ms_indices s (index_key ''issuer_state'' handle) of
                     None \<Rightarrow> (Inl ErrNoDocuments, s)
                   | Some sid \<Rightarrow>
                       if sid \<noteq> SessionID op then (Inl ErrNoDocuments, s)
                       else
                         (case claim_lookup now ''issuer_state'' handle IssuerState s of
                            (Inl e, s') \<Rightarrow> (Inl e, s')
                          | (Inr (_, p), s') \<Rightarrow>
                              (let s1 = delete_index (index_key ''issuer_state'' handle)
                                          (deleteIndices (deref s' p) s');
                                   s2 = updateIndices stored (store_copy now sid stored DefaultTTL s1);
                                   (claimed, s3) = alloc stored s2
                               in (Inr claimed, s3)))))))"

definition MemoryStore_ResumeIssuerState ::
  "time \<Rightarrow> string \<Rightarrow> IssuerStateResume option \<Rightarrow> MemoryStore \<Rightarrow> nat store_result"
where
  "MemoryStore_ResumeIssuerState now handle resume s =
     (if handle = [] then (Inl ErrEmptyArgument, s)
      else
        (case resume of
           None \<Rightarrow> (Inl ErrNilArgument, s)
         | Some r \<Rightarrow>
             (case claim_lookup now ''issuer_state'' handle IssuerState s of
                (Inl e, s') \<Rightarrow> (Inl e, s')
              | (Inr (sid, p), s') \<Rightarrow>
                  (let doc = applyTo r ((deref s' p)\<lparr>IssuerState := []\<rparr>);
                       s1 = store_in_place now sid p doc DefaultTTL (deleteIndices (deref s' p) s');
                       (resumed, s2) = alloc doc (updateIndices doc s1)
                   in (Inr resumed, s2)))))"

definition MemoryStore_SetAuthProvider ::
  "time \<Rightarrow> string \<Rightarrow> AuthProviderFields \<Rightarrow> MemoryStore \<Rightarrow> unit store_result"
where
  "MemoryStore_SetAuthProvider now sid flds s =
     (if sid = [] then (Inl ErrEmptyArgument, s)
      else
        (case by_session now sid s of
           (Inl e, s') \<Rightarrow> (Inl e, s')
         | (Inr p, s') \<Rightarrow>
             (let updated = (deref s' p)\<lparr>AuthProvider := apf_AuthProvider flds,
                                          DataSource := apf_DataSource flds,
                                          RemoteName := apf_RemoteName flds,
                                          AuthenticSource := apf_AuthenticSource flds\<rparr>
              in (Inr (), updateIndices updated (store_copy now sid updated DefaultTTL s')))))"

end
