(* ===== verification/AuthContextLaws.thy ===== *)
theory AuthContextLaws
  imports AuthContextStore
begin

text \<open>
  What the operations of \<^verbatim>\<open>MemoryStore\<close> do to the documents and to the indices, free of heap
  and cache details. \<open>cached s sid\<close> is the document stored for a session (expired or not) and
  \<open>store_wf\<close> the invariant that every cached address is allocated and holds a document of the session
  it is filed under; under it a write through one pointer changes one session only.
\<close>

section \<open>Abstraction and invariant\<close>

definition ptr :: "MemoryStore \<Rightarrow> string \<rightharpoonup> nat" where
  "ptr s sid = map_option i_value (c_values (ms_cache s) sid)"

definition cached :: "MemoryStore \<Rightarrow> string \<rightharpoonup> AuthorizationContext" where
  "cached s sid = map_option (ms_heap s) (ptr s sid)"

definition store_wf :: "MemoryStore \<Rightarrow> bool" where
  "store_wf s \<longleftrightarrow> (\<forall>sid p. ptr s sid = Some p \<longrightarrow> p < ms_next s \<and> SessionID (ms_heap s p) = sid)"

definition doc_keys :: "AuthorizationContext \<Rightarrow> string set" where
  "doc_keys doc = (\<lambda>e. index_key (fst e) (snd e)) ` set (index_entries doc)"

lemma store_wfD:
  "store_wf s \<Longrightarrow> ptr s sid = Some p \<Longrightarrow> p < ms_next s"
  "store_wf s \<Longrightarrow> ptr s sid = Some p \<Longrightarrow> SessionID (ms_heap s p) = sid"
  by (auto simp: store_wf_def)

lemma cached_SessionID: "store_wf s \<Longrightarrow> cached s sid = Some d \<Longrightarrow> SessionID d = sid"
  by (auto simp: cached_def store_wf_def)

lemma ptr_cached: "ptr s sid = Some p \<Longrightarrow> cached s sid = Some (ms_heap s p)"
  by (simp add: cached_def)

lemma cached_None_iff: "cached s sid = None \<longleftrightarrow> ptr s sid = None"
  by (simp add: cached_def)

section \<open>Heap and cache primitives\<close>

lemma cache_get_frame [store_simps]:
  "ptr (snd (cache_get now sid s)) = ptr s"
  "ms_heap (snd (cache_get now sid s)) = ms_heap s"
  "ms_next (snd (cache_get now sid s)) = ms_next s"
  "ms_indices (snd (cache_get now sid s)) = ms_indices s"
  "ms_evicted (snd (cache_get now sid s)) = ms_evicted s"
  by (auto simp: cache_get_def ptr_def fun_eq_iff cache_defs Let_def split_def split: option.splits)

lemma cache_get_Some: "fst (cache_get now sid s) = Some p \<Longrightarrow> ptr s sid = Some p"
  by (auto simp: cache_get_def ptr_def cache_defs Let_def split_def split: option.splits if_splits)

lemma cache_get_live: "fst (cache_get now sid s) = live now (ms_cache s) sid"
  using Get_result [of now sid "ms_cache s"] by (simp add: cache_get_def Let_def split_def)

lemma cache_set_frame [store_simps]:
  "ptr (cache_set now sid p ttl s) = (ptr s)(sid \<mapsto> p)"
  "ms_heap (cache_set now sid p ttl s) = ms_heap s"
  "ms_next (cache_set now sid p ttl s) = ms_next s"
  "ms_indices (cache_set now sid p ttl s) = ms_indices s"
  "ms_evicted (cache_set now sid p ttl s) = ms_evicted s"
  by (auto simp: cache_set_def ptr_def fun_eq_iff cache_defs item_defs Let_def split: option.splits prod.splits)

lemma write_frame [store_simps]:
  "ptr (write_doc p d s) = ptr s"
  "ms_heap (write_doc p d s) = (ms_heap s)(p := d)"
  "ms_next (write_doc p d s) = ms_next s"
  "ms_indices (write_doc p d s) = ms_indices s"
  "ms_evicted (write_doc p d s) = ms_evicted s"
  "ms_cache (write_doc p d s) = ms_cache s"
  by (simp_all add: write_doc_def ptr_def fun_eq_iff)

lemma alloc_frame [store_simps]:
  "fst (alloc d s) = ms_next s"
  "ptr (snd (alloc d s)) = ptr s"
  "ms_heap (snd (alloc d s)) = (ms_heap s)(ms_next s := d)"
  "ms_next (snd (alloc d s)) = Suc (ms_next s)"
  "ms_indices (snd (alloc d s)) = ms_indices s"
  "ms_evicted (snd (alloc d s)) = ms_evicted s"
  "ms_cache (snd (alloc d s)) = ms_cache s"
  by (simp_all add: alloc_def ptr_def fun_eq_iff)

lemma index_frame [store_simps]:
  "ptr (updateIndices d s) = ptr s" "ptr (deleteIndices d s) = ptr s" "ptr (delete_index k s) = ptr s"
  "ms_heap (updateIndices d s) = ms_heap s" "ms_heap (deleteIndices d s) = ms_heap s"
  "ms_heap (delete_index k s) = ms_heap s"
  "ms_next (updateIndices d s) = ms_next s" "ms_next (deleteIndices d s) = ms_next s"
  "ms_next (delete_index k s) = ms_next s"
  "ms_cache (updateIndices d s) = ms_cache s" "ms_cache (deleteIndices d s) = ms_cache s"
  "ms_cache (delete_index k s) = ms_cache s"
  by (simp_all add: updateIndices_def deleteIndices_def delete_index_def ptr_def fun_eq_iff)

lemma store_wf_cong:
  assumes "ptr s' = ptr s" and "ms_heap s' = ms_heap s" and "ms_next s' = ms_next s"
  shows "store_wf s' = store_wf s" and "cached s' = cached s"
  by (simp_all add: assms store_wf_def cached_def [abs_def])

lemma wf_cached_frame [store_simps]:
  "store_wf (snd (cache_get now sid s)) = store_wf s" "cached (snd (cache_get now sid s)) = cached s"
  "store_wf (updateIndices d s) = store_wf s" "cached (updateIndices d s) = cached s"
  "store_wf (deleteIndices d s) = store_wf s" "cached (deleteIndices d s) = cached s"
  "store_wf (delete_index k s) = store_wf s" "cached (delete_index k s) = cached s"
  by (rule store_wf_cong; rule cache_get_frame index_frame)+

lemma alloc_wf [store_simps]:
  assumes "store_wf s"
  shows "store_wf (snd (alloc d s))" and "cached (snd (alloc d s)) = cached s"
proof -
  show "store_wf (snd (alloc d s))"
    using assms by (auto simp: store_wf_def store_simps less_Suc_eq)
  show "cached (snd (alloc d s)) = cached s"
  proof
    fix sid
    show "cached (snd (alloc d s)) sid = cached s sid"
      using store_wfD(1) [OF assms, of sid] by (cases "ptr s sid") (auto simp: cached_def store_simps)
  qed
qed

lemma store_in_place_wf [store_simps]:
  assumes "store_wf s" and "ptr s sid = Some p" and "SessionID d = sid"
  shows "store_wf (store_in_place now sid p d ttl s)"
    and "cached (store_in_place now sid p d ttl s) = (cached s)(sid \<mapsto> d)"
proof -
  show "store_wf (store_in_place now sid p d ttl s)"
    using assms by (auto simp: store_in_place_def store_wf_def cache_set_frame write_frame)
  show "cached (store_in_place now sid p d ttl s) = (cached s)(sid \<mapsto> d)"
  proof
    fix sid'
    have "ptr s sid' = Some p \<Longrightarrow> sid' = sid"
      using store_wfD(2) [OF assms(1)] assms(2) by metis
    then show "cached (store_in_place now sid p d ttl s) sid' = ((cached s)(sid \<mapsto> d)) sid'"
      by (cases "ptr s sid'") (auto simp: store_in_place_def cached_def cache_set_frame write_frame)
  qed
qed

lemma store_in_place_frame [store_simps]:
  "ms_indices (store_in_place now sid p d ttl s) = ms_indices s"
  "ms_next (store_in_place now sid p d ttl s) = ms_next s"
  by (simp_all add: store_in_place_def store_simps)

lemma store_copy_wf [store_simps]:
  assumes "store_wf s" and "SessionID d = sid"
  shows "store_wf (store_copy now sid d ttl s)"
    and "cached (store_copy now sid d ttl s) = (cached s)(sid \<mapsto> d)"
proof -
  show "store_wf (store_copy now sid d ttl s)"
    using assms by (auto simp: store_copy_def store_wf_def cache_set_frame alloc_frame Let_def split_def less_Suc_eq)
  show "cached (store_copy now sid d ttl s) = (cached s)(sid \<mapsto> d)"
  proof
    fix sid'
    show "cached (store_copy now sid d ttl s) sid' = ((cached s)(sid \<mapsto> d)) sid'"
      using store_wfD(1) [OF assms(1), of sid']
      by (cases "ptr s sid'") (auto simp: store_copy_def cached_def cache_set_frame alloc_frame Let_def split_def)
  qed
qed

lemma store_copy_frame [store_simps]:
  "ms_indices (store_copy now sid d ttl s) = ms_indices s"
  by (simp add: store_copy_def store_simps Let_def split_def)

text \<open>Filing an allocated document under its session.\<close>

lemma cache_set_wf [store_simps]:
  assumes "store_wf s" and "p < ms_next s" and "SessionID (ms_heap s p) = sid"
  shows "store_wf (cache_set now sid p ttl s)"
    and "cached (cache_set now sid p ttl s) = (cached s)(sid \<mapsto> ms_heap s p)"
proof -
  show "store_wf (cache_set now sid p ttl s)"
    using assms by (simp add: store_wf_def cache_set_frame)
  show "cached (cache_set now sid p ttl s) = (cached s)(sid \<mapsto> ms_heap s p)"
    by (rule ext) (simp add: cached_def cache_set_frame)
qed

section \<open>Index keys\<close>

lemma index_key_inj:
  assumes "CHR '':'' \<notin> set n" and "CHR '':'' \<notin> set n'"
  shows "index_key n v = index_key n' v' \<longleftrightarrow> n = n' \<and> v = v'"
proof
  assume "index_key n v = index_key n' v'"
  then have eq: "n @ CHR '':'' # v = n' @ CHR '':'' # v'" by (simp add: index_key_def)
  have "n = takeWhile (\<lambda>c. c \<noteq> CHR '':'') (n @ CHR '':'' # v)"
    using assms(1) by (subst takeWhile_append2) auto
  also have "\<dots> = n'" unfolding eq using assms(2) by (subst takeWhile_append2) auto
  finally show "n = n' \<and> v = v'" using eq by simp
qed simp

lemma in_index_entries: "e \<in> set (index_entries d) \<longleftrightarrow> e \<in> set (index_fields d) \<and> snd e \<noteq> []"
  by (auto simp only: index_entries_def set_filter mem_Collect_eq)

lemma index_names_plain: "e \<in> set (index_entries d) \<Longrightarrow> CHR '':'' \<notin> set (fst e)"
  unfolding in_index_entries index_fields_def by auto

lemma key_in_doc_keys:
  assumes n: "CHR '':'' \<notin> set n"
  shows "index_key n v \<in> doc_keys d \<longleftrightarrow> (n, v) \<in> set (index_entries d)"
proof
  assume "index_key n v \<in> doc_keys d"
  then obtain e where e: "e \<in> set (index_entries d)" "index_key n v = index_key (fst e) (snd e)"
    by (auto simp: doc_keys_def)
  then have "n = fst e \<and> v = snd e" using index_key_inj [OF n index_names_plain [OF e(1)]] by blast
  with e(1) show "(n, v) \<in> set (index_entries d)" by simp
next
  assume "(n, v) \<in> set (index_entries d)"
  then show "index_key n v \<in> doc_keys d" by (force simp: doc_keys_def)
qed

lemma doc_keys_fields [index_simps]:
  "index_key ''code'' v \<in> doc_keys d \<longleftrightarrow> v \<noteq> [] \<and> Code d = v"
  "index_key ''request_uri'' v \<in> doc_keys d \<longleftrightarrow> v \<noteq> [] \<and> RequestURI d = v"
  "index_key ''auth_session'' v \<in> doc_keys d \<longleftrightarrow> v \<noteq> [] \<and> AuthSession d = v"
  "index_key ''issuer_state'' v \<in> doc_keys d \<longleftrightarrow> v \<noteq> [] \<and> IssuerState d = v"
  "index_key ''refresh_token'' v \<in> doc_keys d \<longleftrightarrow> v \<noteq> [] \<and> RefreshToken d = v"
  by (auto simp: key_in_doc_keys in_index_entries index_fields_def)

lemma fold_index_put:
  "fold (\<lambda>e m. m(f e \<mapsto> x)) es m = (\<lambda>k. if k \<in> f ` set es then Some x else m k)"
  by (induction es arbitrary: m) auto

lemma fold_index_del:
  "fold (\<lambda>e m. m(f e := None)) es m = (\<lambda>k. if k \<in> f ` set es then None else m k)"
  by (induction es arbitrary: m) auto

lemma updateIndices_apply [index_simps]:
  "ms_indices (updateIndices d s) k = (if k \<in> doc_keys d then Some (SessionID d) else ms_indices s k)"
  by (simp add: updateIndices_def doc_keys_def fold_index_put)

lemma deleteIndices_apply [index_simps]:
  "ms_indices (deleteIndices d s) k = (if k \<in> doc_keys d then None else ms_indices s k)"
  by (simp add: deleteIndices_def doc_keys_def fold_index_del)

lemma delete_index_apply [index_simps]:
  "ms_indices (delete_index k' s) k = (if k = k' then None else ms_indices s k)"
  by (simp add: delete_index_def)

section \<open>The shape of a change\<close>

text \<open>
  \<open>idx_from s s'\<close>: every index entry of \<open>s'\<close> was there in \<open>s\<close> or belongs to the document it leads to.
  An operation leaves the documents alone (\<open>unchanged\<close>), replaces the document of one session
  (\<open>changed\<close>) or removes it (\<open>removed\<close>).
\<close>

definition idx_from :: "MemoryStore \<Rightarrow> MemoryStore \<Rightarrow> bool" where
  "idx_from s s' \<longleftrightarrow>
     (\<forall>k sid. ms_indices s' k = Some sid \<longrightarrow>
        ms_indices s k = Some sid \<or> (\<exists>d. cached s' sid = Some d \<and> k \<in> doc_keys d))"

definition unchanged :: "MemoryStore \<Rightarrow> MemoryStore \<Rightarrow> bool" where
  "unchanged s s' \<longleftrightarrow> store_wf s' \<and> cached s' = cached s \<and> idx_from s s'"

definition changed :: "MemoryStore \<Rightarrow> MemoryStore \<Rightarrow> string \<Rightarrow> AuthorizationContext \<Rightarrow> bool" where
  "changed s s' sid d' \<longleftrightarrow> store_wf s' \<and> cached s' = (cached s)(sid \<mapsto> d') \<and> idx_from s s'"

definition removed :: "MemoryStore \<Rightarrow> MemoryStore \<Rightarrow> string \<Rightarrow> bool" where
  "removed s s' sid \<longleftrightarrow> store_wf s' \<and> cached s' = (cached s)(sid := None) \<and> idx_from s s'"

text \<open>\<open>touched s s'\<close>: only deadlines in the cache moved.\<close>

definition touched :: "MemoryStore \<Rightarrow> MemoryStore \<Rightarrow> bool" where
  "touched s s' \<longleftrightarrow> ptr s' = ptr s \<and> ms_heap s' = ms_heap s \<and> ms_next s' = ms_next s \<and>
     ms_indices s' = ms_indices s \<and> ms_evicted s' = ms_evicted s"

lemma idx_from_refl [simp]: "idx_from s s"
  by (simp add: idx_from_def)

lemma touched_refl [simp]: "touched s s"
  by (simp add: touched_def)

lemma touchedD:
  assumes "touched s s'"
  shows "ptr s' = ptr s" "ms_heap s' = ms_heap s" "ms_next s' = ms_next s" "ms_indices s' = ms_indices s"
    "cached s' = cached s" "store_wf s' = store_wf s" "deref s' = deref s"
  using assms by (auto simp: touched_def cached_def [abs_def] store_wf_def deref_def [abs_def])

lemma touched_unchanged: "touched s s' \<Longrightarrow> store_wf s \<Longrightarrow> unchanged s s'"
  by (simp add: unchanged_def touchedD idx_from_def)

lemma unchanged_refl: "store_wf s \<Longrightarrow> unchanged s s"
  by (simp add: unchanged_def)

lemma idx_from_touched: "touched s s1 \<Longrightarrow> idx_from s1 s' = idx_from s s'"
  by (simp add: idx_from_def touchedD(4))

lemma idx_from_alloc: "store_wf s1 \<Longrightarrow> idx_from s (snd (alloc d s1)) = idx_from s s1"
  by (simp add: idx_from_def alloc_wf alloc_frame)

lemma changed_cong: "touched s s1 \<Longrightarrow> changed s1 s' sid d \<Longrightarrow> changed s s' sid d"
  by (simp add: changed_def touchedD(5) idx_from_touched)

lemma cache_get_touched: "cache_get now sid s = (r, s') \<Longrightarrow> touched s s'"
  using cache_get_frame [of now sid s] by (simp add: touched_def)

lemma by_index_law:
  assumes "by_index now n v s = (r, s')"
  shows "touched s s'"
    and "r = Inr (sid, p) \<Longrightarrow> ms_indices s (index_key n v) = Some sid \<and> ptr s sid = Some p"
proof -
  show "touched s s'"
    using assms cache_get_touched by (auto simp: by_index_def split: option.splits prod.splits)
  show "ms_indices s (index_key n v) = Some sid \<and> ptr s sid = Some p" if "r = Inr (sid, p)"
    using assms that cache_get_Some [of now _ s]
    by (auto simp: by_index_def split: option.splits prod.splits)
qed

lemma by_session_law:
  assumes "by_session now sid s = (r, s')"
  shows "touched s s'" and "r = Inr p \<Longrightarrow> ptr s sid = Some p"
proof -
  show "touched s s'"
    using assms cache_get_touched by (auto simp: by_session_def split: option.splits prod.splits)
  show "ptr s sid = Some p" if "r = Inr p"
    using assms that cache_get_Some [of now sid s]
    by (auto simp: by_session_def split: option.splits prod.splits)
qed

lemma delete_index_unchanged: "store_wf s \<Longrightarrow> unchanged s (delete_index k s)"
  by (simp add: unchanged_def wf_cached_frame idx_from_def delete_index_apply)

lemma unchanged_cong: "touched s s1 \<Longrightarrow> unchanged s1 s' \<Longrightarrow> unchanged s s'"
  by (simp add: unchanged_def touchedD(5) idx_from_touched)

lemma claim_lookup_law:
  assumes "claim_lookup now n h rd s = (r, s')" and wf: "store_wf s"
  shows "unchanged s s'"
    and "r = Inr (sid, p) \<Longrightarrow>
      touched s s' \<and> ms_indices s (index_key n h) = Some sid \<and> ptr s sid = Some p \<and> rd (ms_heap s p) = h"
proof (atomize (full), cases "ms_indices s (index_key n h)")
  case None
  then show "unchanged s s' \<and> (r = Inr (sid, p) \<longrightarrow>
      touched s s' \<and> ms_indices s (index_key n h) = Some sid \<and> ptr s sid = Some p \<and> rd (ms_heap s p) = h)"
    using assms by (auto simp: claim_lookup_def unchanged_refl)
next
  case (Some sid')
  obtain q s1 where get: "cache_get now sid' s = (q, s1)" by fastforce
  have t: "touched s s1" using get by (rule cache_get_touched)
  have wf1: "store_wf s1" using t wf by (simp add: touchedD(6))
  show "unchanged s s' \<and> (r = Inr (sid, p) \<longrightarrow>
      touched s s' \<and> ms_indices s (index_key n h) = Some sid \<and> ptr s sid = Some p \<and> rd (ms_heap s p) = h)"
  proof (cases q)
    case None
    then show ?thesis
      using assms(1) Some get unchanged_cong [OF t delete_index_unchanged [OF wf1]]
      by (auto simp: claim_lookup_def)
  next
    case (Some p')
    have "ptr s sid' = Some p'" using cache_get_Some [of now sid' s] get Some by simp
    then show ?thesis
      using assms(1) \<open>ms_indices s (index_key n h) = Some sid'\<close> get Some t touched_unchanged [OF t wf]
      by (auto simp: claim_lookup_def deref_def touchedD(2) [OF t] split: if_splits)
  qed
qed

lemma in_place_changed:
  assumes "store_wf s" and "ptr s sid = Some p" and "SessionID d = sid"
  shows "changed s (store_in_place now sid p d ttl s) sid d"
    and "changed s (updateIndices d (store_in_place now sid p d ttl s)) sid d"
  using assms by (simp_all add: changed_def store_simps idx_from_def index_simps)

lemma copy_changed:
  assumes "store_wf s" and "SessionID d = sid"
  shows "changed s (store_copy now sid d ttl s) sid d"
    and "changed s (updateIndices d (store_copy now sid d ttl s)) sid d"
  using assms by (simp_all add: changed_def store_simps idx_from_def index_simps)

lemma alloc_changed:
  "changed s s1 sid d \<Longrightarrow> changed s (snd (alloc d' s1)) sid d"
  by (simp add: changed_def alloc_wf idx_from_alloc)

section \<open>Case rules for the lookups\<close>

text \<open>What an operation may do once its lookup has found the document \<open>d\<close> at \<open>p\<close>.\<close>

definition ready :: "MemoryStore \<Rightarrow> MemoryStore \<Rightarrow> string \<Rightarrow> nat \<Rightarrow> AuthorizationContext \<Rightarrow> bool" where
  "ready s s1 sid p d \<longleftrightarrow>
     touched s s1 \<and> store_wf s1 \<and> ptr s1 sid = Some p \<and> deref s1 p = d \<and> SessionID d = sid \<and>
     cached s sid = Some d"

lemma readyI:
  assumes "store_wf s" and "touched s s1" and "ptr s sid = Some p"
  shows "ready s s1 sid p (deref s1 p)"
  using assms touchedD [OF assms(2)] store_wfD(2) [OF assms(1,3)]
  by (simp add: ready_def deref_def ptr_cached)

lemma ready_changed:
  assumes "ready s s1 sid p d" and "SessionID d' = sid"
  shows "changed s (store_in_place now sid p d' ttl s1) sid d'"
    and "changed s (updateIndices d' (store_in_place now sid p d' ttl s1)) sid d'"
    and "changed s (store_copy now sid d' ttl s1) sid d'"
    and "changed s (updateIndices d' (store_copy now sid d' ttl s1)) sid d'"
  using assms changed_cong [of s s1] in_place_changed [of s1 sid p d'] copy_changed [of s1 d' sid]
  by (auto simp: ready_def)

lemma by_index_cases:
  assumes "store_wf s"
    and "\<And>e s1. by_index now n v s = (Inl e, s1) \<Longrightarrow> unchanged s s1 \<Longrightarrow> P"
    and "\<And>sid p s1 d. by_index now n v s = (Inr (sid, p), s1) \<Longrightarrow> ms_indices s (index_key n v) = Some sid
           \<Longrightarrow> ready s s1 sid p d \<Longrightarrow> deref s1 p = d \<Longrightarrow> P"
  shows P
proof -
  obtain r s1 where eq: "by_index now n v s = (r, s1)" by fastforce
  have t: "touched s s1" using eq by (rule by_index_law)
  show P
  proof (cases r)
    case (Inl e)
    then show P using assms(2) eq touched_unchanged [OF t assms(1)] by blast
  next
    case (Inr x)
    then obtain sid p where "r = Inr (sid, p)" by (cases x) auto
    then show P
      using by_index_law(2) [OF eq] eq assms(3) readyI [OF assms(1) t] by blast
  qed
qed

lemma by_session_cases:
  assumes "store_wf s"
    and "\<And>e s1. by_session now sid s = (Inl e, s1) \<Longrightarrow> unchanged s s1 \<Longrightarrow> P"
    and "\<And>p s1 d. by_session now sid s = (Inr p, s1) \<Longrightarrow> ready s s1 sid p d \<Longrightarrow> deref s1 p = d \<Longrightarrow> P"
  shows P
proof -
  obtain r s1 where eq: "by_session now sid s = (r, s1)" by fastforce
  have t: "touched s s1" using eq by (rule by_session_law)
  show P
  proof (cases r)
    case (Inl e)
    then show P using assms(2) eq touched_unchanged [OF t assms(1)] by blast
  next
    case (Inr p)
    then show P using by_session_law(2) [OF eq] eq assms(3) readyI [OF assms(1) t] by blast
  qed
qed

lemma claim_lookup_cases:
  assumes "store_wf s"
    and "\<And>e s1. claim_lookup now n h rd s = (Inl e, s1) \<Longrightarrow> unchanged s s1 \<Longrightarrow> P"
    and "\<And>sid p s1 d. claim_lookup now n h rd s = (Inr (sid, p), s1)
           \<Longrightarrow> ms_indices s (index_key n h) = Some sid \<Longrightarrow> ready s s1 sid p d \<Longrightarrow> deref s1 p = d
           \<Longrightarrow> rd d = h \<Longrightarrow> P"
  shows P
proof -
  obtain r s1 where eq: "claim_lookup now n h rd s = (r, s1)" by fastforce
  show P
  proof (cases r)
    case (Inl e)
    then show P using assms(2) eq claim_lookup_law(1) [OF eq assms(1)] by blast
  next
    case (Inr x)
    then obtain sid p where x: "r = Inr (sid, p)" by (cases x) auto
    note law = claim_lookup_law(2) [OF eq assms(1) x]
    then have "rd (deref s1 p) = h" using touchedD(2) [of s s1] by (simp add: deref_def)
    then show P using x eq assms(3) readyI [OF assms(1)] law by blast
  qed
qed

section \<open>The effect of each operation\<close>

text \<open>
  \<open>effect s s' key C g\<close>: the index leads from \<open>key\<close> to a session whose document satisfies \<open>C\<close>, and the
  operation replaced it by its image under \<open>g\<close>; \<open>effect_at\<close> names the session itself.
\<close>

definition effect_at ::
  "MemoryStore \<Rightarrow> MemoryStore \<Rightarrow> string \<Rightarrow> (AuthorizationContext \<Rightarrow> bool) \<Rightarrow>
   (AuthorizationContext \<Rightarrow> AuthorizationContext) \<Rightarrow> bool"
where
  "effect_at s s' sid C g \<longleftrightarrow> (\<exists>d. cached s sid = Some d \<and> C d \<and> changed s s' sid (g d))"

definition effect ::
  "MemoryStore \<Rightarrow> MemoryStore \<Rightarrow> string \<Rightarrow> (AuthorizationContext \<Rightarrow> bool) \<Rightarrow>
   (AuthorizationContext \<Rightarrow> AuthorizationContext) \<Rightarrow> bool"
where
  "effect s s' key C g \<longleftrightarrow> (\<exists>sid. ms_indices s key = Some sid \<and> effect_at s s' sid C g)"

lemma index_op:
  assumes "store_wf s"
    and "(case by_index now n v s of (Inl e, s1) \<Rightarrow> (Inl e, s1) | (Inr (sid, p), s1) \<Rightarrow> body sid p s1) = (r, s')"
    and "\<And>sid p s1 d. ready s s1 sid p d \<Longrightarrow> deref s1 p = d \<Longrightarrow> unchanged s s1 \<Longrightarrow>
           body sid p s1 = (r, s') \<Longrightarrow> \<not> is_ok r \<and> unchanged s s' \<or> R r \<and> C d \<and> changed s s' sid (g d)"
  shows "\<not> is_ok r \<and> unchanged s s' \<or> R r \<and> effect s s' (index_key n v) C g"
proof (rule by_index_cases [OF assms(1), of now n v])
  fix e s1
  assume "by_index now n v s = (Inl e, s1)" "unchanged s s1"
  then show ?thesis using assms(2) by auto
next
  fix sid p s1 d
  assume b: "by_index now n v s = (Inr (sid, p), s1)" "ms_indices s (index_key n v) = Some sid"
    and rd: "ready s s1 sid p d" "deref s1 p = d"
  have "body sid p s1 = (r, s')" using assms(2) b(1) by simp
  moreover have "unchanged s s1" "cached s sid = Some d"
    using rd(1) touched_unchanged assms(1) by (auto simp: ready_def)
  ultimately show ?thesis using assms(3) [OF rd] b(2) by (auto simp: effect_def effect_at_def)
qed

lemma session_op:
  assumes "store_wf s"
    and "(case by_session now sid s of (Inl e, s1) \<Rightarrow> (Inl e, s1) | (Inr p, s1) \<Rightarrow> body p s1) = (r, s')"
    and "\<And>p s1 d. ready s s1 sid p d \<Longrightarrow> deref s1 p = d \<Longrightarrow> unchanged s s1 \<Longrightarrow>
           body p s1 = (r, s') \<Longrightarrow> unchanged s s' \<or> R r \<and> C d \<and> changed s s' sid (g d)"
  shows "unchanged s s' \<or> R r \<and> effect_at s s' sid C g"
proof (rule by_session_cases [OF assms(1), of now sid])
  fix e s1
  assume "by_session now sid s = (Inl e, s1)" "unchanged s s1"
  then show ?thesis using assms(2) by auto
next
  fix p s1 d
  assume b: "by_session now sid s = (Inr p, s1)" and rd: "ready s s1 sid p d" "deref s1 p = d"
  have "body p s1 = (r, s')" using assms(2) b(1) by simp
  moreover have "unchanged s s1" "cached s sid = Some d"
    using rd(1) touched_unchanged assms(1) by (auto simp: ready_def)
  ultimately show ?thesis using assms(3) [OF rd] by (auto simp: effect_at_def)
qed

lemma claim_op:
  assumes "store_wf s"
    and "(case claim_lookup now n h rd s of (Inl e, s1) \<Rightarrow> (Inl e, s1) | (Inr (sid, p), s1) \<Rightarrow> body sid p s1) = (r, s')"
    and "\<And>sid p s1 d. ready s s1 sid p d \<Longrightarrow> deref s1 p = d \<Longrightarrow> ms_indices s (index_key n h) = Some sid \<Longrightarrow>
           rd d = h \<Longrightarrow> body sid p s1 = (r, s') \<Longrightarrow> R r s' sid d"
  shows "\<not> is_ok r \<and> unchanged s s' \<or>
    (\<exists>sid d. ms_indices s (index_key n h) = Some sid \<and> cached s sid = Some d \<and> rd d = h \<and> R r s' sid d)"
proof (rule claim_lookup_cases [OF assms(1), of now n h rd])
  fix e s1
  assume "claim_lookup now n h rd s = (Inl e, s1)" "unchanged s s1"
  then show ?thesis using assms(2) by auto
next
  fix sid p s1 d
  assume b: "claim_lookup now n h rd s = (Inr (sid, p), s1)" "ms_indices s (index_key n h) = Some sid"
    and rd: "ready s s1 sid p d" "deref s1 p = d" "rd d = h"
  have "body sid p s1 = (r, s')" using assms(2) b(1) by simp
  moreover have "cached s sid = Some d" using rd(1) by (simp add: ready_def)
  ultimately show ?thesis using assms(3) [OF rd(1,2) b(2) rd(3)] b(2) rd(3) by auto
qed

definition forfeit_key :: "AuthorizationContext \<Rightarrow> string" where
  "forfeit_key q = (if Code q \<noteq> [] then index_key ''code'' (Code q) else index_key ''request_uri'' (RequestURI q))"

lemma Forfeit_law:
  assumes "store_wf s" and "MemoryStore_ForfeitAuthorizationCode now q s = (r, s')"
  shows "\<not> is_ok r \<and> unchanged s s' \<or>
    is_ok r \<and> (\<exists>query. q = Some query \<and>
      effect s s' (forfeit_key query) (\<lambda>d. \<not> Forfeited d) (\<lambda>d. d\<lparr>Forfeited := True\<rparr>))"
proof (cases q)
  case None
  then show ?thesis using assms by (auto simp: MemoryStore_ForfeitAuthorizationCode_def unchanged_refl)
next
  case (Some query)
  let ?n = "if Code query \<noteq> [] then ''code'' else ''request_uri''"
  let ?v = "if Code query \<noteq> [] then Code query else RequestURI query"
  let ?body = "\<lambda>sid p s'.
          if Forfeited (deref s' p) then (Inl ErrAlreadyForfeited, s')
          else (let doc = (deref s' p)\<lparr>Forfeited := True\<rparr>
                in (Inr p, updateIndices doc (store_in_place now sid p doc DefaultTTL s')))"
  have key: "forfeit_key query = index_key ?n ?v" by (simp add: forfeit_key_def)
  show ?thesis
  proof (cases "Code query = [] \<and> RequestURI query = []")
    case True
    then show ?thesis using assms Some
      by (auto simp: MemoryStore_ForfeitAuthorizationCode_def unchanged_refl)
  next
    case False
    then have "(case by_index now ?n ?v s of (Inl e, s1) \<Rightarrow> (Inl e, s1)
        | (Inr (sid, p), s1) \<Rightarrow> ?body sid p s1) = (r, s')"
      using assms(2) by (cases "Code query = []") (simp_all add: MemoryStore_ForfeitAuthorizationCode_def Some)
    then have "\<not> is_ok r \<and> unchanged s s' \<or>
      is_ok r \<and> effect s s' (index_key ?n ?v) (\<lambda>d. \<not> Forfeited d) (\<lambda>d. d\<lparr>Forfeited := True\<rparr>)"
    proof (rule index_op [OF assms(1)])
      fix sid p s1 d
      assume rd: "ready s s1 sid p d" and d: "deref s1 p = d" "unchanged s s1" "?body sid p s1 = (r, s')"
      have "SessionID (d\<lparr>Forfeited := True\<rparr>) = sid" using rd by (simp add: ready_def)
      with d ready_changed(2) [OF rd, of "d\<lparr>Forfeited := True\<rparr>"]
      show "\<not> is_ok r \<and> unchanged s s' \<or> is_ok r \<and> \<not> Forfeited d \<and> changed s s' sid (d\<lparr>Forfeited := True\<rparr>)"
        by (auto simp: Let_def split: if_splits)
    qed
    then show ?thesis by (auto simp: key Some)
  qed
qed

lemma Redeem_law:
  assumes "store_wf s" and "MemoryStore_RedeemPreAuthorizedCode now code thumb s = (r, s')"
  shows "\<not> is_ok r \<and> unchanged s s' \<or>
    is_ok r \<and> effect s s' (index_key ''code'' code)
      (\<lambda>d. \<not> Forfeited d \<and> thumb \<notin> set (RedeemedBy d) \<and> length (RedeemedBy d) < MaxPreAuthRedeemers)
      (\<lambda>d. d\<lparr>RedeemedBy := RedeemedBy d @ [thumb]\<rparr>)"
proof (cases "code = [] \<or> thumb = [] \<or> length thumb > 128")
  case True
  then have "\<exists>e. MemoryStore_RedeemPreAuthorizedCode now code thumb s = (Inl e, s)"
    unfolding MemoryStore_RedeemPreAuthorizedCode_def by (cases "code = []"; cases "thumb = []") auto
  then show ?thesis using assms by (auto simp: unchanged_refl)
next
  case False
  have "(case by_index now ''code'' code s of (Inl e, s1) \<Rightarrow> (Inl e, s1) | (Inr (sid, p), s1) \<Rightarrow>
      (let doc = deref s1 p in
       if Forfeited doc then (Inl ErrAlreadyForfeited, s1)
       else if thumb \<in> set (RedeemedBy doc) then (Inl ErrAlreadyRedeemed, s1)
       else if length (RedeemedBy doc) \<ge> MaxPreAuthRedeemers then (Inl ErrMaxRedemptions, s1)
       else (Inr p, store_in_place now sid p (doc\<lparr>RedeemedBy := RedeemedBy doc @ [thumb]\<rparr>)
               PreviousOrDefaultTTL s1))) = (r, s')"
    using assms(2) False by (simp add: MemoryStore_RedeemPreAuthorizedCode_def)
  then show ?thesis
  proof (rule index_op [OF assms(1)], goal_cases)
    case (1 sid p s1 d)
    then show ?case
      using ready_changed(1) [OF 1(1), of "d\<lparr>RedeemedBy := RedeemedBy d @ [thumb]\<rparr>"]
      by (auto simp: Let_def ready_def split: if_splits)
  qed
qed

lemma ConsumeTX_law:
  assumes "store_wf s" and "MemoryStore_ConsumeTXCodeAttempt now code s = (r, s')"
  shows "\<not> is_ok r \<and> unchanged s s' \<or>
    effect s s' (index_key ''code'' code)
      (\<lambda>d. \<not> Forfeited d \<and> (is_ok r \<longleftrightarrow> TXCodeAttempts d < MaxTXCodeAttempts))
      (\<lambda>d. if TXCodeAttempts d \<ge> MaxTXCodeAttempts then d\<lparr>Forfeited := True\<rparr>
           else d\<lparr>TXCodeAttempts := TXCodeAttempts d + 1\<rparr>)"
proof (cases "code = []")
  case True
  then show ?thesis using assms by (auto simp: MemoryStore_ConsumeTXCodeAttempt_def unchanged_refl)
next
  case False
  have "(case by_index now ''code'' code s of (Inl e, s1) \<Rightarrow> (Inl e, s1) | (Inr (sid, p), s1) \<Rightarrow>
      (let doc = deref s1 p in
       if Forfeited doc then (Inl ErrAlreadyForfeited, s1)
       else if TXCodeAttempts doc \<ge> MaxTXCodeAttempts then
         (Inl ErrTXCodeAttemptsExceeded,
          store_in_place now sid p (doc\<lparr>Forfeited := True\<rparr>) PreviousOrDefaultTTL s1)
       else (Inr p, store_in_place now sid p (doc\<lparr>TXCodeAttempts := TXCodeAttempts doc + 1\<rparr>)
               PreviousOrDefaultTTL s1))) = (r, s')"
    using assms(2) False by (simp add: MemoryStore_ConsumeTXCodeAttempt_def)
  then have "\<not> is_ok r \<and> unchanged s s' \<or> True \<and> effect s s' (index_key ''code'' code)
      (\<lambda>d. \<not> Forfeited d \<and> (is_ok r \<longleftrightarrow> TXCodeAttempts d < MaxTXCodeAttempts))
      (\<lambda>d. if TXCodeAttempts d \<ge> MaxTXCodeAttempts then d\<lparr>Forfeited := True\<rparr>
           else d\<lparr>TXCodeAttempts := TXCodeAttempts d + 1\<rparr>)"
  proof (rule index_op [OF assms(1)], goal_cases)
    case (1 sid p s1 d)
    then show ?case
      using ready_changed(1) [OF 1(1), of "d\<lparr>Forfeited := True\<rparr>"]
        ready_changed(1) [OF 1(1), of "d\<lparr>TXCodeAttempts := TXCodeAttempts d + 1\<rparr>"]
      by (auto simp: Let_def ready_def split: if_splits)
  qed
  then show ?thesis by simp
qed

lemma Consent_law:
  assumes "store_wf s" and "MemoryStore_Consent now q s = (r, s')"
  shows "\<not> is_ok r \<and> unchanged s s' \<or>
    is_ok r \<and> (\<exists>query. q = Some query \<and>
      effect s s' (index_key ''request_uri'' (RequestURI query)) (\<lambda>_. True) (\<lambda>d. d\<lparr>Consent := True\<rparr>))"
proof (cases "\<exists>query. q = Some query \<and> RequestURI query \<noteq> []")
  case False
  then show ?thesis using assms
    by (auto simp: MemoryStore_Consent_def unchanged_refl split: option.splits)
next
  case True
  then obtain query where q: "q = Some query" "RequestURI query \<noteq> []" by blast
  have "(case by_index now ''request_uri'' (RequestURI query) s of (Inl e, s1) \<Rightarrow> (Inl e, s1)
      | (Inr (sid, p), s1) \<Rightarrow>
        (let doc = (deref s1 p)\<lparr>Consent := True\<rparr>
         in (Inr (), updateIndices doc (store_in_place now sid p doc DefaultTTL s1)))) = (r, s')"
    using assms(2) q by (simp add: MemoryStore_Consent_def)
  then have "\<not> is_ok r \<and> unchanged s s' \<or>
    is_ok r \<and> effect s s' (index_key ''request_uri'' (RequestURI query)) (\<lambda>_. True) (\<lambda>d. d\<lparr>Consent := True\<rparr>)"
  proof (rule index_op [OF assms(1)], goal_cases)
    case (1 sid p s1 d)
    then show ?case
      using ready_changed(2) [OF 1(1), of "d\<lparr>Consent := True\<rparr>"] by (auto simp: Let_def ready_def)
  qed
  then show ?thesis using q(1) by auto
qed

lemma AddToken_law:
  assumes "store_wf s" and "MemoryStore_AddToken now code token s = (r, s')"
  shows "\<not> is_ok r \<and> unchanged s s' \<or>
    is_ok r \<and> effect s s' (index_key ''code'' code) (\<lambda>_. True) (\<lambda>d. d\<lparr>Token := token\<rparr>)"
proof (cases "code = []")
  case True
  then show ?thesis using assms by (auto simp: MemoryStore_AddToken_def unchanged_refl)
next
  case False
  have "(case by_index now ''code'' code s of (Inl e, s1) \<Rightarrow> (Inl e, s1) | (Inr (sid, p), s1) \<Rightarrow>
        (let doc = (deref s1 p)\<lparr>Token := token\<rparr>
         in (Inr (), updateIndices doc (store_in_place now sid p doc DefaultTTL s1)))) = (r, s')"
    using assms(2) False by (simp add: MemoryStore_AddToken_def)
  then show ?thesis
  proof (rule index_op [OF assms(1)], goal_cases)
    case (1 sid p s1 d)
    then show ?case
      using ready_changed(2) [OF 1(1), of "d\<lparr>Token := token\<rparr>"] by (auto simp: Let_def ready_def)
  qed
qed

lemma SetAuthenticSource_law:
  assumes "store_wf s" and "MemoryStore_SetAuthenticSource now q src s = (r, s')"
  shows "unchanged s s' \<or>
    (\<exists>sid. effect_at s s' sid (\<lambda>_. True) (\<lambda>d. d\<lparr>AuthenticSource := src\<rparr>))"
proof (cases "\<exists>query. src \<noteq> [] \<and> q = Some query \<and> SessionID query \<noteq> []")
  case False
  then show ?thesis using assms
    by (auto simp: MemoryStore_SetAuthenticSource_def unchanged_refl split: option.splits if_splits)
next
  case True
  then obtain query where q: "src \<noteq> []" "q = Some query" "SessionID query \<noteq> []" by blast
  have "(case by_session now (SessionID query) s of (Inl e, s1) \<Rightarrow> (Inl e, s1) | (Inr p, s1) \<Rightarrow>
      (Inr (), store_in_place now (SessionID query) p ((deref s1 p)\<lparr>AuthenticSource := src\<rparr>) DefaultTTL s1)) = (r, s')"
    using assms(2) q by (simp add: MemoryStore_SetAuthenticSource_def)
  then have "unchanged s s' \<or> True \<and> effect_at s s' (SessionID query) (\<lambda>_. True) (\<lambda>d. d\<lparr>AuthenticSource := src\<rparr>)"
  proof (rule session_op [OF assms(1)], goal_cases)
    case (1 p s1 d)
    then show ?case
      using ready_changed(1) [OF 1(1), of "d\<lparr>AuthenticSource := src\<rparr>"] by (auto simp: ready_def)
  qed
  then show ?thesis by auto
qed

lemma SetIdentifier_law:
  assumes "store_wf s" and "MemoryStore_SetIdentifier now q ident s = (r, s')"
  shows "unchanged s s' \<or>
    (\<exists>sid. effect_at s s' sid (\<lambda>_. True) (\<lambda>d. d\<lparr>Identifier := ident\<rparr>))"
proof (cases "\<exists>query. ident \<noteq> [] \<and> q = Some query \<and> SessionID query \<noteq> []")
  case False
  then show ?thesis using assms
    by (auto simp: MemoryStore_SetIdentifier_def unchanged_refl split: option.splits if_splits)
next
  case True
  then obtain query where q: "ident \<noteq> []" "q = Some query" "SessionID query \<noteq> []" by blast
  have "(case by_session now (SessionID query) s of (Inl e, s1) \<Rightarrow> (Inl e, s1) | (Inr p, s1) \<Rightarrow>
      (Inr (), store_in_place now (SessionID query) p ((deref s1 p)\<lparr>Identifier := ident\<rparr>) DefaultTTL s1)) = (r, s')"
    using assms(2) q by (simp add: MemoryStore_SetIdentifier_def)
  then have "unchanged s s' \<or> True \<and> effect_at s s' (SessionID query) (\<lambda>_. True) (\<lambda>d. d\<lparr>Identifier := ident\<rparr>)"
  proof (rule session_op [OF assms(1)], goal_cases)
    case (1 p s1 d)
    then show ?case
      using ready_changed(1) [OF 1(1), of "d\<lparr>Identifier := ident\<rparr>"] by (auto simp: ready_def)
  qed
  then show ?thesis by auto
qed

lemma MarkCodeAsForfeited_law:
  assumes "store_wf s" and "MemoryStore_MarkCodeAsForfeited now sid s = (r, s')"
  shows "unchanged s s' \<or>
    is_ok r \<and> effect_at s s' sid (\<lambda>d. \<not> Forfeited d) (\<lambda>d. d\<lparr>Forfeited := True\<rparr>)"
proof (cases "sid = []")
  case True
  then show ?thesis using assms by (auto simp: MemoryStore_MarkCodeAsForfeited_def unchanged_refl)
next
  case False
  have "(case by_session now sid s of (Inl e, s1) \<Rightarrow> (Inl e, s1) | (Inr p, s1) \<Rightarrow>
      if Forfeited (deref s1 p) then (Inl ErrAlreadyForfeited, s1)
      else (Inr (), store_in_place now sid p ((deref s1 p)\<lparr>Forfeited := True\<rparr>) DefaultTTL s1)) = (r, s')"
    using assms(2) False by (simp add: MemoryStore_MarkCodeAsForfeited_def)
  then show ?thesis
  proof (rule session_op [OF assms(1)], goal_cases)
    case (1 p s1 d)
    then show ?case
      using ready_changed(1) [OF 1(1), of "d\<lparr>Forfeited := True\<rparr>"]
      by (auto simp: ready_def split: if_splits)
  qed
qed

definition provider_update :: "AuthProviderFields \<Rightarrow> AuthorizationContext \<Rightarrow> AuthorizationContext" where
  "provider_update f d = d\<lparr>AuthProvider := apf_AuthProvider f, DataSource := apf_DataSource f,
     RemoteName := apf_RemoteName f, AuthenticSource := apf_AuthenticSource f\<rparr>"

lemma SetAuthProvider_law:
  assumes "store_wf s" and "MemoryStore_SetAuthProvider now sid f s = (r, s')"
  shows "unchanged s s' \<or> effect_at s s' sid (\<lambda>_. True) (provider_update f)"
proof (cases "sid = []")
  case True
  then show ?thesis using assms by (auto simp: MemoryStore_SetAuthProvider_def unchanged_refl)
next
  case False
  have "(case by_session now sid s of (Inl e, s1) \<Rightarrow> (Inl e, s1) | (Inr p, s1) \<Rightarrow>
      (let updated = provider_update f (deref s1 p)
       in (Inr (), updateIndices updated (store_copy now sid updated DefaultTTL s1)))) = (r, s')"
    using assms(2) False unfolding MemoryStore_SetAuthProvider_def provider_update_def by simp
  then have "unchanged s s' \<or> True \<and> effect_at s s' sid (\<lambda>_. True) (provider_update f)"
  proof (rule session_op [OF assms(1)], goal_cases)
    case (1 p s1 d)
    then show ?case
      using ready_changed(4) [OF 1(1), of "provider_update f d"]
      by (auto simp: Let_def ready_def provider_update_def)
  qed
  then show ?thesis by simp
qed

lemma ExtendExpiry_law:
  assumes "store_wf s" and "MemoryStore_ExtendExpiry now q e s = (r, s')"
  shows "unchanged s s' \<or>
    (\<exists>query sid. q = Some query \<and> resolveSessionIDLocked query s = Inr sid \<and>
      effect_at s s' sid (\<lambda>d. ExpiresAt d < e) (\<lambda>d. d\<lparr>ExpiresAt := e\<rparr>))"
proof (cases "\<exists>query sid. q = Some query \<and> resolveSessionIDLocked query s = Inr sid")
  case False
  then show ?thesis using assms
    by (auto simp: MemoryStore_ExtendExpiry_def unchanged_refl split: option.splits sum.splits)
next
  case True
  then obtain query sid where q: "q = Some query" "resolveSessionIDLocked query s = Inr sid" by blast
  have "(case by_session now sid s of (Inl e', s1) \<Rightarrow> (Inl e', s1) | (Inr p, s1) \<Rightarrow>
      if ExpiresAt (deref s1 p) \<ge> e then (Inr (), s1)
      else (let updated = (deref s1 p)\<lparr>ExpiresAt := e\<rparr>
            in (Inr (), updateIndices updated (store_copy now sid updated DefaultTTL s1)))) = (r, s')"
    using assms(2) q by (simp add: MemoryStore_ExtendExpiry_def)
  then have "unchanged s s' \<or> True \<and> effect_at s s' sid (\<lambda>d. ExpiresAt d < e) (\<lambda>d. d\<lparr>ExpiresAt := e\<rparr>)"
  proof (rule session_op [OF assms(1)], goal_cases)
    case (1 p s1 d)
    then show ?case
      using ready_changed(4) [OF 1(1), of "d\<lparr>ExpiresAt := e\<rparr>"]
      by (auto simp: Let_def ready_def split: if_splits)
  qed
  then show ?thesis using q by auto
qed

subsection \<open>Lookups\<close>

lemma getLocked_law:
  assumes "store_wf s" and "getLocked now q s = (r, s')"
  shows "unchanged s s'"
proof -
  have t: "unchanged s s1" if "cache_get now sid s = (x, s1)" for sid x s1
    using cache_get_touched [OF that] assms(1) by (rule touched_unchanged)
  show ?thesis
    using assms t by (auto simp: getLocked_def unchanged_refl split: option.splits sum.splits prod.splits)
qed

lemma unchanged_alloc: "unchanged s s1 \<Longrightarrow> unchanged s (snd (alloc d s1))"
  by (simp add: unchanged_def alloc_wf idx_from_alloc)

lemma GetSnapshot_law:
  assumes "store_wf s" and "MemoryStore_GetSnapshot now q s = (r, s')"
  shows "unchanged s s'"
proof -
  obtain x s1 where g: "getLocked now q s = (x, s1)" by fastforce
  show ?thesis
    using getLocked_law [OF assms(1) g] unchanged_alloc [of s s1] assms(2) g
    by (cases x) (auto simp: MemoryStore_GetSnapshot_def Let_def split_def)
qed

lemma get_by_law:
  assumes "store_wf s" and "get_by now n v s = (r, s')"
  shows "unchanged s s'"
proof (cases "v = []")
  case True
  then show ?thesis using assms by (simp add: get_by_def unchanged_refl)
next
  case False
  obtain x s1 where b: "by_index now n v s = (x, s1)" by fastforce
  have "unchanged s s1" using by_index_law(1) [OF b] assms(1) by (rule touched_unchanged)
  then show ?thesis using assms(2) False b by (auto simp: get_by_def split: sum.splits prod.splits)
qed

lemma GetByID_law:
  assumes "store_wf s" and "MemoryStore_GetByID now sid s = (r, s')"
  shows "unchanged s s'"
  using assms by_session_law(1) [of now sid s] touched_unchanged unchanged_refl
  by (auto simp: MemoryStore_GetByID_def split: if_splits)

subsection \<open>Removal\<close>

lemma cached_removed:
  assumes "store_wf s" and "ptr s' = (ptr s)(sid := None)" and "ms_heap s' = ms_heap s"
    and "ms_next s' = ms_next s"
  shows "store_wf s'" and "cached s' = (cached s)(sid := None)"
  using assms by (auto simp: store_wf_def cached_def)

lemma Delete_law:
  assumes "store_wf s" and "MemoryStore_Delete now sid s = (r, s')"
  shows "unchanged s s' \<or> removed s s' sid"
proof (cases "sid = []")
  case True
  then show ?thesis using assms by (simp add: MemoryStore_Delete_def unchanged_refl)
next
  case False
  obtain x s1 where g: "cache_get now sid s = (x, s1)" by fastforce
  have t: "touched s s1" using g by (rule cache_get_touched)
  let ?s2 = "case x of None \<Rightarrow> s1 | Some p \<Rightarrow> deleteIndices (deref s1 p) s1"
  have s': "s' = ?s2\<lparr>ms_cache := snd (Delete sid (ms_cache ?s2)),
      ms_evicted := ms_evicted ?s2 @ (case fst (Delete sid (ms_cache ?s2)) of None \<Rightarrow> [] | Some it \<Rightarrow> [i_value it])\<rparr>"
    using assms(2) False g by (cases x) (auto simp: MemoryStore_Delete_def Let_def split_def)
  have 2: "ptr ?s2 = ptr s" "ms_heap ?s2 = ms_heap s" "ms_next ?s2 = ms_next s"
    using touchedD [OF t] by (auto simp: index_frame split: option.splits)
  have ix: "ms_indices ?s2 k = Some a \<Longrightarrow> ms_indices s k = Some a" for k a
    using touchedD(4) [OF t] by (auto simp: index_simps split: option.splits if_splits)
  have "ptr s' = (ptr ?s2)(sid := None)"
    unfolding s' by (auto simp: ptr_def fun_eq_iff Delete_def split: option.splits)
  moreover have "ms_heap s' = ms_heap ?s2" "ms_next s' = ms_next ?s2" "ms_indices s' = ms_indices ?s2"
    unfolding s' by simp_all
  ultimately show ?thesis
    using cached_removed [OF assms(1)] 2 ix by (auto simp: removed_def idx_from_def)
qed

lemma evict_session_law:
  assumes "store_wf s"
  shows "unchanged s (evict_session now sid s) \<or> removed s (evict_session now sid s) sid"
proof -
  let ?s' = "evict_session now sid s"
  have same: "ms_heap ?s' = ms_heap s" "ms_next ?s' = ms_next s" "ms_indices ?s' = ms_indices s"
    by (auto simp: evict_session_def split: option.splits prod.splits)
  have "ptr ?s' = ptr s \<or> ptr ?s' = (ptr s)(sid := None)"
    by (auto simp: evict_session_def ptr_def fun_eq_iff evict_expired_def Delete_def
        split: option.splits prod.splits if_splits)
  then show ?thesis
  proof
    assume "ptr ?s' = ptr s"
    then show ?thesis using store_wf_cong [OF _ same(1,2)] assms same(3)
      by (simp add: unchanged_def idx_from_def)
  next
    assume "ptr ?s' = (ptr s)(sid := None)"
    then show ?thesis using cached_removed [OF assms _ same(1,2)] same(3)
      by (simp add: removed_def idx_from_def)
  qed
qed

lemma onEviction_law:
  assumes "store_wf s"
  shows "unchanged s (onEviction s)"
proof (cases "ms_evicted s")
  case Nil
  then show ?thesis using assms by (simp add: onEviction_def unchanged_refl)
next
  case (Cons p ps)
  let ?s' = "(deleteIndices (deref s p) s)\<lparr>ms_evicted := ps\<rparr>"
  have f: "ptr ?s' = ptr s" "ms_heap ?s' = ms_heap s" "ms_next ?s' = ms_next s"
    by (simp_all add: deleteIndices_def ptr_def fun_eq_iff)
  have "ms_indices ?s' = ms_indices (deleteIndices (deref s p) s)" by simp
  then have "idx_from s ?s'" by (auto simp: idx_from_def index_simps split: if_splits)
  then show ?thesis using store_wf_cong [OF f] assms Cons by (simp add: onEviction_def unchanged_def)
qed

subsection \<open>One-shot handles\<close>

lemma ClaimAuthSession_law:
  assumes "store_wf s" and "MemoryStore_ClaimAuthSession now h s = (r, s')"
  shows "\<not> is_ok r \<and> unchanged s s' \<or>
    (is_ok r \<and> ms_indices s' (index_key ''auth_session'' h) = None \<and>
     effect s s' (index_key ''auth_session'' h) (\<lambda>d. AuthSession d = h) (\<lambda>d. d\<lparr>AuthSession := []\<rparr>))"
proof (cases "h = []")
  case True
  then show ?thesis using assms by (auto simp: MemoryStore_ClaimAuthSession_def unchanged_refl)
next
  case False
  let ?k = "index_key ''auth_session'' h"
  have "(case claim_lookup now ''auth_session'' h AuthSession s of (Inl e, s1) \<Rightarrow> (Inl e, s1)
     | (Inr (sid, p), s1) \<Rightarrow>
        (let (claimed, s2) = alloc ((deref s1 p)\<lparr>AuthSession := []\<rparr>) s1; s3 = delete_index ?k s2
         in (Inr claimed, store_copy now sid ((deref s1 p)\<lparr>AuthSession := []\<rparr>) PreviousOrDefaultTTL s3))) = (r, s')"
    using assms(2) False by (simp add: MemoryStore_ClaimAuthSession_def claimIndexedHandle_def)
  then have "\<not> is_ok r \<and> unchanged s s' \<or>
    (\<exists>sid d. ms_indices s ?k = Some sid \<and> cached s sid = Some d \<and> AuthSession d = h \<and>
      (is_ok r \<and> ms_indices s' ?k = None \<and> changed s s' sid (d\<lparr>AuthSession := []\<rparr>)))"
  proof (rule claim_op [OF assms(1)], goal_cases)
    case (1 sid p s1 d)
    let ?d = "d\<lparr>AuthSession := []\<rparr>"
    let ?s3 = "delete_index ?k (snd (alloc ?d s1))"
    have t: "touched s s1" "store_wf s1" "SessionID ?d = sid" using 1 by (auto simp: ready_def)
    have wf3: "store_wf ?s3" "cached ?s3 = cached s"
      using t alloc_wf [OF t(2)] by (simp_all add: wf_cached_frame touchedD)
    have r: "r = Inr (ms_next s1)" and s': "s' = store_copy now sid ?d PreviousOrDefaultTTL ?s3"
      using 1 by (auto simp: Let_def split_def alloc_frame)
    have ix: "ms_indices s' k = (if k = ?k then None else ms_indices s k)" for k
      unfolding s' using touchedD(4) [OF t(1)] by (simp add: store_copy_frame delete_index_apply alloc_frame)
    have "changed s s' sid ?d"
      using copy_changed(1) [OF wf3(1) t(3)] ix unfolding s' changed_def wf3(2) by (auto simp: idx_from_def)
    then show ?case using r ix by simp
  qed
  then show ?thesis by (auto simp: effect_def effect_at_def)
qed

lemma ResumeIssuerState_law:
  assumes "store_wf s" and "MemoryStore_ResumeIssuerState now h res s = (r, s')"
  shows "\<not> is_ok r \<and> unchanged s s' \<or>
    (\<exists>rs. res = Some rs \<and> is_ok r \<and> h \<noteq> [] \<and> ms_indices s' (index_key ''issuer_state'' h) = None \<and>
     effect s s' (index_key ''issuer_state'' h) (\<lambda>d. IssuerState d = h)
       (\<lambda>d. applyTo rs (d\<lparr>IssuerState := []\<rparr>)))"
proof (cases "h = [] \<or> res = None")
  case True
  then show ?thesis using assms
    by (auto simp: MemoryStore_ResumeIssuerState_def unchanged_refl split: if_splits)
next
  case False
  then obtain rs where rs: "res = Some rs" and h: "h \<noteq> []" by auto
  let ?k = "index_key ''issuer_state'' h"
  let ?g = "\<lambda>d. applyTo rs (d\<lparr>IssuerState := []\<rparr>)"
  have "(case claim_lookup now ''issuer_state'' h IssuerState s of (Inl e, s1) \<Rightarrow> (Inl e, s1)
     | (Inr (sid, p), s1) \<Rightarrow>
        (let doc = ?g (deref s1 p);
             s2 = store_in_place now sid p doc DefaultTTL (deleteIndices (deref s1 p) s1);
             (resumed, s3) = alloc doc (updateIndices doc s2)
         in (Inr resumed, s3))) = (r, s')"
    using assms(2) rs h by (simp add: MemoryStore_ResumeIssuerState_def)
  then have "\<not> is_ok r \<and> unchanged s s' \<or>
    (\<exists>sid d. ms_indices s ?k = Some sid \<and> cached s sid = Some d \<and> IssuerState d = h \<and>
      (is_ok r \<and> ms_indices s' ?k = None \<and> changed s s' sid (?g d)))"
  proof (rule claim_op [OF assms(1)], goal_cases)
    case (1 sid p s1 d)
    have t: "touched s s1" "store_wf s1" "SessionID (?g d) = sid" "ptr s1 sid = Some p"
      using 1 by (auto simp: ready_def applyTo_def)
    let ?s1 = "deleteIndices d s1"
    let ?s2 = "updateIndices (?g d) (store_in_place now sid p (?g d) DefaultTTL ?s1)"
    have wf1: "store_wf ?s1" "ptr ?s1 sid = Some p" "cached ?s1 = cached s"
      using t by (simp_all add: wf_cached_frame index_frame touchedD)
    have r: "is_ok r" and s': "s' = snd (alloc (?g d) ?s2)" using 1 by (auto simp: Let_def split_def)
    have ch: "changed ?s1 s' sid (?g d)"
      unfolding s' by (rule alloc_changed [OF in_place_changed(2) [OF wf1(1,2) t(3)]])
    have ix: "ms_indices s' k = (if k \<in> doc_keys (?g d) then Some sid else if k \<in> doc_keys d then None
        else ms_indices s k)" for k
      unfolding s' using t touchedD(4) [OF t(1)]
      by (simp add: alloc_frame updateIndices_apply deleteIndices_apply store_in_place_frame)
    have "IssuerState (?g d) = []" by (simp add: applyTo_def)
    then have "ms_indices s' ?k = None" using ix [of ?k] 1(4) h by (simp add: doc_keys_fields)
    moreover have "changed s s' sid (?g d)"
      using ch touchedD(4) [OF t(1)] unfolding changed_def wf1(3)
      by (auto simp: idx_from_def deleteIndices_apply split: if_splits)
    ultimately show ?case using r by simp
  qed
  then show ?thesis using rs h by (auto simp: effect_def effect_at_def)
qed

subsection \<open>Documents the caller brings\<close>

text \<open>
  \<^verbatim>\<open>Save\<close>, \<^verbatim>\<open>Update\<close>, \<^verbatim>\<open>RotateRefreshToken\<close> and \<^verbatim>\<open>ClaimIssuerState\<close> file a document the caller made. The
  laws are for a document in a cell of its own, which the caller allocated for the call.
\<close>

lemma install_changed:
  assumes "store_wf s" and "p < ms_next s" and "ms_heap s p = d" and "SessionID d = sid"
  shows "changed s (updateIndices d (cache_set now sid p ttl s)) sid d"
  using assms cache_set_wf [of s p sid now ttl]
  by (simp add: changed_def wf_cached_frame idx_from_def updateIndices_apply cache_set_frame)

lemma fresh_write:
  assumes "store_wf s" and "\<forall>sid. ptr s sid \<noteq> Some p"
  shows "store_wf (write_doc p d s)" and "cached (write_doc p d s) = cached s"
proof -
  show "store_wf (write_doc p d s)" using assms by (auto simp: store_wf_def write_frame)
  show "cached (write_doc p d s) = cached s"
  proof
    fix sid
    show "cached (write_doc p d s) sid = cached s sid"
      using assms(2) by (cases "ptr s sid") (auto simp: cached_def write_frame)
  qed
qed

lemma alloc_fresh: "store_wf s \<Longrightarrow> \<forall>sid. ptr (snd (alloc d s)) sid \<noteq> Some (fst (alloc d s))"
  by (auto simp: alloc_frame dest: store_wfD(1))

lemma changed_idx_mono:
  assumes "changed s1 s' sid d" and "cached s1 = cached s"
    and "\<And>k a. ms_indices s1 k = Some a \<Longrightarrow> ms_indices s k = Some a"
  shows "changed s s' sid d"
  using assms unfolding changed_def idx_from_def by metis

lemma Save_law:
  assumes wf: "store_wf s" and op: "MemoryStore_Save now (Some (fst (alloc doc s))) (snd (alloc doc s)) = (r, s')"
  shows "\<not> is_ok r \<and> unchanged s s' \<or>
    (is_ok r \<and> SessionID doc \<noteq> [] \<and> (\<exists>t. changed s s' (SessionID doc) (doc\<lparr>CreatedAt := t\<rparr>)))"
proof -
  let ?p = "fst (alloc doc s)" and ?s1 = "snd (alloc doc s)"
  have d: "deref ?s1 ?p = doc" by (simp add: deref_def alloc_frame)
  have u: "unchanged s ?s1" using unchanged_alloc [OF unchanged_refl [OF wf]] .
  show ?thesis
  proof (cases "SessionID doc = [] \<or> \<not> Validate doc")
    case True
    then have "\<exists>e. (r, s') = (Inl e, ?s1)"
      using op unfolding MemoryStore_Save_def by (cases "SessionID doc = []") (auto simp: d)
    then show ?thesis using u by auto
  next
    case False
    obtain x s2 where g: "cache_get now (SessionID doc) ?s1 = (x, s2)" by fastforce
    have t: "touched ?s1 s2" using g by (rule cache_get_touched)
    have inst: "changed s (updateIndices d' (cache_set now (SessionID doc) ?p DefaultTTL s3)) (SessionID doc) d'"
      if "touched ?s1 s3'" "s3 = write_doc ?p d' s3'" "SessionID d' = SessionID doc" for s3 s3' d'
    proof -
      have wf3: "store_wf s3'" "\<forall>sid. ptr s3' sid \<noteq> Some ?p"
        using that(1) alloc_wf(1) [OF wf] alloc_fresh [OF wf] by (simp_all add: touchedD)
      have 3: "store_wf s3" "cached s3 = cached s"
        using fresh_write [OF wf3] that(1,2) alloc_wf(2) [OF wf] by (simp_all add: touchedD)
      have "changed s3 (updateIndices d' (cache_set now (SessionID doc) ?p DefaultTTL s3)) (SessionID doc) d'"
        using that touchedD(3) [OF that(1)]
        by (intro install_changed [OF 3(1)]) (simp_all add: write_frame alloc_frame)
      then show ?thesis
        using 3(2) by (rule changed_idx_mono) (simp add: that(2) write_frame touchedD(4) [OF that(1)] alloc_frame)
    qed
    have wr: "write_doc ?p doc ?s1 = ?s1" by (simp add: write_doc_def alloc_def)
    show ?thesis
    proof (cases "CreatedAt doc = zero_time")
      case False': False
      have "s' = updateIndices doc (cache_set now (SessionID doc) ?p DefaultTTL ?s1)" "is_ok r"
        using op False False' unfolding MemoryStore_Save_def
        by (auto simp: d deref_def cache_set_frame alloc_frame Let_def)
      then show ?thesis
        using inst [of ?s1 "write_doc ?p doc ?s1" doc] False wr
        by (auto intro!: exI [of _ "CreatedAt doc"])
    next
      case True
      define tm where "tm = (case x of Some q \<Rightarrow> if CreatedAt (deref s2 q) \<noteq> zero_time
          then CreatedAt (deref s2 q) else now | None \<Rightarrow> now)"
      let ?d' = "doc\<lparr>CreatedAt := tm\<rparr>" and ?s3 = "write_doc ?p (doc\<lparr>CreatedAt := tm\<rparr>) s2"
      have d2: "deref s2 ?p = doc" using touchedD(7) [OF t] d by simp
      have 3: "deref (cache_set now (SessionID doc) ?p DefaultTTL ?s3) ?p = ?d'" "deref ?s3 ?p = ?d'"
        by (simp_all add: deref_def cache_set_frame write_frame)
      have "(r, s') = (Inr (), updateIndices ?d' (cache_set now (SessionID doc) ?p DefaultTTL ?s3))"
        using op False True g d2 3 unfolding MemoryStore_Save_def tm_def
        by (cases x) (auto simp: d Let_def)
      then show ?thesis using inst [OF t, of ?s3 ?d'] False by auto
    qed
  qed
qed

lemma unchanged_trans: "unchanged s s1 \<Longrightarrow> unchanged s1 s2 \<Longrightarrow> unchanged s s2"
  unfolding unchanged_def idx_from_def by metis

text \<open>The index after a document has been replaced: the old document's keys go, the new one's come.\<close>

definition reindexed ::
  "MemoryStore \<Rightarrow> MemoryStore \<Rightarrow> AuthorizationContext \<Rightarrow> AuthorizationContext \<Rightarrow> bool"
where
  "reindexed s s' old new \<longleftrightarrow>
     (\<forall>k. ms_indices s' k =
        (if k \<in> doc_keys new then Some (SessionID new)
         else if k \<in> doc_keys old then None else ms_indices s k))"

lemma replace_law:
  assumes "store_wf s" and "ready s s1 sid q old" and "p < ms_next s1" and "ms_heap s1 p = d" and "SessionID d = sid"
  shows "changed s (updateIndices d (cache_set now sid p ttl (deleteIndices old s1))) sid d"
    and "reindexed s (updateIndices d (cache_set now sid p ttl (deleteIndices old s1))) old d"
proof -
  let ?s2 = "deleteIndices old s1"
  have t: "touched s s1" "store_wf s1" using assms(2) by (auto simp: ready_def)
  have "changed ?s2 (updateIndices d (cache_set now sid p ttl ?s2)) sid d"
    using assms(3-5) t(2) by (intro install_changed) (simp_all add: wf_cached_frame index_frame)
  then show "changed s (updateIndices d (cache_set now sid p ttl ?s2)) sid d"
  proof (rule changed_idx_mono)
    show "cached ?s2 = cached s" using t(1) by (simp add: wf_cached_frame touchedD)
    show "ms_indices ?s2 k = Some a \<Longrightarrow> ms_indices s k = Some a" for k a
      using touchedD(4) [OF t(1)] by (simp add: deleteIndices_apply split: if_splits)
  qed
  show "reindexed s (updateIndices d (cache_set now sid p ttl ?s2)) old d"
    using touchedD(4) [OF t(1)] assms(5)
    by (simp add: reindexed_def updateIndices_apply deleteIndices_apply cache_set_frame)
qed

lemma ready_alloc: "store_wf s \<Longrightarrow> ready (snd (alloc doc s)) s1 sid q old \<Longrightarrow> p = fst (alloc doc s) \<Longrightarrow>
    p < ms_next s1 \<and> ms_heap s1 p = doc \<and> deref s1 p = doc \<and> cached s sid = Some old"
  using alloc_wf(2) [of s doc] by (auto simp: ready_def touchedD alloc_frame deref_def)

lemma changed_reindexed_alloc:
  assumes "store_wf s"
  shows "changed (snd (alloc doc s)) s' sid d = changed s s' sid d"
    and "reindexed (snd (alloc doc s)) s' old d = reindexed s s' old d"
  using alloc_wf(2) [OF assms, of doc] by (simp_all add: changed_def reindexed_def alloc_frame idx_from_def)

lemma deref_frame:
  "deref (cache_set now sid p ttl s) = deref s" "deref (updateIndices d s) = deref s"
  "deref (deleteIndices d s) = deref s" "deref (delete_index k s) = deref s"
  by (simp_all add: deref_def [abs_def] cache_set_frame index_frame)

lemma Update_law:
  assumes wf: "store_wf s" and op: "MemoryStore_Update now (Some (fst (alloc doc s))) (snd (alloc doc s)) = (r, s')"
  shows "\<not> is_ok r \<and> unchanged s s' \<or>
    (is_ok r \<and> SessionID doc \<noteq> [] \<and>
     (\<exists>old. cached s (SessionID doc) = Some old \<and> changed s s' (SessionID doc) doc \<and> reindexed s s' old doc))"
proof -
  let ?p = "fst (alloc doc s)" and ?s1 = "snd (alloc doc s)"
  have d: "deref ?s1 ?p = doc" by (simp add: deref_def alloc_frame)
  have u: "unchanged s ?s1" using unchanged_alloc [OF unchanged_refl [OF wf]] .
  have wf1: "store_wf ?s1" using alloc_wf(1) [OF wf] .
  show ?thesis
  proof (cases "SessionID doc = [] \<or> \<not> Validate doc")
    case True
    then have "\<exists>e. (r, s') = (Inl e, ?s1)"
      using op unfolding MemoryStore_Update_def by (cases "SessionID doc = []") (auto simp: d)
    then show ?thesis using u by auto
  next
    case False
    show ?thesis
    proof (rule by_session_cases [OF wf1, of now "SessionID doc"])
      fix e s2
      assume "by_session now (SessionID doc) ?s1 = (Inl e, s2)" "unchanged ?s1 s2"
      then show ?thesis using op False unchanged_trans [OF u] unfolding MemoryStore_Update_def by (auto simp: d)
    next
      fix q s2 old
      assume b: "by_session now (SessionID doc) ?s1 = (Inr q, s2)"
        and rd: "ready ?s1 s2 (SessionID doc) q old" and q: "deref s2 q = old"
      note al = ready_alloc [OF wf rd refl]
      have "(r, s') = (Inr (), updateIndices doc (cache_set now (SessionID doc) ?p DefaultTTL (deleteIndices old s2)))"
        using op False b q al unfolding MemoryStore_Update_def
        by (auto simp: d Let_def deref_frame)
      then show ?thesis
        using replace_law [OF wf1 rd] al False
        by (auto simp: changed_reindexed_alloc [OF wf])
    qed
  qed
qed

lemma Rotate_law:
  assumes wf: "store_wf s"
    and op: "MemoryStore_RotateRefreshToken now old (Some (fst (alloc doc s))) (snd (alloc doc s)) = (r, s')"
  shows "\<not> is_ok r \<and> unchanged s s' \<or>
    (is_ok r \<and> old \<noteq> [] \<and> SessionID doc \<noteq> [] \<and>
     ms_indices s (index_key ''refresh_token'' old) = Some (SessionID doc) \<and>
     (\<exists>od. cached s (SessionID doc) = Some od \<and> RefreshToken od = old \<and>
        changed s s' (SessionID doc) doc \<and> reindexed s s' od doc))"
proof -
  let ?p = "fst (alloc doc s)" and ?s1 = "snd (alloc doc s)"
  have d: "deref ?s1 ?p = doc" by (simp add: deref_def alloc_frame)
  have ix: "ms_indices ?s1 = ms_indices s" by (simp add: alloc_frame)
  have u: "unchanged s ?s1" using unchanged_alloc [OF unchanged_refl [OF wf]] .
  have wf1: "store_wf ?s1" using alloc_wf(1) [OF wf] .
  show ?thesis
  proof (cases "old = [] \<or> SessionID doc = [] \<or> ms_indices s (index_key ''refresh_token'' old) \<noteq> Some (SessionID doc)")
    case True
    then have "\<exists>e. (r, s') = (Inl e, ?s1)"
      using op unfolding MemoryStore_RotateRefreshToken_def
      by (cases "old = []"; cases "SessionID doc = []"; cases "ms_indices s (index_key ''refresh_token'' old)")
        (auto simp: d ix)
    then show ?thesis using u by auto
  next
    case False
    show ?thesis
    proof (rule by_session_cases [OF wf1, of now "SessionID doc"])
      fix e s2
      assume "by_session now (SessionID doc) ?s1 = (Inl e, s2)" "unchanged ?s1 s2"
      then show ?thesis using op False unchanged_trans [OF u]
        unfolding MemoryStore_RotateRefreshToken_def by (auto simp: d ix)
    next
      fix q s2 od
      assume b: "by_session now (SessionID doc) ?s1 = (Inr q, s2)"
        and rd: "ready ?s1 s2 (SessionID doc) q od" and q: "deref s2 q = od"
      note al = ready_alloc [OF wf rd refl]
      have "unchanged ?s1 s2" using rd wf1 touched_unchanged by (auto simp: ready_def)
      then have u2: "unchanged s s2" by (rule unchanged_trans [OF u])
      have "(r, s') = (if RefreshToken od \<noteq> old then (Inl ErrNoDocuments, s2) else
          (Inr (), updateIndices doc (cache_set now (SessionID doc) ?p DefaultTTL (deleteIndices od s2))))"
        using op False b q al unfolding MemoryStore_RotateRefreshToken_def
        by (auto simp: d ix Let_def deref_frame)
      then show ?thesis
        using replace_law [OF wf1 rd] al False u2
        by (auto simp: changed_reindexed_alloc [OF wf] split: if_splits)
    qed
  qed
qed

lemma ClaimIssuerState_law:
  assumes wf: "store_wf s" and op: "MemoryStore_ClaimIssuerState now h (Some doc) s = (r, s')"
  shows "\<not> is_ok r \<and> unchanged s s' \<or>
    (is_ok r \<and> h \<noteq> [] \<and> SessionID doc \<noteq> [] \<and>
     ms_indices s (index_key ''issuer_state'' h) = Some (SessionID doc) \<and>
     ms_indices s' (index_key ''issuer_state'' h) = None \<and>
     (\<exists>old. cached s (SessionID doc) = Some old \<and> IssuerState old = h \<and>
        changed s s' (SessionID doc) (doc\<lparr>IssuerState := []\<rparr>) \<and>
        reindexed s s' old (doc\<lparr>IssuerState := []\<rparr>)))"
proof -
  let ?k = "index_key ''issuer_state'' h" and ?d = "doc\<lparr>IssuerState := []\<rparr>"
  show ?thesis
  proof (cases "h = [] \<or> SessionID doc = [] \<or> \<not> Validate ?d \<or> ms_indices s ?k \<noteq> Some (SessionID doc)")
    case True
    then have "\<exists>e. (r, s') = (Inl e, s)"
      using op unfolding MemoryStore_ClaimIssuerState_def Let_def
      by (cases "h = []"; cases "SessionID doc = []"; cases "Validate ?d"; cases "ms_indices s ?k") auto
    then show ?thesis using unchanged_refl [OF wf] by auto
  next
    case False
    have "(case claim_lookup now ''issuer_state'' h IssuerState s of (Inl e, s1) \<Rightarrow> (Inl e, s1)
       | (Inr (sid, p), s1) \<Rightarrow>
          (let s2 = delete_index ?k (deleteIndices (deref s1 p) s1);
               s3 = updateIndices ?d (store_copy now (SessionID doc) ?d DefaultTTL s2);
               (claimed, s4) = alloc ?d s3
           in (Inr claimed, s4))) = (r, s')"
      using op False unfolding MemoryStore_ClaimIssuerState_def Let_def
      by (auto split: prod.splits sum.splits)
    then have "\<not> is_ok r \<and> unchanged s s' \<or>
      (\<exists>sid d. ms_indices s ?k = Some sid \<and> cached s sid = Some d \<and> IssuerState d = h \<and>
        (is_ok r \<and> sid = SessionID doc \<and> changed s s' sid ?d \<and> reindexed s s' d ?d))"
    proof (rule claim_op [OF wf], goal_cases)
      case (1 sid p s1 d)
      have sid: "sid = SessionID doc" using 1(3) False by simp
      have t: "touched s s1" "store_wf s1" using 1 by (auto simp: ready_def)
      let ?s2 = "delete_index ?k (deleteIndices d s1)"
      let ?s3 = "updateIndices ?d (store_copy now (SessionID doc) ?d DefaultTTL ?s2)"
      have wf2: "store_wf ?s2" "cached ?s2 = cached s" using t by (simp_all add: wf_cached_frame touchedD)
      have r: "is_ok r" and s': "s' = snd (alloc ?d ?s3)" using 1 by (auto simp: Let_def split_def)
      have kd: "?k \<in> doc_keys d" using 1(4) False by (simp add: doc_keys_fields)
      have ix2: "ms_indices ?s2 k = (if k \<in> doc_keys d then None else ms_indices s k)" for k
        using touchedD(4) [OF t(1)] kd by (auto simp: delete_index_apply deleteIndices_apply)
      have "changed ?s2 s' sid ?d"
        unfolding s' sid by (rule alloc_changed [OF copy_changed(2) [OF wf2(1)]]) simp
      then have "changed s s' sid ?d"
        using wf2(2) by (rule changed_idx_mono) (simp add: ix2 split: if_splits)
      moreover have "reindexed s s' d ?d"
        unfolding reindexed_def s' by (simp add: alloc_frame updateIndices_apply store_copy_frame ix2)
      ultimately show ?case using r sid by simp
    qed
    moreover have "ms_indices s' ?k = None" if "reindexed s s' old ?d" "IssuerState old = h" for old
      using that False by (auto simp: reindexed_def doc_keys_fields)
    ultimately show ?thesis using False by auto
  qed
qed

end
