(* ===== verification/OAuth2.thy ===== *)
theory OAuth2
  imports Base64 DCQL
begin

text \<open>
  The protocol helpers of \<^verbatim>\<open>src/pkg/oauth2\<close>: PKCE (\<^verbatim>\<open>pkce.go\<close>), the claims of a DPoP proof and the
  comparison of its target URI (\<^verbatim>\<open>dpop.go\<close>), the registered clients (\<^verbatim>\<open>clients.go\<close>).

  Parameters of the definitions: the hash \<open>sha256\<close>, the URL parser \<open>url_parse\<close> (the fields of
  \<^verbatim>\<open>url.URL\<close> and the methods \<^verbatim>\<open>Hostname\<close>, \<^verbatim>\<open>Port\<close> and \<^verbatim>\<open>EscapedPath\<close> are the members of
  the record \<open>URL\<close>), the address canonicaliser of \<^verbatim>\<open>net/netip\<close> and the IDNA mapping. \<open>path_clean\<close> is
  \<^verbatim>\<open>path.Clean\<close> by its documented rules on path segments.
\<close>

section \<open>PKCE\<close>

definition CodeChallengeMethodPlain :: string where
  "CodeChallengeMethodPlain = ''plain''"

definition CodeChallengeMethodS256 :: string where
  "CodeChallengeMethodS256 = ''S256''"

datatype pkce_error = ErrInvalidRequest | ErrInvalidGrant

text \<open>\<^verbatim>\<open>CreateCodeVerifier\<close>, on what \<^verbatim>\<open>rand.Read\<close> returned.\<close>

definition CreateCodeVerifier :: "bytes option \<Rightarrow> string option" where
  "CreateCodeVerifier random = (case random of None \<Rightarrow> None | Some bs \<Rightarrow> Some (EncodeToString bs))"

definition CreateCodeChallenge :: "(bytes \<Rightarrow> bytes) \<Rightarrow> string \<Rightarrow> string \<Rightarrow> string" where
  "CreateCodeChallenge sha256 m codeVerifier =
     (if m = CodeChallengeMethodS256 then EncodeToString (sha256 (string_bytes codeVerifier)) else codeVerifier)"

definition ValidatePKCE :: "(bytes \<Rightarrow> bytes) \<Rightarrow> string \<Rightarrow> string \<Rightarrow> string \<Rightarrow> pkce_error option" where
  "ValidatePKCE sha256 codeVerifier codeChallenge m =
     (if codeChallenge = [] then None
      else if codeVerifier = [] then Some ErrInvalidRequest
      else if CreateCodeChallenge sha256 m codeVerifier \<noteq> codeChallenge then Some ErrInvalidGrant
      else None)"

section \<open>URLs\<close>

record URL =
  u_Scheme :: string
  u_Host :: string
  u_Hostname :: string
  u_Port :: string
  u_Path :: string
  u_EscapedPath :: string
  u_RawQuery :: string
  u_Fragment :: string
  u_rest :: string

text \<open>
  \<open>u_rest\<close> stands for the fields no definition reads on its own (opaque part, user information, raw
  path and the flags); they take part in \<^verbatim>\<open>reflect.DeepEqual\<close>.
\<close>

section \<open>DPoP proofs\<close>

record DPoP =
  d_JTI :: string
  d_HTM :: string
  d_HTU :: string
  d_IAT :: int
  d_ATH :: string
  d_Thumbprint :: string

datatype dpop_error =
    ErrMissingJTI | ErrInvalidJTI | ErrMissingHTM | ErrInvalidHTM | ErrMissingHTU | ErrInvalidHTU
  | ErrMissingIAT | ErrInvalidIAT | ErrTokenFromFuture | ErrTokenTooOld

definition DefaultMaxAge :: duration where
  "DefaultMaxAge = 60 * second"

definition DefaultClockSkew :: duration where
  "DefaultClockSkew = 5 * second"

definition ValidateJTI :: "DPoP \<Rightarrow> dpop_error option" where
  "ValidateJTI d =
     (if d_JTI d = [] then Some ErrMissingJTI
      else if length (d_JTI d) < 12 then Some ErrInvalidJTI else None)"

definition valid_methods :: "string list" where
  "valid_methods = [''GET'', ''POST'', ''PUT'', ''DELETE'', ''PATCH'', ''HEAD'', ''OPTIONS'']"

definition ValidateHTM :: "DPoP \<Rightarrow> dpop_error option" where
  "ValidateHTM d =
     (if d_HTM d = [] then Some ErrMissingHTM
      else if d_HTM d \<notin> set valid_methods then Some ErrInvalidHTM else None)"

definition ValidateHTU :: "(string \<Rightarrow> URL option) \<Rightarrow> DPoP \<Rightarrow> dpop_error option" where
  "ValidateHTU url_parse d =
     (if d_HTU d = [] then Some ErrMissingHTU
      else (case url_parse (d_HTU d) of
              None \<Rightarrow> Some ErrInvalidHTU
            | Some u \<Rightarrow> if u_RawQuery u \<noteq> [] \<or> u_Fragment u \<noteq> [] then Some ErrInvalidHTU else None))"

definition ValidateIATWithWindow :: "time \<Rightarrow> duration \<Rightarrow> duration \<Rightarrow> DPoP \<Rightarrow> dpop_error option" where
  "ValidateIATWithWindow now maxAge clockSkew d =
     (if d_IAT d = 0 then Some ErrMissingIAT
      else if d_IAT d < 0 then Some ErrInvalidIAT
      else
        (let iat = d_IAT d * second in
         if iat > now + clockSkew then Some ErrTokenFromFuture
         else if now - iat > maxAge then Some ErrTokenTooOld
         else None))"

definition ValidateWithWindow ::
  "(string \<Rightarrow> URL option) \<Rightarrow> time \<Rightarrow> duration \<Rightarrow> duration \<Rightarrow> DPoP \<Rightarrow> dpop_error option"
where
  "ValidateWithWindow url_parse now maxAge clockSkew d =
     (case ValidateJTI d of Some e \<Rightarrow> Some e | None \<Rightarrow>
      (case ValidateHTM d of Some e \<Rightarrow> Some e | None \<Rightarrow>
       (case ValidateHTU url_parse d of Some e \<Rightarrow> Some e | None \<Rightarrow>
        ValidateIATWithWindow now maxAge clockSkew d)))"

definition DPoP_Validate :: "(string \<Rightarrow> URL option) \<Rightarrow> time \<Rightarrow> DPoP \<Rightarrow> dpop_error option" where
  "DPoP_Validate url_parse now d = ValidateWithWindow url_parse now DefaultMaxAge DefaultClockSkew d"

text \<open>
  \<^verbatim>\<open>ValidateAndParseDPoPJWT\<close>. \<open>parse_jwt\<close> is \<^verbatim>\<open>jose.ParseJWTWithJWKHeader\<close> followed by the decoding of the
  claims: it returns the header's \<^verbatim>\<open>typ\<close>, the claims, the thumbprint of the header key and whether
  \<^verbatim>\<open>jose.ParseJWK\<close> accepts that key. The thumbprint is assigned after the claims are decoded.
\<close>

definition ValidateAndParseDPoPJWT ::
  "(string \<Rightarrow> (string \<times> DPoP \<times> string \<times> bool) option) \<Rightarrow> (string \<Rightarrow> URL option) \<Rightarrow> time \<Rightarrow> string \<Rightarrow> DPoP option"
where
  "ValidateAndParseDPoPJWT parse_jwt url_parse now token =
     (if token = [] then None
      else (case parse_jwt token of
              None \<Rightarrow> None
            | Some (typ, claims, thumbprint, jwk_ok) \<Rightarrow>
                if typ \<noteq> ''dpop+jwt'' then None
                else (let d = claims\<lparr>d_Thumbprint := thumbprint\<rparr> in
                      if DPoP_Validate url_parse now d \<noteq> None then None
                      else if \<not> jwk_ok then None
                      else Some d)))"

definition IsAccessTokenDPoP :: "(bytes \<Rightarrow> bytes) \<Rightarrow> DPoP \<Rightarrow> string \<Rightarrow> bool" where
  "IsAccessTokenDPoP sha256 d token \<longleftrightarrow>
     d_ATH d \<noteq> [] \<and> d_ATH d = EncodeToString (sha256 (string_bytes token))"

section \<open>Percent-encoding\<close>

definition unhexDigit :: "char \<Rightarrow> nat option" where
  "unhexDigit c =
     (let n = of_char c in
      if 48 \<le> n \<and> n \<le> 57 then Some (n - 48)
      else if 97 \<le> n \<and> n \<le> 102 then Some (n - 97 + 10)
      else if 65 \<le> n \<and> n \<le> 70 then Some (n - 65 + 10)
      else None)"

definition isUnreservedByte :: "nat \<Rightarrow> bool" where
  "isUnreservedByte n \<longleftrightarrow>
     (97 \<le> n \<and> n \<le> 122) \<or> (65 \<le> n \<and> n \<le> 90) \<or> (48 \<le> n \<and> n \<le> 57) \<or>
     n = 45 \<or> n = 46 \<or> n = 95 \<or> n = 126"

text \<open>The loop of \<^verbatim>\<open>normalizePercentEncoding\<close>; a path without \<^verbatim>\<open>%\<close> passes through it unchanged.\<close>

fun normalize_loop :: "string \<Rightarrow> string" where
  "normalize_loop [] = []"
| "normalize_loop (c # h # l # rest) =
     (if c \<noteq> CHR ''%'' then c # normalize_loop (h # l # rest)
      else (case (unhexDigit h, unhexDigit l) of
              (Some x, Some y) \<Rightarrow>
                (if isUnreservedByte (16 * x + y) then char_of (16 * x + y) # normalize_loop rest
                 else CHR ''%'' # ascii_upper h # ascii_upper l # normalize_loop rest)
            | _ \<Rightarrow> c # normalize_loop (h # l # rest)))"
| "normalize_loop (c # rest) = c # normalize_loop rest"

definition normalizePercentEncoding :: "string \<Rightarrow> string" where
  "normalizePercentEncoding path = (if CHR ''%'' \<notin> set path then path else normalize_loop path)"

section \<open>Comparing target URIs\<close>

definition defaultPortFor :: "string \<Rightarrow> string" where
  "defaultPortFor sch =
     (if sch = ''https'' then ''443'' else if sch = ''http'' then ''80'' else [])"

definition trim_left_zeros :: "string \<Rightarrow> string" where
  "trim_left_zeros s = dropWhile (\<lambda>c. c = CHR ''0'') s"

text \<open>
  \<open>addr\<close> is \<^verbatim>\<open>netip.ParseAddr\<close> followed by \<^verbatim>\<open>String\<close>, \<open>to_ascii\<close> the IDNA mapping
  \<^verbatim>\<open>openid4vp.BrowserHost.ToASCII\<close>; \<open>None\<close> is their error.
\<close>

definition normalizeURIForComparison ::
  "(string \<Rightarrow> URL option) \<Rightarrow> (string \<Rightarrow> string option) \<Rightarrow> (string \<Rightarrow> string option) \<Rightarrow> string \<Rightarrow> string option"
where
  "normalizeURIForComparison url_parse addr to_ascii raw =
     (case url_parse raw of
        None \<Rightarrow> None
      | Some u \<Rightarrow>
          if u_Scheme u = [] \<or> u_Host u = [] then None
          else
            (let sch = map ascii_lower (u_Scheme u) in
             case (case addr (u_Hostname u) of Some a \<Rightarrow> Some a | None \<Rightarrow> to_ascii (u_Hostname u)) of
               None \<Rightarrow> None
             | Some h \<Rightarrow>
                 (let host = (if CHR '':'' \<in> set h then ''['' @ h @ '']'' else h);
                      port0 = trim_left_zeros (u_Port u);
                      port = (if u_Port u \<noteq> [] \<and> port0 = [] then ''0'' else port0);
                      host' = (if port \<noteq> [] \<and> port \<noteq> defaultPortFor sch then host @ '':'' @ port else host);
                      path0 = normalizePercentEncoding (u_EscapedPath u);
                      path = (if path0 = [] then ''/'' else path0)
                  in Some (sch @ ''://'' @ host' @ path))))"

definition SameHTU ::
  "(string \<Rightarrow> URL option) \<Rightarrow> (string \<Rightarrow> string option) \<Rightarrow> (string \<Rightarrow> string option) \<Rightarrow> string \<Rightarrow> string \<Rightarrow> bool"
where
  "SameHTU url_parse addr to_ascii htu endpoint =
     (case (normalizeURIForComparison url_parse addr to_ascii htu,
            normalizeURIForComparison url_parse addr to_ascii endpoint) of
        (Some a, Some b) \<Rightarrow> a = b
      | _ \<Rightarrow> htu = endpoint)"

section \<open>Registered clients\<close>

text \<open>
  \<^verbatim>\<open>path.Clean\<close>: empty and \<^verbatim>\<open>.\<close> segments go, \<^verbatim>\<open>..\<close> removes the segment before it; at the start of a
  rooted path it has nothing to remove and goes too, at the start of a relative one it stays.
\<close>

fun clean_segments :: "bool \<Rightarrow> string list \<Rightarrow> string list \<Rightarrow> string list" where
  "clean_segments rooted acc [] = rev acc"
| "clean_segments rooted acc (seg # segs) =
     (if seg = [] \<or> seg = ''.'' then clean_segments rooted acc segs
      else if seg = ''..'' then
        (case acc of
           [] \<Rightarrow> clean_segments rooted (if rooted then [] else [seg]) segs
         | x # xs \<Rightarrow> if x = ''..'' then clean_segments rooted (seg # acc) segs else clean_segments rooted xs segs)
      else clean_segments rooted (seg # acc) segs)"

definition path_clean :: "string \<Rightarrow> string" where
  "path_clean p =
     (let rooted = HasPrefix p ''/'';
          segs = clean_segments rooted [] (split_on (CHR ''/'') p)
      in if rooted then CHR ''/'' # str_join ''/'' segs
         else if segs = [] then ''.'' else str_join ''/'' segs)"

record Client =
  cl_Type :: string
  cl_RedirectURIs :: "string list"
  cl_Scopes :: "string list"
  cl_JWKSURI :: string

datatype client_error =
    ErrClientNotFound
  | ErrNoRedirectURIConfigured
  | ErrRedirectURIMismatch
  | ErrScopeNotAllowed
  | ErrRedirectURIInvalid
  | ErrRedirectURINoScheme
  | ErrRedirectURIScheme

definition wildcard_matches :: "(string \<Rightarrow> URL option) \<Rightarrow> URL \<Rightarrow> string \<Rightarrow> bool" where
  "wildcard_matches url_parse parsed allowed =
     (case url_parse (TrimSuffix allowed ''*'') of
        None \<Rightarrow> False
      | Some pu \<Rightarrow>
          (let cleanedPath = path_clean (u_Path parsed); cleanedPrefix = path_clean (u_Path pu)
           in u_Scheme parsed = u_Scheme pu \<and> u_Host parsed = u_Host pu \<and>
              (cleanedPath = cleanedPrefix \<or> HasPrefix cleanedPath (cleanedPrefix @ ''/'') \<or> cleanedPrefix = ''/'')))"

definition redirect_allowed :: "(string \<Rightarrow> URL option) \<Rightarrow> URL \<Rightarrow> string \<Rightarrow> bool" where
  "redirect_allowed url_parse parsed allowed =
     (if HasSuffix allowed ''/*'' then wildcard_matches url_parse parsed allowed
      else url_parse allowed = Some parsed)"

definition RedirectURIs_Contains :: "(string \<Rightarrow> URL option) \<Rightarrow> string list \<Rightarrow> string \<Rightarrow> bool" where
  "RedirectURIs_Contains url_parse r uri =
     (case url_parse uri of
        None \<Rightarrow> False
      | Some parsed \<Rightarrow>
          if u_Fragment parsed \<noteq> [] then False else list_ex (redirect_allowed url_parse parsed) r)"

definition FirstConcreteURI :: "string list \<Rightarrow> string" where
  "FirstConcreteURI r =
     (case List.find (\<lambda>uri. \<not> HasSuffix uri ''/*'') r of
        Some uri \<Rightarrow> uri
      | None \<Rightarrow> (case r of [] \<Rightarrow> [] | u # us \<Rightarrow> if HasSuffix u ''/*'' then TrimSuffix u ''*'' else []))"

text \<open>A map from client ids to pointers; an entry may be nil.\<close>

type_synonym Clients = "string \<rightharpoonup> Client option"

definition Clients_Get :: "Clients \<Rightarrow> string \<Rightarrow> client_error + Client" where
  "Clients_Get c clientID =
     (case c clientID of Some (Some client) \<Rightarrow> Inr client | _ \<Rightarrow> Inl ErrClientNotFound)"

definition dangerousRedirectURISchemes :: "string list" where
  "dangerousRedirectURISchemes = [''javascript'', ''data'', ''vbscript'', ''file'', ''about'']"

definition ValidateRedirectURIScheme :: "(string \<Rightarrow> URL option) \<Rightarrow> string \<Rightarrow> client_error option" where
  "ValidateRedirectURIScheme url_parse uri =
     (case url_parse uri of
        None \<Rightarrow> Some ErrRedirectURIInvalid
      | Some parsed \<Rightarrow>
          if u_Scheme parsed = [] then Some ErrRedirectURINoScheme
          else if map ascii_lower (u_Scheme parsed) \<in> set dangerousRedirectURISchemes then Some ErrRedirectURIScheme
          else None)"

definition Clients_allow ::
  "(string \<Rightarrow> URL option) \<Rightarrow> Clients \<Rightarrow> string \<Rightarrow> string \<Rightarrow> string \<Rightarrow> bool \<Rightarrow> client_error + Client"
where
  "Clients_allow url_parse c clientID redirectURI sc requireRedirect =
     (case c clientID of
        Some (Some client) \<Rightarrow>
          if requireRedirect \<and> cl_RedirectURIs client = [] then Inl ErrNoRedirectURIConfigured
          else if requireRedirect \<and> \<not> RedirectURIs_Contains url_parse (cl_RedirectURIs client) redirectURI
          then Inl ErrRedirectURIMismatch
          else if sc \<notin> set (cl_Scopes client) then Inl ErrScopeNotAllowed
          else Inr client
      | _ \<Rightarrow> Inl ErrClientNotFound)"

definition Clients_Allow ::
  "(string \<Rightarrow> URL option) \<Rightarrow> Clients \<Rightarrow> string \<Rightarrow> string \<Rightarrow> string \<Rightarrow> client_error + Client"
where
  "Clients_Allow url_parse c clientID redirectURI sc = Clients_allow url_parse c clientID redirectURI sc True"

definition Clients_AllowWithoutRedirect ::
  "(string \<Rightarrow> URL option) \<Rightarrow> Clients \<Rightarrow> string \<Rightarrow> string \<Rightarrow> string \<Rightarrow> client_error + Client"
where
  "Clients_AllowWithoutRedirect url_parse c clientID redirectURI sc =
     Clients_allow url_parse c clientID redirectURI sc (redirectURI \<noteq> [])"

section \<open>Percent-encoding: what a path means\<close>

text \<open>
  A path as a sequence of characters and of octets that have to stay escaped. An escape of an
  unreserved character is that character (RFC 3986, 6.2.2.2), a reserved one is not (2.2).
\<close>

datatype pct = Lit char | Esc nat

fun pct_tokens :: "string \<Rightarrow> pct list" where
  "pct_tokens [] = []"
| "pct_tokens (c # h # l # rest) =
     (if c \<noteq> CHR ''%'' then Lit c # pct_tokens (h # l # rest)
      else (case (unhexDigit h, unhexDigit l) of
              (Some x, Some y) \<Rightarrow>
                (if isUnreservedByte (16 * x + y) then Lit (char_of (16 * x + y)) else Esc (16 * x + y)) #
                pct_tokens rest
            | _ \<Rightarrow> Lit c # pct_tokens (h # l # rest)))"
| "pct_tokens (c # rest) = Lit c # pct_tokens rest"

text \<open>Every \<^verbatim>\<open>%\<close> starts an escape, as in every path that \<^verbatim>\<open>url.Parse\<close> accepts.\<close>

fun well_escaped :: "string \<Rightarrow> bool" where
  "well_escaped [] = True"
| "well_escaped (c # h # l # rest) =
     (if c \<noteq> CHR ''%'' then well_escaped (h # l # rest)
      else unhexDigit h \<noteq> None \<and> unhexDigit l \<noteq> None \<and> well_escaped rest)"
| "well_escaped (c # rest) = (c \<noteq> CHR ''%'' \<and> well_escaped rest)"

definition hexU :: "nat \<Rightarrow> char" where
  "hexU x = char_of (if x < 10 then 48 + x else 55 + x)"

fun show_pct :: "pct \<Rightarrow> string" where
  "show_pct (Lit c) = [c]"
| "show_pct (Esc n) = [CHR ''%'', hexU (n div 16), hexU (n mod 16)]"

fun proper :: "pct \<Rightarrow> bool" where
  "proper (Lit c) \<longleftrightarrow> c \<noteq> CHR ''%''"
| "proper (Esc n) \<longleftrightarrow> n < 256 \<and> \<not> isUnreservedByte n"

lemma unhexDigit_upper:
  assumes "unhexDigit c = Some x"
  shows "x < 16" and "ascii_upper c = hexU x"
proof -
  let ?n = "of_char c :: nat"
  have c: "char_of ?n = c" by simp
  consider "48 \<le> ?n" "?n \<le> 57" "x = ?n - 48" | "97 \<le> ?n" "?n \<le> 102" "x = ?n - 97 + 10"
    | "65 \<le> ?n" "?n \<le> 70" "x = ?n - 65 + 10"
    using assms by (auto simp: unhexDigit_def Let_def split: if_splits)
  then have "x < 16 \<and> ascii_upper c = hexU x"
  proof cases
    case 1
    then have "ascii_upper c = c" by (simp add: ascii_upper_def Let_def)
    moreover have "48 + x = ?n" "x < 10" using 1 by linarith+
    ultimately show ?thesis using c by (simp add: hexU_def)
  next
    case 2
    then have "ascii_upper c = char_of (?n - 32)" by (simp add: ascii_upper_def Let_def)
    moreover have "55 + x = ?n - 32" "\<not> x < 10" "x < 16" using 2 by linarith+
    ultimately show ?thesis by (simp add: hexU_def)
  next
    case 3
    then have "ascii_upper c = c" by (simp add: ascii_upper_def Let_def)
    moreover have "55 + x = ?n" "\<not> x < 10" "x < 16" using 3 by linarith+
    ultimately show ?thesis using c by (simp add: hexU_def)
  qed
  then show "x < 16" "ascii_upper c = hexU x" by simp_all
qed

lemma unhexDigit_hexU: "x < 16 \<Longrightarrow> unhexDigit (hexU x) = Some x"
  by (auto simp: unhexDigit_def hexU_def Let_def)

lemma normalize_loop_tokens: "normalize_loop p = concat (map show_pct (pct_tokens p))"
proof (induction p rule: normalize_loop.induct)
  case (2 c h l rest)
  show ?case
  proof (cases "c = CHR ''%''")
    case False
    with 2 show ?thesis by simp
  next
    case True
    show ?thesis
    proof (cases "\<exists>x y. unhexDigit h = Some x \<and> unhexDigit l = Some y")
      case True': True
      then obtain x y where xy: "unhexDigit h = Some x" "unhexDigit l = Some y" by blast
      have "(16 * x + y) div 16 = x" "(16 * x + y) mod 16 = y"
        using unhexDigit_upper(1) [OF xy(2)] by simp_all
      with 2 True xy unhexDigit_upper(2) [OF xy(1)] unhexDigit_upper(2) [OF xy(2)]
      show ?thesis by simp
    next
      case False
      with 2 True show ?thesis by (auto split: option.splits)
    qed
  qed
qed simp_all

lemma normalize_loop_plain: "CHR ''%'' \<notin> set p \<Longrightarrow> normalize_loop p = p"
  by (induction p rule: normalize_loop.induct) auto

lemma normalizePercentEncoding_tokens:
  "normalizePercentEncoding p = concat (map show_pct (pct_tokens p))"
  by (simp add: normalizePercentEncoding_def normalize_loop_plain flip: normalize_loop_tokens)

lemma unreserved_not_percent: "isUnreservedByte n \<Longrightarrow> n < 256 \<Longrightarrow> char_of n \<noteq> CHR ''%''"
proof
  assume "isUnreservedByte n" "n < 256" "char_of n = CHR ''%''"
  then have "n = of_char (CHR ''%'')" by (metis mod_less of_char_of)
  then show False using \<open>isUnreservedByte n\<close> by (simp add: isUnreservedByte_def)
qed

lemma tokens_proper: "well_escaped p \<Longrightarrow> list_all proper (pct_tokens p)"
proof (induction p rule: well_escaped.induct)
  case (2 c h l rest)
  show ?case
  proof (cases "c = CHR ''%''")
    case False
    with 2 show ?thesis by simp
  next
    case True
    with 2(3) obtain x y where xy: "unhexDigit h = Some x" "unhexDigit l = Some y" by auto
    then have "16 * x + y < 256" using unhexDigit_upper(1) [of h x] unhexDigit_upper(1) [of l y] by simp
    with 2 True xy show ?thesis using unreserved_not_percent [of "16 * x + y"] by auto
  qed
qed simp_all

lemma pct_tokens_Lit: "c \<noteq> CHR ''%'' \<Longrightarrow> pct_tokens (c # s) = Lit c # pct_tokens s"
  by (cases s; cases "tl s") auto

lemma tokens_show: "list_all proper ts \<Longrightarrow> pct_tokens (concat (map show_pct ts)) = ts"
proof (induction ts)
  case Nil
  then show ?case by simp
next
  case (Cons t ts)
  show ?case
  proof (cases t)
    case (Lit c)
    with Cons show ?thesis by (simp add: pct_tokens_Lit)
  next
    case (Esc n)
    then have n: "n < 256" "\<not> isUnreservedByte n" using Cons.prems by simp_all
    then have "unhexDigit (hexU (n div 16)) = Some (n div 16)" "unhexDigit (hexU (n mod 16)) = Some (n mod 16)"
      by (simp_all add: unhexDigit_hexU)
    then show ?thesis using Esc n Cons by simp
  qed
qed

section \<open>Path segments\<close>

definition path_segments :: "string \<Rightarrow> string list" where
  "path_segments p = clean_segments (HasPrefix p ''/'') [] (split_on (CHR ''/'') p)"

definition plain_segment :: "string \<Rightarrow> bool" where
  "plain_segment seg \<longleftrightarrow> seg \<noteq> [] \<and> CHR ''/'' \<notin> set seg"

lemma split_on_no_sep: "seg \<in> set (split_on c s) \<Longrightarrow> c \<notin> set seg"
proof (induction s arbitrary: seg)
  case Nil
  then show ?case by simp
next
  case (Cons x xs)
  then show ?case by (cases "split_on c xs") (auto split: if_splits)
qed

lemma split_on_sep: "split_on c (s @ c # t) = split_on c s @ split_on c t"
proof (induction s)
  case Nil
  then show ?case by simp
next
  case (Cons x xs)
  then show ?case by (cases "split_on c xs") auto
qed

lemma split_on_id: "c \<notin> set s \<Longrightarrow> split_on c s = [s]"
  by (induction s) auto

lemma split_on_join:
  "ss \<noteq> [] \<Longrightarrow> (\<And>s. s \<in> set ss \<Longrightarrow> c \<notin> set s) \<Longrightarrow> split_on c (str_join [c] ss) = ss"
proof (induction ss)
  case Nil
  then show ?case by simp
next
  case (Cons s ss)
  then show ?case using split_on_sep [of c s] split_on_id [of c s] by (cases ss) auto
qed

lemma clean_segments_subset:
  "set (clean_segments rooted acc segs) \<subseteq> set acc \<union> {seg \<in> set segs. seg \<noteq> []}"
  by (induction rooted acc segs rule: clean_segments.induct) (auto split: list.splits if_splits)

lemma clean_segments_no_dotdot:
  "rooted \<Longrightarrow> ''..'' \<notin> set acc \<Longrightarrow> ''..'' \<notin> set (clean_segments rooted acc segs)"
  by (induction rooted acc segs rule: clean_segments.induct) (auto split: list.splits if_splits)

lemma path_segments_plain: "seg \<in> set (path_segments p) \<Longrightarrow> seg \<noteq> [] \<and> CHR ''/'' \<notin> set seg"
  using clean_segments_subset [of "HasPrefix p ''/''" "[]" "split_on (CHR ''/'') p"]
    split_on_no_sep [of seg "CHR ''/''" p]
  by (auto simp: path_segments_def)

lemma path_clean_segments:
  "path_clean p = (if HasPrefix p ''/'' then CHR ''/'' # str_join ''/'' (path_segments p)
     else if path_segments p = [] then ''.'' else str_join ''/'' (path_segments p))"
  by (simp add: path_clean_def path_segments_def Let_def)

lemma str_join_head: "s \<noteq> [] \<Longrightarrow> str_join sep (s # ss) \<noteq> [] \<and> hd (str_join sep (s # ss)) = hd s"
  by (cases ss) auto

lemma relative_clean_no_slash:
  assumes "\<not> HasPrefix p ''/''"
  shows "path_clean p \<noteq> [] \<and> hd (path_clean p) \<noteq> CHR ''/''"
proof (cases "path_segments p")
  case Nil
  then show ?thesis using assms by (simp add: path_clean_segments)
next
  case (Cons s ss)
  have "s \<noteq> []" "CHR ''/'' \<notin> set s" using path_segments_plain [of s p] Cons by auto
  then have "hd s \<noteq> CHR ''/''" by (metis list.set_sel(1))
  then show ?thesis using str_join_head [OF \<open>s \<noteq> []\<close>, of "''/''" ss] assms Cons by (simp add: path_clean_segments)
qed

text \<open>Comparing the cleaned paths as strings compares their segments.\<close>

lemma join_prefix_segments:
  assumes "P \<noteq> []" and "\<And>x. x \<in> set P \<Longrightarrow> x \<noteq> [] \<and> c \<notin> set x" and "\<And>x. x \<in> set S \<Longrightarrow> c \<notin> set x"
    and "str_join [c] S = str_join [c] P \<or> str_join [c] S = str_join [c] P @ c # t"
  shows "\<exists>rest. S = P @ rest"
proof -
  have sp: "split_on c (str_join [c] P) = P" using assms(1,2) by (intro split_on_join) auto
  obtain a as where P: "P = a # as" using assms(1) by (cases P) auto
  then have "str_join [c] P \<noteq> []" using assms(2) [of a] str_join_head [of a "[c]" as] by simp
  then have "S \<noteq> []" using assms(4) by (cases S) auto
  then have ss: "split_on c (str_join [c] S) = S" using assms(3) by (intro split_on_join) auto
  from assms(4) show ?thesis
  proof
    assume "str_join [c] S = str_join [c] P"
    then have "S = P" using sp ss by metis
    then show ?thesis by simp
  next
    assume "str_join [c] S = str_join [c] P @ c # t"
    then have "S = P @ split_on c t" using sp ss split_on_sep [of c "str_join [c] P" t] by metis
    then show ?thesis by blast
  qed
qed

lemma prefix_match_segments:
  assumes "HasPrefix pre ''/''"
    and "path_clean p = path_clean pre \<or> HasPrefix (path_clean p) (path_clean pre @ ''/'') \<or> path_clean pre = ''/''"
  shows "\<exists>rest. path_segments p = path_segments pre @ rest"
proof (cases "path_segments pre = []")
  case True
  then show ?thesis by simp
next
  case False
  let ?P = "path_segments pre" and ?S = "path_segments p"
  have pre: "path_clean pre = CHR ''/'' # str_join ''/'' ?P" using assms(1) by (simp add: path_clean_segments)
  obtain a as where P: "?P = a # as" using False by (cases ?P) auto
  then have ne: "str_join ''/'' ?P \<noteq> []"
    using path_segments_plain [of a pre] str_join_head [of a "''/''" as] by simp
  obtain t where t: "path_clean p = CHR ''/'' # str_join ''/'' ?P \<or>
      path_clean p = CHR ''/'' # str_join ''/'' ?P @ CHR ''/'' # t"
    using assms(2) ne unfolding pre HasPrefix_iff by auto
  then have "hd (path_clean p) = CHR ''/''" by (elim disjE) simp_all
  then have "HasPrefix p ''/''" using relative_clean_no_slash [of p] by blast
  then have "path_clean p = CHR ''/'' # str_join ''/'' ?S" by (simp only: path_clean_segments if_True)
  then have "str_join ''/'' ?S = str_join ''/'' ?P \<or> str_join ''/'' ?S = str_join ''/'' ?P @ CHR ''/'' # t"
    using t by (simp only: list.inject simp_thms)
  then show ?thesis
    using False path_segments_plain by (intro join_prefix_segments [where c = "CHR ''/''"]) auto
qed

section \<open>Properties\<close>

text \<open>
  C38: the path comparison of DPoP proofs merges exactly the spellings RFC 3986 calls the same. Two
  well-formed paths are normalised to the same string precisely when they denote the same sequence
  of characters and reserved octets: \<^verbatim>\<open>/%74oken\<close> is \<^verbatim>\<open>/token\<close>, \<^verbatim>\<open>/a%2fb\<close> is \<^verbatim>\<open>/a%2Fb\<close> and not \<^verbatim>\<open>/a/b\<close>.
\<close>

theorem percent_normalization_exact:
  assumes "well_escaped p" and "well_escaped q"
  shows "normalizePercentEncoding p = normalizePercentEncoding q \<longleftrightarrow> pct_tokens p = pct_tokens q"
  using tokens_show [OF tokens_proper [OF assms(1)]] tokens_show [OF tokens_proper [OF assms(2)]]
  by (metis normalizePercentEncoding_tokens)

theorem percent_normalization_exact_witness:
  "normalizePercentEncoding ''/%74oken'' = normalizePercentEncoding ''/token'' \<and>
   normalizePercentEncoding ''/a%2fb'' \<noteq> normalizePercentEncoding ''/a/b''"
proof
  have "pct_tokens ''/%74oken'' = pct_tokens ''/token''" by code_simp
  then show "normalizePercentEncoding ''/%74oken'' = normalizePercentEncoding ''/token''"
    using percent_normalization_exact [of "''/%74oken''" "''/token''"] by (simp add: unhexDigit_def)
  have "pct_tokens ''/a%2fb'' \<noteq> pct_tokens ''/a/b''" by code_simp
  then show "normalizePercentEncoding ''/a%2fb'' \<noteq> normalizePercentEncoding ''/a/b''"
    using percent_normalization_exact [of "''/a%2fb''" "''/a/b''"] by (simp add: unhexDigit_def)
qed

text \<open>
  C39: a wildcard redirect URI cannot be escaped from. A URI accepted because of an entry \<^verbatim>\<open>prefix/*\<close> has
  the scheme and the host of the prefix, and its path, after dot segments are resolved, continues
  the segments of the prefix; no \<^verbatim>\<open>..\<close> segment is left in a rooted path.
\<close>

theorem wildcard_redirect_stays_below_prefix:
  assumes "RedirectURIs_Contains url_parse [allowed] uri" and "HasSuffix allowed ''/*''"
    and "url_parse uri = Some parsed" and "url_parse (TrimSuffix allowed ''*'') = Some pre"
    and "HasPrefix (u_Path pre) ''/''"
  shows "u_Scheme parsed = u_Scheme pre \<and> u_Host parsed = u_Host pre \<and>
    (\<exists>rest. path_segments (u_Path parsed) = path_segments (u_Path pre) @ rest) \<and>
    (HasPrefix (u_Path parsed) ''/'' \<longrightarrow> ''..'' \<notin> set (path_segments (u_Path parsed)))"
proof -
  have "wildcard_matches url_parse parsed allowed"
    using assms(1-3) by (auto simp: RedirectURIs_Contains_def redirect_allowed_def split: if_splits)
  then show ?thesis
    using assms(4,5) prefix_match_segments [of "u_Path pre" "u_Path parsed"]
      clean_segments_no_dotdot [of True "[]" "split_on (CHR ''/'') (u_Path parsed)"]
    by (auto simp: wildcard_matches_def Let_def path_segments_def)
qed

text \<open>A URL of one host by its path, for the witnesses.\<close>

definition sample_url :: "string \<Rightarrow> URL" where
  "sample_url p = \<lparr>u_Scheme = ''https'', u_Host = ''w.example'', u_Hostname = ''w.example'', u_Port = [],
     u_Path = p, u_EscapedPath = p, u_RawQuery = [], u_Fragment = [], u_rest = []\<rparr>"

definition sample_parse :: "string \<Rightarrow> URL option" where
  "sample_parse s =
     (if HasPrefix s ''https://w.example'' then Some (sample_url (drop 17 s)) else None)"

theorem wildcard_redirect_stays_below_prefix_witness:
  "RedirectURIs_Contains sample_parse [''https://w.example/cb/*''] ''https://w.example/cb/x/../y'' \<and>
   \<not> RedirectURIs_Contains sample_parse [''https://w.example/cb/*''] ''https://w.example/cb/../evil'' \<and>
   (\<exists>rest. path_segments ''/cb/x/../y'' = path_segments ''/cb/'' @ rest)"
proof (intro conjI)
  show c: "RedirectURIs_Contains sample_parse [''https://w.example/cb/*''] ''https://w.example/cb/x/../y''"
    by code_simp
  show "\<not> RedirectURIs_Contains sample_parse [''https://w.example/cb/*''] ''https://w.example/cb/../evil''"
    by code_simp
  have "u_Scheme (sample_url ''/cb/x/../y'') = u_Scheme (sample_url ''/cb/'') \<and>
    u_Host (sample_url ''/cb/x/../y'') = u_Host (sample_url ''/cb/'') \<and>
    (\<exists>rest. path_segments (u_Path (sample_url ''/cb/x/../y'')) = path_segments (u_Path (sample_url ''/cb/'')) @ rest) \<and>
    (HasPrefix (u_Path (sample_url ''/cb/x/../y'')) ''/'' \<longrightarrow>
      ''..'' \<notin> set (path_segments (u_Path (sample_url ''/cb/x/../y''))))"
    by (rule wildcard_redirect_stays_below_prefix [OF c]) code_simp+
  then show "\<exists>rest. path_segments ''/cb/x/../y'' = path_segments ''/cb/'' @ rest"
    by (simp add: sample_url_def)
qed

text \<open>
  With S256 the verifier the client made the challenge from passes, and any other passes only if it
  has the same hash; a missing verifier never passes against a challenge.
\<close>

theorem pkce_s256_binds_verifier:
  assumes "sha256 (string_bytes v0) \<noteq> []"
  shows "ValidatePKCE sha256 v (CreateCodeChallenge sha256 CodeChallengeMethodS256 v0) CodeChallengeMethodS256 = None
    \<longleftrightarrow> v \<noteq> [] \<and> sha256 (string_bytes v) = sha256 (string_bytes v0)"
proof -
  have "EncodeToString (sha256 (string_bytes v0)) \<noteq> []"
    using assms EncodeToString_inject [of "sha256 (string_bytes v0)" "[]"] by simp
  then show ?thesis by (simp add: ValidatePKCE_def CreateCodeChallenge_def EncodeToString_inject)
qed

theorem pkce_s256_binds_verifier_witness:
  "ValidatePKCE (\<lambda>bs. 7 # bs) ''v1'' (CreateCodeChallenge (\<lambda>bs. 7 # bs) CodeChallengeMethodS256 ''v0'')
     CodeChallengeMethodS256 \<noteq> None \<and>
   ValidatePKCE (\<lambda>bs. 7 # bs) ''v0'' (CreateCodeChallenge (\<lambda>bs. 7 # bs) CodeChallengeMethodS256 ''v0'')
     CodeChallengeMethodS256 = None"
proof
  have "string_bytes ''v1'' \<noteq> string_bytes ''v0''" by (simp add: string_bytes_def char_byte_def)
  then show "ValidatePKCE (\<lambda>bs. 7 # bs) ''v1'' (CreateCodeChallenge (\<lambda>bs. 7 # bs) CodeChallengeMethodS256 ''v0'')
     CodeChallengeMethodS256 \<noteq> None"
    using pkce_s256_binds_verifier [of "\<lambda>bs. 7 # bs" "''v0''" "''v1''"] by simp
  show "ValidatePKCE (\<lambda>bs. 7 # bs) ''v0'' (CreateCodeChallenge (\<lambda>bs. 7 # bs) CodeChallengeMethodS256 ''v0'')
     CodeChallengeMethodS256 = None"
    using pkce_s256_binds_verifier [of "\<lambda>bs. 7 # bs" "''v0''" "''v0''"] by simp
qed

text \<open>
  An accepted proof was issued within the window. If the claims of a proof validate at a time, the
  proof's \<^verbatim>\<open>iat\<close> lies at most the maximal age before it and at most the clock skew after it, its
  identifier has at least twelve bytes and its method is one of the seven listed.
\<close>

theorem dpop_validate_window:
  assumes "ValidateWithWindow url_parse now maxAge skew d = None"
  shows "0 < d_IAT d \<and> now - maxAge \<le> d_IAT d * second \<and> d_IAT d * second \<le> now + skew \<and>
    12 \<le> length (d_JTI d) \<and> d_HTM d \<in> set valid_methods"
  using assms
  by (auto simp: ValidateWithWindow_def ValidateIATWithWindow_def ValidateJTI_def ValidateHTM_def Let_def
      split: option.splits if_splits)

definition sample_proof :: DPoP where
  "sample_proof = \<lparr>d_JTI = ''0123456789abcdef'', d_HTM = ''POST'', d_HTU = ''https://w.example/token'',
     d_IAT = 1000, d_ATH = [], d_Thumbprint = ''jkt''\<rparr>"

theorem dpop_validate_window_witness:
  "ValidateWithWindow sample_parse (1030 * second) DefaultMaxAge DefaultClockSkew sample_proof = None \<and>
   0 < d_IAT sample_proof"
proof
  show v: "ValidateWithWindow sample_parse (1030 * second) DefaultMaxAge DefaultClockSkew sample_proof = None"
    by code_simp
  show "0 < d_IAT sample_proof" using dpop_validate_window [OF v] by simp
qed

end
