(* ===== verification/ApigwTypes.thy ===== *)
theory ApigwTypes
  imports AuthContextStore OAuth2
begin

text \<open>
  The data of the issuer's OAuth endpoints: the request and response structs of
  \<^verbatim>\<open>src/pkg/openid4vci/token.go\<close> and \<^verbatim>\<open>authoriziation.go\<close>, the part of the configuration
  \<^verbatim>\<open>src/pkg/model\<close> the endpoints read, the caches of \<^verbatim>\<open>src/internal/apigw/cache/service.go\<close>, and the
  errors of \<^verbatim>\<open>src/pkg/oauth2/errors.go\<close>.

  Code outside the repository is collected in \<open>Externals\<close>: URL and host parsing, SHA-256, the
  decoding and signature check of JWTs, key sets, the wallet attestation evaluator with its remote
  decision point, and the policy engine. Nothing is assumed of it. Random values are arguments too:
  a \<open>string option\<close> per call of \<^verbatim>\<open>GenerateSecureToken\<close>, where \<open>None\<close> is its error, and a string per
  \<^verbatim>\<open>uuid.NewString\<close>.
\<close>

section \<open>Errors\<close>

text \<open>
  \<^verbatim>\<open>OAuthError\<close> with its code and HTTP status; the description is free text and the cause is only logged.
  A handler may also return an error of the store or a plain one, or panic on an empty slice.
\<close>

datatype api_error =
    OAuthError string int
  | StoreError store_error
  | PlainError string
  | Panic

definition ErrCodeInvalidRequest :: string where "ErrCodeInvalidRequest = ''invalid_request''"
definition ErrCodeInvalidClient :: string where "ErrCodeInvalidClient = ''invalid_client''"
definition ErrCodeInvalidGrant :: string where "ErrCodeInvalidGrant = ''invalid_grant''"
definition ErrCodeUnsupportedGrantType :: string where "ErrCodeUnsupportedGrantType = ''unsupported_grant_type''"
definition ErrCodeInvalidScope :: string where "ErrCodeInvalidScope = ''invalid_scope''"
definition ErrCodeServerError :: string where "ErrCodeServerError = ''server_error''"
definition ErrCodeInvalidDPoPProof :: string where "ErrCodeInvalidDPoPProof = ''invalid_dpop_proof''"
definition ErrCodeInvalidTXCode :: string where "ErrCodeInvalidTXCode = ''invalid_tx_code''"

definition OAuthErrDPoPRequired :: api_error where
  "OAuthErrDPoPRequired = OAuthError ErrCodeInvalidDPoPProof 400"

definition OAuthErrPKCERequired :: api_error where
  "OAuthErrPKCERequired = OAuthError ErrCodeInvalidRequest 400"

definition OAuthErrExpiredRequest :: api_error where
  "OAuthErrExpiredRequest = OAuthError ErrCodeInvalidGrant 400"

definition OAuthErrJTIReplay :: api_error where
  "OAuthErrJTIReplay = OAuthError ErrCodeInvalidDPoPProof 400"

section \<open>Requests and responses\<close>

record TokenRequest =
  tr_DPOP :: string
  tr_GrantType :: string
  tr_Code :: string
  tr_RedirectURI :: string
  tr_ClientID :: string
  tr_CodeVerifier :: string
  tr_ClientAssertionType :: string
  tr_ClientAssertion :: string
  tr_ClientAttestation :: string
  tr_ClientAttestationPoP :: string
  tr_PreAuthorizedCode :: string
  tr_TXCode :: string
  tr_RefreshToken :: string

record TokenResponse =
  tp_AccessToken :: string
  tp_TokenType :: string
  tp_ExpiresIn :: int
  tp_Scope :: string
  tp_State :: string
  tp_CNonce :: string
  tp_CNonceExpiresIn :: int
  tp_AuthorizationDetails :: "AuthorizationDetailsParameter list"
  tp_RefreshToken :: string
  tp_RefreshTokenExpiresIn :: int

text \<open>The fields of \<^verbatim>\<open>PARRequest\<close> that reach the handler; the others are only bound and validated.\<close>

record PARRequest =
  pr_ClientID :: string
  pr_RedirectURI :: string
  pr_Scope :: string
  pr_State :: string
  pr_AuthorizationDetails :: "AuthorizationDetailsParameter list"
  pr_CodeChallenge :: string
  pr_CodeChallengeMethod :: string
  pr_DynamicParams :: "(string \<times> string) list"
  pr_ClientAttestation :: string
  pr_ClientAttestationPoP :: string
  pr_ClientAssertion :: string

record ParResponse =
  pp_RequestURI :: string
  pp_ExpiresIn :: int

record AuthorizationResponse =
  ar_RedirectURL :: string
  ar_Scope :: string
  ar_SessionID :: string
  ar_ClientID :: string
  ar_WalletClientID :: string

section \<open>Configuration\<close>

definition AuthProviderPreAuth :: string where
  "AuthProviderPreAuth = ''preauth''"

record CredentialSource =
  cs_DataSource :: string
  cs_AuthProvider :: string
  cs_RemoteName :: string
  cs_AuthenticSource :: string

text \<open>
  \<^verbatim>\<open>DataSources\<close>: the scopes configured under each kind of source, with the fields
  \<^verbatim>\<open>LookupCredentialSources\<close> reads (the provider; the authentic source or the remote name).
\<close>

record DataSources =
  ds_Datastore :: "string \<rightharpoonup> string \<times> string"
  ds_Assertion :: "string \<rightharpoonup> string"
  ds_ExternalAPI :: "string \<rightharpoonup> string \<times> string"
  ds_Presentation :: "string \<rightharpoonup> string"

definition LookupCredentialSources :: "DataSources option \<Rightarrow> string \<Rightarrow> CredentialSource list option" where
  "LookupCredentialSources ds credentialType =
     (case ds of
        None \<Rightarrow> None
      | Some d \<Rightarrow>
          (let sources =
             (case ds_Datastore d credentialType of
                Some (prov, src) \<Rightarrow>
                  [\<lparr>cs_DataSource = ''datastore'', cs_AuthProvider = prov, cs_RemoteName = [], cs_AuthenticSource = src\<rparr>]
              | None \<Rightarrow> []) @
             (case ds_Assertion d credentialType of
                Some prov \<Rightarrow>
                  [\<lparr>cs_DataSource = ''assertion'', cs_AuthProvider = prov, cs_RemoteName = [], cs_AuthenticSource = []\<rparr>]
              | None \<Rightarrow> []) @
             (case ds_ExternalAPI d credentialType of
                Some (prov, remote) \<Rightarrow>
                  [\<lparr>cs_DataSource = ''external_api'', cs_AuthProvider = prov, cs_RemoteName = remote, cs_AuthenticSource = []\<rparr>]
              | None \<Rightarrow> []) @
             (case ds_Presentation d credentialType of
                Some prov \<Rightarrow>
                  [\<lparr>cs_DataSource = ''presentation'', cs_AuthProvider = prov, cs_RemoteName = [], cs_AuthenticSource = []\<rparr>]
              | None \<Rightarrow> [])
           in if sources = [] then None else Some sources))"

definition ResolveDataSource :: "DataSources option \<Rightarrow> string \<Rightarrow> string \<Rightarrow> CredentialSource option" where
  "ResolveDataSource ds credentialType authProvider =
     (case LookupCredentialSources ds credentialType of
        None \<Rightarrow> None
      | Some sources \<Rightarrow> List.find (\<lambda>src. cs_AuthProvider src = authProvider) sources)"

text \<open>\<^verbatim>\<open>InteractiveAuthorization\<close>: the two switches the endpoints read; the pointer may be nil.\<close>

record InteractiveAuthorization =
  ia_Enable :: "bool option"
  ia_RequireInteractiveAuthorization :: "bool option"

definition InteractiveAuthorization_Enabled :: "InteractiveAuthorization option \<Rightarrow> bool" where
  "InteractiveAuthorization_Enabled ia = (case ia of None \<Rightarrow> False | Some i \<Rightarrow> BoolVal (ia_Enable i) False)"

definition InteractiveAuthorization_Required :: "InteractiveAuthorization option \<Rightarrow> bool" where
  "InteractiveAuthorization_Required ia \<longleftrightarrow>
     InteractiveAuthorization_Enabled ia \<and>
     (case ia of None \<Rightarrow> False | Some i \<Rightarrow> BoolVal (ia_RequireInteractiveAuthorization i) False)"

record Cfg =
  cfg_PublicURL :: string
  cfg_Clients :: Clients
  cfg_TokenEndpoint :: string
  cfg_AllowUnverifiedClientAssertion :: bool
  cfg_GrantTypes :: "string list"
  cfg_RefreshTokenDuration :: int
  cfg_EmitInvalidTXCodeError :: "bool option"
  cfg_InteractiveAuthorization :: "InteractiveAuthorization option"
  cfg_DataSources :: "DataSources option"

definition EmitInvalidTXCodeError :: "Cfg \<Rightarrow> bool" where
  "EmitInvalidTXCodeError cfg = BoolVal (cfg_EmitInvalidTXCodeError cfg) False"

section \<open>Code outside the repository\<close>

record WalletAttestationResult =
  wa_Issuer :: string
  wa_Subject :: string
  wa_AttestationSource :: string

text \<open>
  A key of a client's key set: its id, the algorithm it declares, and the raw key if it can be exported.
  A decoded assertion: algorithm and key id of the header, the claims, and the numeric dates after their
  conversion to whole seconds. \<open>at_exp\<close> is \<open>None\<close> when the claim is missing or zero, \<open>at_iat\<close> when it is
  missing, not a number or zero.
\<close>

record JWK =
  jk_kid :: string
  jk_alg :: "string option"
  jk_raw :: "string option"

record AssertionToken =
  at_alg :: string
  at_kid :: string
  at_iss :: string
  at_sub :: string
  at_aud :: "string list"
  at_jti :: string
  at_exp :: "int option"
  at_nbf :: "int option"
  at_iat :: "int option"

record Externals =
  x_url_parse :: "string \<Rightarrow> URL option"
  x_addr :: "string \<Rightarrow> string option"
  x_to_ascii :: "string \<Rightarrow> string option"
  x_sha256 :: "bytes \<Rightarrow> bytes"
  x_parse_dpop :: "string \<Rightarrow> (string \<times> DPoP \<times> string \<times> bool) option"
  x_json_sub :: "bytes \<Rightarrow> string option"
  x_jwt_decode :: "string \<Rightarrow> AssertionToken option"
  x_sig_ok :: "string \<Rightarrow> string \<Rightarrow> bool"
  x_jwk_fetch :: "string \<Rightarrow> JWK list option"
  x_jwk_parse :: "string \<Rightarrow> JWK list option"
  x_jwk_marshal :: "JWK list \<Rightarrow> string option"
  x_evaluator :: "(string \<Rightarrow> string \<Rightarrow> string \<Rightarrow> WalletAttestationResult option) option"
  x_policy :: "(string \<Rightarrow> string \<Rightarrow> string \<Rightarrow> bool) option"

definition HostFromURL :: "Externals \<Rightarrow> string \<Rightarrow> string option" where
  "HostFromURL x rawURL =
     (case x_url_parse x rawURL of
        None \<Rightarrow> None
      | Some u \<Rightarrow> if u_Host u = [] then None else Some (u_Host u))"

section \<open>The service's caches\<close>

definition AuthContextTTL :: duration where
  "AuthContextTTL = 15 * minute"

record Service =
  sv_AuthContext :: MemoryStore
  sv_DPopJTI :: "bool MemoryCache"
  sv_VCINonce :: "bool MemoryCache option"
  sv_JWKS :: "string MemoryCache"

text \<open>\<^verbatim>\<open>New\<close>, for the four caches the endpoints use, in the single-instance configuration.\<close>

definition New_Service :: Service where
  "New_Service =
     \<lparr>sv_AuthContext = NewMemoryStore AuthContextTTL,
      sv_DPopJTI = NewMemoryCache (5 * minute),
      sv_VCINonce = Some (NewMemoryCache (60 * minute)),
      sv_JWKS = NewMemoryCache (15 * minute)\<rparr>"

type_synonym 'a api_result = "(api_error + 'a) \<times> Service"

text \<open>A call of the authorization context store, and what it leaves in place.\<close>

definition on_store :: "(MemoryStore \<Rightarrow> 'a store_result) \<Rightarrow> Service \<Rightarrow> (store_error + 'a) \<times> Service" where
  "on_store f sv = (let (r, s) = f (sv_AuthContext sv) in (r, sv\<lparr>sv_AuthContext := s\<rparr>))"

lemma on_store_simps [simp]:
  "fst (on_store f sv) = fst (f (sv_AuthContext sv))"
  "sv_AuthContext (snd (on_store f sv)) = snd (f (sv_AuthContext sv))"
  "sv_DPopJTI (snd (on_store f sv)) = sv_DPopJTI sv"
  "sv_VCINonce (snd (on_store f sv)) = sv_VCINonce sv"
  "sv_JWKS (snd (on_store f sv)) = sv_JWKS sv"
  by (simp_all add: on_store_def Let_def split_def)

lemma on_store_eq:
  "on_store f sv = (r, sv') \<longleftrightarrow>
     (\<exists>s. f (sv_AuthContext sv) = (r, s) \<and> sv' = sv\<lparr>sv_AuthContext := s\<rparr>)"
  by (auto simp: on_store_def Let_def split_def prod_eq_iff)

text \<open>A query by one search field: \<^verbatim>\<open>&AuthorizationContext{Code: code}\<close> and the like.\<close>

definition by_code :: "string \<Rightarrow> AuthorizationContext option" where
  "by_code code = Some (zero_AuthorizationContext\<lparr>Code := code\<rparr>)"

definition by_request_uri :: "string \<Rightarrow> AuthorizationContext option" where
  "by_request_uri uri = Some (zero_AuthorizationContext\<lparr>RequestURI := uri\<rparr>)"

definition by_session_id :: "string \<Rightarrow> AuthorizationContext option" where
  "by_session_id sid = Some (zero_AuthorizationContext\<lparr>SessionID := sid\<rparr>)"

end
