(* ===== verification/ClientAuth.thy ===== *)
theory ClientAuth
  imports ApigwTypes
begin

text \<open>
  How the issuer's endpoints authenticate a wallet: client assertions
  (\<^verbatim>\<open>src/pkg/oauth2/client_assertion.go\<close>, \<^verbatim>\<open>client_assertion_verifier.go\<close>), wallet attestations under the
  tier policy (\<^verbatim>\<open>src/pkg/trust/wallet_attestation_policy.go\<close>), registered clients, and DPoP proofs
  (\<^verbatim>\<open>authenticateOAuthClient\<close>, \<^verbatim>\<open>dpopProofThumbprint\<close> and \<^verbatim>\<open>checkInteractiveAuthorizationBinding\<close> of
  \<^verbatim>\<open>src/internal/apigw/apiv1/handlers_oauth.go\<close>).

  Both the identifiers of DPoP proofs and those of client assertions are recorded in the \<open>sv_DPopJTI\<close>
  cache. The last section shows that what is recorded stays recorded (\<open>jti_kept\<close>), which the replay
  theorems of the Token Endpoint rest on.
\<close>

section \<open>Client assertions\<close>

definition MaxClientIDLength :: int where
  "MaxClientIDLength = 512"

text \<open>\<^verbatim>\<open>strings.TrimSpace\<close> on the printable ASCII that request validation lets through.\<close>

definition is_space :: "char \<Rightarrow> bool" where
  "is_space c \<longleftrightarrow> c \<in> {CHR '' '', CHR 0x09, CHR 0x0A, CHR 0x0B, CHR 0x0C, CHR 0x0D}"

definition TrimSpace :: "string \<Rightarrow> string" where
  "TrimSpace s = rev (dropWhile is_space (rev (dropWhile is_space s)))"

definition ExtractClientIDFromAssertion :: "Externals \<Rightarrow> string \<Rightarrow> string option" where
  "ExtractClientIDFromAssertion x assertion =
     (let parts = split_on (CHR ''.'') (TrimSpace assertion) in
      if length parts \<noteq> 3 then None
      else (case DecodeString (parts ! 1) of
              None \<Rightarrow> None
            | Some payload \<Rightarrow>
                (case x_json_sub x payload of
                   None \<Rightarrow> None
                 | Some sub \<Rightarrow>
                     if sub = [] then None
                     else if int (length sub) > MaxClientIDLength then None
                     else if \<not> printascii sub then None
                     else Some sub)))"

definition defaultAllowedAlgorithms :: "string list" where
  "defaultAllowedAlgorithms =
     [''RS256'', ''RS384'', ''RS512'', ''ES256'', ''ES384'', ''ES512'', ''PS256'', ''PS384'', ''PS512'', ''EdDSA'']"

text \<open>The raw JWKS is cached under the client's \<^verbatim>\<open>jwks_uri\<close>; a cached value that does not parse is fetched anew.\<close>

definition fetchJWKS :: "Externals \<Rightarrow> time \<Rightarrow> string \<Rightarrow> string MemoryCache \<Rightarrow> JWK list option \<times> string MemoryCache" where
  "fetchJWKS x now uri m =
     (let (hit, m1) = MemoryCache_Get now m uri in
      case (case hit of Some raw \<Rightarrow> x_jwk_parse x raw | None \<Rightarrow> None) of
        Some keys \<Rightarrow> (Some keys, m1)
      | None \<Rightarrow>
          (case x_jwk_fetch x uri of
             None \<Rightarrow> (None, m1)
           | Some keys \<Rightarrow>
               (Some keys, case x_jwk_marshal x keys of Some raw \<Rightarrow> MemoryCache_Set now m1 uri raw | None \<Rightarrow> m1)))"

text \<open>
  The key function of \<^verbatim>\<open>Verify\<close>: the key with the token's id if there is one, else every key that does
  not declare another algorithm. \<open>None\<close> is its error.
\<close>

definition assertion_keys :: "string list \<Rightarrow> JWK list \<Rightarrow> AssertionToken \<Rightarrow> string list option" where
  "assertion_keys allowed keySet t =
     (if at_alg t = ''none'' \<or> at_alg t \<notin> set allowed then None
      else (case (if at_kid t = [] then None else List.find (\<lambda>k. jk_kid k = at_kid t) keySet) of
              Some k \<Rightarrow>
                if jk_alg k \<noteq> None \<and> jk_alg k \<noteq> Some (at_alg t) then None
                else map_option (\<lambda>raw. [raw]) (jk_raw k)
            | None \<Rightarrow>
                (let keys = List.map_filter jk_raw
                              (filter (\<lambda>k. jk_alg k = None \<or> jk_alg k = Some (at_alg t)) keySet)
                 in if keys = [] then None else Some keys)))"

text \<open>
  \<^verbatim>\<open>jwt.Parse\<close> with the options \<^verbatim>\<open>Verify\<close> passes: valid methods, the key function, the signature under
  one of the keys, a required expiry and an optional not-before with thirty seconds of leeway, and the
  audience.
\<close>

definition assertion_leeway :: duration where
  "assertion_leeway = 30 * second"

definition jwt_Parse ::
  "Externals \<Rightarrow> time \<Rightarrow> string list \<Rightarrow> JWK list \<Rightarrow> string \<Rightarrow> string \<Rightarrow> AssertionToken option"
where
  "jwt_Parse x now allowed keySet audience assertion =
     (case x_jwt_decode x assertion of
        None \<Rightarrow> None
      | Some t \<Rightarrow>
          if at_alg t \<notin> set allowed then None
          else (case assertion_keys allowed keySet t of
                  None \<Rightarrow> None
                | Some keys \<Rightarrow>
                    if \<not> list_ex (x_sig_ok x assertion) keys then None
                    else if (case at_exp t of None \<Rightarrow> True | Some e \<Rightarrow> \<not> now < e * second + assertion_leeway) then None
                    else if (case at_nbf t of None \<Rightarrow> False | Some n \<Rightarrow> now < n * second - assertion_leeway) then None
                    else if audience \<notin> set (at_aud t) then None
                    else Some t))"

text \<open>
  \<^verbatim>\<open>Verify\<close>, with \<^verbatim>\<open>MaxLifetime\<close> and \<^verbatim>\<open>AllowedAlgorithms\<close> unset as the Token Endpoint leaves them. \<open>jti_check\<close> is
  the callback; its \<open>False\<close> is the error. \<open>None\<close> is an error of \<^verbatim>\<open>Verify\<close>.
\<close>

definition maxLifetime :: duration where
  "maxLifetime = 5 * minute"

definition Verify ::
  "Externals \<Rightarrow> time \<Rightarrow> string \<Rightarrow> (string \<Rightarrow> time \<Rightarrow> Service \<Rightarrow> bool \<times> Service) \<Rightarrow> string \<Rightarrow> Client \<Rightarrow> Service \<Rightarrow>
   AssertionToken option \<times> Service"
where
  "Verify x now tokenEndpoint jti_check assertion client sv =
     (if cl_JWKSURI client = [] \<or> tokenEndpoint = [] then (None, sv)
      else
        (let (fetched, m) = fetchJWKS x now (cl_JWKSURI client) (sv_JWKS sv); sv1 = sv\<lparr>sv_JWKS := m\<rparr> in
         case fetched of
           None \<Rightarrow> (None, sv1)
         | Some keySet \<Rightarrow>
             (case jwt_Parse x now defaultAllowedAlgorithms keySet tokenEndpoint assertion of
                None \<Rightarrow> (None, sv1)
              | Some t \<Rightarrow>
                  if at_iss t = [] \<or> at_sub t = [] \<or> at_iss t \<noteq> at_sub t \<or> at_jti t = [] then (None, sv1)
                  else
                    (case (at_exp t, at_iat t) of
                       (Some e, Some i) \<Rightarrow>
                         if e < i \<or> i * second > now + assertion_leeway \<or>
                            e * second > now + maxLifetime + assertion_leeway \<or>
                            (e - i) * second > maxLifetime
                         then (None, sv1)
                         else
                           (let (ok, sv2) = jti_check (at_jti t) (e * second) sv1
                            in (if ok then Some t else None, sv2))
                     | _ \<Rightarrow> (None, sv1)))))"

text \<open>The \<^verbatim>\<open>JTICheck\<close> closure of \<^verbatim>\<open>OAuthToken\<close>.\<close>

definition assertion_key :: "string \<Rightarrow> string \<Rightarrow> string" where
  "assertion_key clientID jti = ''client_assertion:'' @ clientID @ '':'' @ jti"

definition JTICheck :: "time \<Rightarrow> string \<Rightarrow> string \<Rightarrow> time \<Rightarrow> Service \<Rightarrow> bool \<times> Service" where
  "JTICheck now clientID jti ex sv =
     (let ttl = ex + 30 * second - now in
      if ttl \<le> 0 then (False, sv)
      else (let (unique, m) = MemoryCache_SetNXWithTTL now (sv_DPopJTI sv) (assertion_key clientID jti) True ttl
            in (unique, sv\<lparr>sv_DPopJTI := m\<rparr>)))"

section \<open>Wallet attestations\<close>

text \<open>The query handed to the policy engine, and the decision; without an engine every trusted wallet passes.\<close>

definition BuildWalletAttestationPolicyQuery :: "string \<Rightarrow> string \<Rightarrow> string \<Rightarrow> string \<times> string \<times> string" where
  "BuildWalletAttestationPolicyQuery attestationSource sc issuer =
     (if attestationSource = [] then ''unknown'' else attestationSource,
      if sc = [] then ''*'' else sc,
      if issuer = [] then ''*'' else issuer)"

definition policy_Authorize :: "(string \<Rightarrow> string \<Rightarrow> string \<Rightarrow> bool) option \<Rightarrow> string \<Rightarrow> string \<Rightarrow> string \<Rightarrow> bool" where
  "policy_Authorize engine attestationSource sc issuer =
     (case engine of
        None \<Rightarrow> True
      | Some query_element \<Rightarrow>
          (case BuildWalletAttestationPolicyQuery attestationSource sc issuer of (a, b, c) \<Rightarrow> query_element a b c))"

record walletClientAuth =
  wc_ClientID :: string
  wc_RedirectURI :: string
  wc_Scope :: string
  wc_RedirectOptional :: bool
  wc_ClientAttestation :: string
  wc_ClientAttestationPoP :: string
  wc_ClientAssertion :: string

definition ClientTypePublic :: string where
  "ClientTypePublic = ''public''"

definition attested_client :: "string \<Rightarrow> Client" where
  "attested_client redirectURI =
     \<lparr>cl_Type = ClientTypePublic, cl_RedirectURIs = [redirectURI], cl_Scopes = [''*''], cl_JWKSURI = []\<rparr>"

definition authenticateOAuthClient :: "Externals \<Rightarrow> Cfg \<Rightarrow> walletClientAuth \<Rightarrow> api_error + Client" where
  "authenticateOAuthClient x cfg req =
     (case (if wc_RedirectOptional req
            then Clients_AllowWithoutRedirect (x_url_parse x) (cfg_Clients cfg) (wc_ClientID req) (wc_RedirectURI req) (wc_Scope req)
            else Clients_Allow (x_url_parse x) (cfg_Clients cfg) (wc_ClientID req) (wc_RedirectURI req) (wc_Scope req)) of
        Inr client \<Rightarrow> Inr client
      | Inl _ \<Rightarrow>
          (let attestation = (if wc_ClientAttestation req = [] then wc_ClientAssertion req else wc_ClientAttestation req);
               popJWT = (if wc_ClientAttestation req = [] then [] else wc_ClientAttestationPoP req)
           in if wc_ClientAttestation req \<noteq> [] \<and> popJWT = [] then Inl (OAuthError ErrCodeInvalidClient 401)
              else (case x_evaluator x of
                      None \<Rightarrow> Inl (OAuthError ErrCodeInvalidClient 401)
                    | Some evaluate \<Rightarrow>
                        if attestation = [] then Inl (OAuthError ErrCodeInvalidClient 401)
                        else (case evaluate attestation popJWT (cfg_PublicURL cfg) of
                                None \<Rightarrow> Inl (OAuthError ErrCodeInvalidClient 401)
                              | Some result \<Rightarrow>
                                  if wa_Subject result \<noteq> [] \<and> wa_Subject result \<noteq> wc_ClientID req
                                  then Inl (OAuthError ErrCodeInvalidClient 401)
                                  else if \<not> policy_Authorize (x_policy x) (wa_AttestationSource result) (wc_Scope req) (wa_Issuer result)
                                  then Inl (OAuthError ErrCodeInvalidScope 403)
                                  else Inr (attested_client (wc_RedirectURI req))))))"

section \<open>DPoP proofs\<close>

definition checkInteractiveAuthorizationBinding :: "AuthorizationContext option \<Rightarrow> string \<Rightarrow> api_error option" where
  "checkInteractiveAuthorizationBinding authCtx dpopThumbprint =
     (case authCtx of
        None \<Rightarrow> None
      | Some d \<Rightarrow>
          if AuthSessionDPoPThumbprint d = [] then None
          else if AuthSessionDPoPThumbprint d = dpopThumbprint then None
          else Some (OAuthError ErrCodeInvalidGrant 400))"

definition parse_proof :: "Externals \<Rightarrow> time \<Rightarrow> string \<Rightarrow> DPoP option" where
  "parse_proof x now proof = ValidateAndParseDPoPJWT (x_parse_dpop x) (x_url_parse x) now proof"

text \<open>The in-memory cache returns no error, so the branch for a failing \<^verbatim>\<open>SetNX\<close> does not occur.\<close>

definition burn_jti :: "time \<Rightarrow> string \<Rightarrow> Service \<Rightarrow> unit api_result" where
  "burn_jti now jti sv =
     (let (unique, m) = MemoryCache_SetNX now (sv_DPopJTI sv) jti True; sv' = sv\<lparr>sv_DPopJTI := m\<rparr>
      in if unique then (Inr (), sv') else (Inl OAuthErrJTIReplay, sv'))"

definition dpopProofThumbprint :: "Externals \<Rightarrow> time \<Rightarrow> string \<Rightarrow> string \<Rightarrow> Service \<Rightarrow> string api_result" where
  "dpopProofThumbprint x now proof htu sv =
     (case parse_proof x now proof of
        None \<Rightarrow> (Inl (OAuthError ErrCodeInvalidDPoPProof 400), sv)
      | Some dpop \<Rightarrow>
          and_then (burn_jti now (d_JTI dpop) sv) (\<lambda>_ sv1.
            if \<not> SameHTU (x_url_parse x) (x_addr x) (x_to_ascii x) (d_HTU dpop) htu
            then (Inl (OAuthError ErrCodeInvalidDPoPProof 400), sv1)
            else if d_HTM dpop \<noteq> ''POST'' then (Inl (OAuthError ErrCodeInvalidDPoPProof 400), sv1)
            else (Inr (d_Thumbprint dpop), sv1)))"

section \<open>What is recorded stays recorded\<close>

text \<open>
  \<open>jti_kept now sv sv'\<close>: every identifier recorded before is still recorded after, at every later time, and
  the cache keeps its invariant and its retention.
\<close>

definition jti_kept :: "time \<Rightarrow> Service \<Rightarrow> Service \<Rightarrow> bool" where
  "jti_kept now sv sv' \<longleftrightarrow>
     (clock_ok now (sv_DPopJTI sv) \<longrightarrow>
        clock_ok now (sv_DPopJTI sv') \<and> c_ttl (sv_DPopJTI sv') = c_ttl (sv_DPopJTI sv) \<and>
        (\<forall>later k. now \<le> later \<longrightarrow> live later (sv_DPopJTI sv) k \<noteq> None \<longrightarrow> live later (sv_DPopJTI sv') k \<noteq> None))"

lemma jti_kept_trans: "jti_kept now a b \<Longrightarrow> jti_kept now b c \<Longrightarrow> jti_kept now a c"
  by (auto simp: jti_kept_def)

lemma jti_kept_same: "sv_DPopJTI sv' = sv_DPopJTI sv \<Longrightarrow> jti_kept now sv sv'"
  by (simp add: jti_kept_def)

lemma jti_kept_refl [simp]: "jti_kept now sv sv"
  by (simp add: jti_kept_def)

lemma jti_keptD:
  assumes "jti_kept now sv sv'" and "clock_ok now (sv_DPopJTI sv)"
  shows "clock_ok now (sv_DPopJTI sv')" and "c_ttl (sv_DPopJTI sv') = c_ttl (sv_DPopJTI sv)"
    and "now \<le> later \<Longrightarrow> live later (sv_DPopJTI sv) k \<noteq> None \<Longrightarrow> live later (sv_DPopJTI sv') k \<noteq> None"
  using assms by (auto simp: jti_kept_def)

lemma GetOrSet_kept_all:
  assumes "clock_ok now m" and "now \<le> later" and "live later m k' \<noteq> None"
  shows "live later (snd (GetOrSet now k v d m)) k' \<noteq> None"
  using assms GetOrSet_other [of k' k later now v d m] GetOrSet_kept [of now m later k]
  by (cases "k' = k") auto

lemma jti_kept_GetOrSet:
  "sv_DPopJTI sv' = snd (GetOrSet now k v d (sv_DPopJTI sv)) \<Longrightarrow> jti_kept now sv sv'"
  by (simp add: jti_kept_def clock_ok_GetOrSet c_ttl_GetOrSet GetOrSet_kept_all)

lemma SetNX_GetOrSet:
  "MemoryCache_SetNX now m k v = (\<not> snd (fst (GetOrSet now k v None m)), snd (GetOrSet now k v None m))"
  "0 < ttl \<Longrightarrow> MemoryCache_SetNXWithTTL now m k v ttl =
     (\<not> snd (fst (GetOrSet now k v (Some ttl) m)), snd (GetOrSet now k v (Some ttl) m))"
  by (simp_all add: MemoryCache_SetNX_def MemoryCache_SetNXWithTTL_def Let_def split_def)

lemma burn_jti_kept: "jti_kept now sv (snd (burn_jti now jti sv))"
  by (rule jti_kept_GetOrSet [where k = jti and v = True and d = None])
    (simp add: burn_jti_def SetNX_GetOrSet Let_def)

lemma JTICheck_kept: "jti_kept now sv (snd (JTICheck now cid jti ex sv))"
proof (cases "ex + 30 * second - now \<le> 0")
  case True
  then show ?thesis by (simp add: JTICheck_def Let_def)
next
  case False
  then show ?thesis
    by (intro jti_kept_GetOrSet) (simp add: JTICheck_def SetNX_GetOrSet Let_def)
qed

lemma Verify_kept:
  assumes "\<And>jti ex sv. jti_kept now sv (snd (chk jti ex sv))"
  shows "jti_kept now sv (snd (Verify x now ep chk assertion client sv))"
proof -
  obtain fetched m where f: "fetchJWKS x now (cl_JWKSURI client) (sv_JWKS sv) = (fetched, m)" by fastforce
  let ?sv1 = "sv\<lparr>sv_JWKS := m\<rparr>"
  have same: "jti_kept now sv ?sv1" by (simp add: jti_kept_same)
  then have "jti_kept now sv (snd (chk jti ex ?sv1))" for jti ex
    using assms jti_kept_trans by blast
  with same show ?thesis
    by (simp add: Verify_def f Let_def split_def split: option.splits)
qed

lemma dpopProofThumbprint_kept: "jti_kept now sv (snd (dpopProofThumbprint x now proof htu sv))"
proof (cases "parse_proof x now proof")
  case None
  then show ?thesis by (simp add: dpopProofThumbprint_def)
next
  case (Some d)
  then show ?thesis
    by (auto simp: dpopProofThumbprint_def intro!: and_then_rel [where R = "jti_kept now"] burn_jti_kept
        intro: jti_kept_trans)
qed

section \<open>What a success records\<close>

lemma burn_jti_ok:
  assumes "burn_jti now jti sv = (Inr u, sv')" and "clock_ok now (sv_DPopJTI sv)"
  shows "live now (sv_DPopJTI sv) jti = None"
    and "now \<le> later \<Longrightarrow> later \<le> now + c_ttl (sv_DPopJTI sv) \<Longrightarrow> live later (sv_DPopJTI sv') jti \<noteq> None"
proof -
  have w: "\<not> snd (fst (GetOrSet now jti True None (sv_DPopJTI sv)))"
    and sv': "sv_DPopJTI sv' = snd (GetOrSet now jti True None (sv_DPopJTI sv))"
    using assms(1) by (auto simp: burn_jti_def SetNX_GetOrSet Let_def split: if_splits)
  show n: "live now (sv_DPopJTI sv) jti = None" using w by (simp add: GetOrSet_found)
  show "live later (sv_DPopJTI sv') jti \<noteq> None" if "now \<le> later" "later \<le> now + c_ttl (sv_DPopJTI sv)"
    using GetOrSet_stored [OF n _ that(2)] assms(2) by (simp add: sv' clock_ok_def)
qed

lemma GetOrSet_stored_ttl:
  assumes "live now c k = None" and "0 < d" and "later \<le> now + d"
  shows "live later (snd (GetOrSet now k v (Some d) c)) k = Some v"
  using assms
  by (auto simp: cache_defs item_defs live_def Let_def split: option.splits prod.splits if_splits)

lemma JTICheck_ok:
  assumes "JTICheck now cid jti ex sv = (True, sv')"
  shows "live now (sv_DPopJTI sv) (assertion_key cid jti) = None"
    and "later \<le> ex + 30 * second \<Longrightarrow> live later (sv_DPopJTI sv') (assertion_key cid jti) \<noteq> None"
proof -
  let ?ttl = "ex + 30 * second - now"
  have pos: "0 < ?ttl" using assms by (auto simp: JTICheck_def Let_def split: if_splits)
  have w: "\<not> snd (fst (GetOrSet now (assertion_key cid jti) True (Some ?ttl) (sv_DPopJTI sv)))"
    and sv': "sv_DPopJTI sv' = snd (GetOrSet now (assertion_key cid jti) True (Some ?ttl) (sv_DPopJTI sv))"
    using assms pos by (auto simp: JTICheck_def SetNX_GetOrSet Let_def)
  show n: "live now (sv_DPopJTI sv) (assertion_key cid jti) = None" using w by (simp add: GetOrSet_found)
  show "live later (sv_DPopJTI sv') (assertion_key cid jti) \<noteq> None" if "later \<le> ex + 30 * second"
    using GetOrSet_stored_ttl [OF n pos, of later] that by (simp add: sv')
qed

text \<open>A proof that is accepted was within its window and new.\<close>

lemma parse_proof_window:
  assumes "parse_proof x now proof = Some d"
  shows "\<exists>typ claims ok. x_parse_dpop x proof = Some (typ, claims, d_Thumbprint d, ok) \<and> d_JTI claims = d_JTI d \<and>
    d_IAT claims = d_IAT d \<and> now - DefaultMaxAge \<le> d_IAT d * second \<and> d_IAT d * second \<le> now + DefaultClockSkew"
  using assms
  by (auto simp: parse_proof_def ValidateAndParseDPoPJWT_def DPoP_Validate_def ValidateWithWindow_def
      ValidateIATWithWindow_def Let_def split: option.splits if_splits prod.splits)

lemma dpopProofThumbprint_ok:
  assumes "dpopProofThumbprint x now proof htu sv = (Inr thumb, sv')"
  shows "\<exists>d. parse_proof x now proof = Some d \<and> d_Thumbprint d = thumb \<and> d_HTM d = ''POST'' \<and>
    SameHTU (x_url_parse x) (x_addr x) (x_to_ascii x) (d_HTU d) htu \<and> burn_jti now (d_JTI d) sv = (Inr (), sv')"
  using assms by (auto simp: dpopProofThumbprint_def and_then_ok split: option.splits if_splits)

lemma Verify_ok:
  assumes "Verify x now ep (JTICheck now cid) assertion client sv = (Some t, sv')"
  shows "\<exists>e i. x_jwt_decode x assertion = Some t \<and> at_exp t = Some e \<and> at_iat t = Some i \<and>
    now < e * second + 30 * second \<and> i * second \<le> now + 30 * second \<and> (e - i) * second \<le> maxLifetime \<and>
    ep \<in> set (at_aud t) \<and> at_iss t = at_sub t \<and>
    live now (sv_DPopJTI sv) (assertion_key cid (at_jti t)) = None \<and>
    (\<forall>later. later \<le> e * second + 30 * second \<longrightarrow> live later (sv_DPopJTI sv') (assertion_key cid (at_jti t)) \<noteq> None)"
proof -
  obtain fetched m where f: "fetchJWKS x now (cl_JWKSURI client) (sv_JWKS sv) = (fetched, m)" by fastforce
  let ?sv1 = "sv\<lparr>sv_JWKS := m\<rparr>"
  obtain keySet where keys: "fetched = Some keySet"
    using assms by (cases fetched) (auto simp: Verify_def f Let_def split: if_splits)
  have p: "jwt_Parse x now defaultAllowedAlgorithms keySet ep assertion = Some t"
    and w: "at_iss t = at_sub t"
    using assms by (auto simp: Verify_def f keys Let_def split_def split: if_splits option.splits)
  obtain e i where ei: "at_exp t = Some e" "at_iat t = Some i"
    using assms p by (auto simp: Verify_def f keys Let_def split_def split: if_splits option.splits)
  have j: "JTICheck now cid (at_jti t) (e * second) ?sv1 = (True, sv')"
    and b: "i * second \<le> now + 30 * second" "(e - i) * second \<le> maxLifetime"
    using assms by (auto simp: Verify_def f keys p ei assertion_leeway_def Let_def split_def prod_eq_iff
        split: if_splits)
  have q: "x_jwt_decode x assertion = Some t" "now < e * second + 30 * second" "ep \<in> set (at_aud t)"
    using p ei by (auto simp: jwt_Parse_def assertion_leeway_def split: option.splits if_splits)
  show ?thesis using JTICheck_ok [OF j] ei b q w by auto
qed

end
