(* ===== verification/TokenEndpoint.thy ===== *)
theory TokenEndpoint
  imports ClientAuth
begin

text \<open>
  The Token Endpoint: \<^verbatim>\<open>OAuthToken\<close>, \<^verbatim>\<open>lookupCodeBeforeConsuming\<close> and \<^verbatim>\<open>handleRefreshTokenGrant\<close> of
  \<^verbatim>\<open>src/internal/apigw/apiv1/handlers_oauth.go\<close>. \<open>OAuthToken\<close> is the composition of its blocks in the
  order of the source: client assertion, client, DPoP proof, the checks made before the code is
  consumed, the consumption, and the issuing of the token. A handler reads the clock once; log lines and
  metrics are left out.

  The blocks before the consumption are \<open>OAuthToken_checks\<close>, the rest \<open>OAuthToken_redeem\<close>. The store
  runs each of its operations under a lock, but another request may run between two of them, so the
  theorems about redemption also speak of \<open>OAuthToken_redeem\<close> alone, from any state.
\<close>

section \<open>Random values\<close>

text \<open>
  The values a request draws: the results of \<^verbatim>\<open>GenerateSecureToken\<close> in the order of the code, and one
  \<^verbatim>\<open>uuid.NewString\<close> for each entry of the authorization details.
\<close>

record TokenDraws =
  td_accessToken :: "string option"
  td_refreshToken :: "string option"
  td_childSessionID :: "string option"
  td_nonce :: "string option"
  td_uuid :: "nat \<Rightarrow> string"

definition draw :: "string option \<Rightarrow> Service \<Rightarrow> string api_result" where
  "draw v sv = (case v of Some s \<Rightarrow> Inr s | None \<Rightarrow> Inl (PlainError ''failed to generate''), sv)"

section \<open>Client authentication\<close>

definition grant_refresh :: string where
  "grant_refresh = ''refresh_token''"

definition grant_preauth :: string where
  "grant_preauth = ''urn:ietf:params:oauth:grant-type:pre-authorized_code''"

definition jwt_bearer :: string where
  "jwt_bearer = ''urn:ietf:params:oauth:client-assertion-type:jwt-bearer''"

text \<open>The client id: from the assertion if there is one, which is verified unless the test switch is on.\<close>

definition token_client_id :: "Externals \<Rightarrow> Cfg \<Rightarrow> time \<Rightarrow> TokenRequest \<Rightarrow> Service \<Rightarrow> string api_result" where
  "token_client_id x cfg now req sv =
     (if tr_ClientAssertion req = [] then
        (if tr_ClientAssertionType req \<noteq> [] then (Inl (OAuthError ErrCodeInvalidRequest 400), sv)
         else (Inr (tr_ClientID req), sv))
      else if tr_ClientAssertionType req = [] then (Inl (OAuthError ErrCodeInvalidRequest 400), sv)
      else if tr_ClientAssertionType req \<noteq> jwt_bearer then (Inl (OAuthError ErrCodeInvalidRequest 400), sv)
      else (case ExtractClientIDFromAssertion x (tr_ClientAssertion req) of
              None \<Rightarrow> (Inl (OAuthError ErrCodeInvalidClient 401), sv)
            | Some sub \<Rightarrow>
                if tr_ClientID req \<noteq> [] \<and> tr_ClientID req \<noteq> sub then (Inl (OAuthError ErrCodeInvalidClient 401), sv)
                else if cfg_AllowUnverifiedClientAssertion cfg then (Inr sub, sv)
                else (case Clients_Get (cfg_Clients cfg) sub of
                        Inl _ \<Rightarrow> (if x_evaluator x \<noteq> None then Inr sub else Inl (OAuthError ErrCodeInvalidClient 401), sv)
                      | Inr client \<Rightarrow>
                          (case Verify x now (cfg_TokenEndpoint cfg) (JTICheck now sub) (tr_ClientAssertion req) client sv of
                             (None, sv') \<Rightarrow> (Inl (OAuthError ErrCodeInvalidClient 401), sv')
                           | (Some _, sv') \<Rightarrow> (Inr sub, sv')))))"

text \<open>
  The client: registered, or a wallet with an attestation. The tier policy is asked about the scope the
  code was issued for.
\<close>

definition token_client ::
  "Externals \<Rightarrow> Cfg \<Rightarrow> time \<Rightarrow> TokenRequest \<Rightarrow> string \<Rightarrow> string \<Rightarrow> Service \<Rightarrow> Client option api_result"
where
  "token_client x cfg now req clientID code sv =
     (if clientID = [] then (Inr None, sv)
      else (case Clients_Get (cfg_Clients cfg) clientID of
              Inr client \<Rightarrow> (Inr (Some client), sv)
            | Inl _ \<Rightarrow>
                (let attestation = (if tr_ClientAttestation req = [] then tr_ClientAssertion req else tr_ClientAttestation req);
                     popJWT = (if tr_ClientAttestation req = [] then [] else tr_ClientAttestationPoP req)
                 in if tr_ClientAttestation req \<noteq> [] \<and> popJWT = [] then (Inl (OAuthError ErrCodeInvalidClient 401), sv)
                    else (case x_evaluator x of
                            None \<Rightarrow> (Inl (OAuthError ErrCodeInvalidClient 401), sv)
                          | Some evaluate \<Rightarrow>
                              if attestation = [] then (Inl (OAuthError ErrCodeInvalidClient 401), sv)
                              else (case evaluate attestation popJWT (cfg_PublicURL cfg) of
                                      None \<Rightarrow> (Inl (OAuthError ErrCodeInvalidClient 401), sv)
                                    | Some result \<Rightarrow>
                                        if wa_Subject result \<noteq> [] \<and> wa_Subject result \<noteq> clientID
                                        then (Inl (OAuthError ErrCodeInvalidClient 401), sv)
                                        else (case on_store (MemoryStore_Get now (by_code code)) sv of
                                                (Inl _, sv1) \<Rightarrow> (Inl (OAuthError ErrCodeInvalidGrant 400), sv1)
                                              | (Inr p, sv1) \<Rightarrow>
                                                  if \<not> policy_Authorize (x_policy x) (wa_AttestationSource result)
                                                        (str_join '' '' (Scopes (deref (sv_AuthContext sv1) p))) (wa_Issuer result)
                                                  then (Inl (OAuthError ErrCodeInvalidScope 403), sv1)
                                                  else (Inr (Some (attested_client (tr_RedirectURI req))), sv1)))))))"

definition token_dpop :: "Externals \<Rightarrow> Cfg \<Rightarrow> time \<Rightarrow> TokenRequest \<Rightarrow> bool \<Rightarrow> Service \<Rightarrow> string api_result" where
  "token_dpop x cfg now req isPreAuthFlow sv =
     (if tr_DPOP req \<noteq> [] then dpopProofThumbprint x now (tr_DPOP req) (cfg_TokenEndpoint cfg) sv
      else if \<not> isPreAuthFlow then (Inl OAuthErrDPoPRequired, sv)
      else (Inr [], sv))"

section \<open>Checks before the code is consumed\<close>

definition lookupCodeBeforeConsuming :: "time \<Rightarrow> string \<Rightarrow> Service \<Rightarrow> nat option api_result" where
  "lookupCodeBeforeConsuming now code sv =
     (case on_store (MemoryStore_Get now (by_code code)) sv of
        (Inr p, sv1) \<Rightarrow> (Inr (Some p), sv1)
      | (Inl ErrNoDocuments, sv1) \<Rightarrow> (Inr None, sv1)
      | (Inl _, sv1) \<Rightarrow> (Inl (OAuthError ErrCodeServerError 500), sv1))"

definition precheck_authorization_code ::
  "time \<Rightarrow> TokenRequest \<Rightarrow> string \<Rightarrow> string \<Rightarrow> string \<Rightarrow> Service \<Rightarrow> unit api_result"
where
  "precheck_authorization_code now req clientID code thumb sv =
     and_then (lookupCodeBeforeConsuming now code sv) (\<lambda>found sv1.
       let preCheck = (case found of None \<Rightarrow> zero_AuthorizationContext | Some p \<Rightarrow> deref (sv_AuthContext sv1) p) in
       if PreAuthorized preCheck then (Inl (OAuthError ErrCodeInvalidGrant 400), sv1)
       else if WalletClientID preCheck \<noteq> [] \<and> clientID \<noteq> WalletClientID preCheck
       then (Inl (OAuthError ErrCodeInvalidGrant 400), sv1)
       else if WalletURI preCheck \<noteq> [] \<and> tr_RedirectURI req \<noteq> WalletURI preCheck
       then (Inl (OAuthError ErrCodeInvalidGrant 400), sv1)
       else (case checkInteractiveAuthorizationBinding (Some preCheck) thumb of
               Some e \<Rightarrow> (Inl e, sv1)
             | None \<Rightarrow> (Inr (), sv1)))"

text \<open>
  A wrong transaction code costs an attempt; whether the debit succeeded decides the error. An exhausted
  budget forfeits the code.
\<close>

definition wrong_tx_code :: "Cfg \<Rightarrow> time \<Rightarrow> string \<Rightarrow> Service \<Rightarrow> unit api_result" where
  "wrong_tx_code cfg now code sv =
     (case on_store (MemoryStore_ConsumeTXCodeAttempt now code) sv of
        (Inr _, sv1) \<Rightarrow>
          (Inl (OAuthError (if EmitInvalidTXCodeError cfg then ErrCodeInvalidTXCode else ErrCodeInvalidGrant) 400), sv1)
      | (Inl _, sv1) \<Rightarrow> (Inl (OAuthError ErrCodeInvalidGrant 400), sv1))"

definition precheck_preauthorized_code ::
  "Cfg \<Rightarrow> time \<Rightarrow> TokenRequest \<Rightarrow> string \<Rightarrow> Service \<Rightarrow> unit api_result"
where
  "precheck_preauthorized_code cfg now req code sv =
     and_then (lookupCodeBeforeConsuming now code sv) (\<lambda>found sv1.
       case found of
         None \<Rightarrow> (Inl (OAuthError ErrCodeInvalidGrant 400), sv1)
       | Some p \<Rightarrow>
           (let preCheck = deref (sv_AuthContext sv1) p in
            if \<not> PreAuthorized preCheck then (Inl (OAuthError ErrCodeInvalidGrant 400), sv1)
            else if Forfeited preCheck then (Inl (OAuthError ErrCodeInvalidGrant 400), sv1)
            else if TXCodeAttempts preCheck \<ge> MaxTXCodeAttempts then
              (Inl (OAuthError ErrCodeInvalidGrant 400), snd (on_store (MemoryStore_ConsumeTXCodeAttempt now code) sv1))
            else if TXCode preCheck = [] \<and> tr_TXCode req \<noteq> [] then (Inl (OAuthError ErrCodeInvalidRequest 400), sv1)
            else if TXCode preCheck \<noteq> [] \<and> tr_TXCode req = [] then (Inl (OAuthError ErrCodeInvalidRequest 400), sv1)
            else if TXCode preCheck \<noteq> [] \<and> TXCode preCheck \<noteq> tr_TXCode req then wrong_tx_code cfg now code sv1
            else (Inr (), sv1)))"

section \<open>Consuming the code and issuing the token\<close>

definition consume_code :: "time \<Rightarrow> bool \<Rightarrow> string \<Rightarrow> string \<Rightarrow> Service \<Rightarrow> nat api_result" where
  "consume_code now isPreAuthFlow code thumb sv =
     (case (if isPreAuthFlow \<and> thumb \<noteq> []
            then on_store (MemoryStore_RedeemPreAuthorizedCode now code thumb) sv
            else on_store (MemoryStore_ForfeitAuthorizationCode now (by_code code)) sv) of
        (Inl _, sv1) \<Rightarrow> (Inl (OAuthError ErrCodeInvalidGrant 400), sv1)
      | (Inr p, sv1) \<Rightarrow> (Inr p, sv1))"

text \<open>What gates the token on the consumed document: the exchange's key, the deadline, PKCE.\<close>

definition check_consumed ::
  "Externals \<Rightarrow> time \<Rightarrow> TokenRequest \<Rightarrow> bool \<Rightarrow> string \<Rightarrow> AuthorizationContext \<Rightarrow> api_error option"
where
  "check_consumed x now req isPreAuthFlow thumb doc =
     (case checkInteractiveAuthorizationBinding (Some doc) thumb of
        Some e \<Rightarrow> Some e
      | None \<Rightarrow>
          if ExpiresAt doc > 0 \<and> unix now > ExpiresAt doc then Some OAuthErrExpiredRequest
          else if \<not> isPreAuthFlow \<and>
                  ValidatePKCE (x_sha256 x) (tr_CodeVerifier req) (CodeChallenge doc) (CodeChallengeMethod doc) \<noteq> None
          then Some (OAuthError ErrCodeInvalidGrant 400)
          else None)"

definition set_nonce :: "time \<Rightarrow> string \<Rightarrow> Service \<Rightarrow> Service" where
  "set_nonce now nonce sv =
     (case sv_VCINonce sv of
        None \<Rightarrow> sv
      | Some m \<Rightarrow> sv\<lparr>sv_VCINonce := Some (MemoryCache_Set now m nonce True)\<rparr>)"

definition response_details :: "(nat \<Rightarrow> string) \<Rightarrow> AuthorizationDetailsParameter list \<Rightarrow> AuthorizationDetailsParameter list" where
  "response_details uuid ads =
     map (\<lambda>(i, ad). ad\<lparr>ad_CredentialIdentifiers := [uuid i]\<rparr>) (enumerate 0 ads)"

definition access_token_lifetime :: int where
  "access_token_lifetime = 3600"

text \<open>\<open>new_refresh_token\<close>: only when the grant is configured and the request carried a proof.\<close>

definition new_refresh_token :: "Cfg \<Rightarrow> string \<Rightarrow> TokenDraws \<Rightarrow> Service \<Rightarrow> string api_result" where
  "new_refresh_token cfg thumb draws sv =
     (if grant_refresh \<in> set (cfg_GrantTypes cfg) \<and> thumb \<noteq> [] then draw (td_refreshToken draws) sv
      else (Inr [], sv))"

definition token_expiry :: "Cfg \<Rightarrow> time \<Rightarrow> string \<Rightarrow> int" where
  "token_expiry cfg now refreshToken =
     (if refreshToken = [] then 0 else unix (now + cfg_RefreshTokenDuration cfg * second))"

definition child_session ::
  "Cfg \<Rightarrow> time \<Rightarrow> AuthorizationContext \<Rightarrow> string \<Rightarrow> string \<Rightarrow> AuthorizationDetailsParameter list \<Rightarrow> Token \<Rightarrow> string \<Rightarrow>
   AuthorizationContext"
where
  "child_session cfg now parent childSessionID childNonce details tokenDoc refreshToken =
     zero_AuthorizationContext\<lparr>
       SessionID := childSessionID,
       SourceSessionID := SessionID parent,
       Status := ''token_issued'',
       CreatedAt := now,
       ExpiresAt := tok_ExpiresAt tokenDoc,
       Scopes := Scopes parent,
       Nonce := childNonce,
       AuthorizationDetails := details,
       AuthProvider := AuthProvider parent,
       Identifier := Identifier parent,
       DataSource := DataSource parent,
       Token := Some tokenDoc,
       RefreshToken := refreshToken,
       RefreshTokenExpiresAt := token_expiry cfg now refreshToken\<rparr>"

text \<open>
  The branch of the authorization code: the token is written through the pointer the store returned, then
  \<^verbatim>\<open>Update\<close> files the document under its new tokens.
\<close>

definition with_token ::
  "Cfg \<Rightarrow> time \<Rightarrow> AuthorizationDetailsParameter list \<Rightarrow> Token \<Rightarrow> string \<Rightarrow> AuthorizationContext \<Rightarrow> AuthorizationContext"
where
  "with_token cfg now details tokenDoc refreshToken doc =
     doc\<lparr>Token := Some tokenDoc,
         RefreshToken := refreshToken,
         RefreshTokenExpiresAt := (if refreshToken = [] then RefreshTokenExpiresAt doc else token_expiry cfg now refreshToken),
         AuthorizationDetails := (if details = [] then AuthorizationDetails doc else details)\<rparr>"

definition lift_store :: "(MemoryStore \<Rightarrow> 'a store_result) \<Rightarrow> Service \<Rightarrow> 'a api_result" where
  "lift_store f sv =
     (case on_store f sv of (Inl e, sv1) \<Rightarrow> (Inl (StoreError e), sv1) | (Inr a, sv1) \<Rightarrow> (Inr a, sv1))"

text \<open>Storing a document the handler has just built.\<close>

definition save_new :: "time \<Rightarrow> AuthorizationContext \<Rightarrow> MemoryStore \<Rightarrow> unit store_result" where
  "save_new now doc s = MemoryStore_Save now (Some (fst (alloc doc s))) (snd (alloc doc s))"

definition rotate_new :: "time \<Rightarrow> string \<Rightarrow> AuthorizationContext \<Rightarrow> MemoryStore \<Rightarrow> unit store_result" where
  "rotate_new now oldToken doc s =
     MemoryStore_RotateRefreshToken now oldToken (Some (fst (alloc doc s))) (snd (alloc doc s))"

definition store_token_preauth ::
  "Cfg \<Rightarrow> time \<Rightarrow> nat \<Rightarrow> AuthorizationDetailsParameter list \<Rightarrow> Token \<Rightarrow> string \<Rightarrow> TokenDraws \<Rightarrow> Service \<Rightarrow> string api_result"
where
  "store_token_preauth cfg now p details tokenDoc refreshToken draws sv =
     and_then (draw (td_childSessionID draws) sv) (\<lambda>childSessionID sv1.
     and_then (draw (td_nonce draws) sv1) (\<lambda>childNonce sv2.
       let sv3 = set_nonce now childNonce sv2;
           doc = child_session cfg now (deref (sv_AuthContext sv3) p) childSessionID childNonce details tokenDoc refreshToken
       in and_then (lift_store (save_new now doc) sv3)
            (\<lambda>_ sv4. (Inr childNonce, sv4))))"

definition update_token ::
  "Cfg \<Rightarrow> time \<Rightarrow> nat \<Rightarrow> AuthorizationDetailsParameter list \<Rightarrow> Token \<Rightarrow> string \<Rightarrow> MemoryStore \<Rightarrow> unit store_result"
where
  "update_token cfg now p details tokenDoc refreshToken s =
     MemoryStore_Update now (Some p) (write_doc p (with_token cfg now details tokenDoc refreshToken (deref s p)) s)"

definition store_token_code ::
  "Cfg \<Rightarrow> time \<Rightarrow> nat \<Rightarrow> AuthorizationDetailsParameter list \<Rightarrow> Token \<Rightarrow> string \<Rightarrow> Service \<Rightarrow> unit api_result"
where
  "store_token_code cfg now p details tokenDoc refreshToken sv =
     lift_store (update_token cfg now p details tokenDoc refreshToken) sv"

definition issue_token ::
  "Cfg \<Rightarrow> time \<Rightarrow> bool \<Rightarrow> string \<Rightarrow> nat \<Rightarrow> TokenDraws \<Rightarrow> Service \<Rightarrow> TokenResponse api_result"
where
  "issue_token cfg now isPreAuthFlow thumb p draws sv =
     and_then (draw (td_accessToken draws) sv) (\<lambda>accessToken sv1.
       let doc = deref (sv_AuthContext sv1) p in
       if Scopes doc = [] then (Inl Panic, sv1)
       else
         and_then (new_refresh_token cfg thumb draws sv1) (\<lambda>refreshToken sv2.
           let details = response_details (td_uuid draws) (AuthorizationDetails doc);
               tokenDoc = \<lparr>tok_AccessToken = accessToken,
                           tok_ExpiresAt = unix (now + access_token_lifetime * second),
                           tok_DPoPThumbprint = thumb\<rparr>;
               reply = \<lparr>tp_AccessToken = accessToken, tp_TokenType = ''DPoP'', tp_ExpiresIn = access_token_lifetime,
                        tp_Scope = hd (Scopes doc), tp_State = State doc, tp_CNonce = Nonce doc, tp_CNonceExpiresIn = 3600,
                        tp_AuthorizationDetails = details, tp_RefreshToken = refreshToken,
                        tp_RefreshTokenExpiresIn =
                          (if grant_refresh \<in> set (cfg_GrantTypes cfg) \<and> thumb \<noteq> [] then cfg_RefreshTokenDuration cfg else 0)\<rparr>
           in if isPreAuthFlow
              then and_then (store_token_preauth cfg now p details tokenDoc refreshToken draws sv2)
                     (\<lambda>childNonce sv3. (Inr (reply\<lparr>tp_CNonce := childNonce\<rparr>), sv3))
              else and_then (store_token_code cfg now p details tokenDoc refreshToken (set_nonce now (Nonce doc) sv2))
                     (\<lambda>_ sv3. (Inr reply, sv3))))"

definition OAuthToken_redeem ::
  "Externals \<Rightarrow> Cfg \<Rightarrow> time \<Rightarrow> TokenRequest \<Rightarrow> bool \<Rightarrow> string \<Rightarrow> string \<Rightarrow> TokenDraws \<Rightarrow> Service \<Rightarrow> TokenResponse api_result"
where
  "OAuthToken_redeem x cfg now req isPreAuthFlow code thumb draws sv =
     and_then (consume_code now isPreAuthFlow code thumb sv) (\<lambda>p sv1.
       case check_consumed x now req isPreAuthFlow thumb (deref (sv_AuthContext sv1) p) of
         Some e \<Rightarrow> (Inl e, sv1)
       | None \<Rightarrow> issue_token cfg now isPreAuthFlow thumb p draws sv1)"

section \<open>The refresh token grant\<close>

definition refresh_proof :: "Externals \<Rightarrow> Cfg \<Rightarrow> time \<Rightarrow> TokenRequest \<Rightarrow> Service \<Rightarrow> DPoP api_result" where
  "refresh_proof x cfg now req sv =
     (if tr_RefreshToken req = [] then (Inl (OAuthError ErrCodeInvalidRequest 400), sv)
      else if grant_refresh \<notin> set (cfg_GrantTypes cfg) then (Inl (OAuthError ErrCodeUnsupportedGrantType 400), sv)
      else (case parse_proof x now (tr_DPOP req) of
              None \<Rightarrow> (Inl (OAuthError ErrCodeInvalidDPoPProof 400), sv)
            | Some dpop \<Rightarrow>
                if d_HTU dpop \<noteq> cfg_TokenEndpoint cfg then (Inl (OAuthError ErrCodeInvalidDPoPProof 400), sv)
                else if d_HTM dpop \<noteq> ''POST'' then (Inl (OAuthError ErrCodeInvalidDPoPProof 400), sv)
                else and_then (burn_jti now (d_JTI dpop) sv) (\<lambda>_ sv1. (Inr dpop, sv1))))"

text \<open>The session of the refresh token, with the checks on its lifetime and its key.\<close>

definition refresh_session :: "time \<Rightarrow> TokenRequest \<Rightarrow> string \<Rightarrow> Service \<Rightarrow> AuthorizationContext api_result" where
  "refresh_session now req thumb sv =
     (case on_store (MemoryStore_GetByRefreshToken now (tr_RefreshToken req)) sv of
        (Inl _, sv1) \<Rightarrow> (Inl (OAuthError ErrCodeInvalidGrant 400), sv1)
      | (Inr p, sv1) \<Rightarrow>
          (let authContext = deref (sv_AuthContext sv1) p in
           if RefreshTokenExpiresAt authContext > 0 \<and> unix now > RefreshTokenExpiresAt authContext
           then (Inl (OAuthError ErrCodeInvalidGrant 400), sv1)
           else (case Token authContext of
                   None \<Rightarrow> (Inl (OAuthError ErrCodeInvalidGrant 400), sv1)
                 | Some tok \<Rightarrow>
                     if tok_DPoPThumbprint tok = [] then (Inl (OAuthError ErrCodeInvalidGrant 400), sv1)
                     else if thumb \<noteq> tok_DPoPThumbprint tok then (Inl (OAuthError ErrCodeInvalidGrant 400), sv1)
                     else (Inr authContext, sv1))))"

text \<open>The copy of the session with the new tokens.\<close>

definition rotated_session ::
  "Cfg \<Rightarrow> time \<Rightarrow> string \<Rightarrow> string \<Rightarrow> string \<Rightarrow> string \<Rightarrow> AuthorizationContext \<Rightarrow> AuthorizationContext"
where
  "rotated_session cfg now thumb newAccessToken newRefreshToken newNonce authContext =
     authContext\<lparr>
       Token := Some \<lparr>tok_AccessToken = newAccessToken,
                      tok_ExpiresAt = unix (now + access_token_lifetime * second),
                      tok_DPoPThumbprint = thumb\<rparr>,
       RefreshToken := newRefreshToken,
       RefreshTokenExpiresAt := unix (now + cfg_RefreshTokenDuration cfg * second),
       Nonce := newNonce\<rparr>"

definition rotate_session :: "time \<Rightarrow> string \<Rightarrow> AuthorizationContext \<Rightarrow> Service \<Rightarrow> unit api_result" where
  "rotate_session now oldRefreshToken rotated sv =
     (case on_store (rotate_new now oldRefreshToken rotated) sv of
        (Inl ErrNoDocuments, sv1) \<Rightarrow> (Inl (OAuthError ErrCodeInvalidGrant 400), sv1)
      | (Inl _, sv1) \<Rightarrow> (Inl (OAuthError ErrCodeServerError 500), sv1)
      | (Inr _, sv1) \<Rightarrow> (Inr (), sv1))"

definition refresh_rotate ::
  "Cfg \<Rightarrow> time \<Rightarrow> string \<Rightarrow> AuthorizationContext \<Rightarrow> TokenDraws \<Rightarrow> Service \<Rightarrow> TokenResponse api_result"
where
  "refresh_rotate cfg now thumb authContext draws sv =
     and_then (draw (td_accessToken draws) sv) (\<lambda>newAccessToken sv1.
     and_then (draw (td_refreshToken draws) sv1) (\<lambda>newRefreshToken sv2.
     and_then (draw (td_nonce draws) sv2) (\<lambda>newNonce sv3.
     and_then (rotate_session now (RefreshToken authContext)
                 (rotated_session cfg now thumb newAccessToken newRefreshToken newNonce authContext)
                 (set_nonce now newNonce sv3)) (\<lambda>_ sv4.
       if Scopes authContext = [] then (Inl Panic, sv4)
       else (Inr \<lparr>tp_AccessToken = newAccessToken, tp_TokenType = ''DPoP'',
                  tp_ExpiresIn = access_token_lifetime, tp_Scope = hd (Scopes authContext),
                  tp_State = [], tp_CNonce = newNonce, tp_CNonceExpiresIn = 3600,
                  tp_AuthorizationDetails = AuthorizationDetails authContext,
                  tp_RefreshToken = newRefreshToken,
                  tp_RefreshTokenExpiresIn = cfg_RefreshTokenDuration cfg\<rparr>, sv4)))))"

definition handleRefreshTokenGrant ::
  "Externals \<Rightarrow> Cfg \<Rightarrow> time \<Rightarrow> TokenRequest \<Rightarrow> TokenDraws \<Rightarrow> Service \<Rightarrow> TokenResponse api_result"
where
  "handleRefreshTokenGrant x cfg now req draws sv =
     and_then (refresh_proof x cfg now req sv) (\<lambda>dpop sv1.
     and_then (refresh_session now req (d_Thumbprint dpop) sv1) (\<lambda>authContext sv2.
       refresh_rotate cfg now (d_Thumbprint dpop) authContext draws sv2))"

section \<open>The endpoint\<close>

definition token_code :: "TokenRequest \<Rightarrow> string" where
  "token_code req = (if tr_GrantType req = grant_preauth then tr_PreAuthorizedCode req else tr_Code req)"

text \<open>The blocks up to the consumption; the result is the thumbprint of the proof's key.\<close>

definition OAuthToken_checks ::
  "Externals \<Rightarrow> Cfg \<Rightarrow> time \<Rightarrow> TokenRequest \<Rightarrow> bool \<Rightarrow> string \<Rightarrow> Service \<Rightarrow> string api_result"
where
  "OAuthToken_checks x cfg now req isPreAuthFlow code sv =
     and_then (token_client_id x cfg now req sv) (\<lambda>clientID sv1.
     and_then (ensure (isPreAuthFlow \<or> clientID \<noteq> []) (OAuthError ErrCodeInvalidRequest 400) sv1) (\<lambda>_ sv1.
     and_then (token_client x cfg now req clientID code sv1) (\<lambda>oauthClient sv2.
     and_then (ensure (isPreAuthFlow \<or> oauthClient = None \<or> cl_Type (the oauthClient) \<noteq> ClientTypePublic \<or>
                       tr_CodeVerifier req \<noteq> []) OAuthErrPKCERequired sv2) (\<lambda>_ sv2.
     and_then (token_dpop x cfg now req isPreAuthFlow sv2) (\<lambda>thumb sv3.
     and_then (if isPreAuthFlow then precheck_preauthorized_code cfg now req code sv3
               else precheck_authorization_code now req clientID code thumb sv3) (\<lambda>_ sv4.
       (Inr thumb, sv4)))))))"

definition OAuthToken ::
  "Externals \<Rightarrow> Cfg \<Rightarrow> time \<Rightarrow> TokenRequest \<Rightarrow> TokenDraws \<Rightarrow> Service \<Rightarrow> TokenResponse api_result"
where
  "OAuthToken x cfg now req draws sv =
     (if tr_GrantType req = grant_refresh then handleRefreshTokenGrant x cfg now req draws sv
      else
        (let isPreAuthFlow = (tr_GrantType req = grant_preauth); code = token_code req in
         and_then (OAuthToken_checks x cfg now req isPreAuthFlow code sv) (\<lambda>thumb sv1.
           OAuthToken_redeem x cfg now req isPreAuthFlow code thumb draws sv1)))"

end
