(* ===== verification/TokenSample.thy ===== *)
theory TokenSample
  imports TokenEndpoint
begin

text \<open>
  A small instance of the issuer for the witnesses: one registered public client, one pending
  authorization code and one pre-authorized code with a transaction code, an outside world that
  knows two DPoP proofs of one key, and requests that redeem them. It starts at second 1000.
\<close>

definition ep :: string where
  "ep = ''https://w.example/token''"

definition tm :: "int \<Rightarrow> time" where
  "tm n = n * second"

definition demo_proof :: "string \<Rightarrow> string \<Rightarrow> (string \<times> DPoP \<times> string \<times> bool)" where
  "demo_proof jti jkt =
     (''dpop+jwt'', \<lparr>d_JTI = jti, d_HTM = ''POST'', d_HTU = ep, d_IAT = 1010, d_ATH = [], d_Thumbprint = []\<rparr>, jkt, True)"

definition demo_x :: Externals where
  "demo_x =
     \<lparr>x_url_parse = sample_parse, x_addr = (\<lambda>_. None), x_to_ascii = Some, x_sha256 = (\<lambda>b. b),
      x_parse_dpop = (\<lambda>s. if s = ''p1'' then Some (demo_proof ''jti-number-one'' ''jkt1'')
                          else if s = ''p2'' then Some (demo_proof ''jti-number-two'' ''jkt1'')
                          else if s = ''p3'' then Some (demo_proof ''jti-number-3'' ''jkt2'') else None),
      x_json_sub = (\<lambda>_. Some ''wallet2''),
      x_jwt_decode = (\<lambda>_. Some \<lparr>at_alg = ''ES256'', at_kid = [], at_iss = ''wallet2'', at_sub = ''wallet2'', at_aud = [ep],
                         at_jti = ''ja'', at_exp = Some 1100, at_nbf = None, at_iat = Some 1005\<rparr>),
      x_sig_ok = (\<lambda>_ k. k = ''key''),
      x_jwk_fetch = (\<lambda>_. Some [\<lparr>jk_kid = [], jk_alg = None, jk_raw = Some ''key''\<rparr>]),
      x_jwk_parse = (\<lambda>_. None), x_jwk_marshal = (\<lambda>_. None), x_evaluator = None, x_policy = None\<rparr>"

definition demo_cfg :: Cfg where
  "demo_cfg =
     \<lparr>cfg_PublicURL = ''https://w.example'',
      cfg_Clients = [''wallet'' \<mapsto> Some \<lparr>cl_Type = ClientTypePublic, cl_RedirectURIs = [''https://w.example/cb''],
                                        cl_Scopes = [''pid''], cl_JWKSURI = []\<rparr>,
                     ''wallet2'' \<mapsto> Some \<lparr>cl_Type = ''confidential'', cl_RedirectURIs = [''https://w.example/cb''],
                                        cl_Scopes = [''pid''], cl_JWKSURI = ''https://w.example/jwks''\<rparr>],
      cfg_TokenEndpoint = ep, cfg_AllowUnverifiedClientAssertion = False,
      cfg_GrantTypes = [''refresh_token''], cfg_RefreshTokenDuration = 86400,
      cfg_EmitInvalidTXCodeError = Some True, cfg_InteractiveAuthorization = None, cfg_DataSources = None\<rparr>"

definition demo_context :: AuthorizationContext where
  "demo_context = zero_AuthorizationContext\<lparr>SessionID := ''s1'', Code := ''code1'', Scopes := [''pid''],
     WalletClientID := ''wallet'', WalletURI := ''https://w.example/cb'', CodeChallenge := ''verifier'',
     CodeChallengeMethod := CodeChallengeMethodPlain, Nonce := ''n0'', ExpiresAt := 1060\<rparr>"

definition demo_offer :: AuthorizationContext where
  "demo_offer = zero_AuthorizationContext\<lparr>SessionID := ''s2'', Code := ''code2'', Scopes := [''pid''],
     PreAuthorized := True, TXCode := ''1234'', ExpiresAt := 1060\<rparr>"

definition demo_store :: MemoryStore where
  "demo_store =
     (let s0 = NewMemoryStore AuthContextTTL;
          s1 = snd (MemoryStore_Save (tm 1000) (Some (fst (alloc demo_context s0))) (snd (alloc demo_context s0)))
      in snd (MemoryStore_Save (tm 1000) (Some (fst (alloc demo_offer s1))) (snd (alloc demo_offer s1))))"

definition demo_service :: Service where
  "demo_service = New_Service\<lparr>sv_AuthContext := demo_store\<rparr>"

definition demo_request :: TokenRequest where
  "demo_request =
     \<lparr>tr_DPOP = ''p1'', tr_GrantType = ''authorization_code'', tr_Code = ''code1'', tr_RedirectURI = ''https://w.example/cb'',
      tr_ClientID = ''wallet'', tr_CodeVerifier = ''verifier'', tr_ClientAssertionType = [], tr_ClientAssertion = [],
      tr_ClientAttestation = [], tr_ClientAttestationPoP = [], tr_PreAuthorizedCode = [], tr_TXCode = [],
      tr_RefreshToken = []\<rparr>"

definition demo_preauth :: TokenRequest where
  "demo_preauth = demo_request\<lparr>tr_GrantType := grant_preauth, tr_Code := [], tr_PreAuthorizedCode := ''code2'',
     tr_TXCode := ''1234'', tr_ClientID := [], tr_RedirectURI := [], tr_CodeVerifier := []\<rparr>"

definition demo_refresh :: TokenRequest where
  "demo_refresh = demo_request\<lparr>tr_DPOP := ''p2'', tr_GrantType := grant_refresh, tr_Code := [], tr_RefreshToken := ''rt1''\<rparr>"

definition demo_draws :: TokenDraws where
  "demo_draws = \<lparr>td_accessToken = Some ''at1'', td_refreshToken = Some ''rt1'', td_childSessionID = Some ''c1'',
     td_nonce = Some ''n1'', td_uuid = (\<lambda>_. ''u'')\<rparr>"

definition demo_draws2 :: TokenDraws where
  "demo_draws2 = \<lparr>td_accessToken = Some ''at2'', td_refreshToken = Some ''rt2'', td_childSessionID = Some ''c2'',
     td_nonce = Some ''n2'', td_uuid = (\<lambda>_. ''u'')\<rparr>"

end
