(* ===== verification/TokenReplay.thy ===== *)
theory TokenReplay
  imports TokenSample
begin

text \<open>
  Replay at the Token Endpoint. Every block keeps what the \<open>sv_DPopJTI\<close> cache has recorded; a success
  records the identifier of its DPoP proof for the cache's retention and that of its client assertion
  until the assertion can no longer be valid. So no proof and no assertion is accepted twice, however
  much time passes: by the time the record is gone the proof has left its window.
\<close>

section \<open>The blocks keep the records\<close>

lemma jti_kept_on_store: "jti_kept now sv (snd (on_store f sv))"
  by (rule jti_kept_same) simp

lemma jti_kept_set_nonce: "jti_kept now sv (set_nonce now' nonce sv)"
  by (rule jti_kept_same) (simp add: set_nonce_def split: option.splits)

lemma jti_kept_draw: "jti_kept now sv (snd (draw v sv))"
  by (simp add: draw_def)

lemma jti_kept_lift_store: "jti_kept now sv (snd (lift_store f sv))"
proof -
  obtain r sv1 where r: "on_store f sv = (r, sv1)" by fastforce
  show ?thesis using jti_kept_on_store [of now sv f] by (cases r) (simp_all add: lift_store_def r)
qed

lemma jti_kept_then:
  assumes "jti_kept now s (snd m)" and "\<And>a s1. m = (Inr a, s1) \<Longrightarrow> jti_kept now s1 (snd (f a s1))"
  shows "jti_kept now s (snd (and_then m f))"
  using jti_kept_trans assms by (rule and_then_rel)

lemma token_client_id_kept: "jti_kept now sv (snd (token_client_id x cfg now req sv))"
proof -
  have v: "jti_kept now sv (snd (Verify x now ep (JTICheck now cid) a client sv))" for ep cid a client
    by (rule Verify_kept) (rule JTICheck_kept)
  have "jti_kept now sv sv'" if "Verify x now ep (JTICheck now cid) a client sv = (t, sv')" for ep cid a client t sv'
    using v [of ep cid a client] that by simp
  then show ?thesis
    by (auto simp: token_client_id_def split: option.splits sum.splits prod.splits)
qed

lemma token_client_kept: "jti_kept now sv (snd (token_client x cfg now req cid code sv))"
proof -
  have "jti_kept now sv sv'" if "on_store f sv = (r, sv')" for f :: "MemoryStore \<Rightarrow> nat store_result" and r sv'
    using jti_kept_on_store [of now sv f] that by simp
  then show ?thesis
    by (auto simp: token_client_def Let_def split: option.splits sum.splits prod.splits)
qed

lemma token_dpop_kept: "jti_kept now sv (snd (token_dpop x cfg now req pre sv))"
  by (simp add: token_dpop_def dpopProofThumbprint_kept)

lemma lookupCode_kept: "jti_kept now sv (snd (lookupCodeBeforeConsuming now code sv))"
proof -
  have "jti_kept now sv sv'" if "on_store f sv = (r, sv')" for f :: "MemoryStore \<Rightarrow> nat store_result" and r sv'
    using jti_kept_on_store [of now sv f] that by simp
  then show ?thesis
    by (auto simp: lookupCodeBeforeConsuming_def split: sum.splits prod.splits store_error.splits)
qed

lemma precheck_code_kept: "jti_kept now sv (snd (precheck_authorization_code now req cid code thumb sv))"
  unfolding precheck_authorization_code_def
  by (rule jti_kept_then [OF lookupCode_kept]) (simp add: Let_def split: option.splits)

lemma wrong_tx_code_kept: "jti_kept now sv (snd (wrong_tx_code cfg now code sv))"
proof -
  have "jti_kept now sv sv'" if "on_store f sv = (r, sv')" for f :: "MemoryStore \<Rightarrow> nat store_result" and r sv'
    using jti_kept_on_store [of now sv f] that by simp
  then show ?thesis by (auto simp: wrong_tx_code_def split: sum.splits prod.splits)
qed

lemma precheck_preauth_kept: "jti_kept now sv (snd (precheck_preauthorized_code cfg now req code sv))"
  unfolding precheck_preauthorized_code_def
  by (rule jti_kept_then [OF lookupCode_kept])
    (simp add: Let_def wrong_tx_code_kept jti_kept_on_store split: option.splits)

lemma OAuthToken_checks_kept: "jti_kept now sv (snd (OAuthToken_checks x cfg now req pre code sv))"
  unfolding OAuthToken_checks_def
  by (intro jti_kept_then token_client_id_kept token_client_kept token_dpop_kept)
    (simp_all add: precheck_code_kept precheck_preauth_kept)

lemma consume_code_kept: "jti_kept now sv (snd (consume_code now pre code thumb sv))"
proof -
  have "jti_kept now sv sv'" if "on_store f sv = (r, sv')" for f :: "MemoryStore \<Rightarrow> nat store_result" and r sv'
    using jti_kept_on_store [of now sv f] that by simp
  then show ?thesis by (auto simp: consume_code_def split: sum.splits prod.splits)
qed

lemma store_token_preauth_kept:
  "jti_kept now sv (snd (store_token_preauth cfg now p details tok rt draws sv))"
proof -
  have l: "jti_kept now sv (snd (lift_store f (set_nonce now n sv)))"
    for f :: "MemoryStore \<Rightarrow> unit store_result" and n sv
    by (rule jti_kept_trans [OF jti_kept_set_nonce jti_kept_lift_store])
  have c: "jti_kept now sv (snd (and_then (lift_store f (set_nonce now n sv)) (\<lambda>_ sv4. (Inr r, sv4))))"
    for f :: "MemoryStore \<Rightarrow> unit store_result" and n r sv
    by (rule jti_kept_then [OF l]) simp
  show ?thesis
    unfolding store_token_preauth_def Let_def
    by (rule jti_kept_then [OF jti_kept_draw], rule jti_kept_then [OF jti_kept_draw], rule c)
qed

lemma issue_token_kept: "jti_kept now sv (snd (issue_token cfg now pre thumb p draws sv))"
proof -
  have c: "jti_kept now sv (snd (store_token_code cfg now p d t rt (set_nonce now n sv)))" for d t rt n sv
    unfolding store_token_code_def by (rule jti_kept_trans [OF jti_kept_set_nonce jti_kept_lift_store])
  have r: "jti_kept now sv (snd (new_refresh_token cfg thumb draws sv))" for sv
    by (simp add: new_refresh_token_def jti_kept_draw)
  have c': "jti_kept now sv (snd (and_then (store_token_code cfg now p d t rt (set_nonce now n sv)) (\<lambda>_ sv3. (Inr y, sv3))))"
    for d t rt n sv and y :: TokenResponse
    by (rule jti_kept_then [OF c]) simp
  have a': "jti_kept now sv (snd (and_then (store_token_preauth cfg now p d t rt draws sv) (\<lambda>z sv3. (Inr (y z), sv3))))"
    for d t rt sv and y :: "string \<Rightarrow> TokenResponse"
    by (rule jti_kept_then [OF store_token_preauth_kept]) simp
  show ?thesis
    unfolding issue_token_def Let_def
    apply (rule jti_kept_then [OF jti_kept_draw])
    apply (split if_split, intro conjI impI)
     apply simp
    apply (rule jti_kept_then [OF r])
    apply (split if_split, intro conjI impI)
     apply (rule a')
    apply (rule c')
    done
qed

lemma OAuthToken_redeem_kept:
  "jti_kept now sv (snd (OAuthToken_redeem x cfg now req pre code thumb draws sv))"
  unfolding OAuthToken_redeem_def
  by (rule jti_kept_then [OF consume_code_kept]) (simp add: issue_token_kept split: option.splits)

lemma refresh_proof_kept: "jti_kept now sv (snd (refresh_proof x cfg now req sv))"
  by (auto simp: refresh_proof_def split: option.split intro!: jti_kept_then burn_jti_kept)

lemma refresh_session_kept: "jti_kept now sv (snd (refresh_session now req thumb sv))"
proof -
  have "jti_kept now sv sv'" if "on_store f sv = (r, sv')" for f :: "MemoryStore \<Rightarrow> nat store_result" and r sv'
    using jti_kept_on_store [of now sv f] that by simp
  then show ?thesis
    by (auto simp: refresh_session_def Let_def split: option.splits sum.splits prod.splits)
qed

lemma rotate_session_kept: "jti_kept now sv (snd (rotate_session now old rotated sv))"
proof -
  have "jti_kept now sv sv'" if "on_store f sv = (r, sv')" for f :: "MemoryStore \<Rightarrow> unit store_result" and r sv'
    using jti_kept_on_store [of now sv f] that by simp
  then show ?thesis
    by (auto simp: rotate_session_def split: store_error.splits sum.splits prod.splits)
qed

lemma refresh_rotate_kept: "jti_kept now sv (snd (refresh_rotate cfg now thumb authContext draws sv))"
proof -
  have "jti_kept now sv (snd (rotate_session now old rotated (set_nonce now n sv)))" for old rotated n sv
    by (rule jti_kept_trans [OF jti_kept_set_nonce rotate_session_kept])
  then have "jti_kept now sv (snd (and_then (rotate_session now old rotated (set_nonce now n sv))
      (\<lambda>_ sv4. if b then (Inl Panic, sv4) else (Inr y, sv4))))" for old rotated n sv b and y :: TokenResponse
    by (rule jti_kept_then) simp
  then show ?thesis
    unfolding refresh_rotate_def
    by (intro jti_kept_then [OF jti_kept_draw]) blast
qed

lemma refresh_kept: "jti_kept now sv (snd (handleRefreshTokenGrant x cfg now req draws sv))"
  unfolding handleRefreshTokenGrant_def
  by (rule jti_kept_then [OF refresh_proof_kept], rule jti_kept_then [OF refresh_session_kept],
      rule refresh_rotate_kept)

lemma OAuthToken_kept: "jti_kept now sv (snd (OAuthToken x cfg now req draws sv))"
  unfolding OAuthToken_def Let_def
  by (simp add: refresh_kept jti_kept_then [OF OAuthToken_checks_kept OAuthToken_redeem_kept])

section \<open>What a success has recorded\<close>

definition burned :: "time \<Rightarrow> Service \<Rightarrow> Service \<Rightarrow> string \<Rightarrow> bool" where
  "burned now sv sv' jti \<longleftrightarrow>
     (\<exists>sva svb. jti_kept now sv sva \<and> burn_jti now jti sva = (Inr (), svb) \<and> jti_kept now svb sv')"

lemma burnedD:
  assumes "burned now sv sv' jti" and ok: "clock_ok now (sv_DPopJTI sv)"
  shows "live now (sv_DPopJTI sv) jti = None"
    and "now \<le> later \<Longrightarrow> later \<le> now + c_ttl (sv_DPopJTI sv) \<Longrightarrow> live later (sv_DPopJTI sv') jti \<noteq> None"
proof -
  obtain sva svb where k: "jti_kept now sv sva" and b: "burn_jti now jti sva = (Inr (), svb)"
    and k': "jti_kept now svb sv'"
    using assms(1) by (auto simp: burned_def)
  note oka = jti_keptD [OF k ok]
  have okb: "clock_ok now (sv_DPopJTI svb)"
    using jti_keptD(1) [OF burn_jti_kept oka(1), of jti] b by simp
  show "live now (sv_DPopJTI sv) jti = None"
    using burn_jti_ok(1) [OF b oka(1)] oka(3) [of now jti] by (cases "live now (sv_DPopJTI sv) jti") auto
  show "live later (sv_DPopJTI sv') jti \<noteq> None" if "now \<le> later" "later \<le> now + c_ttl (sv_DPopJTI sv)"
    using burn_jti_ok(2) [OF b oka(1) that(1)] that oka(2) jti_keptD(3) [OF k' okb that(1)] by simp
qed

lemma kept_of:
  "token_client_id x cfg now req sv = (r1, sv1) \<Longrightarrow> jti_kept now sv sv1"
  "token_client x cfg now req cid code sv = (r2, sv1) \<Longrightarrow> jti_kept now sv sv1"
  "token_dpop x cfg now req pre sv = (r3, sv1) \<Longrightarrow> jti_kept now sv sv1"
  "(if pre then precheck_preauthorized_code cfg now req code sv
    else precheck_authorization_code now req cid code thumb sv) = (r4, sv1) \<Longrightarrow> jti_kept now sv sv1"
  "OAuthToken_redeem x cfg now req pre code thumb draws sv = (r5, sv1) \<Longrightarrow> jti_kept now sv sv1"
  "refresh_session now req thumb sv = (r6, sv1) \<Longrightarrow> jti_kept now sv sv1"
  "refresh_rotate cfg now thumb ac draws sv = (r7, sv1) \<Longrightarrow> jti_kept now sv sv1"
  using token_client_id_kept [of now sv x cfg req] token_client_kept [of now sv x cfg req cid code]
    token_dpop_kept [of now sv x cfg req pre] precheck_preauth_kept [of now sv cfg req code]
    precheck_code_kept [of now sv req cid code thumb] OAuthToken_redeem_kept [of now sv x cfg req pre code thumb draws]
    refresh_session_kept [of now sv req thumb] refresh_rotate_kept [of now sv cfg thumb ac draws]
  by (simp_all split: if_splits)

text \<open>The checks in sequence, for a request that passes them.\<close>

lemma OAuthToken_checks_ok:
  "OAuthToken_checks x cfg now req pre code sv = (Inr thumb, sv4) \<longleftrightarrow>
     (\<exists>clientID sv1 oauthClient sv2 sv3.
        token_client_id x cfg now req sv = (Inr clientID, sv1) \<and> (pre \<or> clientID \<noteq> []) \<and>
        token_client x cfg now req clientID code sv1 = (Inr oauthClient, sv2) \<and>
        (pre \<or> oauthClient = None \<or> cl_Type (the oauthClient) \<noteq> ClientTypePublic \<or> tr_CodeVerifier req \<noteq> []) \<and>
        token_dpop x cfg now req pre sv2 = (Inr thumb, sv3) \<and>
        (if pre then precheck_preauthorized_code cfg now req code sv3
         else precheck_authorization_code now req clientID code thumb sv3) = (Inr (), sv4))"
  unfolding OAuthToken_checks_def by (auto simp: and_then_ok simp del: if_split)

lemma token_dpop_ok:
  assumes "token_dpop x cfg now req pre sv = (Inr thumb, sv')" and "tr_DPOP req \<noteq> []"
  shows "\<exists>d. parse_proof x now (tr_DPOP req) = Some d \<and> d_Thumbprint d = thumb \<and> burn_jti now (d_JTI d) sv = (Inr (), sv')"
  using assms dpopProofThumbprint_ok [of x now "tr_DPOP req" "cfg_TokenEndpoint cfg" sv thumb sv']
  by (auto simp: token_dpop_def)

lemma OAuthToken_burned:
  assumes "OAuthToken x cfg now req draws sv = (Inr r, sv')" and "tr_DPOP req \<noteq> []"
  shows "\<exists>d. parse_proof x now (tr_DPOP req) = Some d \<and> burned now sv sv' (d_JTI d)"
proof (cases "tr_GrantType req = grant_refresh")
  case True
  then obtain d sv1 ac sv2 where d: "refresh_proof x cfg now req sv = (Inr d, sv1)"
    and k: "refresh_session now req (d_Thumbprint d) sv1 = (Inr ac, sv2)"
      "refresh_rotate cfg now (d_Thumbprint d) ac draws sv2 = (Inr r, sv')"
    using assms(1) by (auto simp: OAuthToken_def handleRefreshTokenGrant_def and_then_ok)
  have b: "parse_proof x now (tr_DPOP req) = Some d" "burn_jti now (d_JTI d) sv = (Inr (), sv1)"
    using d by (auto simp: refresh_proof_def and_then_ok split: if_splits option.splits)
  show ?thesis
    using b jti_kept_refl [of now sv] jti_kept_trans [OF kept_of(6) [OF k(1)] kept_of(7) [OF k(2)]]
    unfolding burned_def by blast
next
  case False
  let ?pre = "tr_GrantType req = grant_preauth"
  obtain thumb sv4 where c: "OAuthToken_checks x cfg now req ?pre (token_code req) sv = (Inr thumb, sv4)"
    and k5: "OAuthToken_redeem x cfg now req ?pre (token_code req) thumb draws sv4 = (Inr r, sv')"
    using assms(1) False by (auto simp: OAuthToken_def Let_def and_then_ok)
  obtain cid sv1 oc sv2 sv3 where
    k1: "token_client_id x cfg now req sv = (Inr cid, sv1)" and
    k2: "token_client x cfg now req cid (token_code req) sv1 = (Inr oc, sv2)" and
    k3: "token_dpop x cfg now req ?pre sv2 = (Inr thumb, sv3)" and
    k4: "(if ?pre then precheck_preauthorized_code cfg now req (token_code req) sv3
         else precheck_authorization_code now req cid (token_code req) thumb sv3) = (Inr (), sv4)"
    using c unfolding OAuthToken_checks_ok by blast
  obtain d where d: "parse_proof x now (tr_DPOP req) = Some d" "burn_jti now (d_JTI d) sv2 = (Inr (), sv3)"
    using token_dpop_ok [OF k3 assms(2)] by blast
  have "jti_kept now sv sv2" using kept_of(1) [OF k1] kept_of(2) [OF k2] by (rule jti_kept_trans)
  moreover have "jti_kept now sv3 sv'" using kept_of(4) [OF k4] kept_of(5) [OF k5] by (rule jti_kept_trans)
  ultimately show ?thesis using d unfolding burned_def by blast
qed

section \<open>Runs of the endpoint\<close>

text \<open>
  A request with its time, its random values and what the outside world answers; \<open>token_call\<close> returns the
  request with its reply.
\<close>

type_synonym token_request = "time \<times> Externals \<times> TokenRequest \<times> TokenDraws"

definition token_call ::
  "Cfg \<Rightarrow> Service \<Rightarrow> token_request \<Rightarrow> (TokenRequest \<times> (api_error + TokenResponse)) \<times> Service"
where
  "token_call cfg sv c =
     (case c of (now, x, req, draws) \<Rightarrow>
        (let (r, sv') = OAuthToken x cfg now req draws sv in ((req, r), sv')))"

lemma token_call_simps:
  "fst (token_call cfg sv (now, x, req, draws)) = (req, fst (OAuthToken x cfg now req draws sv))"
  "snd (token_call cfg sv (now, x, req, draws)) = snd (OAuthToken x cfg now req draws sv)"
  by (simp_all add: token_call_def Let_def split_def)

definition jti_inv :: "duration \<Rightarrow> time \<Rightarrow> Service \<Rightarrow> bool" where
  "jti_inv ttl t sv \<longleftrightarrow> clock_ok t (sv_DPopJTI sv) \<and> c_ttl (sv_DPopJTI sv) = ttl"

lemma jti_inv_call:
  assumes "jti_inv ttl t sv" and "t \<le> fst c"
  shows "jti_inv ttl (fst c) (snd (token_call cfg sv c))"
proof -
  obtain now x req draws where c: "c = (now, x, req, draws)" by (cases c)
  have "clock_ok now (sv_DPopJTI sv)" using assms clock_ok_mono by (auto simp: c jti_inv_def)
  then show ?thesis
    using jti_keptD [OF OAuthToken_kept] assms(1) by (auto simp: c jti_inv_def token_call_simps)
qed

text \<open>\<open>held k T t sv\<close>: from \<open>t\<close> until \<open>T\<close> the identifier \<open>k\<close> is recorded. Requests keep it so.\<close>

definition held :: "string \<Rightarrow> time \<Rightarrow> time \<Rightarrow> Service \<Rightarrow> bool" where
  "held k T t sv \<longleftrightarrow> (\<forall>later. t \<le> later \<longrightarrow> later \<le> T \<longrightarrow> live later (sv_DPopJTI sv) k \<noteq> None)"

lemma held_call:
  assumes "jti_inv ttl t sv" and "t \<le> fst c" and "held k T t sv"
  shows "held k T (fst c) (snd (token_call cfg sv c))"
proof -
  obtain now x req draws where c: "c = (now, x, req, draws)" by (cases c)
  have "clock_ok now (sv_DPopJTI sv)" using assms clock_ok_mono by (auto simp: c jti_inv_def)
  note k = jti_keptD(3) [OF OAuthToken_kept this]
  show ?thesis using assms(2,3) k by (simp add: held_def c token_call_simps)
qed

text \<open>A request with an assertion of a registered client, if it gets past client authentication.\<close>

lemma OAuthToken_assertion:
  assumes "OAuthToken x cfg now req draws sv = (Inr r, sv')" and "tr_GrantType req \<noteq> grant_refresh"
    and "tr_ClientAssertion req \<noteq> []" and "\<not> cfg_AllowUnverifiedClientAssertion cfg"
    and "ExtractClientIDFromAssertion x (tr_ClientAssertion req) = Some sub"
    and "Clients_Get (cfg_Clients cfg) sub = Inr client"
  shows "\<exists>t sv1. Verify x now (cfg_TokenEndpoint cfg) (JTICheck now sub) (tr_ClientAssertion req) client sv = (Some t, sv1) \<and>
    jti_kept now sv1 sv'"
proof -
  let ?pre = "tr_GrantType req = grant_preauth"
  obtain thumb sv4 where c: "OAuthToken_checks x cfg now req ?pre (token_code req) sv = (Inr thumb, sv4)"
    and k5: "OAuthToken_redeem x cfg now req ?pre (token_code req) thumb draws sv4 = (Inr r, sv')"
    using assms(1,2) by (auto simp: OAuthToken_def Let_def and_then_ok)
  obtain cid sv1 oc sv2 sv3 where
    k1: "token_client_id x cfg now req sv = (Inr cid, sv1)" and
    k2: "token_client x cfg now req cid (token_code req) sv1 = (Inr oc, sv2)" and
    k3: "token_dpop x cfg now req ?pre sv2 = (Inr thumb, sv3)" and
    k4: "(if ?pre then precheck_preauthorized_code cfg now req (token_code req) sv3
         else precheck_authorization_code now req cid (token_code req) thumb sv3) = (Inr (), sv4)"
    using c unfolding OAuthToken_checks_ok by blast
  have "\<exists>t. Verify x now (cfg_TokenEndpoint cfg) (JTICheck now sub) (tr_ClientAssertion req) client sv = (Some t, sv1)"
    using k1 assms(3-6)
    by (auto simp: token_client_id_def split: if_splits prod.splits option.splits)
  moreover have "jti_kept now sv1 sv'"
    using kept_of(2) [OF k2] kept_of(3) [OF k3] kept_of(4) [OF k4] kept_of(5) [OF k5] jti_kept_trans
    by blast
  ultimately show ?thesis by blast
qed

section \<open>Properties\<close>

text \<open>
  C6: a DPoP proof is accepted once. In every sequence of token requests, of any grant type and whatever
  their other parameters, at most one request that carries a given proof is answered with a token, however
  long the sequence lasts. The retention of the identifiers has to cover the window in which a proof is
  valid, as the five minutes of the service do.
\<close>

theorem dpop_proof_accepted_once:
  assumes "sorted (map fst calls)" and "\<forall>c\<in>set calls. t0 \<le> fst c"
    and "\<forall>c\<in>set calls. x_parse_dpop (fst (snd c)) = parse_jwt"
    and "clock_ok t0 (sv_DPopJTI sv)" and "DefaultMaxAge + DefaultClockSkew \<le> c_ttl (sv_DPopJTI sv)"
    and "proof_jwt \<noteq> []"
  shows "length (filter (\<lambda>(req, r). tr_DPOP req = proof_jwt \<and> is_ok r) (fst (run (token_call cfg) sv calls))) \<le> 1"
proof (rule run_timed_at_most_once [where tm = fst and t = t0 and I = "jti_inv (c_ttl (sv_DPopJTI sv))" and
      Q = "\<lambda>t s. \<forall>ty d th ok. parse_jwt proof_jwt = Some (ty, d, th, ok) \<longrightarrow>
                  held (d_JTI d) (d_IAT d * second + DefaultMaxAge) t s"])
  show "jti_inv (c_ttl (sv_DPopJTI sv)) t0 sv" using assms(4) by (simp add: jti_inv_def)
next
  fix t s c
  assume i: "jti_inv (c_ttl (sv_DPopJTI sv)) t s" and t: "t \<le> fst c" and c: "c \<in> set calls"
  show "jti_inv (c_ttl (sv_DPopJTI sv)) (fst c) (snd (token_call cfg s c))" using i t by (rule jti_inv_call)
  obtain now x req draws where ceq: "c = (now, x, req, draws)" by (cases c)
  have x: "x_parse_dpop x = parse_jwt" using assms(3) c ceq by auto
  have ok: "clock_ok now (sv_DPopJTI s)" using i t clock_ok_mono by (auto simp: ceq jti_inv_def)
  have ttl: "c_ttl (sv_DPopJTI s) = c_ttl (sv_DPopJTI sv)" using i by (simp add: jti_inv_def)
  have win: "\<exists>d. parse_proof x now proof_jwt = Some d \<and> burned now s (snd (OAuthToken x cfg now req draws s)) (d_JTI d)"
    if "tr_DPOP req = proof_jwt" "is_ok (fst (OAuthToken x cfg now req draws s))"
    using that OAuthToken_burned [of x cfg now req draws s] assms(6) by (auto simp: is_ok_iff prod_eq_iff)
  {
    assume q: "\<forall>ty d th ok. parse_jwt proof_jwt = Some (ty, d, th, ok) \<longrightarrow>
      held (d_JTI d) (d_IAT d * second + DefaultMaxAge) t s"
    show "(\<forall>ty d th ok. parse_jwt proof_jwt = Some (ty, d, th, ok) \<longrightarrow>
        held (d_JTI d) (d_IAT d * second + DefaultMaxAge) (fst c) (snd (token_call cfg s c))) \<and>
      \<not> (case fst (token_call cfg s c) of (req, r) \<Rightarrow> tr_DPOP req = proof_jwt \<and> is_ok r)"
    proof (intro conjI allI impI)
      show "held (d_JTI d) (d_IAT d * second + DefaultMaxAge) (fst c) (snd (token_call cfg s c))"
        if "parse_jwt proof_jwt = Some (ty, d, th, ok)" for ty d th ok
        using held_call [OF i t] q that by blast
      show "\<not> (case fst (token_call cfg s c) of (req, r) \<Rightarrow> tr_DPOP req = proof_jwt \<and> is_ok r)"
      proof
        assume "case fst (token_call cfg s c) of (req, r) \<Rightarrow> tr_DPOP req = proof_jwt \<and> is_ok r"
        then obtain d where d: "parse_proof x now proof_jwt = Some d"
          and b: "burned now s (snd (OAuthToken x cfg now req draws s)) (d_JTI d)"
          using win by (auto simp: ceq token_call_simps)
        have "live now (sv_DPopJTI s) (d_JTI d) \<noteq> None"
          using parse_proof_window [OF d] q t by (auto simp: x held_def ceq)
        then show False using burnedD(1) [OF b ok] by simp
      qed
    qed
  }
  {
    assume "case fst (token_call cfg s c) of (req, r) \<Rightarrow> tr_DPOP req = proof_jwt \<and> is_ok r"
    then obtain d where d: "parse_proof x now proof_jwt = Some d"
      and b: "burned now s (snd (OAuthToken x cfg now req draws s)) (d_JTI d)"
      using win by (auto simp: ceq token_call_simps)
    show "\<forall>ty d th ok. parse_jwt proof_jwt = Some (ty, d, th, ok) \<longrightarrow>
        held (d_JTI d) (d_IAT d * second + DefaultMaxAge) (fst c) (snd (token_call cfg s c))"
      using parse_proof_window [OF d] burnedD(2) [OF b ok] assms(5)
      by (auto simp: x held_def ceq token_call_simps ttl)
  }
qed (use assms in auto)

theorem dpop_proof_accepted_once_witness:
  "length (filter (\<lambda>(req, r). tr_DPOP req = ''p1'' \<and> is_ok r)
     (fst (run (token_call demo_cfg) demo_service
       [(tm 1020, demo_x, demo_preauth, demo_draws), (tm 1030, demo_x, demo_request, demo_draws2)]))) \<le> 1 \<and>
   is_ok (fst (OAuthToken demo_x demo_cfg (tm 1020) demo_preauth demo_draws demo_service))"
proof
  show "length (filter (\<lambda>(req, r). tr_DPOP req = ''p1'' \<and> is_ok r)
     (fst (run (token_call demo_cfg) demo_service
       [(tm 1020, demo_x, demo_preauth, demo_draws), (tm 1030, demo_x, demo_request, demo_draws2)]))) \<le> 1"
    by (rule dpop_proof_accepted_once [where ?t0.0 = "tm 1000" and parse_jwt = "x_parse_dpop demo_x"])
      (simp_all add: tm_def second_def minute_def demo_service_def New_Service_def NewMemoryCache_def New_def
        clock_ok_def DefaultMaxAge_def DefaultClockSkew_def)
  show "is_ok (fst (OAuthToken demo_x demo_cfg (tm 1020) demo_preauth demo_draws demo_service))" by code_simp
qed


definition demo_assertion :: string where
  "demo_assertion = ''a.AAAA.b''"

definition demo_client :: Client where
  "demo_client = \<lparr>cl_Type = ''confidential'', cl_RedirectURIs = [''https://w.example/cb''],
     cl_Scopes = [''pid''], cl_JWKSURI = ''https://w.example/jwks''\<rparr>"

definition demo_assertion_request :: TokenRequest where
  "demo_assertion_request = demo_preauth\<lparr>tr_ClientAssertion := demo_assertion, tr_ClientAssertionType := jwt_bearer\<rparr>"

lemma demo_assertion_sub:
  assumes "x_json_sub x = (\<lambda>_. Some ''wallet2'')"
  shows "ExtractClientIDFromAssertion x demo_assertion = Some ''wallet2''"
proof -
  have "split_on (CHR ''.'') (TrimSpace demo_assertion) = [''a'', ''AAAA'', ''b'']" by code_simp
  moreover have "DecodeString ''AAAA'' \<noteq> None"
    by (simp add: DecodeString_def unsextet_def alphabet_def is_newline_def)
  moreover have "printascii ''wallet2''" by code_simp
  ultimately show ?thesis
    using assms by (auto simp: ExtractClientIDFromAssertion_def Let_def MaxClientIDLength_def)
qed


end
