(* ===== verification/TokenLaws.thy ===== *)
theory TokenLaws
  imports AuthContextLaws TokenReplay
begin

text \<open>
  What the blocks of the Token Endpoint do to the authorization context store. The checks before the
  consumption of an authorization code only move deadlines in the cache (\<open>store_touched\<close>); consuming a code and
  storing a token replace one document. The laws name the document, its session and its address, so the
  properties of the endpoint can follow one document through a request.
\<close>

section \<open>Lookups\<close>

lemma touched_trans: "touched a b \<Longrightarrow> touched b c \<Longrightarrow> touched a c"
  by (simp add: touched_def)

lemma getLocked_touched:
  assumes "getLocked now q s = (r, s')"
  shows "touched s s'"
proof -
  have "touched s s1" if "cache_get now sid s = (y, s1)" for sid y s1
    using cache_get_touched [OF that] .
  then show ?thesis
    using assms by (auto simp: getLocked_def split: option.splits sum.splits prod.splits)
qed

lemma cache_get_live_now: "live now (ms_cache (snd (cache_get now sid s))) = live now (ms_cache s)"
  using live_Get_now [of now sid "ms_cache s"] by (simp add: cache_get_def Let_def split_def fun_eq_iff)

lemma getLocked_live_now:
  assumes "getLocked now q s = (r, s')"
  shows "live now (ms_cache s') = live now (ms_cache s)"
proof -
  have "live now (ms_cache s1) = live now (ms_cache s)" if "cache_get now sid s = (y, s1)" for sid y s1
    using cache_get_live_now [of now sid s] that by simp
  then show ?thesis
    using assms by (auto simp: getLocked_def split: option.splits sum.splits prod.splits)
qed

lemma resolve_by_code:
  "resolveSessionIDLocked (zero_AuthorizationContext\<lparr>Code := code\<rparr>) s =
     (if code = [] then Inl ErrNoSearchableField
      else case ms_indices s (index_key ''code'' code) of None \<Rightarrow> Inl ErrNoDocuments | Some sid \<Rightarrow> Inr sid)"
  by (simp add: resolveSessionIDLocked_def query_fields_def zero_AuthorizationContext_def)

lemma Get_by_code:
  assumes "MemoryStore_Get now (by_code code) s = (Inr p, s')"
  shows "touched s s'" and "\<exists>sid. ms_indices s (index_key ''code'' code) = Some sid \<and> ptr s sid = Some p"
proof -
  show "touched s s'" using assms getLocked_touched by (auto simp: MemoryStore_Get_def)
  show "\<exists>sid. ms_indices s (index_key ''code'' code) = Some sid \<and> ptr s sid = Some p"
    using assms cache_get_Some [of now _ s p]
    by (auto simp: MemoryStore_Get_def getLocked_def by_code_def resolve_by_code
        split: option.splits if_splits prod.splits)
qed

definition store_touched :: "time \<Rightarrow> Service \<Rightarrow> Service \<Rightarrow> bool" where
  "store_touched now sv sv' \<longleftrightarrow>
     touched (sv_AuthContext sv) (sv_AuthContext sv') \<and>
     live now (ms_cache (sv_AuthContext sv')) = live now (ms_cache (sv_AuthContext sv))"

lemma store_touched_refl [simp]: "store_touched now sv sv"
  by (simp add: store_touched_def)

lemma store_touched_trans: "store_touched now a b \<Longrightarrow> store_touched now b c \<Longrightarrow> store_touched now a c"
  using touched_trans by (auto simp: store_touched_def)

lemma store_touched_same: "sv_AuthContext sv' = sv_AuthContext sv \<Longrightarrow> store_touched now sv sv'"
  by (simp add: store_touched_def)

lemma store_touched_then:
  assumes "store_touched now s (snd m)" and "\<And>a s1. m = (Inr a, s1) \<Longrightarrow> store_touched now s1 (snd (f a s1))"
  shows "store_touched now s (snd (and_then m f))"
  using store_touched_trans assms by (rule and_then_rel)

lemma on_store_Get_touched:
  assumes "on_store (MemoryStore_Get now q) sv = (r, sv')"
  shows "store_touched now sv sv'"
  using assms getLocked_touched [of now q "sv_AuthContext sv"] getLocked_live_now [of now q "sv_AuthContext sv"]
  by (auto simp: on_store_eq store_touched_def MemoryStore_Get_def)

section \<open>The checks leave the store alone\<close>

lemma JTICheck_store: "sv_AuthContext (snd (JTICheck now cid jti ex sv)) = sv_AuthContext sv"
  by (simp add: JTICheck_def Let_def split_def)

lemma Verify_store: "sv_AuthContext (snd (Verify x now e (JTICheck now cid) a client sv)) = sv_AuthContext sv"
  by (simp add: Verify_def Let_def split_def JTICheck_store split: option.splits)

lemma token_client_id_touched: "store_touched now sv (snd (token_client_id x cfg now req sv))"
proof -
  have "store_touched now sv sv'" if "Verify x now e (JTICheck now cid) a client sv = (t, sv')" for e cid a client t sv'
    using Verify_store [of x now e cid a client sv] that by (simp add: store_touched_same)
  then show ?thesis
    by (auto simp: token_client_id_def split: option.splits sum.splits prod.splits)
qed

lemma token_client_touched: "store_touched now sv (snd (token_client x cfg now req cid code sv))"
  using on_store_Get_touched [of now "by_code code" sv]
  by (auto simp: token_client_def Let_def split: option.splits sum.splits prod.splits)

lemma burn_jti_store: "sv_AuthContext (snd (burn_jti now jti sv)) = sv_AuthContext sv"
  by (simp add: burn_jti_def Let_def split_def)

lemma burn_jti_touched: "store_touched now sv (snd (burn_jti now jti sv))"
  by (rule store_touched_same) (rule burn_jti_store)

lemma dpopProofThumbprint_touched: "store_touched now sv (snd (dpopProofThumbprint x now proof htu sv))"
proof (cases "parse_proof x now proof")
  case None
  then show ?thesis by (simp add: dpopProofThumbprint_def)
next
  case (Some d)
  then show ?thesis
    by (simp add: dpopProofThumbprint_def) (rule store_touched_then [OF burn_jti_touched], simp)
qed

lemma token_dpop_touched: "store_touched now sv (snd (token_dpop x cfg now req pre sv))"
  by (simp add: token_dpop_def dpopProofThumbprint_touched)

lemma lookupCode_touched: "store_touched now sv (snd (lookupCodeBeforeConsuming now code sv))"
  using on_store_Get_touched [of now "by_code code" sv]
  by (auto simp: lookupCodeBeforeConsuming_def split: sum.splits prod.splits store_error.splits)

lemma precheck_code_touched: "store_touched now sv (snd (precheck_authorization_code now req cid code thumb sv))"
  unfolding precheck_authorization_code_def
  by (rule store_touched_then [OF lookupCode_touched]) (simp add: Let_def split: option.splits)

lemma checks_code_touched: "store_touched now sv (snd (OAuthToken_checks x cfg now req False code sv))"
  unfolding OAuthToken_checks_def
  by (intro store_touched_then token_client_id_touched token_client_touched token_dpop_touched)
    (simp_all add: precheck_code_touched)

lemma touched_of:
  "token_client_id x cfg now req sv = (r1, sv1) \<Longrightarrow> store_touched now sv sv1"
  "token_client x cfg now req cid code sv = (r2, sv1) \<Longrightarrow> store_touched now sv sv1"
  "token_dpop x cfg now req pre sv = (r3, sv1) \<Longrightarrow> store_touched now sv sv1"
  "precheck_authorization_code now req cid code thumb sv = (r4, sv1) \<Longrightarrow> store_touched now sv sv1"
  using token_client_id_touched [of now sv x cfg req] token_client_touched [of now sv x cfg req cid code]
    token_dpop_touched [of now sv x cfg req pre] precheck_code_touched [of now sv req cid code thumb]
  by simp_all

text \<open>What the pre-consumption checks have seen, on the document under the code.\<close>

lemma lookupCode_found:
  assumes "lookupCodeBeforeConsuming now code sv = (Inr (Some p), sv')"
  shows "\<exists>sid. ms_indices (sv_AuthContext sv) (index_key ''code'' code) = Some sid \<and> ptr (sv_AuthContext sv) sid = Some p"
  using assms Get_by_code(2) [of now code "sv_AuthContext sv" p]
  by (auto simp: lookupCodeBeforeConsuming_def on_store_eq split: sum.splits prod.splits store_error.splits)

lemma cache_get_None:
  "cache_get now sid s = (None, s') \<Longrightarrow> s' = s \<and> live now (ms_cache s) sid = None"
  by (auto simp: cache_get_def live_def cache_defs Let_def split: option.splits if_splits)

lemma lookupCode_none:
  assumes "lookupCodeBeforeConsuming now code sv = (Inr None, sv')"
  shows "sv' = sv \<and> (case ms_indices (sv_AuthContext sv) (index_key ''code'' code) of
           None \<Rightarrow> True | Some sid \<Rightarrow> live now (ms_cache (sv_AuthContext sv)) sid = None)"
proof -
  obtain s' where s': "MemoryStore_Get now (by_code code) (sv_AuthContext sv) = (Inl ErrNoDocuments, s')"
    "sv' = sv\<lparr>sv_AuthContext := s'\<rparr>"
    using assms by (auto simp: lookupCodeBeforeConsuming_def on_store_eq split: sum.splits prod.splits store_error.splits)
  have "s' = sv_AuthContext sv \<and> (case ms_indices (sv_AuthContext sv) (index_key ''code'' code) of
           None \<Rightarrow> True | Some sid \<Rightarrow> live now (ms_cache (sv_AuthContext sv)) sid = None)"
    using s'(1) cache_get_None [of now _ "sv_AuthContext sv"]
    by (auto simp: MemoryStore_Get_def getLocked_def by_code_def resolve_by_code split: option.splits if_splits prod.splits)
  then show ?thesis using s'(2) by simp
qed

lemma by_index_None:
  assumes "case ms_indices s (index_key n v) of None \<Rightarrow> True | Some sid \<Rightarrow> live now (ms_cache s) sid = None"
  shows "fst (by_index now n v s) = Inl ErrNoDocuments"
  using assms cache_get_live [of now _ s] 
  by (auto simp: by_index_def split: option.splits prod.splits) (metis fst_conv option.distinct(1))

section \<open>Consuming a code\<close>

text \<open>
  \<open>consumed s s' code p d d'\<close>: the live document \<open>d\<close> under the code has become \<open>d'\<close>, at address \<open>p\<close>, and nothing
  else has changed.
\<close>

definition consumed ::
  "MemoryStore \<Rightarrow> MemoryStore \<Rightarrow> string \<Rightarrow> nat \<Rightarrow> AuthorizationContext \<Rightarrow> AuthorizationContext \<Rightarrow> bool"
where
  "consumed s s' code p d d' \<longleftrightarrow>
     (\<exists>sid. ms_indices s (index_key ''code'' code) = Some sid \<and> cached s sid = Some d \<and> SessionID d' = sid \<and>
            changed s s' sid d' \<and> ptr s' sid = Some p \<and> ms_heap s' p = d')"

lemma in_place_consumed:
  assumes wf: "store_wf s" and b: "by_index now ''code'' code s = (Inr (sid, p), s1)"
    and d': "SessionID d' = SessionID (deref s1 p)"
  shows "consumed s (store_in_place now sid p d' ttl s1) code p (deref s1 p) d'"
    and "consumed s (updateIndices d' (store_in_place now sid p d' ttl s1)) code p (deref s1 p) d'"
proof -
  have t: "touched s s1" and ix: "ms_indices s (index_key ''code'' code) = Some sid" and p: "ptr s sid = Some p"
    using by_index_law [OF b] by auto
  have rd: "ready s s1 sid p (deref s1 p)" using wf t p by (rule readyI)
  then have c: "cached s sid = Some (deref s1 p)" "SessionID d' = sid" using d' by (auto simp: ready_def)
  show "consumed s (store_in_place now sid p d' ttl s1) code p (deref s1 p) d'"
    "consumed s (updateIndices d' (store_in_place now sid p d' ttl s1)) code p (deref s1 p) d'"
    using ready_changed [OF rd c(2)] ix c
    by (simp_all add: consumed_def store_in_place_def store_simps)
qed

lemma Forfeit_consumed:
  assumes wf: "store_wf s" and op: "MemoryStore_ForfeitAuthorizationCode now (by_code code) s = (Inr p, s')"
  shows "\<exists>d. \<not> Forfeited d \<and> consumed s s' code p d (d\<lparr>Forfeited := True\<rparr>)"
proof -
  have code: "code \<noteq> []"
    using op by (auto simp: MemoryStore_ForfeitAuthorizationCode_def by_code_def zero_AuthorizationContext_def)
  obtain sid s1 where b: "by_index now ''code'' code s = (Inr (sid, p), s1)" and n: "\<not> Forfeited (deref s1 p)"
    and s': "s' = updateIndices ((deref s1 p)\<lparr>Forfeited := True\<rparr>)
        (store_in_place now sid p ((deref s1 p)\<lparr>Forfeited := True\<rparr>) DefaultTTL s1)"
    using op code
    by (auto simp: MemoryStore_ForfeitAuthorizationCode_def by_code_def Let_def split: prod.splits sum.splits if_splits)
  show ?thesis using in_place_consumed(2) [OF wf b] n s' by auto
qed

lemma Redeem_consumed:
  assumes wf: "store_wf s" and op: "MemoryStore_RedeemPreAuthorizedCode now code thumb s = (Inr p, s')"
  shows "\<exists>d. \<not> Forfeited d \<and> thumb \<notin> set (RedeemedBy d) \<and> length (RedeemedBy d) < MaxPreAuthRedeemers \<and>
    consumed s s' code p d (d\<lparr>RedeemedBy := RedeemedBy d @ [thumb]\<rparr>)"
proof -
  obtain sid s1 where b: "by_index now ''code'' code s = (Inr (sid, p), s1)" and n: "\<not> Forfeited (deref s1 p)"
      "thumb \<notin> set (RedeemedBy (deref s1 p))" "length (RedeemedBy (deref s1 p)) < MaxPreAuthRedeemers"
    and s': "s' = store_in_place now sid p ((deref s1 p)\<lparr>RedeemedBy := RedeemedBy (deref s1 p) @ [thumb]\<rparr>)
        PreviousOrDefaultTTL s1"
    using op by (auto simp: MemoryStore_RedeemPreAuthorizedCode_def Let_def split: prod.splits sum.splits if_splits)
  show ?thesis using in_place_consumed(1) [OF wf b] n s' by auto
qed

lemma consume_code_ok:
  assumes "store_wf (sv_AuthContext sv)" and "consume_code now pre code thumb sv = (Inr p, sv')"
  shows "\<exists>d d'. \<not> Forfeited d \<and> consumed (sv_AuthContext sv) (sv_AuthContext sv') code p d d' \<and>
    (if pre \<and> thumb \<noteq> [] then thumb \<notin> set (RedeemedBy d) \<and> length (RedeemedBy d) < MaxPreAuthRedeemers \<and>
       d' = d\<lparr>RedeemedBy := RedeemedBy d @ [thumb]\<rparr>
     else d' = d\<lparr>Forfeited := True\<rparr>)"
proof (cases "pre \<and> thumb \<noteq> []")
  case True
  then obtain s' where "MemoryStore_RedeemPreAuthorizedCode now code thumb (sv_AuthContext sv) = (Inr p, s')"
    "sv' = sv\<lparr>sv_AuthContext := s'\<rparr>"
    using assms(2) by (auto simp: consume_code_def on_store_eq split: prod.splits sum.splits)
  then show ?thesis using Redeem_consumed [OF assms(1)] True by force
next
  case False
  then obtain s' where "MemoryStore_ForfeitAuthorizationCode now (by_code code) (sv_AuthContext sv) = (Inr p, s')"
    "sv' = sv\<lparr>sv_AuthContext := s'\<rparr>"
    using assms(2) by (auto simp: consume_code_def on_store_eq split: prod.splits sum.splits)
  then show ?thesis using Forfeit_consumed [OF assms(1)] False by force
qed

lemma write_in_place:
  assumes "store_wf s" and "ptr s sid = Some p" and "SessionID d = sid"
  shows "store_wf (write_doc p d s)" and "cached (write_doc p d s) = (cached s)(sid \<mapsto> d)"
proof -
  have same: "ptr s sid' = Some p \<Longrightarrow> sid' = sid" for sid'
    using store_wfD(2) [OF assms(1), of sid' p] store_wfD(2) [OF assms(1,2)] by simp
  show "store_wf (write_doc p d s)"
    unfolding store_wf_def write_frame
  proof (intro allI impI)
    fix sid' q
    assume q: "ptr s sid' = Some q"
    show "q < ms_next s \<and> SessionID (((ms_heap s)(p := d)) q) = sid'"
      using store_wfD [OF assms(1) q] same [of sid'] q assms(3) by (cases "q = p") auto
  qed
  show "cached (write_doc p d s) = (cached s)(sid \<mapsto> d)"
  proof
    fix sid'
    show "cached (write_doc p d s) sid' = ((cached s)(sid \<mapsto> d)) sid'"
      using assms(2) same [of sid'] by (cases "ptr s sid'") (auto simp: cached_def write_frame)
  qed
qed

text \<open>
  \<open>Update\<close> of the document the store itself holds: the new contents replace the old, and every key of the
  new contents leads to the session.
\<close>

lemma Update_alias:
  assumes wf: "store_wf s" and p: "ptr s sid = Some p" and d: "SessionID d = sid"
    and op: "MemoryStore_Update now (Some p) (write_doc p d s) = (Inr (), s')"
  shows "Validate d" and "changed s s' sid d" and "k \<in> doc_keys d \<Longrightarrow> ms_indices s' k = Some sid"
proof -
  let ?s1 = "write_doc p d s"
  note w = write_in_place [OF wf p d]
  have dr: "deref ?s1 p = d" by (simp add: deref_def write_frame)
  have ne: "SessionID d \<noteq> []"
  proof
    assume "SessionID d = []"
    then show False using op unfolding MemoryStore_Update_def by (simp add: dr)
  qed
  show v: "Validate d"
  proof (rule ccontr)
    assume "\<not> Validate d"
    then show False using op ne unfolding MemoryStore_Update_def by (simp add: dr)
  qed
  obtain q s2 where b: "by_session now sid ?s1 = (Inr q, s2)"
    and s': "s' = updateIndices (deref s2 p) (cache_set now (SessionID (deref s2 p)) p DefaultTTL (deleteIndices (deref s2 q) s2))"
  proof (cases "by_session now sid ?s1")
    case (Pair r s2)
    show thesis
    proof (cases r)
      case (Inl e)
      then show thesis using op Pair d ne v unfolding MemoryStore_Update_def by (simp add: dr)
    next
      case (Inr q)
      then show thesis using op Pair d ne v that unfolding MemoryStore_Update_def by (simp add: dr Let_def deref_frame)
    qed
  qed
  have t: "touched ?s1 s2" and q: "q = p" using by_session_law [OF b] p by (auto simp: write_frame)
  have d2: "deref s2 p = d" using touchedD(7) [OF t] dr by simp
  have rd: "ready ?s1 s2 sid p d" using readyI [OF w(1) t, of sid p] p d2 by (simp add: write_frame)
  have lt: "p < ms_next s2" using touchedD(3) [OF t] store_wfD(1) [OF wf p] by (simp add: write_frame)
  have h: "ms_heap s2 p = d" using d2 by (simp add: deref_def)
  have eq: "s' = updateIndices d (cache_set now sid p DefaultTTL (deleteIndices d s2))"
    using s' q d2 d by simp
  have c: "changed ?s1 s' sid d" using replace_law(1) [OF w(1) rd lt h d] eq by simp
  have ix: "idx_from ?s1 s' = idx_from s s'" by (simp add: idx_from_def write_frame)
  show "changed s s' sid d" using c unfolding changed_def ix w(2) by simp
  show "ms_indices s' k = Some sid" if "k \<in> doc_keys d"
    using that d by (simp add: eq updateIndices_apply)
qed

section \<open>Issuing the token\<close>

lemma lift_store_ok:
  "lift_store f sv = (Inr a, sv') \<longleftrightarrow> (\<exists>s. f (sv_AuthContext sv) = (Inr a, s) \<and> sv' = sv\<lparr>sv_AuthContext := s\<rparr>)"
  by (auto simp: lift_store_def on_store_eq on_store_def Let_def split: prod.splits sum.splits)

lemma draw_ok [simp]: "draw v sv = (Inr a, sv') \<longleftrightarrow> v = Some a \<and> sv' = sv"
  by (auto simp: draw_def split: option.splits)

lemma set_nonce_store [simp]: "sv_AuthContext (set_nonce now n sv) = sv_AuthContext sv"
  by (simp add: set_nonce_def split: option.splits)

lemma new_refresh_token_ok:
  "new_refresh_token cfg thumb draws sv = (Inr rt, sv') \<Longrightarrow>
     sv' = sv \<and> (rt = [] \<or> td_refreshToken draws = Some rt \<and> thumb \<noteq> [])"
  by (auto simp: new_refresh_token_def split: if_splits)

lemma doc_keys_access_token:
  "Token d = Some t \<Longrightarrow> tok_AccessToken t \<noteq> [] \<Longrightarrow> index_key ''access_token'' (tok_AccessToken t) \<in> doc_keys d"
  by (auto simp: key_in_doc_keys in_index_entries index_fields_def)

lemma Validate_token: "Validate d \<Longrightarrow> Token d = Some t \<Longrightarrow> Token_valid t"
  by (auto simp: Validate_def opt_valid_def)

lemma issue_token_code:
  assumes wf: "store_wf (sv_AuthContext sv)" and p: "ptr (sv_AuthContext sv) sid = Some p"
    and op: "issue_token cfg now False thumb p draws sv = (Inr r, sv')"
  shows "\<exists>rt. let d' = with_token cfg now (tp_AuthorizationDetails r)
        \<lparr>tok_AccessToken = tp_AccessToken r, tok_ExpiresAt = unix (now + access_token_lifetime * second),
         tok_DPoPThumbprint = thumb\<rparr> rt (ms_heap (sv_AuthContext sv) p)
      in changed (sv_AuthContext sv) (sv_AuthContext sv') sid d' \<and>
         ms_indices (sv_AuthContext sv') (index_key ''access_token'' (tp_AccessToken r)) = Some sid \<and>
         tp_RefreshToken r = rt \<and> td_accessToken draws = Some (tp_AccessToken r) \<and>
         (rt = [] \<or> td_refreshToken draws = Some rt \<and> thumb \<noteq> [] \<and>
            ms_indices (sv_AuthContext sv') (index_key ''refresh_token'' rt) = Some sid)"
proof -
  let ?s = "sv_AuthContext sv"
  let ?doc = "ms_heap ?s p"
  obtain a rt where a: "td_accessToken draws = Some a"
    and rt: "new_refresh_token cfg thumb draws sv = (Inr rt, sv)"
    and st: "store_token_code cfg now p (response_details (td_uuid draws) (AuthorizationDetails ?doc))
          \<lparr>tok_AccessToken = a, tok_ExpiresAt = unix (now + access_token_lifetime * second), tok_DPoPThumbprint = thumb\<rparr>
          rt (set_nonce now (Nonce ?doc) sv) = (Inr (), sv')"
    and r: "tp_AccessToken r = a" "tp_RefreshToken r = rt"
      "tp_AuthorizationDetails r = response_details (td_uuid draws) (AuthorizationDetails ?doc)"
    using op new_refresh_token_ok [of cfg thumb draws sv]
    by (auto simp: issue_token_def Let_def and_then_ok deref_def split: if_splits)
  let ?tok = "\<lparr>tok_AccessToken = a, tok_ExpiresAt = unix (now + access_token_lifetime * second), tok_DPoPThumbprint = thumb\<rparr>"
  let ?d = "with_token cfg now (tp_AuthorizationDetails r) ?tok rt ?doc"
  have sid: "SessionID ?d = sid" using store_wfD(2) [OF wf p] by (simp add: with_token_def)
  have up: "MemoryStore_Update now (Some p) (write_doc p ?d ?s) = (Inr (), sv_AuthContext sv')"
  proof -
    obtain s where s: "update_token cfg now p (response_details (td_uuid draws) (AuthorizationDetails ?doc)) ?tok rt
        (sv_AuthContext (set_nonce now (Nonce ?doc) sv)) = (Inr (), s)"
      and "sv' = (set_nonce now (Nonce ?doc) sv)\<lparr>sv_AuthContext := s\<rparr>"
      using st unfolding store_token_code_def lift_store_ok by blast
    then have "sv_AuthContext sv' = s" by simp
    with s show ?thesis unfolding update_token_def deref_def set_nonce_store r(3) by simp
  qed
  note u = Update_alias [OF wf p sid up]
  have tok: "Token ?d = Some ?tok" "RefreshToken ?d = rt" by (simp_all add: with_token_def)
  have "Token_valid ?tok" using Validate_token [OF u(1) tok(1)] .
  then have "a \<noteq> []" by (simp add: Token_valid_def)
  then have k: "index_key ''access_token'' a \<in> doc_keys ?d" using doc_keys_access_token [OF tok(1)] by simp
  have k': "rt \<noteq> [] \<Longrightarrow> index_key ''refresh_token'' rt \<in> doc_keys ?d" by (simp add: doc_keys_fields tok(2))
  have rt': "rt = [] \<or> td_refreshToken draws = Some rt \<and> thumb \<noteq> [] \<and>
      ms_indices (sv_AuthContext sv') (index_key ''refresh_token'' rt) = Some sid"
    using new_refresh_token_ok [OF rt] u(3) [OF k'] by blast
  show ?thesis
    unfolding Let_def r(1)
    by (intro exI [of _ rt] conjI) (rule u(2), rule u(3) [OF k], rule r(2), rule a, rule rt')
qed

end
