(* ===== verification/TokenProps.thy ===== *)
theory TokenProps
  imports TokenLaws
begin

text \<open>
  What an answer of the Token Endpoint means: for authorization codes, pre-authorized codes and refresh
  tokens, the conditions under which a token is issued and its effect on the store; that a request which
  does not match a code leaves the code usable; and that a valid request is answered.
\<close>

section \<open>Authorization codes\<close>

text \<open>A request that passes the checks on the code has matched the document it is about to consume.\<close>

definition code_matches :: "TokenRequest \<Rightarrow> string \<Rightarrow> string \<Rightarrow> AuthorizationContext \<Rightarrow> bool" where
  "code_matches req clientID thumb d \<longleftrightarrow>
     \<not> PreAuthorized d \<and>
     (WalletClientID d \<noteq> [] \<longrightarrow> clientID = WalletClientID d) \<and>
     (WalletURI d \<noteq> [] \<longrightarrow> tr_RedirectURI req = WalletURI d) \<and>
     (AuthSessionDPoPThumbprint d \<noteq> [] \<longrightarrow> thumb = AuthSessionDPoPThumbprint d)"

lemma precheck_code_ok:
  assumes "precheck_authorization_code now req clientID code thumb sv = (Inr (), sv')"
  shows "\<exists>found. lookupCodeBeforeConsuming now code sv = (Inr found, sv') \<and>
    (case found of None \<Rightarrow> True | Some p \<Rightarrow> code_matches req clientID thumb (deref (sv_AuthContext sv') p))"
proof -
  let ?doc = "\<lambda>found. case found of None \<Rightarrow> zero_AuthorizationContext | Some p \<Rightarrow> deref (sv_AuthContext sv') p"
  obtain found where l: "lookupCodeBeforeConsuming now code sv = (Inr found, sv')"
    and c: "\<not> PreAuthorized (?doc found)" "\<not> (WalletClientID (?doc found) \<noteq> [] \<and> clientID \<noteq> WalletClientID (?doc found))"
      "\<not> (WalletURI (?doc found) \<noteq> [] \<and> tr_RedirectURI req \<noteq> WalletURI (?doc found))"
      "checkInteractiveAuthorizationBinding (Some (?doc found)) thumb = None"
    using assms unfolding precheck_authorization_code_def and_then_ok Let_def
    by (elim exE conjE) (simp split: if_split_asm option.split_asm)
  show ?thesis
  proof (cases found)
    case None
    then show ?thesis using l by auto
  next
    case (Some p)
    then have "code_matches req clientID thumb (deref (sv_AuthContext sv') p)"
      using c by (auto simp: code_matches_def checkInteractiveAuthorizationBinding_def split: if_split_asm)
    then show ?thesis using l Some by auto
  qed
qed

lemma consume_code_missing:
  assumes "case ms_indices (sv_AuthContext sv) (index_key ''code'' code) of
           None \<Rightarrow> True | Some sid \<Rightarrow> live now (ms_cache (sv_AuthContext sv)) sid = None"
  shows "consume_code now False code thumb sv \<noteq> (Inr p, sv')"
proof
  assume "consume_code now False code thumb sv = (Inr p, sv')"
  then obtain s' where f: "MemoryStore_ForfeitAuthorizationCode now (by_code code) (sv_AuthContext sv) = (Inr p, s')"
    by (auto simp: consume_code_def on_store_eq split: prod.splits sum.splits)
  have "fst (by_index now ''code'' code (sv_AuthContext sv)) = Inl ErrNoDocuments" using by_index_None [OF assms] .
  then obtain s1 where "by_index now ''code'' code (sv_AuthContext sv) = (Inl ErrNoDocuments, s1)"
    by (cases "by_index now ''code'' code (sv_AuthContext sv)") simp
  then show False using f
    by (auto simp: MemoryStore_ForfeitAuthorizationCode_def by_code_def zero_AuthorizationContext_def split: if_splits)
qed

lemma precheck_then_consume:
  assumes wf: "store_wf (sv_AuthContext sv)"
    and pre: "precheck_authorization_code now req clientID code thumb sv = (Inr (), sv1)"
    and con: "consume_code now False code thumb sv1 = (Inr p, sv2)"
  shows "\<exists>d. \<not> Forfeited d \<and> code_matches req clientID thumb d \<and>
    consumed (sv_AuthContext sv1) (sv_AuthContext sv2) code p d (d\<lparr>Forfeited := True\<rparr>)"
proof -
  have t: "touched (sv_AuthContext sv) (sv_AuthContext sv1)" using touched_of(4) [OF pre] by (simp add: store_touched_def)
  then have wf1: "store_wf (sv_AuthContext sv1)" using wf touchedD(6) by blast
  obtain found where l: "lookupCodeBeforeConsuming now code sv = (Inr found, sv1)"
    and m: "case found of None \<Rightarrow> True | Some q \<Rightarrow> code_matches req clientID thumb (deref (sv_AuthContext sv1) q)"
    using precheck_code_ok [OF pre] by blast
  obtain q where q: "found = Some q"
  proof (cases found)
    case None
    then show thesis using lookupCode_none [of now code sv sv1] l
        consume_code_missing [where sv = sv1 and code = code and now = now] con by auto
  qed
  obtain d where d: "\<not> Forfeited d" "consumed (sv_AuthContext sv1) (sv_AuthContext sv2) code p d (d\<lparr>Forfeited := True\<rparr>)"
    using consume_code_ok [OF wf1 con] by auto
  obtain sid where s: "ms_indices (sv_AuthContext sv) (index_key ''code'' code) = Some sid" "ptr (sv_AuthContext sv) sid = Some q"
    using lookupCode_found [of now code sv q sv1] l q by auto
  have "cached (sv_AuthContext sv1) sid = Some (deref (sv_AuthContext sv1) q)"
    using s(2) touchedD(1) [OF t] by (simp add: cached_def deref_def)
  moreover have "cached (sv_AuthContext sv1) sid = Some d"
    using d(2) s(1) touchedD(4) [OF t] by (auto simp: consumed_def)
  ultimately have "deref (sv_AuthContext sv1) q = d" by simp
  then show ?thesis using d m q by auto
qed

text \<open>The blocks of a successful redemption of an authorization code.\<close>

lemma OAuthToken_code_ok:
  assumes "tr_GrantType req \<noteq> grant_refresh" "tr_GrantType req \<noteq> grant_preauth"
    and "OAuthToken_checks x cfg now req False (tr_Code req) sv = (Inr thumb, sv4)"
  shows "\<exists>cid dp sv3. fst (token_client_id x cfg now req sv) = Inr cid \<and>
    parse_proof x now (tr_DPOP req) = Some dp \<and> d_Thumbprint dp = thumb \<and>
    store_touched now sv sv3 \<and> precheck_authorization_code now req cid (tr_Code req) thumb sv3 = (Inr (), sv4)"
proof -
  obtain cid sv1 oc sv2 sv3 where
    k1: "token_client_id x cfg now req sv = (Inr cid, sv1)" and
    k2: "token_client x cfg now req cid (tr_Code req) sv1 = (Inr oc, sv2)" and
    k3: "token_dpop x cfg now req False sv2 = (Inr thumb, sv3)" and
    k4: "precheck_authorization_code now req cid (tr_Code req) thumb sv3 = (Inr (), sv4)"
    using assms(3) unfolding OAuthToken_checks_ok by auto
  have "store_touched now sv sv3"
    using touched_of(1) [OF k1] touched_of(2) [OF k2] touched_of(3) [OF k3] store_touched_trans by blast
  moreover obtain dp where "parse_proof x now (tr_DPOP req) = Some dp" "d_Thumbprint dp = thumb"
    using token_dpop_ok [OF k3] k3 by (auto simp: token_dpop_def split: if_splits)
  ultimately show ?thesis using k1 k4 by (metis fst_conv)
qed



section \<open>Pre-authorized codes\<close>

lemma precheck_preauth_ok:
  assumes "precheck_preauthorized_code cfg now req code sv = (Inr (), sv')"
  shows "\<exists>p. lookupCodeBeforeConsuming now code sv = (Inr (Some p), sv') \<and>
    PreAuthorized (deref (sv_AuthContext sv') p) \<and> \<not> Forfeited (deref (sv_AuthContext sv') p) \<and>
    TXCodeAttempts (deref (sv_AuthContext sv') p) < MaxTXCodeAttempts \<and>
    TXCode (deref (sv_AuthContext sv') p) = tr_TXCode req"
proof -
  have w: "fst (wrong_tx_code cfg now code s1) \<noteq> Inr ()" for s1
    by (simp add: wrong_tx_code_def split: prod.splits sum.splits)
  obtain found sv1 where l: "lookupCodeBeforeConsuming now code sv = (Inr found, sv1)"
    and c: "(case found of
         None \<Rightarrow> (Inl (OAuthError ErrCodeInvalidGrant 400), sv1)
       | Some p \<Rightarrow>
           (let preCheck = deref (sv_AuthContext sv1) p in
            if \<not> PreAuthorized preCheck then (Inl (OAuthError ErrCodeInvalidGrant 400), sv1)
            else if Forfeited preCheck then (Inl (OAuthError ErrCodeInvalidGrant 400), sv1)
            else if TXCodeAttempts preCheck \<ge> MaxTXCodeAttempts then
              (Inl (OAuthError ErrCodeInvalidGrant 400), snd (on_store (MemoryStore_ConsumeTXCodeAttempt now code) sv1))
            else if TXCode preCheck = [] \<and> tr_TXCode req \<noteq> [] then (Inl (OAuthError ErrCodeInvalidRequest 400), sv1)
            else if TXCode preCheck \<noteq> [] \<and> tr_TXCode req = [] then (Inl (OAuthError ErrCodeInvalidRequest 400), sv1)
            else if TXCode preCheck \<noteq> [] \<and> TXCode preCheck \<noteq> tr_TXCode req then wrong_tx_code cfg now code sv1
            else (Inr (), sv1))) = (Inr (), sv')"
    using assms unfolding precheck_preauthorized_code_def and_then_ok by blast
  obtain p where p: "found = Some p" using c by (cases found) simp_all
  let ?d = "deref (sv_AuthContext sv1) p"
  have n: "wrong_tx_code cfg now code sv1 \<noteq> (Inr (), sv')" using w [of sv1] by auto
  have k: "PreAuthorized ?d" "\<not> Forfeited ?d" "\<not> MaxTXCodeAttempts \<le> TXCodeAttempts ?d"
    "\<not> (TXCode ?d = [] \<and> tr_TXCode req \<noteq> [])" "\<not> (TXCode ?d \<noteq> [] \<and> tr_TXCode req = [])"
    "\<not> (TXCode ?d \<noteq> [] \<and> TXCode ?d \<noteq> tr_TXCode req)" "sv1 = sv'"
    using c n unfolding p Let_def by (simp_all split: if_split_asm)
  then have "TXCode ?d = tr_TXCode req" by (cases "TXCode ?d") auto
  then show ?thesis using l p k by (auto simp: not_le)
qed

lemma store_token_preauth_ok:
  assumes wf: "store_wf (sv_AuthContext sv)"
    and op: "store_token_preauth cfg now p details tok rt draws sv = (Inr nonce, sv')"
  shows "\<exists>csid t. td_childSessionID draws = Some csid \<and> td_nonce draws = Some nonce \<and>
    changed (sv_AuthContext sv) (sv_AuthContext sv') csid
      ((child_session cfg now (deref (sv_AuthContext sv) p) csid nonce details tok rt)\<lparr>CreatedAt := t\<rparr>)"
proof -
  obtain csid s where c: "td_childSessionID draws = Some csid" "td_nonce draws = Some nonce"
    and sv: "save_new now (child_session cfg now (deref (sv_AuthContext sv) p) csid nonce details tok rt)
        (sv_AuthContext sv) = (Inr (), s)" "sv_AuthContext sv' = s"
    using op unfolding store_token_preauth_def Let_def and_then_ok lift_store_ok
    by (auto simp: set_nonce_store)
  let ?doc = "child_session cfg now (deref (sv_AuthContext sv) p) csid nonce details tok rt"
  have "SessionID ?doc = csid" by (simp add: child_session_def)
  then show ?thesis
    using Save_law [OF wf, of now ?doc "Inr ()" s] sv c by (auto simp: save_new_def)
qed

text \<open>
  C2: what a token answer to a pre-authorized code means. The document under the code was an unspent
  pre-authorized offer with attempts left, the request carried its transaction code if it has one and none
  otherwise, and it had not expired. With a DPoP proof the key had not redeemed the code before and the cap
  on redeemers was not reached, and the key is added to them; without one the code is forfeited. The token
  is stored in a session of its own, bound to the key of the proof.
\<close>

theorem preauthorized_redemption_sound:
  assumes wf: "store_wf (sv_AuthContext sv)"
    and grant: "tr_GrantType req = grant_preauth"
    and op: "OAuthToken x cfg now req draws sv = (Inr r, sv')"
  shows "\<exists>sid d d' csid c thumb.
    ms_indices (sv_AuthContext sv) (index_key ''code'' (tr_PreAuthorizedCode req)) = Some sid \<and>
    cached (sv_AuthContext sv) sid = Some d \<and> PreAuthorized d \<and> \<not> Forfeited d \<and>
    TXCodeAttempts d < MaxTXCodeAttempts \<and> TXCode d = tr_TXCode req \<and>
    (ExpiresAt d > 0 \<longrightarrow> unix now \<le> ExpiresAt d) \<and>
    (if tr_DPOP req = [] then thumb = [] else (\<exists>dp. parse_proof x now (tr_DPOP req) = Some dp \<and> d_Thumbprint dp = thumb)) \<and>
    (if thumb = [] then d' = d\<lparr>Forfeited := True\<rparr>
     else thumb \<notin> set (RedeemedBy d) \<and> length (RedeemedBy d) < MaxPreAuthRedeemers \<and>
       d' = d\<lparr>RedeemedBy := RedeemedBy d @ [thumb]\<rparr>) \<and>
    td_childSessionID draws = Some csid \<and>
    cached (sv_AuthContext sv') = (cached (sv_AuthContext sv))(sid \<mapsto> d', csid \<mapsto> c) \<and>
    SourceSessionID c = sid \<and> Scopes c = Scopes d \<and>
    Token c = Some \<lparr>tok_AccessToken = tp_AccessToken r,
                    tok_ExpiresAt = unix (now + access_token_lifetime * second), tok_DPoPThumbprint = thumb\<rparr>"
proof -
  let ?s = "sv_AuthContext sv" and ?code = "tr_PreAuthorizedCode req"
  have nr: "tr_GrantType req \<noteq> grant_refresh" using grant by (simp add: grant_preauth_def grant_refresh_def)
  have code: "token_code req = ?code" using grant by (simp add: token_code_def)
  obtain thumb sv4 where c: "OAuthToken_checks x cfg now req True ?code sv = (Inr thumb, sv4)"
    and k5: "OAuthToken_redeem x cfg now req True ?code thumb draws sv4 = (Inr r, sv')"
    using op grant nr by (auto simp: OAuthToken_def Let_def and_then_ok code)
  obtain cid sv1 oc sv2 sv3 where
    k1: "token_client_id x cfg now req sv = (Inr cid, sv1)" and
    k2: "token_client x cfg now req cid ?code sv1 = (Inr oc, sv2)" and
    k3: "token_dpop x cfg now req True sv2 = (Inr thumb, sv3)" and
    k4: "precheck_preauthorized_code cfg now req ?code sv3 = (Inr (), sv4)"
    using c unfolding OAuthToken_checks_ok by auto
  obtain q where l: "lookupCodeBeforeConsuming now ?code sv3 = (Inr (Some q), sv4)"
    and pre: "PreAuthorized (deref (sv_AuthContext sv4) q)" "\<not> Forfeited (deref (sv_AuthContext sv4) q)"
      "TXCodeAttempts (deref (sv_AuthContext sv4) q) < MaxTXCodeAttempts" "TXCode (deref (sv_AuthContext sv4) q) = tr_TXCode req"
    using precheck_preauth_ok [OF k4] by blast
  have "store_touched now sv sv3"
    using touched_of(1) [OF k1] touched_of(2) [OF k2] touched_of(3) [OF k3] store_touched_trans by blast
  moreover have "store_touched now sv3 sv4" using lookupCode_touched [of now sv3 ?code] l by simp
  ultimately have t3: "touched ?s (sv_AuthContext sv3)" and t4: "touched ?s (sv_AuthContext sv4)"
    using store_touched_trans by (auto simp: store_touched_def intro: touched_trans)
  have wf4: "store_wf (sv_AuthContext sv4)" using wf touchedD(6) [OF t4] by simp
  obtain p sv5 where con: "consume_code now True ?code thumb sv4 = (Inr p, sv5)"
    and chk: "check_consumed x now req True thumb (deref (sv_AuthContext sv5) p) = None"
    and iss: "issue_token cfg now True thumb p draws sv5 = (Inr r, sv')"
    using k5 by (auto simp: OAuthToken_redeem_def and_then_ok split: option.splits)
  obtain d d' where cons: "consumed (sv_AuthContext sv4) (sv_AuthContext sv5) ?code p d d'"
    and d': "if thumb = [] then d' = d\<lparr>Forfeited := True\<rparr>
     else thumb \<notin> set (RedeemedBy d) \<and> length (RedeemedBy d) < MaxPreAuthRedeemers \<and>
       d' = d\<lparr>RedeemedBy := RedeemedBy d @ [thumb]\<rparr>"
    using consume_code_ok [OF wf4 con] by (elim exE conjE) (rule that, assumption, cases "thumb = []", simp_all)
  obtain sid where sid: "ms_indices ?s (index_key ''code'' ?code) = Some sid" "cached ?s sid = Some d" "SessionID d' = sid"
    and ch: "changed (sv_AuthContext sv4) (sv_AuthContext sv5) sid d'"
    and p: "ms_heap (sv_AuthContext sv5) p = d'"
    using cons touchedD(4,5) [OF t4] by (auto simp: consumed_def)
  have "deref (sv_AuthContext sv4) q = d"
  proof -
    have "ptr (sv_AuthContext sv3) sid = Some q"
      using lookupCode_found [OF l] sid(1) touchedD(4) [OF t3] by auto
    then have "cached ?s sid = Some (deref (sv_AuthContext sv4) q)"
      using touchedD(1) [OF t3] touchedD(7) [OF t4] by (simp add: cached_def deref_def)
    then show ?thesis using sid(2) by simp
  qed
  note pre = pre [unfolded this]
  have wf5: "store_wf (sv_AuthContext sv5)" and c5: "cached (sv_AuthContext sv5) = (cached ?s)(sid \<mapsto> d')"
    using ch touchedD(5) [OF t4] by (auto simp: changed_def)
  define tok where "tok = \<lparr>tok_AccessToken = tp_AccessToken r,
     tok_ExpiresAt = unix (now + access_token_lifetime * second), tok_DPoPThumbprint = thumb\<rparr>"
  obtain details rt nonce where st: "store_token_preauth cfg now p details tok rt draws sv5 = (Inr nonce, sv')"
    using iss new_refresh_token_ok [of cfg thumb draws sv5]
    by (auto simp: issue_token_def Let_def and_then_ok tok_def split: if_splits)
  obtain csid t where cs: "td_childSessionID draws = Some csid"
    and ch': "changed (sv_AuthContext sv5) (sv_AuthContext sv') csid
       ((child_session cfg now d' csid nonce details tok rt)\<lparr>CreatedAt := t\<rparr>)"
    using store_token_preauth_ok [OF wf5 st] p by (auto simp: deref_def)
  let ?c = "(child_session cfg now d' csid nonce details tok rt)\<lparr>CreatedAt := t\<rparr>"
  have fin: "cached (sv_AuthContext sv') = (cached ?s)(sid \<mapsto> d', csid \<mapsto> ?c)"
    using ch' c5 by (simp add: changed_def)
  have same: "Scopes d' = Scopes d" "ExpiresAt d' = ExpiresAt d" using d' by (auto split: if_splits)
  have gate: "ExpiresAt d > 0 \<longrightarrow> unix now \<le> ExpiresAt d"
    using chk p same by (auto simp: check_consumed_def deref_def split: option.splits if_splits)
  have th: "if tr_DPOP req = [] then thumb = [] else (\<exists>dp. parse_proof x now (tr_DPOP req) = Some dp \<and> d_Thumbprint dp = thumb)"
    using k3 token_dpop_ok [OF k3] by (auto simp: token_dpop_def)
  have child: "SourceSessionID ?c = sid" "Scopes ?c = Scopes d" "Token ?c = Some tok"
    using sid(3) same by (simp_all add: child_session_def)
  show ?thesis
    by (rule exI [of _ sid], rule exI [of _ d], rule exI [of _ d'], rule exI [of _ csid], rule exI [of _ ?c], rule exI [of _ thumb],
        intro conjI)
      (use sid pre gate th d' cs fin child in \<open>simp_all only: tok_def not_False_eq_True\<close>)
qed

section \<open>Refresh tokens\<close>

lemma refresh_proof_ok:
  assumes "refresh_proof x cfg now req sv = (Inr dp, sv')"
  shows "parse_proof x now (tr_DPOP req) = Some dp" and "store_touched now sv sv'"
proof -
  have "parse_proof x now (tr_DPOP req) = Some dp \<and> (\<exists>u. burn_jti now (d_JTI dp) sv = (Inr u, sv'))"
    using assms unfolding refresh_proof_def by (simp add: and_then_ok split: if_split_asm option.split_asm)
  then show "parse_proof x now (tr_DPOP req) = Some dp" and "store_touched now sv sv'"
    using burn_jti_touched [of now sv "d_JTI dp"] by auto
qed

lemma refresh_session_ok:
  assumes "refresh_session now req thumb sv = (Inr d, sv')" and wf: "store_wf (sv_AuthContext sv)"
  shows "touched (sv_AuthContext sv) (sv_AuthContext sv') \<and>
    (\<exists>sid tok. ms_indices (sv_AuthContext sv) (index_key ''refresh_token'' (tr_RefreshToken req)) = Some sid \<and>
       cached (sv_AuthContext sv) sid = Some d \<and> SessionID d = sid \<and>
       (RefreshTokenExpiresAt d > 0 \<longrightarrow> unix now \<le> RefreshTokenExpiresAt d) \<and>
       Token d = Some tok \<and> tok_DPoPThumbprint tok = thumb \<and> thumb \<noteq> [])"
proof -
  obtain p where g: "on_store (MemoryStore_GetByRefreshToken now (tr_RefreshToken req)) sv = (Inr p, sv')"
    and d: "d = deref (sv_AuthContext sv') p"
    and k: "RefreshTokenExpiresAt d > 0 \<longrightarrow> unix now \<le> RefreshTokenExpiresAt d"
      "\<exists>tok. Token d = Some tok \<and> tok_DPoPThumbprint tok = thumb \<and> thumb \<noteq> []"
    using assms(1) unfolding refresh_session_def Let_def
    by (simp split: prod.split_asm sum.split_asm if_split_asm option.split_asm) (auto simp: not_less)
  obtain sid s1 where b: "by_index now ''refresh_token'' (tr_RefreshToken req) (sv_AuthContext sv) = (Inr (sid, p), s1)"
    and s1: "sv_AuthContext sv' = s1"
    using g by (auto simp: on_store_eq MemoryStore_GetByRefreshToken_def get_by_def split: prod.splits sum.splits if_splits)
  note l = by_index_law(1) [OF b] by_index_law(2) [OF b refl]
  have "cached (sv_AuthContext sv) sid = Some d"
    using l s1 d touchedD(7) [OF l(1)] by (simp add: cached_def deref_def)
  moreover have "SessionID d = sid" using store_wfD(2) [OF wf] l(2) d s1 touchedD(7) [OF l(1)] by (simp add: deref_def)
  ultimately show ?thesis using l s1 k by blast
qed

lemma refresh_rotate_ok:
  assumes wf: "store_wf (sv_AuthContext sv)" and op: "refresh_rotate cfg now thumb d draws sv = (Inr r, sv')"
  shows "\<exists>od. td_accessToken draws = Some (tp_AccessToken r) \<and> td_refreshToken draws = Some (tp_RefreshToken r) \<and>
    td_nonce draws = Some (tp_CNonce r) \<and> cached (sv_AuthContext sv) (SessionID d) = Some od \<and>
    (let d' = rotated_session cfg now thumb (tp_AccessToken r) (tp_RefreshToken r) (tp_CNonce r) d
     in changed (sv_AuthContext sv) (sv_AuthContext sv') (SessionID d) d' \<and>
        reindexed (sv_AuthContext sv) (sv_AuthContext sv') od d')"
proof -
  obtain u where dr: "td_accessToken draws = Some (tp_AccessToken r)" "td_refreshToken draws = Some (tp_RefreshToken r)"
      "td_nonce draws = Some (tp_CNonce r)"
    and st: "rotate_session now (RefreshToken d)
       (rotated_session cfg now thumb (tp_AccessToken r) (tp_RefreshToken r) (tp_CNonce r) d)
       (set_nonce now (tp_CNonce r) sv) = (Inr u, sv')"
    using op unfolding refresh_rotate_def and_then_ok draw_ok
    by (elim exE conjE) (auto split: if_split_asm)
  let ?d = "rotated_session cfg now thumb (tp_AccessToken r) (tp_RefreshToken r) (tp_CNonce r) d"
  obtain s where s: "rotate_new now (RefreshToken d) ?d (sv_AuthContext sv) = (Inr (), s)" "sv_AuthContext sv' = s"
    using st by (auto simp: rotate_session_def on_store_eq split: prod.splits sum.splits store_error.splits)
  have sid: "SessionID ?d = SessionID d" by (simp add: rotated_session_def)
  show ?thesis
    using Rotate_law [OF wf, of now "RefreshToken d" ?d "Inr ()" s] s dr unfolding rotate_new_def sid Let_def by auto
qed

text \<open>
  C3: what an answer to a refresh token means. The session of the token exists, its refresh token has not
  expired and the request carries a proof of the key its access token is bound to. The session is replaced
  by one with a fresh access token, refresh token and nonce, bound to the same key, and no other session
  changes. The new tokens lead to it, and every handle of the old session that the new one does not carry,
  the previous access token and refresh token among them, leads nowhere.
\<close>

theorem refresh_sound:
  assumes wf: "store_wf (sv_AuthContext sv)"
    and grant: "tr_GrantType req = grant_refresh"
    and op: "OAuthToken x cfg now req draws sv = (Inr r, sv')"
  shows "\<exists>sid d d' tok dp.
    ms_indices (sv_AuthContext sv) (index_key ''refresh_token'' (tr_RefreshToken req)) = Some sid \<and>
    cached (sv_AuthContext sv) sid = Some d \<and>
    (RefreshTokenExpiresAt d > 0 \<longrightarrow> unix now \<le> RefreshTokenExpiresAt d) \<and>
    parse_proof x now (tr_DPOP req) = Some dp \<and> Token d = Some tok \<and> tok_DPoPThumbprint tok = d_Thumbprint dp \<and>
    d_Thumbprint dp \<noteq> [] \<and>
    d' = rotated_session cfg now (d_Thumbprint dp) (tp_AccessToken r) (tp_RefreshToken r) (tp_CNonce r) d \<and>
    cached (sv_AuthContext sv') = (cached (sv_AuthContext sv))(sid \<mapsto> d') \<and>
    (\<forall>k. ms_indices (sv_AuthContext sv') k =
       (if k \<in> doc_keys d' then Some sid else if k \<in> doc_keys d then None else ms_indices (sv_AuthContext sv) k))"
proof -
  let ?s = "sv_AuthContext sv"
  obtain dp sv1 d sv2 where p: "refresh_proof x cfg now req sv = (Inr dp, sv1)"
    and s: "refresh_session now req (d_Thumbprint dp) sv1 = (Inr d, sv2)"
    and r: "refresh_rotate cfg now (d_Thumbprint dp) d draws sv2 = (Inr r, sv')"
    using op grant unfolding OAuthToken_def handleRefreshTokenGrant_def by (auto simp: and_then_ok)
  have t1: "touched ?s (sv_AuthContext sv1)" using refresh_proof_ok(2) [OF p] by (simp add: store_touched_def)
  have wf1: "store_wf (sv_AuthContext sv1)" using wf touchedD(6) [OF t1] by simp
  obtain sid tok where t2: "touched (sv_AuthContext sv1) (sv_AuthContext sv2)"
    and k: "ms_indices (sv_AuthContext sv1) (index_key ''refresh_token'' (tr_RefreshToken req)) = Some sid"
      "cached (sv_AuthContext sv1) sid = Some d" "SessionID d = sid"
      "RefreshTokenExpiresAt d > 0 \<longrightarrow> unix now \<le> RefreshTokenExpiresAt d"
      "Token d = Some tok" "tok_DPoPThumbprint tok = d_Thumbprint dp" "d_Thumbprint dp \<noteq> []"
    using refresh_session_ok [OF s wf1] by blast
  have t: "touched ?s (sv_AuthContext sv2)" using touched_trans [OF t1 t2] .
  let ?d' = "rotated_session cfg now (d_Thumbprint dp) (tp_AccessToken r) (tp_RefreshToken r) (tp_CNonce r) d"
  have wf2: "store_wf (sv_AuthContext sv2)" using wf touchedD(6) [OF t] by simp
  have ix: "ms_indices (sv_AuthContext sv1) = ms_indices ?s" "cached (sv_AuthContext sv1) = cached ?s"
    "ms_indices (sv_AuthContext sv2) = ms_indices ?s" "cached (sv_AuthContext sv2) = cached ?s"
    using touchedD(4,5) [OF t1] touchedD(4,5) [OF t] by simp_all
  obtain od where od: "cached (sv_AuthContext sv2) sid = Some od"
    and ch: "changed (sv_AuthContext sv2) (sv_AuthContext sv') sid ?d'" "reindexed (sv_AuthContext sv2) (sv_AuthContext sv') od ?d'"
    using refresh_rotate_ok [OF wf2 r] unfolding k(3) Let_def by blast
  have eq: "od = d" using od k(2) ix by simp
  have c: "cached (sv_AuthContext sv') = (cached ?s)(sid \<mapsto> ?d')" using ch(1) ix by (simp add: changed_def)
  have i: "\<forall>k. ms_indices (sv_AuthContext sv') k =
       (if k \<in> doc_keys ?d' then Some sid else if k \<in> doc_keys d then None else ms_indices ?s k)"
    using ch(2) k(3) unfolding eq reindexed_def ix by (simp add: rotated_session_def)
  show ?thesis
    by (rule exI [of _ sid], rule exI [of _ d], rule exI [of _ ?d'], rule exI [of _ tok], rule exI [of _ dp], intro conjI)
      (use k ix c i refresh_proof_ok(1) [OF p] in \<open>simp_all only: simp_thms\<close>)
qed

end
