(* ===== verification/TokenLiveness.thy ===== *)
theory TokenLiveness
  imports TokenProps
begin

text \<open>
  The other direction of the redemption of an authorization code: a request that passes the checks and
  meets an unused, unexpired document is answered with a token, so the checks of the endpoint are the only
  reasons to refuse it.
\<close>

section \<open>The store operations succeed\<close>

lemma live_after_Set: "live now c k = Some w \<Longrightarrow> live now (Set now k v DefaultTTL c) k = Some v"
  by (auto simp: cache_defs item_defs live_def Let_def split: option.splits prod.splits if_splits)

lemma cache_get_found:
  assumes "live now (ms_cache s) sid = Some p"
  obtains s1 where "cache_get now sid s = (Some p, s1)"
  using cache_get_live [of now sid s] assms by (cases "cache_get now sid s") simp

lemma Forfeit_succeeds:
  assumes code: "code \<noteq> []" and ix: "ms_indices s (index_key ''code'' code) = Some sid"
    and lv: "live now (ms_cache s) sid = Some p" and un: "\<not> Forfeited (deref s p)"
  shows "\<exists>s'. MemoryStore_ForfeitAuthorizationCode now (by_code code) s = (Inr p, s') \<and>
    live now (ms_cache s') sid = Some p"
proof -
  obtain s1 where g: "cache_get now sid s = (Some p, s1)" using cache_get_found [OF lv] .
  have t: "touched s s1" and lv1: "live now (ms_cache s1) sid = Some p"
    using cache_get_touched [OF g] cache_get_live_now [of now sid s] g lv by simp_all
  let ?doc = "(deref s p)\<lparr>Forfeited := True\<rparr>"
  let ?s' = "updateIndices ?doc (store_in_place now sid p ?doc DefaultTTL s1)"
  have b: "by_index now ''code'' code s = (Inr (sid, p), s1)" by (simp add: by_index_def ix g)
  have "MemoryStore_ForfeitAuthorizationCode now (by_code code) s = (Inr p, ?s')"
    using code un by (simp add: MemoryStore_ForfeitAuthorizationCode_def by_code_def b touchedD(7) [OF t] Let_def)
  moreover have "live now (ms_cache ?s') sid = Some p"
    using live_after_Set [of now "ms_cache s1" sid p p] lv1
    by (simp add: updateIndices_def store_in_place_def cache_set_def write_frame)
  ultimately show ?thesis by blast
qed

lemma Update_succeeds:
  assumes lv: "live now (ms_cache s) sid = Some p" and sid: "SessionID d = sid" and v: "Validate d"
  shows "\<exists>s'. MemoryStore_Update now (Some p) (write_doc p d s) = (Inr (), s')"
proof -
  have "live now (ms_cache (write_doc p d s)) sid = Some p" using lv by (simp add: write_frame)
  then obtain s1 where g: "cache_get now sid (write_doc p d s) = (Some p, s1)" using cache_get_found by blast
  have dr: "deref (write_doc p d s) p = d" by (simp add: deref_def write_frame)
  have "SessionID d \<noteq> []" using v by (simp add: Validate_def)
  then show ?thesis using sid v g by (simp add: MemoryStore_Update_def dr by_session_def Let_def)
qed

lemma Validate_with_token:
  assumes "Validate d" and "Token_valid tok" and "text_tag 4096 rt"
  shows "Validate (with_token cfg now details tok rt (d\<lparr>Forfeited := True\<rparr>))"
  using assms by (simp add: Validate_def with_token_def text_fields_def opt_valid_def)

section \<open>The endpoint answers\<close>

lemma consume_code_succeeds:
  assumes "code \<noteq> []" and "ms_indices (sv_AuthContext sv) (index_key ''code'' code) = Some sid"
    and "live now (ms_cache (sv_AuthContext sv)) sid = Some p" and "\<not> Forfeited (deref (sv_AuthContext sv) p)"
  shows "\<exists>sv'. consume_code now False code thumb sv = (Inr p, sv') \<and> live now (ms_cache (sv_AuthContext sv')) sid = Some p"
  using Forfeit_succeeds [OF assms] by (auto simp: consume_code_def on_store_def Let_def)

lemma issue_token_succeeds:
  assumes doc: "deref (sv_AuthContext sv) p = doc" and lv: "live now (ms_cache (sv_AuthContext sv)) sid = Some p" and sid: "SessionID doc = sid"
    and sc: "Scopes doc \<noteq> []" and a: "td_accessToken draws = Some a"
    and rt: "new_refresh_token cfg thumb draws sv = (Inr rt, sv)"
    and v: "\<And>details. Validate (with_token cfg now details
       \<lparr>tok_AccessToken = a, tok_ExpiresAt = unix (now + access_token_lifetime * second), tok_DPoPThumbprint = thumb\<rparr> rt doc)"
  shows "\<exists>r sv'. issue_token cfg now False thumb p draws sv = (Inr r, sv') \<and> tp_AccessToken r = a \<and> tp_RefreshToken r = rt"
proof -
  let ?tok = "\<lparr>tok_AccessToken = a, tok_ExpiresAt = unix (now + access_token_lifetime * second), tok_DPoPThumbprint = thumb\<rparr>"
  let ?dt = "response_details (td_uuid draws) (AuthorizationDetails doc)"
  let ?d = "with_token cfg now ?dt ?tok rt doc"
  let ?sv = "set_nonce now (Nonce doc) sv"
  have "SessionID ?d = sid" using sid by (simp add: with_token_def)
  then obtain s' where "MemoryStore_Update now (Some p) (write_doc p ?d (sv_AuthContext sv)) = (Inr (), s')"
    using Update_succeeds [OF lv _ v] by blast
  then have "update_token cfg now p ?dt ?tok rt (sv_AuthContext ?sv) = (Inr (), s')"
    by (simp add: update_token_def doc)
  then have "store_token_code cfg now p ?dt ?tok rt ?sv = (Inr (), ?sv\<lparr>sv_AuthContext := s'\<rparr>)"
    unfolding store_token_code_def lift_store_ok by blast
  then show ?thesis
    using sc a rt by (simp add: doc issue_token_def draw_def Let_def)
qed

lemma redeem_succeeds:
  assumes wf: "store_wf (sv_AuthContext sv)" and code: "code \<noteq> []"
    and ix: "ms_indices (sv_AuthContext sv) (index_key ''code'' code) = Some sid"
    and lv: "live now (ms_cache (sv_AuthContext sv)) sid = Some p"
    and d: "deref (sv_AuthContext sv) p = d" "\<not> Forfeited d" "Validate d" "Scopes d \<noteq> []"
    and chk: "check_consumed x now req False thumb (d\<lparr>Forfeited := True\<rparr>) = None"
    and draws: "td_accessToken draws = Some a" "td_refreshToken draws = Some rt"
    and sizes: "text_tag 4096 rt" "Token_valid \<lparr>tok_AccessToken = a,
      tok_ExpiresAt = unix (now + access_token_lifetime * second), tok_DPoPThumbprint = thumb\<rparr>"
  shows "\<exists>r. fst (OAuthToken_redeem x cfg now req False code thumb draws sv) = Inr r \<and> tp_AccessToken r = a"
proof -
  obtain sv1 where con: "consume_code now False code thumb sv = (Inr p, sv1)"
    and lv1: "live now (ms_cache (sv_AuthContext sv1)) sid = Some p"
    using consume_code_succeeds [OF code ix lv] d(1,2) by auto
  obtain d0 where cons: "consumed (sv_AuthContext sv) (sv_AuthContext sv1) code p d0 (d0\<lparr>Forfeited := True\<rparr>)"
    using consume_code_ok [OF wf con] by auto
  have "cached (sv_AuthContext sv) sid = Some d"
    using cache_get_Some [of now sid "sv_AuthContext sv" p] lv d(1) by (simp add: cache_get_live cached_def deref_def)
  then have d0: "d0 = d" using cons ix by (auto simp: consumed_def)
  then have p1: "deref (sv_AuthContext sv1) p = d\<lparr>Forfeited := True\<rparr>" and sid: "SessionID (d\<lparr>Forfeited := True\<rparr>) = sid"
    using cons ix by (auto simp: consumed_def deref_def)
  obtain rt' where rt': "new_refresh_token cfg thumb draws sv1 = (Inr rt', sv1)" "text_tag 4096 rt'"
  proof (cases "grant_refresh \<in> set (cfg_GrantTypes cfg) \<and> thumb \<noteq> []")
    case True
    then show thesis using that [of rt] draws sizes(1) by (simp add: new_refresh_token_def)
  next
    case False
    then show thesis using that [of "[]"] by (auto simp: new_refresh_token_def text_tag_def)
  qed
  obtain r sv' where "issue_token cfg now False thumb p draws sv1 = (Inr r, sv')" "tp_AccessToken r = a"
    using issue_token_succeeds [OF p1 lv1 sid _ draws(1) rt'(1)]
      Validate_with_token [OF d(3) sizes(2) rt'(2)] d(4) by auto
  then show ?thesis using con chk p1 by (simp add: OAuthToken_redeem_def)
qed

text \<open>The checks pass only with the key the exchange is bound to.\<close>

lemma checks_binding:
  assumes grant: "tr_GrantType req \<noteq> grant_refresh" "tr_GrantType req \<noteq> grant_preauth"
    and c: "OAuthToken_checks x cfg now req False (tr_Code req) sv = (Inr thumb, sv4)"
    and ix: "ms_indices (sv_AuthContext sv) (index_key ''code'' (tr_Code req)) = Some sid"
    and lv: "live now (ms_cache (sv_AuthContext sv)) sid = Some p"
  shows "\<exists>clientID. code_matches req clientID thumb (deref (sv_AuthContext sv) p)"
proof -
  obtain cid sv3 where t3: "store_touched now sv sv3"
    and k4: "precheck_authorization_code now req cid (tr_Code req) thumb sv3 = (Inr (), sv4)"
    using OAuthToken_code_ok [OF grant c] by blast
  have t: "touched (sv_AuthContext sv) (sv_AuthContext sv3)" "touched (sv_AuthContext sv3) (sv_AuthContext sv4)"
    and lv3: "live now (ms_cache (sv_AuthContext sv3)) sid = Some p"
    using t3 touched_of(4) [OF k4] lv by (auto simp: store_touched_def)
  obtain found where l: "lookupCodeBeforeConsuming now (tr_Code req) sv3 = (Inr found, sv4)"
    and m: "case found of None \<Rightarrow> True | Some q \<Rightarrow> code_matches req cid thumb (deref (sv_AuthContext sv4) q)"
    using precheck_code_ok [OF k4] by blast
  have ix3: "ms_indices (sv_AuthContext sv3) (index_key ''code'' (tr_Code req)) = Some sid"
    using ix touchedD(4) [OF t(1)] by simp
  have "found = Some p"
  proof (cases found)
    case None
    then show ?thesis using lookupCode_none [of now "tr_Code req" sv3 sv4] l ix3 lv3 by simp
  next
    case (Some q)
    then have "ptr (sv_AuthContext sv3) sid = Some q" using lookupCode_found [of now "tr_Code req" sv3 q sv4] l ix3 by auto
    then show ?thesis using Some cache_get_Some [of now sid "sv_AuthContext sv3" p] lv3 by (simp add: cache_get_live)
  qed
  then show ?thesis using m touchedD(7) [OF touched_trans [OF t]] by auto
qed

text \<open>
  An authorization code that should work does: when the request passes the checks of the endpoint, the
  document under its code is unused, unexpired and valid, the PKCE verifier matches and the random source
  delivers, the answer is the drawn access token.
\<close>

lemma valid_code_is_redeemed:
  assumes wf: "store_wf (sv_AuthContext sv)"
    and grant: "tr_GrantType req \<noteq> grant_refresh" "tr_GrantType req \<noteq> grant_preauth"
    and checks: "fst (OAuthToken_checks x cfg now req False (tr_Code req) sv) = Inr thumb"
    and code: "tr_Code req \<noteq> []"
    and ix: "ms_indices (sv_AuthContext sv) (index_key ''code'' (tr_Code req)) = Some sid"
    and lv: "live now (ms_cache (sv_AuthContext sv)) sid = Some p"
    and d: "deref (sv_AuthContext sv) p = d" "\<not> Forfeited d" "Validate d" "Scopes d \<noteq> []"
    and fresh: "ExpiresAt d > 0 \<longrightarrow> unix now \<le> ExpiresAt d"
    and pkce: "ValidatePKCE (x_sha256 x) (tr_CodeVerifier req) (CodeChallenge d) (CodeChallengeMethod d) = None"
    and draws: "td_accessToken draws = Some a" "td_refreshToken draws = Some rt"
    and sizes: "text_tag 4096 rt" "Token_valid \<lparr>tok_AccessToken = a,
      tok_ExpiresAt = unix (now + access_token_lifetime * second), tok_DPoPThumbprint = thumb\<rparr>"
  shows "\<exists>r. fst (OAuthToken x cfg now req draws sv) = Inr r \<and> tp_AccessToken r = a"
proof -
  obtain sv4 where c: "OAuthToken_checks x cfg now req False (tr_Code req) sv = (Inr thumb, sv4)"
    using checks by (cases "OAuthToken_checks x cfg now req False (tr_Code req) sv") simp
  have st: "store_touched now sv sv4" using checks_code_touched [of now sv x cfg req "tr_Code req"] c by simp
  then have t: "touched (sv_AuthContext sv) (sv_AuthContext sv4)"
    and lv4: "live now (ms_cache (sv_AuthContext sv4)) sid = Some p"
    using lv by (auto simp: store_touched_def)
  have at4: "store_wf (sv_AuthContext sv4)" "ms_indices (sv_AuthContext sv4) (index_key ''code'' (tr_Code req)) = Some sid"
    "deref (sv_AuthContext sv4) p = d"
    using wf ix d(1) touchedD(4,6,7) [OF t] by simp_all
  obtain cid where m: "code_matches req cid thumb d" using checks_binding [OF grant c ix lv] d(1) by auto
  have chk: "check_consumed x now req False thumb (d\<lparr>Forfeited := True\<rparr>) = None"
    using fresh pkce m by (auto simp: check_consumed_def code_matches_def checkInteractiveAuthorizationBinding_def)
  show ?thesis
    using redeem_succeeds [OF at4(1) code at4(2) lv4 at4(3) d(2,3,4) chk draws sizes] grant c
    by (simp add: OAuthToken_def token_code_def Let_def)
qed

end
