(* ===== verification/AuthContextRuns.thy ===== *)
theory AuthContextRuns
  imports AuthContextLaws
begin

text \<open>
  Sequences of store operations. Every method of \<^verbatim>\<open>AuthContextStore\<close> that \<^verbatim>\<open>MemoryStore\<close> implements
  is a constructor of \<open>store_op\<close>, together with the janitor and the eviction callback; \<open>store_step\<close>
  runs one of them. The store's lock makes each call atomic, so an interleaving of concurrent
  requests is a list of steps. A document handed to \<^verbatim>\<open>Save\<close>, \<^verbatim>\<open>Update\<close> or \<^verbatim>\<open>RotateRefreshToken\<close> is
  one the caller made for the call.

  \<open>store_step_shape\<close> gives the effect of any step on the documents and the indices. From it follow
  the limits on how often a code or a handle can be used, for every sequence of operations: they
  are proved once in the locale \<open>budgeted\<close> and obtained for authorization codes, pre-authorized
  codes, transaction codes, \<^verbatim>\<open>auth_session\<close> and \<^verbatim>\<open>issuer_state\<close> handles by interpretation.
\<close>

section \<open>Operations as steps\<close>

datatype store_op =
    OpSave AuthorizationContext
  | OpGet "AuthorizationContext option"
  | OpGetSnapshot "AuthorizationContext option"
  | OpGetByCode string
  | OpGetByAccessToken string
  | OpGetByRefreshToken string
  | OpGetByID string
  | OpForfeit "AuthorizationContext option"
  | OpRedeem string string
  | OpConsumeTX string
  | OpConsent "AuthorizationContext option"
  | OpExtendExpiry "AuthorizationContext option" int
  | OpAddToken string "Token option"
  | OpRotate string AuthorizationContext
  | OpSetAuthenticSource "AuthorizationContext option" string
  | OpSetIdentifier "AuthorizationContext option" string
  | OpUpdate AuthorizationContext
  | OpDelete string
  | OpMarkForfeited string
  | OpClaimAuthSession string
  | OpClaimIssuerState string AuthorizationContext
  | OpResumeIssuerState string "IssuerStateResume option"
  | OpSetAuthProvider string AuthProviderFields
  | OpJanitor string
  | OpEvictionCallback

text \<open>The result of a step: the address a method returned, if it returns one.\<close>

fun with_ptr :: "nat store_result \<Rightarrow> nat option store_result" where
  "with_ptr (Inl e, s) = (Inl e, s)"
| "with_ptr (Inr p, s) = (Inr (Some p), s)"

fun no_ptr :: "unit store_result \<Rightarrow> nat option store_result" where
  "no_ptr (Inl e, s) = (Inl e, s)"
| "no_ptr (Inr u, s) = (Inr None, s)"

fun store_step :: "MemoryStore \<Rightarrow> time \<times> store_op \<Rightarrow> nat option store_result" where
  "store_step s (now, OpSave d) =
     (let (p, s1) = alloc d s in no_ptr (MemoryStore_Save now (Some p) s1))"
| "store_step s (now, OpGet q) = with_ptr (MemoryStore_Get now q s)"
| "store_step s (now, OpGetSnapshot q) = with_ptr (MemoryStore_GetSnapshot now q s)"
| "store_step s (now, OpGetByCode c) = with_ptr (MemoryStore_GetByAuthorizationCode now c s)"
| "store_step s (now, OpGetByAccessToken c) = with_ptr (MemoryStore_GetByAccessToken now c s)"
| "store_step s (now, OpGetByRefreshToken c) = with_ptr (MemoryStore_GetByRefreshToken now c s)"
| "store_step s (now, OpGetByID c) = with_ptr (MemoryStore_GetByID now c s)"
| "store_step s (now, OpForfeit q) = with_ptr (MemoryStore_ForfeitAuthorizationCode now q s)"
| "store_step s (now, OpRedeem c t) = with_ptr (MemoryStore_RedeemPreAuthorizedCode now c t s)"
| "store_step s (now, OpConsumeTX c) = with_ptr (MemoryStore_ConsumeTXCodeAttempt now c s)"
| "store_step s (now, OpConsent q) = no_ptr (MemoryStore_Consent now q s)"
| "store_step s (now, OpExtendExpiry q e) = no_ptr (MemoryStore_ExtendExpiry now q e s)"
| "store_step s (now, OpAddToken c t) = no_ptr (MemoryStore_AddToken now c t s)"
| "store_step s (now, OpRotate old d) =
     (let (p, s1) = alloc d s in no_ptr (MemoryStore_RotateRefreshToken now old (Some p) s1))"
| "store_step s (now, OpSetAuthenticSource q a) = no_ptr (MemoryStore_SetAuthenticSource now q a s)"
| "store_step s (now, OpSetIdentifier q i) = no_ptr (MemoryStore_SetIdentifier now q i s)"
| "store_step s (now, OpUpdate d) =
     (let (p, s1) = alloc d s in no_ptr (MemoryStore_Update now (Some p) s1))"
| "store_step s (now, OpDelete sid) = no_ptr (MemoryStore_Delete now sid s)"
| "store_step s (now, OpMarkForfeited sid) = no_ptr (MemoryStore_MarkCodeAsForfeited now sid s)"
| "store_step s (now, OpClaimAuthSession h) = with_ptr (MemoryStore_ClaimAuthSession now h s)"
| "store_step s (now, OpClaimIssuerState h d) = with_ptr (MemoryStore_ClaimIssuerState now h (Some d) s)"
| "store_step s (now, OpResumeIssuerState h r) = with_ptr (MemoryStore_ResumeIssuerState now h r s)"
| "store_step s (now, OpSetAuthProvider sid f) = no_ptr (MemoryStore_SetAuthProvider now sid f s)"
| "store_step s (now, OpJanitor sid) = (Inr None, evict_session now sid s)"
| "store_step s (now, OpEvictionCallback) = (Inr None, onEviction s)"

lemma ptr_results [simp]:
  "snd (with_ptr x) = snd x" "is_ok (fst (with_ptr x)) = is_ok (fst x)"
  "snd (no_ptr y) = snd y" "is_ok (fst (no_ptr y)) = is_ok (fst y)"
proof -
  show "snd (with_ptr x) = snd x" "is_ok (fst (with_ptr x)) = is_ok (fst x)"
    by (cases x; cases "fst x"; auto)+
  show "snd (no_ptr y) = snd y" "is_ok (fst (no_ptr y)) = is_ok (fst y)"
    by (cases y; cases "fst y"; auto)+
qed

text \<open>The document an operation brings along, and how an operation revises a stored one.\<close>

fun installs :: "store_op \<Rightarrow> AuthorizationContext option" where
  "installs (OpSave d) = Some d"
| "installs (OpRotate old d) = Some d"
| "installs (OpUpdate d) = Some d"
| "installs (OpClaimIssuerState h d) = Some (d\<lparr>IssuerState := []\<rparr>)"
| "installs _ = None"

fun revises :: "store_op \<Rightarrow> AuthorizationContext \<Rightarrow> AuthorizationContext \<Rightarrow> bool" where
  "revises (OpForfeit q) d d' \<longleftrightarrow> d' = d\<lparr>Forfeited := True\<rparr>"
| "revises (OpRedeem c t) d d' \<longleftrightarrow>
     \<not> Forfeited d \<and> t \<notin> set (RedeemedBy d) \<and> length (RedeemedBy d) < MaxPreAuthRedeemers \<and>
     d' = d\<lparr>RedeemedBy := RedeemedBy d @ [t]\<rparr>"
| "revises (OpConsumeTX c) d d' \<longleftrightarrow> \<not> Forfeited d \<and>
     d' = (if TXCodeAttempts d \<ge> MaxTXCodeAttempts then d\<lparr>Forfeited := True\<rparr>
           else d\<lparr>TXCodeAttempts := TXCodeAttempts d + 1\<rparr>)"
| "revises (OpConsent q) d d' \<longleftrightarrow> d' = d\<lparr>Consent := True\<rparr>"
| "revises (OpExtendExpiry q e) d d' \<longleftrightarrow> ExpiresAt d < e \<and> d' = d\<lparr>ExpiresAt := e\<rparr>"
| "revises (OpAddToken c t) d d' \<longleftrightarrow> d' = d\<lparr>Token := t\<rparr>"
| "revises (OpSetAuthenticSource q a) d d' \<longleftrightarrow> d' = d\<lparr>AuthenticSource := a\<rparr>"
| "revises (OpSetIdentifier q i) d d' \<longleftrightarrow> d' = d\<lparr>Identifier := i\<rparr>"
| "revises (OpMarkForfeited sid) d d' \<longleftrightarrow> \<not> Forfeited d \<and> d' = d\<lparr>Forfeited := True\<rparr>"
| "revises (OpClaimAuthSession h) d d' \<longleftrightarrow> AuthSession d = h \<and> d' = d\<lparr>AuthSession := []\<rparr>"
| "revises (OpResumeIssuerState h r) d d' \<longleftrightarrow>
     IssuerState d = h \<and> (\<exists>rs. r = Some rs \<and> d' = applyTo rs (d\<lparr>IssuerState := []\<rparr>))"
| "revises (OpSetAuthProvider sid f) d d' \<longleftrightarrow> d' = provider_update f d"
| "revises _ d d' \<longleftrightarrow> False"

definition step_shape :: "store_op \<Rightarrow> MemoryStore \<Rightarrow> MemoryStore \<Rightarrow> bool" where
  "step_shape op s s' \<longleftrightarrow>
     unchanged s s' \<or>
     (\<exists>sid. removed s s' sid) \<or>
     (\<exists>sid d d'. cached s sid = Some d \<and> revises op d d' \<and> changed s s' sid d') \<or>
     (\<exists>d t. installs op = Some d \<and> changed s s' (SessionID d) (d\<lparr>CreatedAt := t\<rparr>))"

lemma shape_effect:
  assumes "effect s s' k C g" and "\<And>d. C d \<Longrightarrow> revises op d (g d)"
  shows "step_shape op s s'"
  using assms unfolding step_shape_def effect_def effect_at_def by blast

lemma shape_effect_at:
  assumes "effect_at s s' sid C g" and "\<And>d. C d \<Longrightarrow> revises op d (g d)"
  shows "step_shape op s s'"
  using assms unfolding step_shape_def effect_at_def by blast

lemma shape_unchanged: "unchanged s s' \<Longrightarrow> step_shape op s s'"
  by (simp add: step_shape_def)

lemma shape_install:
  "installs op = Some d \<Longrightarrow> changed s s' (SessionID d) d \<Longrightarrow> step_shape op s s'"
  unfolding step_shape_def by (intro disjI2 exI [of _ d] exI [of _ "CreatedAt d"]) simp

lemma store_step_shape:
  assumes "store_wf s"
  shows "step_shape op s (snd (store_step s (now, op)))"
proof (cases op)
  case (OpSave d)
  then show ?thesis
    using Save_law [OF assms surjective_pairing, of now d]
    by (auto simp: step_shape_def Let_def split_def)
next
  case (OpGet q)
  then show ?thesis using getLocked_law [OF assms surjective_pairing, of now q]
    by (simp add: MemoryStore_Get_def shape_unchanged)
next
  case (OpGetSnapshot q)
  then show ?thesis using GetSnapshot_law [OF assms surjective_pairing, of now q] by (simp add: shape_unchanged)
next
  case (OpGetByCode c)
  then show ?thesis using get_by_law [OF assms surjective_pairing, of now "''code''" c]
    by (simp add: shape_unchanged MemoryStore_GetByAuthorizationCode_def)
next
  case (OpGetByAccessToken c)
  then show ?thesis using get_by_law [OF assms surjective_pairing, of now "''access_token''" c]
    by (simp add: shape_unchanged MemoryStore_GetByAccessToken_def)
next
  case (OpGetByRefreshToken c)
  then show ?thesis using get_by_law [OF assms surjective_pairing, of now "''refresh_token''" c]
    by (simp add: shape_unchanged MemoryStore_GetByRefreshToken_def)
next
  case (OpGetByID c)
  then show ?thesis using GetByID_law [OF assms surjective_pairing, of now c] by (simp add: shape_unchanged)
next
  case (OpForfeit q)
  then show ?thesis using Forfeit_law [OF assms surjective_pairing, of now q]
    by (auto intro: shape_unchanged shape_effect)
next
  case (OpRedeem c t)
  then show ?thesis using Redeem_law [OF assms surjective_pairing, of now c t]
    by (auto intro: shape_unchanged shape_effect)
next
  case (OpConsumeTX c)
  then show ?thesis using ConsumeTX_law [OF assms surjective_pairing, of now c]
    by (auto intro: shape_unchanged shape_effect)
next
  case (OpConsent q)
  then show ?thesis using Consent_law [OF assms surjective_pairing, of now q]
    by (auto intro: shape_unchanged shape_effect)
next
  case (OpExtendExpiry q e)
  then show ?thesis using ExtendExpiry_law [OF assms surjective_pairing, of now q e]
    by (auto intro: shape_unchanged shape_effect_at)
next
  case (OpAddToken c t)
  then show ?thesis using AddToken_law [OF assms surjective_pairing, of now c t]
    by (auto intro: shape_unchanged shape_effect)
next
  case (OpRotate old d)
  then show ?thesis using Rotate_law [OF assms surjective_pairing, of now old d]
    by (auto simp: Let_def split_def intro: shape_unchanged shape_install)
next
  case (OpSetAuthenticSource q a)
  then show ?thesis using SetAuthenticSource_law [OF assms surjective_pairing, of now q a]
    by (auto intro: shape_unchanged shape_effect_at)
next
  case (OpSetIdentifier q i)
  then show ?thesis using SetIdentifier_law [OF assms surjective_pairing, of now q i]
    by (auto intro: shape_unchanged shape_effect_at)
next
  case (OpUpdate d)
  then show ?thesis using Update_law [OF assms surjective_pairing, of now d]
    by (auto simp: Let_def split_def intro: shape_unchanged shape_install)
next
  case (OpDelete sid)
  then show ?thesis using Delete_law [OF assms surjective_pairing, of now sid] by (auto simp: step_shape_def)
next
  case (OpMarkForfeited sid)
  then show ?thesis using MarkCodeAsForfeited_law [OF assms surjective_pairing, of now sid]
    by (auto intro: shape_unchanged shape_effect_at)
next
  case (OpClaimAuthSession h)
  then show ?thesis using ClaimAuthSession_law [OF assms surjective_pairing, of now h]
    by (auto intro: shape_unchanged shape_effect)
next
  case (OpClaimIssuerState h d)
  then show ?thesis using ClaimIssuerState_law [OF assms surjective_pairing, of now h d]
    by (auto intro: shape_unchanged shape_install)
next
  case (OpResumeIssuerState h r)
  then show ?thesis using ResumeIssuerState_law [OF assms surjective_pairing, of now h r]
    by (auto intro: shape_unchanged shape_effect)
next
  case (OpSetAuthProvider sid f)
  then show ?thesis using SetAuthProvider_law [OF assms surjective_pairing, of now sid f]
    by (auto intro: shape_unchanged shape_effect_at)
next
  case (OpJanitor sid)
  then show ?thesis using evict_session_law [OF assms, of now sid] by (auto simp: step_shape_def)
next
  case OpEvictionCallback
  then show ?thesis using onEviction_law [OF assms] by (simp add: shape_unchanged)
qed

lemma store_step_wf: "store_wf s \<Longrightarrow> store_wf (snd (store_step s c))"
  using store_step_shape [of s "snd c" "fst c"]
  by (auto simp: step_shape_def unchanged_def removed_def changed_def)

lemma NewMemoryStore_wf: "store_wf (NewMemoryStore ttl)"
  by (simp add: store_wf_def ptr_def NewMemoryStore_def New_def)

section \<open>What a revision keeps\<close>

lemma revises_keeps:
  assumes "revises op d d'"
  shows "SessionID d' = SessionID d" and "Code d' = Code d" and "Forfeited d \<Longrightarrow> Forfeited d'"
    and "\<exists>xs. RedeemedBy d' = RedeemedBy d @ xs" and "TXCodeAttempts d \<le> TXCodeAttempts d'"
    and "IssuerState d' = IssuerState d \<or> IssuerState d' = []"
    and "PreAuthorized d' = PreAuthorized d" and "TXCode d' = TXCode d"
  using assms by (cases op; auto simp: provider_update_def applyTo_def split: if_splits)+

text \<open>The handles an operation can bring into the store other than in a document.\<close>

fun brings_auth_session :: "store_op \<Rightarrow> string option" where
  "brings_auth_session (OpResumeIssuerState h (Some r)) = Some (r_AuthSession r)"
| "brings_auth_session _ = None"

lemma revises_auth_session:
  assumes "revises op d d'"
  shows "AuthSession d' = AuthSession d \<or> AuthSession d' = [] \<or> brings_auth_session op = Some (AuthSession d')"
  using assms by (cases op) (auto simp: provider_update_def applyTo_def split: if_splits)

section \<open>Keys that belong to one session\<close>

definition owned :: "string \<Rightarrow> string \<Rightarrow> MemoryStore \<Rightarrow> bool" where
  "owned k sid s \<longleftrightarrow>
     (\<forall>sid' d. cached s sid' = Some d \<longrightarrow> k \<in> doc_keys d \<longrightarrow> sid' = sid) \<and>
     (ms_indices s k = None \<or> ms_indices s k = Some sid)"

lemma doc_keys_CreatedAt [simp]: "doc_keys (d\<lparr>CreatedAt := t\<rparr>) = doc_keys d"
  by (simp add: doc_keys_def index_entries_def index_fields_def)

lemma owned_docs:
  assumes "owned k sid s" and "idx_from s s'"
    and "\<And>sid' d. cached s' sid' = Some d \<Longrightarrow> k \<in> doc_keys d \<Longrightarrow> sid' = sid"
  shows "owned k sid s'"
proof -
  have "sid' = sid" if "ms_indices s' k = Some sid'" for sid'
    using that assms unfolding idx_from_def owned_def by (metis option.distinct(1) option.inject)
  then have "ms_indices s' k = None \<or> ms_indices s' k = Some sid"
    by (cases "ms_indices s' k") auto
  then show ?thesis using assms(3) by (auto simp: owned_def)
qed

lemma step_shape_cases:
  assumes "step_shape op s s'"
  obtains (unchanged) "cached s' = cached s" "idx_from s s'" "store_wf s'"
    | (removed) x where "cached s' = (cached s)(x := None)" "idx_from s s'" "store_wf s'"
    | (revised) x d d' where "cached s x = Some d" "revises op d d'" "cached s' = (cached s)(x \<mapsto> d')"
        "idx_from s s'" "store_wf s'"
    | (installed) d t where "installs op = Some d" "cached s' = (cached s)(SessionID d \<mapsto> d\<lparr>CreatedAt := t\<rparr>)"
        "idx_from s s'" "store_wf s'"
  using assms unfolding step_shape_def unchanged_def removed_def changed_def by blast

lemma owned_step:
  assumes "owned k sid s" and "step_shape op s s'"
    and new: "\<And>d. installs op = Some d \<Longrightarrow> k \<in> doc_keys d \<Longrightarrow> SessionID d = sid"
    and rev: "\<And>d d'. revises op d d' \<Longrightarrow> k \<in> doc_keys d' \<Longrightarrow> k \<in> doc_keys d"
  shows "owned k sid s'"
proof -
  have old: "cached s sid' = Some d \<Longrightarrow> k \<in> doc_keys d \<Longrightarrow> sid' = sid" for sid' d
    using assms(1) by (auto simp: owned_def)
  from assms(2) show ?thesis
  proof (cases rule: step_shape_cases)
    case unchanged
    show ?thesis by (rule owned_docs [OF assms(1) unchanged(2)]) (simp add: unchanged(1) old)
  next
    case (removed x)
    show ?thesis
      by (rule owned_docs [OF assms(1) removed(2)]) (simp add: removed(1) old split: if_splits)
  next
    case (revised x d d')
    show ?thesis
      by (rule owned_docs [OF assms(1) revised(4)])
        (use revised(3) old old [OF revised(1)] rev [OF revised(2)] in \<open>auto split: if_splits\<close>)
  next
    case (installed d t)
    show ?thesis
      by (rule owned_docs [OF assms(1) installed(3)])
        (use installed(2) old new [OF installed(1)] in \<open>auto split: if_splits\<close>)
  qed
qed

text \<open>The document of one session after a step that does not bring a new one for it.\<close>

lemma cached_step:
  assumes "step_shape op s s'" and "\<And>d. installs op = Some d \<Longrightarrow> SessionID d \<noteq> sid"
  shows "cached s' sid = None \<or> cached s' sid = cached s sid \<or>
    (\<exists>d d'. cached s sid = Some d \<and> revises op d d' \<and> cached s' sid = Some d')"
  using assms(1) by (cases rule: step_shape_cases) (use assms(2) in auto)

section \<open>Budgets\<close>

text \<open>
  The contract of something that can be used at most \<open>B\<close> times: a counter no step lowers, which every
  use finds below the bound and raises.
\<close>

definition uses_in :: "('c \<Rightarrow> 'r \<Rightarrow> bool) \<Rightarrow> ('s \<Rightarrow> 'c \<Rightarrow> 'r \<times> 's) \<Rightarrow> 's \<Rightarrow> 'c list \<Rightarrow> nat" where
  "uses_in spends step s cs =
     length (filter (\<lambda>x. spends (fst x) (snd x)) (zip cs (fst (run step s cs))))"

lemma uses_in_simps [simp]:
  "uses_in spends step s [] = 0"
  "uses_in spends step s (c # cs) =
     (if spends c (fst (step s c)) then 1 else 0) + uses_in spends step (snd (step s c)) cs"
  by (simp_all add: uses_in_def Let_def split_def)

lemma uses_in_zero:
  assumes "Q s" and "list_all allowed cs"
    and "\<And>s c. Q s \<Longrightarrow> allowed c \<Longrightarrow> Q (snd (step s c)) \<and> \<not> spends c (fst (step s c))"
  shows "uses_in spends step s cs = 0"
  using assms(1,2) by (induction cs arbitrary: s) (use assms(3) in auto)

locale budgeted =
  fixes step :: "'s \<Rightarrow> 'c \<Rightarrow> 'r \<times> 's"
    and invar :: "'s \<Rightarrow> bool"
    and allowed :: "'c \<Rightarrow> bool"
    and spends :: "'c \<Rightarrow> 'r \<Rightarrow> bool"
    and used :: "'s \<Rightarrow> nat"
    and B :: nat
  assumes invar_step: "invar s \<Longrightarrow> allowed c \<Longrightarrow> invar (snd (step s c))"
    and used_mono: "invar s \<Longrightarrow> allowed c \<Longrightarrow> used s \<le> used (snd (step s c))"
    and spend_counts: "invar s \<Longrightarrow> allowed c \<Longrightarrow> spends c (fst (step s c)) \<Longrightarrow>
          used s < B \<and> used s < used (snd (step s c))"
begin

lemma spend_bound:
  "invar s \<Longrightarrow> list_all allowed cs \<Longrightarrow> uses_in spends step s cs \<le> B - used s"
proof (induction cs arbitrary: s)
  case Nil
  then show ?case by simp
next
  case (Cons c cs)
  have IH: "uses_in spends step (snd (step s c)) cs \<le> B - used (snd (step s c))"
    using Cons.IH [OF invar_step] Cons.prems by simp
  show ?case
    using IH used_mono [of s c] spend_counts [of s c] Cons.prems by auto
qed

lemma exhausted:
  "invar s \<Longrightarrow> list_all allowed cs \<Longrightarrow> B \<le> used s \<Longrightarrow> uses_in spends step s cs = 0"
  using spend_bound [of s cs] by simp

end

section \<open>Authorization codes\<close>

definition spent :: "string \<Rightarrow> MemoryStore \<Rightarrow> bool" where
  "spent sid s = (case cached s sid of None \<Rightarrow> True | Some d \<Rightarrow> Forfeited d)"

fun forfeits :: "string \<Rightarrow> store_op \<Rightarrow> bool" where
  "forfeits c (OpForfeit (Some q)) \<longleftrightarrow> c \<noteq> [] \<and> Code q = c"
| "forfeits c _ \<longleftrightarrow> False"

text \<open>
  Documents that callers bring in: one for the session of the code is marked forfeited, one for
  another session has a code of its own.
\<close>

definition keeps_code :: "string \<Rightarrow> string \<Rightarrow> store_op \<Rightarrow> bool" where
  "keeps_code c sid op =
     (case installs op of None \<Rightarrow> True | Some d \<Rightarrow> if SessionID d = sid then Forfeited d else Code d \<noteq> c)"

lemma spent_step:
  assumes "spent sid s" and "step_shape op s s'" and "\<And>d. installs op = Some d \<Longrightarrow> SessionID d = sid \<Longrightarrow> Forfeited d"
  shows "spent sid s'"
  using assms(2)
  by (cases rule: step_shape_cases)
    (use assms(1,3) revises_keeps(3) in \<open>auto simp: spent_def split: option.splits if_splits\<close>)

lemma code_owned_step:
  assumes "owned (index_key ''code'' c) sid s" and "step_shape op s s'"
    and "\<And>d. installs op = Some d \<Longrightarrow> SessionID d \<noteq> sid \<Longrightarrow> Code d \<noteq> c"
  shows "owned (index_key ''code'' c) sid s'"
  using assms(1,2) by (rule owned_step) (use assms(3) revises_keeps(2) in \<open>auto simp: doc_keys_fields\<close>)

lemma forfeit_spends:
  assumes "store_wf s" and "owned (index_key ''code'' c) sid s" and "forfeits c op"
    and "is_ok (fst (store_step s (t, op)))"
  shows "\<not> spent sid s \<and> spent sid (snd (store_step s (t, op)))"
proof -
  obtain q where op: "op = OpForfeit (Some q)" "c \<noteq> []" "Code q = c"
    using assms(3) by (cases "(c, op)" rule: forfeits.cases) auto
  show ?thesis
    using Forfeit_law [OF assms(1) surjective_pairing, of t "Some q"] assms(2,4) op
    by (auto simp: effect_def effect_at_def forfeit_key_def owned_def spent_def changed_def)
qed

interpretation code_once: budgeted
  store_step "\<lambda>s. store_wf s \<and> owned (index_key ''code'' c) sid s" "\<lambda>x. keeps_code c sid (snd x)"
  "\<lambda>x r. forfeits c (snd x) \<and> is_ok r" "\<lambda>s. if spent sid s then 1 else 0" 1
  for c sid
proof
  fix s and x :: "time \<times> store_op"
  assume inv: "store_wf s \<and> owned (index_key ''code'' c) sid s" and al: "keeps_code c sid (snd x)"
  obtain t op where x: "x = (t, op)" by (cases x)
  have sh: "step_shape op s (snd (store_step s x))" using store_step_shape inv x by blast
  have new: "SessionID d = sid \<Longrightarrow> Forfeited d" "SessionID d \<noteq> sid \<Longrightarrow> Code d \<noteq> c" if "installs op = Some d" for d
    using al that x by (auto simp: keeps_code_def split: if_splits)
  show "store_wf (snd (store_step s x)) \<and> owned (index_key ''code'' c) sid (snd (store_step s x))"
    using inv sh code_owned_step [OF _ sh] new(2) store_step_wf by blast
  show "(if spent sid s then 1 else 0) \<le> (if spent sid (snd (store_step s x)) then 1 else (0::nat))"
    using spent_step [OF _ sh] new(1) by auto
  show "(if spent sid s then 1 else 0) < (1::nat) \<and>
      (if spent sid s then 1 else 0) < (if spent sid (snd (store_step s x)) then 1 else (0::nat))"
    if "forfeits c (snd x) \<and> is_ok (fst (store_step s x))"
    using forfeit_spends [of s c sid op t] inv that x by auto
qed

section \<open>Pre-authorized codes\<close>

fun redeems :: "string \<Rightarrow> store_op \<Rightarrow> bool" where
  "redeems c (OpRedeem c' t) \<longleftrightarrow> c' = c"
| "redeems c _ \<longleftrightarrow> False"

fun redeems_by :: "string \<Rightarrow> string \<Rightarrow> store_op \<Rightarrow> bool" where
  "redeems_by c thumb (OpRedeem c' t) \<longleftrightarrow> c' = c \<and> t = thumb"
| "redeems_by c thumb _ \<longleftrightarrow> False"

fun tx_attempt :: "string \<Rightarrow> store_op \<Rightarrow> bool" where
  "tx_attempt c (OpConsumeTX c') \<longleftrightarrow> c' = c"
| "tx_attempt c _ \<longleftrightarrow> False"

text \<open>No caller brings in a document for the session of the code, nor one with the same code.\<close>

definition leaves_code :: "string \<Rightarrow> string \<Rightarrow> store_op \<Rightarrow> bool" where
  "leaves_code c sid op = (case installs op of None \<Rightarrow> True | Some d \<Rightarrow> SessionID d \<noteq> sid \<and> Code d \<noteq> c)"

definition redemptions :: "string \<Rightarrow> MemoryStore \<Rightarrow> nat" where
  "redemptions sid s =
     (case cached s sid of
        None \<Rightarrow> MaxPreAuthRedeemers
      | Some d \<Rightarrow> min MaxPreAuthRedeemers (length (RedeemedBy d)))"

definition redeemed_by :: "string \<Rightarrow> string \<Rightarrow> MemoryStore \<Rightarrow> bool" where
  "redeemed_by sid thumb s = (case cached s sid of None \<Rightarrow> True | Some d \<Rightarrow> thumb \<in> set (RedeemedBy d))"

definition attempts_used :: "string \<Rightarrow> MemoryStore \<Rightarrow> nat" where
  "attempts_used sid s =
     (case cached s sid of
        None \<Rightarrow> nat MaxTXCodeAttempts
      | Some d \<Rightarrow> min (nat MaxTXCodeAttempts) (nat (TXCodeAttempts d)))"

lemma redeem_effect:
  assumes "store_wf s" and "owned (index_key ''code'' c) sid s" and "redeems_by c thumb op"
    and "is_ok (fst (store_step s (t, op)))"
  shows "\<exists>d. cached s sid = Some d \<and> thumb \<notin> set (RedeemedBy d) \<and> length (RedeemedBy d) < MaxPreAuthRedeemers \<and>
    \<not> Forfeited d \<and> cached (snd (store_step s (t, op))) sid = Some (d\<lparr>RedeemedBy := RedeemedBy d @ [thumb]\<rparr>)"
proof -
  have op: "op = OpRedeem c thumb"
    using assms(3) by (cases "(c, thumb, op)" rule: redeems_by.cases) auto
  show ?thesis
    using Redeem_law [OF assms(1) surjective_pairing, of t c thumb] assms(2,4) op
    by (auto simp: effect_def effect_at_def owned_def changed_def)
qed

lemma tx_effect:
  assumes "store_wf s" and "owned (index_key ''code'' c) sid s" and "tx_attempt c op"
    and "is_ok (fst (store_step s (t, op)))"
  shows "\<exists>d. cached s sid = Some d \<and> \<not> Forfeited d \<and> TXCodeAttempts d < MaxTXCodeAttempts \<and>
    cached (snd (store_step s (t, op))) sid = Some (d\<lparr>TXCodeAttempts := TXCodeAttempts d + 1\<rparr>)"
proof -
  have op: "op = OpConsumeTX c" using assms(3) by (cases "(c, op)" rule: tx_attempt.cases) auto
  show ?thesis
    using ConsumeTX_law [OF assms(1) surjective_pairing, of t c] assms(2,4) op
    by (auto simp: effect_def effect_at_def owned_def changed_def)
qed

text \<open>A spent code is refused by every operation that would use it.\<close>

definition uses_code :: "string \<Rightarrow> store_op \<Rightarrow> bool" where
  "uses_code c op \<longleftrightarrow> forfeits c op \<or> redeems c op \<or> tx_attempt c op"

lemma redeems_some: "redeems c op \<Longrightarrow> \<exists>thumb. redeems_by c thumb op"
  by (cases "(c, op)" rule: redeems.cases) auto

lemma spent_blocks:
  assumes "store_wf s" and "owned (index_key ''code'' c) sid s" and "spent sid s" and "uses_code c op"
  shows "\<not> is_ok (fst (store_step s (t, op)))"
proof
  assume ok: "is_ok (fst (store_step s (t, op)))"
  from assms(4) consider "forfeits c op" | thumb where "redeems_by c thumb op" | "tx_attempt c op"
    using redeems_some unfolding uses_code_def by blast
  then show False
  proof cases
    case 1
    then show False using forfeit_spends [OF assms(1,2) _ ok] assms(3) by blast
  next
    case 2
    then show False using redeem_effect [OF assms(1,2) 2 ok] assms(3) by (auto simp: spent_def)
  next
    case 3
    then show False using tx_effect [OF assms(1,2) 3 ok] assms(3) by (auto simp: spent_def)
  qed
qed

lemma code_dead_step:
  assumes "store_wf s \<and> owned (index_key ''code'' c) sid s \<and> spent sid s" and "keeps_code c sid (snd x)"
  shows "(store_wf (snd (store_step s x)) \<and> owned (index_key ''code'' c) sid (snd (store_step s x)) \<and>
      spent sid (snd (store_step s x))) \<and> \<not> (uses_code c (snd x) \<and> is_ok (fst (store_step s x)))"
  using assms code_once.invar_step [of s c sid x] code_once.used_mono [of s c sid x]
    spent_blocks [of s c sid "snd x" "fst x"]
  by (auto split: if_splits)

definition code_invar :: "string \<Rightarrow> string \<Rightarrow> MemoryStore \<Rightarrow> bool" where
  "code_invar c sid s \<longleftrightarrow> store_wf s \<and> owned (index_key ''code'' c) sid s \<and>
     (\<forall>d. cached s sid = Some d \<longrightarrow> 0 \<le> TXCodeAttempts d)"

lemma leaves_codeD:
  assumes "leaves_code c sid op" and "installs op = Some d"
  shows "SessionID d \<noteq> sid" and "Code d \<noteq> c"
  using assms by (auto simp: leaves_code_def)

lemma code_invar_step:
  assumes "code_invar c sid s" and "leaves_code c sid (snd x)"
  shows "code_invar c sid (snd (store_step s x))"
    and "cached (snd (store_step s x)) sid = None \<or> cached (snd (store_step s x)) sid = cached s sid \<or>
      (\<exists>d d'. cached s sid = Some d \<and> revises (snd x) d d' \<and> cached (snd (store_step s x)) sid = Some d')"
proof -
  have sh: "step_shape (snd x) s (snd (store_step s x))"
    using store_step_shape [of s "snd x" "fst x"] assms(1) by (simp add: code_invar_def)
  show c: "cached (snd (store_step s x)) sid = None \<or> cached (snd (store_step s x)) sid = cached s sid \<or>
      (\<exists>d d'. cached s sid = Some d \<and> revises (snd x) d d' \<and> cached (snd (store_step s x)) sid = Some d')"
    using cached_step [OF sh] leaves_codeD(1) [OF assms(2)] by blast
  have "owned (index_key ''code'' c) sid (snd (store_step s x))"
    using code_owned_step [OF _ sh] assms(1) leaves_codeD(2) [OF assms(2)] by (auto simp: code_invar_def)
  moreover have "0 \<le> TXCodeAttempts d" if "cached (snd (store_step s x)) sid = Some d" for d
    using c that assms(1) revises_keeps(5) unfolding code_invar_def by fastforce
  ultimately show "code_invar c sid (snd (store_step s x))"
    using assms(1) store_step_wf by (simp add: code_invar_def)
qed

interpretation redeem_once: budgeted
  store_step "code_invar c sid" "\<lambda>x. leaves_code c sid (snd x)"
  "\<lambda>x r. redeems_by c thumb (snd x) \<and> is_ok r" "\<lambda>s. if redeemed_by sid thumb s then 1 else 0" 1
  for c sid thumb
proof
  fix s and x :: "time \<times> store_op"
  assume inv: "code_invar c sid s" and al: "leaves_code c sid (snd x)"
  show "code_invar c sid (snd (store_step s x))" using inv al by (rule code_invar_step)
  show "(if redeemed_by sid thumb s then 1 else 0) \<le> (if redeemed_by sid thumb (snd (store_step s x)) then 1 else (0::nat))"
    using code_invar_step(2) [OF inv al] revises_keeps(4) by (fastforce simp: redeemed_by_def split: option.splits)
  show "(if redeemed_by sid thumb s then 1 else 0) < (1::nat) \<and>
      (if redeemed_by sid thumb s then 1 else 0) < (if redeemed_by sid thumb (snd (store_step s x)) then 1 else (0::nat))"
    if "redeems_by c thumb (snd x) \<and> is_ok (fst (store_step s x))"
    using redeem_effect [of s c sid thumb "snd x" "fst x"] inv that
    by (auto simp: redeemed_by_def code_invar_def)
qed

interpretation redeem_budget: budgeted
  store_step "code_invar c sid" "\<lambda>x. leaves_code c sid (snd x)"
  "\<lambda>x r. redeems c (snd x) \<and> is_ok r" "redemptions sid" MaxPreAuthRedeemers
  for c sid
proof
  fix s and x :: "time \<times> store_op"
  assume inv: "code_invar c sid s" and al: "leaves_code c sid (snd x)"
  show "code_invar c sid (snd (store_step s x))" using inv al by (rule code_invar_step)
  show "redemptions sid s \<le> redemptions sid (snd (store_step s x))"
    using code_invar_step(2) [OF inv al] revises_keeps(4)
    by (fastforce simp: redemptions_def split: option.splits)
  show "redemptions sid s < MaxPreAuthRedeemers \<and> redemptions sid s < redemptions sid (snd (store_step s x))"
    if "redeems c (snd x) \<and> is_ok (fst (store_step s x))"
  proof -
    have "redeems c (snd x)" using that by simp
    then obtain thumb where "redeems_by c thumb (snd x)" using redeems_some by blast
    then show ?thesis
      using redeem_effect [of s c sid thumb "snd x" "fst x"] inv that
      by (auto simp: redemptions_def code_invar_def min_def)
  qed
qed

interpretation tx_budget: budgeted
  store_step "code_invar c sid" "\<lambda>x. leaves_code c sid (snd x)"
  "\<lambda>x r. tx_attempt c (snd x) \<and> is_ok r" "attempts_used sid" "nat MaxTXCodeAttempts"
  for c sid
proof
  fix s and x :: "time \<times> store_op"
  assume inv: "code_invar c sid s" and al: "leaves_code c sid (snd x)"
  show "code_invar c sid (snd (store_step s x))" using inv al by (rule code_invar_step)
  show "attempts_used sid s \<le> attempts_used sid (snd (store_step s x))"
    using code_invar_step(2) [OF inv al] revises_keeps(5)
    by (fastforce simp: attempts_used_def min_def nat_mono split: option.splits)
  show "attempts_used sid s < nat MaxTXCodeAttempts \<and> attempts_used sid s < attempts_used sid (snd (store_step s x))"
    if "tx_attempt c (snd x) \<and> is_ok (fst (store_step s x))"
    using tx_effect [of s c sid "snd x" "fst x"] inv that
    by (auto simp: attempts_used_def code_invar_def min_def nat_less_iff nat_less_eq_zless)
qed

section \<open>One-shot handles\<close>

definition gone :: "string \<Rightarrow> MemoryStore \<Rightarrow> bool" where
  "gone k s \<longleftrightarrow> ms_indices s k = None \<and> (\<forall>sid d. cached s sid = Some d \<longrightarrow> k \<notin> doc_keys d)"

lemma gone_step:
  assumes "gone k s" and "step_shape op s s'"
    and new: "\<And>d. installs op = Some d \<Longrightarrow> k \<notin> doc_keys d"
    and rev: "\<And>d d'. revises op d d' \<Longrightarrow> k \<in> doc_keys d' \<Longrightarrow> k \<in> doc_keys d"
  shows "gone k s'"
proof -
  have docs: "cached s' sid = Some d \<Longrightarrow> k \<notin> doc_keys d" for sid d
    using assms(2)
  proof (cases rule: step_shape_cases)
    case (revised x d1 d1')
    have "k \<notin> doc_keys d1'" using revised(1) rev [OF revised(2)] assms(1) by (auto simp: gone_def)
    then show "cached s' sid = Some d \<Longrightarrow> k \<notin> doc_keys d"
      using revised(3) assms(1) by (auto simp: gone_def split: if_splits)
  qed (use assms(1) new in \<open>auto simp: gone_def split: if_splits\<close>)
  have ix: "idx_from s s'" using assms(2) by (cases rule: step_shape_cases)
  have "ms_indices s' k \<noteq> Some sid" for sid
  proof
    assume "ms_indices s' k = Some sid"
    then have "ms_indices s k = Some sid \<or> (\<exists>d. cached s' sid = Some d \<and> k \<in> doc_keys d)"
      using ix by (simp add: idx_from_def)
    then show False using docs assms(1) by (auto simp: gone_def)
  qed
  then have "ms_indices s' k = None" by (cases "ms_indices s' k") auto
  with docs show ?thesis by (auto simp: gone_def)
qed

text \<open>A claim leaves nothing behind when the key belonged to the one session it was taken from.\<close>

lemma claimed_gone:
  assumes "owned k sid s" and "ms_indices s k = Some sid" and "changed s s' sid d'" and "k \<notin> doc_keys d'"
    and "ms_indices s' k = None"
  shows "\<not> gone k s \<and> gone k s'"
  using assms by (auto simp: gone_def owned_def changed_def)

definition keeps_auth_session :: "string \<Rightarrow> store_op \<Rightarrow> bool" where
  "keeps_auth_session h op \<longleftrightarrow>
     (case installs op of None \<Rightarrow> True | Some d \<Rightarrow> AuthSession d \<noteq> h) \<and> brings_auth_session op \<noteq> Some h"

fun claims_auth_session :: "string \<Rightarrow> store_op \<Rightarrow> bool" where
  "claims_auth_session h (OpClaimAuthSession h') \<longleftrightarrow> h' = h \<and> h \<noteq> []"
| "claims_auth_session h _ \<longleftrightarrow> False"

lemma auth_session_claimed:
  assumes "store_wf s" and "owned (index_key ''auth_session'' h) sid s" and "claims_auth_session h op"
    and "is_ok (fst (store_step s (t, op)))"
  shows "\<not> gone (index_key ''auth_session'' h) s \<and> gone (index_key ''auth_session'' h) (snd (store_step s (t, op)))"
proof -
  have op: "op = OpClaimAuthSession h" "h \<noteq> []"
    using assms(3) by (cases "(h, op)" rule: claims_auth_session.cases; auto)+
  obtain d where d: "ms_indices s (index_key ''auth_session'' h) = Some sid"
    "changed s (snd (store_step s (t, op))) sid (d\<lparr>AuthSession := []\<rparr>)"
    "ms_indices (snd (store_step s (t, op))) (index_key ''auth_session'' h) = None"
    using ClaimAuthSession_law [OF assms(1) surjective_pairing, of t h] assms(2,4) op
    by (auto simp: effect_def effect_at_def owned_def)
  show ?thesis by (rule claimed_gone [OF assms(2) d(1,2) _ d(3)]) (auto simp: doc_keys_fields)
qed

interpretation auth_session_once: budgeted
  store_step "\<lambda>s. store_wf s \<and> owned (index_key ''auth_session'' h) sid s" "\<lambda>x. keeps_auth_session h (snd x)"
  "\<lambda>x r. claims_auth_session h (snd x) \<and> is_ok r" "\<lambda>s. if gone (index_key ''auth_session'' h) s then 1 else 0" 1
  for h sid
proof
  fix s and x :: "time \<times> store_op"
  let ?k = "index_key ''auth_session'' h"
  assume inv: "store_wf s \<and> owned ?k sid s" and al: "keeps_auth_session h (snd x)"
  have sh: "step_shape (snd x) s (snd (store_step s x))"
    using store_step_shape [of s "snd x" "fst x"] inv by simp
  have new: "?k \<notin> doc_keys d" if "installs (snd x) = Some d" for d
    using al that by (auto simp: keeps_auth_session_def doc_keys_fields)
  have rev: "?k \<in> doc_keys d" if "revises (snd x) d d'" "?k \<in> doc_keys d'" for d d'
    using revises_auth_session [OF that(1)] that(2) al by (auto simp: keeps_auth_session_def doc_keys_fields)
  show "store_wf (snd (store_step s x)) \<and> owned ?k sid (snd (store_step s x))"
    using inv store_step_wf [of s x] owned_step [OF conjunct2 [OF inv] sh _ rev] new by simp
  show "(if gone ?k s then 1 else 0) \<le> (if gone ?k (snd (store_step s x)) then 1 else (0::nat))"
    using gone_step [OF _ sh new rev] by auto
  show "(if gone ?k s then 1 else 0) < (1::nat) \<and>
      (if gone ?k s then 1 else 0) < (if gone ?k (snd (store_step s x)) then 1 else (0::nat))"
    if "claims_auth_session h (snd x) \<and> is_ok (fst (store_step s x))"
    using auth_session_claimed [of s h sid "snd x" "fst x"] inv that by simp
qed

definition keeps_issuer_state :: "string \<Rightarrow> store_op \<Rightarrow> bool" where
  "keeps_issuer_state h op = (case installs op of None \<Rightarrow> True | Some d \<Rightarrow> IssuerState d \<noteq> h)"

fun claims_issuer_state :: "string \<Rightarrow> store_op \<Rightarrow> bool" where
  "claims_issuer_state h (OpClaimIssuerState h' d) \<longleftrightarrow> h' = h"
| "claims_issuer_state h (OpResumeIssuerState h' r) \<longleftrightarrow> h' = h"
| "claims_issuer_state h _ \<longleftrightarrow> False"

lemma issuer_state_claimed:
  assumes "store_wf s" and "owned (index_key ''issuer_state'' h) sid s" and "claims_issuer_state h op"
    and "is_ok (fst (store_step s (t, op)))"
  shows "\<not> gone (index_key ''issuer_state'' h) s \<and> gone (index_key ''issuer_state'' h) (snd (store_step s (t, op)))"
proof -
  let ?k = "index_key ''issuer_state'' h" and ?s' = "snd (store_step s (t, op))"
  have "\<exists>d'. ms_indices s ?k = Some sid \<and> changed s ?s' sid d' \<and> IssuerState d' = [] \<and> ms_indices ?s' ?k = None"
    using assms(3)
  proof (cases "(h, op)" rule: claims_issuer_state.cases)
    case (1 h1 h' d)
    have op: "op = OpClaimIssuerState h d" using 1 assms(3) by simp
    show ?thesis
      using ClaimIssuerState_law [OF assms(1) surjective_pairing, of t h d] assms(2,4) op
      by (intro exI [of _ "d\<lparr>IssuerState := []\<rparr>"]) (auto simp: owned_def)
  next
    case (2 h1 h' r)
    have op: "op = OpResumeIssuerState h r" using 2 assms(3) by simp
    then obtain rs sid' d where "ms_indices ?s' ?k = None" "ms_indices s ?k = Some sid'"
      "changed s ?s' sid' (applyTo rs (d\<lparr>IssuerState := []\<rparr>))"
      using ResumeIssuerState_law [OF assms(1) surjective_pairing, of t h r] assms(4)
      by (auto simp: effect_def effect_at_def)
    then show ?thesis
      using assms(2)
      by (intro exI [of _ "applyTo rs (d\<lparr>IssuerState := []\<rparr>)"]) (auto simp: owned_def applyTo_def)
  qed simp_all
  then obtain d' where d: "ms_indices s ?k = Some sid" "changed s ?s' sid d'" "IssuerState d' = []"
    "ms_indices ?s' ?k = None" by blast
  show ?thesis by (rule claimed_gone [OF assms(2) d(1,2) _ d(4)]) (auto simp: doc_keys_fields d(3))
qed

interpretation issuer_state_once: budgeted
  store_step "\<lambda>s. store_wf s \<and> owned (index_key ''issuer_state'' h) sid s" "\<lambda>x. keeps_issuer_state h (snd x)"
  "\<lambda>x r. claims_issuer_state h (snd x) \<and> is_ok r" "\<lambda>s. if gone (index_key ''issuer_state'' h) s then 1 else 0" 1
  for h sid
proof
  fix s and x :: "time \<times> store_op"
  let ?k = "index_key ''issuer_state'' h"
  assume inv: "store_wf s \<and> owned ?k sid s" and al: "keeps_issuer_state h (snd x)"
  have sh: "step_shape (snd x) s (snd (store_step s x))"
    using store_step_shape [of s "snd x" "fst x"] inv by simp
  have new: "?k \<notin> doc_keys d" if "installs (snd x) = Some d" for d
    using al that by (auto simp: keeps_issuer_state_def doc_keys_fields)
  have rev: "?k \<in> doc_keys d" if "revises (snd x) d d'" "?k \<in> doc_keys d'" for d d'
    using revises_keeps(6) [OF that(1)] that(2) by (auto simp: doc_keys_fields)
  show "store_wf (snd (store_step s x)) \<and> owned ?k sid (snd (store_step s x))"
    using inv store_step_wf [of s x] owned_step [OF conjunct2 [OF inv] sh _ rev] new by simp
  show "(if gone ?k s then 1 else 0) \<le> (if gone ?k (snd (store_step s x)) then 1 else (0::nat))"
    using gone_step [OF _ sh new rev] by auto
  show "(if gone ?k s then 1 else 0) < (1::nat) \<and>
      (if gone ?k s then 1 else 0) < (if gone ?k (snd (store_step s x)) then 1 else (0::nat))"
    if "claims_issuer_state h (snd x) \<and> is_ok (fst (store_step s x))"
    using issuer_state_claimed [of s h sid "snd x" "fst x"] inv that by simp
qed

end
