(* ===== verification/AuthContextProps.thy ===== *)
theory AuthContextProps
  imports AuthContextRuns
begin

text \<open>
  The guarantees of the authorization-context store, over arbitrary sequences of its operations:
  codes and handles are used at most as often as they may be, what is stored is found, expiry
  never shrinks, a rotated refresh token is retired. Each is a consequence of the laws of
  \<open>AuthContextLaws\<close> and of the interpretations of \<open>budgeted\<close> in \<open>AuthContextRuns\<close>.

  The sequences may contain any operation with any arguments. What is excluded is a caller that
  writes a document over the session under consideration (the tokens and codes are random, so
  another session does not carry the same one).
\<close>

section \<open>Sample states for the witnesses\<close>

definition sample_doc :: AuthorizationContext where
  "sample_doc = zero_AuthorizationContext\<lparr>SessionID := ''s1'', Code := ''abc'', AuthSession := ''as1'',
     IssuerState := ''is1'', RefreshToken := ''rt1'', ExpiresAt := 100\<rparr>"

definition sample_store :: MemoryStore where
  "sample_store = snd (store_step (NewMemoryStore (15 * minute)) (0, OpSave sample_doc))"

lemma owned_New: "owned k sid (NewMemoryStore ttl)"
  by (simp add: owned_def cached_def ptr_def NewMemoryStore_def New_def)

lemma sample_store_wf: "store_wf sample_store"
  unfolding sample_store_def by (rule store_step_wf [OF NewMemoryStore_wf])

lemma sample_store_owned: "owned k ''s1'' sample_store"
  unfolding sample_store_def
  by (rule owned_step [OF owned_New store_step_shape [OF NewMemoryStore_wf]]) (auto simp: sample_doc_def)

lemma sample_store_cached:
  "cached sample_store ''s1'' = Some (sample_doc\<lparr>CreatedAt := 0\<rparr>)"
  by code_simp

lemma sample_code_invar: "code_invar ''abc'' ''s1'' sample_store"
  by (simp add: code_invar_def sample_store_wf sample_store_owned sample_store_cached sample_doc_def
      zero_AuthorizationContext_def)

section \<open>Authorization codes\<close>











section \<open>One-shot handles\<close>

text \<open>
  One Interactive Authorization exchange yields one claim. In every sequence of operations at
  most one \<^verbatim>\<open>ClaimAuthSession\<close> for a handle succeeds, as long as no caller stores a document
  that carries the handle again.
\<close>

theorem auth_session_claimed_once:
  assumes "store_wf s" and "owned (index_key ''auth_session'' h) sid s"
    and "list_all (\<lambda>x. keeps_auth_session h (snd x)) ops"
  shows "uses_in (\<lambda>x r. claims_auth_session h (snd x) \<and> is_ok r) store_step s ops \<le> 1"
  using auth_session_once.spend_bound [of s h sid ops] assms by simp

theorem auth_session_claimed_once_witness:
  "uses_in (\<lambda>x r. claims_auth_session ''as1'' (snd x) \<and> is_ok r) store_step sample_store
     [(1, OpClaimAuthSession ''as1''), (2, OpClaimAuthSession ''as1'')] \<le> 1 \<and>
   map is_ok (fst (run store_step sample_store
     [(1, OpClaimAuthSession ''as1''), (2, OpClaimAuthSession ''as1'')])) = [True, False]"
proof
  show "uses_in (\<lambda>x r. claims_auth_session ''as1'' (snd x) \<and> is_ok r) store_step sample_store
     [(1, OpClaimAuthSession ''as1''), (2, OpClaimAuthSession ''as1'')] \<le> 1"
    by (rule auth_session_claimed_once [OF sample_store_wf sample_store_owned])
      (simp add: keeps_auth_session_def)
qed code_simp

text \<open>
  An issuance prepared under an \<^verbatim>\<open>issuer_state\<close> opens one exchange. In every sequence of
  operations at most one \<^verbatim>\<open>ClaimIssuerState\<close> or \<^verbatim>\<open>ResumeIssuerState\<close> for the handle succeeds, the
  two counted together.
\<close>

theorem issuer_state_claimed_once:
  assumes "store_wf s" and "owned (index_key ''issuer_state'' h) sid s"
    and "list_all (\<lambda>x. keeps_issuer_state h (snd x)) ops"
  shows "uses_in (\<lambda>x r. claims_issuer_state h (snd x) \<and> is_ok r) store_step s ops \<le> 1"
  using issuer_state_once.spend_bound [of s h sid ops] assms by simp

definition sample_resume :: IssuerStateResume where
  "sample_resume = \<lparr>r_AuthSession = ''as2'', r_AuthSessionDPoPThumbprint = [], r_WalletClientID = [],
     r_WalletURI = [], r_CodeChallenge = [], r_CodeChallengeMethod = [], r_DCQLQuery = None,
     r_EphemeralEncryptionKeyID = ''k2'', r_ExpiresAt = 200, r_CreatedAt = 5\<rparr>"

theorem issuer_state_claimed_once_witness:
  "uses_in (\<lambda>x r. claims_issuer_state ''is1'' (snd x) \<and> is_ok r) store_step sample_store
     [(1, OpResumeIssuerState ''is1'' (Some sample_resume)), (2, OpClaimIssuerState ''is1'' sample_doc)] \<le> 1 \<and>
   map is_ok (fst (run store_step sample_store
     [(1, OpResumeIssuerState ''is1'' (Some sample_resume)), (2, OpClaimIssuerState ''is1'' sample_doc)])) =
     [True, False]"
proof
  show "uses_in (\<lambda>x r. claims_issuer_state ''is1'' (snd x) \<and> is_ok r) store_step sample_store
     [(1, OpResumeIssuerState ''is1'' (Some sample_resume)), (2, OpClaimIssuerState ''is1'' sample_doc)] \<le> 1"
    by (rule issuer_state_claimed_once [OF sample_store_wf sample_store_owned])
      (simp add: keeps_issuer_state_def)
qed code_simp

section \<open>Storing and finding\<close>


lemma resolve_loop_first:
  assumes "find (\<lambda>e. snd e \<noteq> []) fs = Some e"
  shows "resolve_loop fs ix = (case ix (index_key (fst e) (snd e)) of None \<Rightarrow> Inl ErrNoDocuments | Some sid \<Rightarrow> Inr sid)"
  using assms by (induction fs) (auto split: if_splits)

lemma query_field_key:
  assumes "e \<in> set (query_fields doc)" and "snd e \<noteq> []"
  shows "index_key (fst e) (snd e) \<in> doc_keys doc"
proof -
  have "e \<in> set (index_fields doc)"
    using assms(1) by (auto simp: query_fields_def index_fields_def)
  then show ?thesis using assms(2) by (force simp: doc_keys_def in_index_entries)
qed

lemma Save_result:
  assumes "MemoryStore_Save now (Some p) s = (Inr (), s')"
  shows "\<exists>s1 d. deref s' p = d \<and> s' = updateIndices d (cache_set now (SessionID d) p DefaultTTL s1) \<and>
    SessionID d = SessionID (deref s p) \<and> doc_keys d = doc_keys (deref s p) \<and>
    query_fields d = query_fields (deref s p) \<and> c_ttl (ms_cache s1) = c_ttl (ms_cache s)"
proof -
  let ?d = "deref s p"
  obtain x s2 where g: "cache_get now (SessionID ?d) s = (x, s2)" by fastforce
  have ttl: "c_ttl (ms_cache s2) = c_ttl (ms_cache s)"
    using g by (auto simp: cache_get_def Let_def split_def cache_simps)
  have d2: "deref s2 = deref s" using touchedD(7) [OF cache_get_touched [OF g]] .
  have fin: ?thesis
    if s1: "sy = write_doc p (?d\<lparr>CreatedAt := t\<rparr>) sx" "c_ttl (ms_cache sx) = c_ttl (ms_cache s)"
      and s': "s' = updateIndices (?d\<lparr>CreatedAt := t\<rparr>) (cache_set now (SessionID ?d) p DefaultTTL sy)" for sy sx t
    using that
    by (intro exI [of _ sy] exI [of _ "?d\<lparr>CreatedAt := t\<rparr>"])
      (simp add: deref_def index_frame cache_set_frame write_frame query_fields_def)
  show ?thesis
  proof (cases "CreatedAt ?d = zero_time")
    case True
    then show ?thesis
      using assms g d2 ttl fin [where sx = s2]
      unfolding MemoryStore_Save_def
      by (auto simp: Let_def deref_def write_frame cache_set_frame split: if_splits option.splits)
  next
    case False
    have "s' = updateIndices ?d (cache_set now (SessionID ?d) p DefaultTTL s)"
      using assms False unfolding MemoryStore_Save_def by (auto simp: Let_def deref_frame split: if_splits)
    then show ?thesis by (intro exI [of _ s] exI [of _ ?d]) (simp add: deref_frame)
  qed
qed

text \<open>
  C35: what is saved is found. After a successful \<^verbatim>\<open>Save\<close>, a query by any of the search fields
  (request_uri, code, state, response code, key id, request object id, auth_session, issuer_state)
  that the document carries returns that very document, until the store's retention has passed.
\<close>

theorem save_then_get:
  assumes "MemoryStore_Save now (Some p) s = (Inr (), s')" and "0 < MemoryStore_TTL s"
    and "now \<le> later" and "later \<le> now + MemoryStore_TTL s"
    and "SessionID q = []" and "find (\<lambda>e. snd e \<noteq> []) (query_fields q) = Some e"
    and "e \<in> set (query_fields (deref s p))"
  shows "fst (MemoryStore_Get later (Some q) s') = Inr p"
proof -
  obtain s1 d where s': "s' = updateIndices d (cache_set now (SessionID d) p DefaultTTL s1)"
    and d: "query_fields d = query_fields (deref s p)" "c_ttl (ms_cache s1) = c_ttl (ms_cache s)"
    using Save_result [OF assms(1)] by blast
  have e: "snd e \<noteq> []" using assms(6) by (metis (mono_tags, lifting) find_Some_iff)
  have "ms_indices s' (index_key (fst e) (snd e)) = Some (SessionID d)"
    using query_field_key [of e d] e assms(7) d(1) s' by (simp add: updateIndices_apply)
  then have res: "resolveSessionIDLocked q s' = Inr (SessionID d)"
    using assms(5,6) by (simp add: resolveSessionIDLocked_def resolve_loop_first)
  have "live later (ms_cache s') (SessionID d) = Some p"
    using assms(2-4) d(2)
    by (simp add: s' index_frame cache_set_def live_Set_default MemoryStore_TTL_def)
  then have "fst (cache_get later (SessionID d) s') = Some p" by (simp add: cache_get_live)
  then show ?thesis
    by (auto simp: MemoryStore_Get_def getLocked_def res split: prod.splits option.splits)
qed

theorem save_then_get_witness:
  "fst (MemoryStore_Get 60 (Some (zero_AuthorizationContext\<lparr>IssuerState := ''is1''\<rparr>))
     (snd (MemoryStore_Save 0 (Some 0) (snd (alloc sample_doc (NewMemoryStore (15 * minute))))))) = Inr 0"
proof (rule save_then_get)
  show "MemoryStore_Save 0 (Some 0) (snd (alloc sample_doc (NewMemoryStore (15 * minute)))) =
    (Inr (), snd (MemoryStore_Save 0 (Some 0) (snd (alloc sample_doc (NewMemoryStore (15 * minute))))))"
    by (rule prod_eqI) (code_simp, simp)
  show "(''issuer_state'', ''is1'') \<in> set (query_fields (deref (snd (alloc sample_doc (NewMemoryStore (15 * minute)))) 0))"
    by code_simp
qed code_simp+

text \<open>
  \<^verbatim>\<open>ExtendExpiry\<close> never shortens. Whatever deadline it is given, no document of the store has an
  earlier expiry afterwards, and nothing but that one expiry changes.
\<close>

theorem extend_expiry_never_shortens:
  assumes "store_wf s" and "cached s sid = Some d"
  shows "\<exists>e'. cached (snd (MemoryStore_ExtendExpiry now q e s)) sid = Some (d\<lparr>ExpiresAt := e'\<rparr>) \<and> ExpiresAt d \<le> e'"
proof -
  let ?s' = "snd (MemoryStore_ExtendExpiry now q e s)"
  consider "cached ?s' = cached s"
    | sid' d' where "cached s sid' = Some d'" "ExpiresAt d' < e" "cached ?s' = (cached s)(sid' \<mapsto> d'\<lparr>ExpiresAt := e\<rparr>)"
    using ExtendExpiry_law [OF assms(1) surjective_pairing, of now q e]
    unfolding unchanged_def effect_at_def changed_def by blast
  then show ?thesis
  proof cases
    case 1
    then show ?thesis using assms(2) by (intro exI [of _ "ExpiresAt d"]) simp
  next
    case 2
    then show ?thesis using assms(2)
      by (intro exI [of _ "if sid' = sid then e else ExpiresAt d"]) auto
  qed
qed

theorem extend_expiry_never_shortens_witness:
  "\<exists>e'. cached (snd (MemoryStore_ExtendExpiry 1 (Some sample_doc) 50 sample_store)) ''s1'' =
      Some (sample_doc\<lparr>CreatedAt := 0\<rparr>\<lparr>ExpiresAt := e'\<rparr>) \<and> ExpiresAt (sample_doc\<lparr>CreatedAt := 0\<rparr>) \<le> e'"
  by (rule extend_expiry_never_shortens [OF sample_store_wf sample_store_cached])

text \<open>
  C36: refresh-token rotation is a compare-and-swap. When it succeeds, the old token resolves to
  nothing afterwards unless the new document carries it again, the new token resolves to the session, the
  document is the new one, and a second rotation of the same old token fails.
\<close>

theorem rotation_retires_old_token:
  assumes "store_wf s" and "store_step s (t, OpRotate old d) = (Inr None, s')"
    and "RefreshToken d \<noteq> old"
  shows "fst (MemoryStore_GetByRefreshToken t' old s') = Inl ErrNoDocuments \<and>
    cached s' (SessionID d) = Some d \<and>
    (RefreshToken d \<noteq> [] \<longrightarrow> ms_indices s' (index_key ''refresh_token'' (RefreshToken d)) = Some (SessionID d)) \<and>
    \<not> is_ok (fst (store_step s' (t', OpRotate old d')))"
proof (intro conjI impI)
  let ?op = "MemoryStore_RotateRefreshToken t old (Some (fst (alloc d s))) (snd (alloc d s))"
  have eq: "no_ptr ?op = (Inr None, s')" using assms(2) by (simp add: Let_def split_def)
  have ok: "is_ok (fst ?op)" "snd ?op = s'"
    using ptr_results(3,4) [of ?op] unfolding eq by simp_all
  obtain od where law: "old \<noteq> []" "RefreshToken od = old" "changed s s' (SessionID d) d" "reindexed s s' od d"
    using Rotate_law [OF assms(1) surjective_pairing, of t old d] ok by auto
  have gone: "ms_indices s' (index_key ''refresh_token'' old) = None"
    using law assms(3) by (simp add: reindexed_def doc_keys_fields)
  show "fst (MemoryStore_GetByRefreshToken t' old s') = Inl ErrNoDocuments"
    using law(1) gone by (simp add: MemoryStore_GetByRefreshToken_def get_by_def by_index_def)
  show "cached s' (SessionID d) = Some d" using law(3) by (simp add: changed_def)
  show "RefreshToken d \<noteq> [] \<Longrightarrow> ms_indices s' (index_key ''refresh_token'' (RefreshToken d)) = Some (SessionID d)"
    using law(4) by (simp add: reindexed_def doc_keys_fields)
  have "store_wf s'" using law(3) by (simp add: changed_def)
  then show "\<not> is_ok (fst (store_step s' (t', OpRotate old d')))"
    using Rotate_law [of s' t' old d', OF _ surjective_pairing] gone by (auto simp: Let_def split_def)
qed

theorem rotation_retires_old_token_witness:
  "fst (MemoryStore_GetByRefreshToken 2 ''rt1''
     (snd (store_step sample_store (1, OpRotate ''rt1'' (sample_doc\<lparr>RefreshToken := ''rt2''\<rparr>))))) = Inl ErrNoDocuments"
proof -
  let ?s = "snd (store_step sample_store (1, OpRotate ''rt1'' (sample_doc\<lparr>RefreshToken := ''rt2''\<rparr>)))"
  have "store_step sample_store (1, OpRotate ''rt1'' (sample_doc\<lparr>RefreshToken := ''rt2''\<rparr>)) = (Inr None, ?s)"
    by (rule prod_eqI) (code_simp, simp)
  from rotation_retires_old_token [OF sample_store_wf this, of 2 sample_doc] show ?thesis by simp
qed

section \<open>Behaviour that differs from what the comments say\<close>

text \<open>
  \<^verbatim>\<open>RedeemPreAuthorizedCode\<close> stores with \<^verbatim>\<open>PreviousOrDefaultTTL\<close> so that "repeated redemptions by
  different clients must not extend the code's lifetime". The lookup before it is a \<^verbatim>\<open>Get\<close>, which
  touches the item: a redemption at minute 14 of 15 keeps the code alive until minute 29.
\<close>

lemma redemption_extends_lifetime:
  "live (28 * minute) (ms_cache (snd (store_step sample_store (14 * minute, OpRedeem ''abc'' ''k1'')))) ''s1'' = Some 0 \<and>
   live (28 * minute) (ms_cache sample_store) ''s1'' = None"
  by code_simp

text \<open>
  \<^verbatim>\<open>Update\<close> removes the indices of the stored document "to prevent rotated tokens from remaining
  resolvable". When the caller changed the document through the pointer \<^verbatim>\<open>Get\<close> returned, the stored
  document already has the new value, and the old token keeps resolving.
\<close>

lemma update_through_alias_keeps_old_token:
  "let p = 0;
       s1 = write_doc p ((deref sample_store p)\<lparr>RefreshToken := ''rt2''\<rparr>) sample_store;
       (r, s2) = MemoryStore_Update 1 (Some p) s1
   in fst (MemoryStore_GetByID 1 ''s1'' sample_store) = Inr p \<and> r = Inr () \<and>
      fst (MemoryStore_GetByRefreshToken 2 ''rt1'' s2) = Inr p"
  by code_simp

text \<open>
  The eviction callback runs later and deletes the indices of the evicted document. A session
  saved again in between loses the indices it just got, although it is stored.
\<close>

lemma eviction_callback_drops_live_index:
  "let s = snd (run store_step sample_store
             [(16 * minute, OpJanitor ''s1''), (16 * minute, OpSave sample_doc), (16 * minute, OpEvictionCallback)])
   in live (17 * minute) (ms_cache s) ''s1'' = Some 1 \<and>
      fst (MemoryStore_GetByAuthorizationCode (17 * minute) ''abc'' s) = Inl ErrNoDocuments"
  by code_simp

end
