(* ===== verification/IssuanceFlow.thy ===== *)
theory IssuanceFlow
  imports AuthorizeEndpoint
begin

text \<open>
  The endpoints in the order a wallet calls them: the pushed authorization request stores a context, the
  authorization request takes it up, the token request redeems its code. The lemmas follow one context
  through the three calls.
\<close>

section \<open>What a pushed request leaves\<close>

lemma cache_get_dead:
  assumes "live now (ms_cache s) sid = None"
  obtains s1 where "cache_get now sid s = (None, s1)"
  using cache_get_live [of now sid s] assms by (cases "cache_get now sid s") simp

text \<open>\<open>stored now s s' d\<close>: the document \<open>d\<close> is in the store \<open>s'\<close>, valid, found by its keys and alive for the default time to live.\<close>

definition stored :: "time \<Rightarrow> MemoryStore \<Rightarrow> MemoryStore \<Rightarrow> AuthorizationContext \<Rightarrow> bool" where
  "stored now s s' d \<longleftrightarrow> changed s s' (SessionID d) d \<and> Validate d \<and> c_ttl (ms_cache s') = c_ttl (ms_cache s) \<and>
     (\<forall>k\<in>doc_keys d. ms_indices s' k = Some (SessionID d)) \<and>
     (0 < c_ttl (ms_cache s) \<longrightarrow> (\<forall>later \<le> now + c_ttl (ms_cache s). live later (ms_cache s') (SessionID d) \<noteq> None))"

lemma save_new_stored:
  assumes wf: "store_wf s" and fresh: "live now (ms_cache s) (SessionID d) = None" "CreatedAt d = zero_time"
    and op: "save_new now d s = (Inr (), s')"
  shows "stored now s s' (d\<lparr>CreatedAt := now\<rparr>)"
proof -
  let ?p = "fst (alloc d s)" and ?s0 = "snd (alloc d s)" and ?d = "d\<lparr>CreatedAt := now\<rparr>"
  have d0: "deref ?s0 ?p = d" by (simp add: deref_def alloc_def)
  have "live now (ms_cache ?s0) (SessionID d) = None" using fresh(1) by (simp add: alloc_def)
  then obtain s1 where g: "cache_get now (SessionID d) ?s0 = (None, s1)" using cache_get_dead by blast
  have t: "touched ?s0 s1" using cache_get_touched [OF g] .
  let ?s2 = "cache_set now (SessionID d) ?p DefaultTTL (write_doc ?p ?d s1)"
  have d1: "deref s1 ?p = d" using d0 touchedD(7) [OF t] by simp
  have v: "SessionID d \<noteq> []" "Validate d"
    using op by (auto simp: save_new_def MemoryStore_Save_def d0 split: if_split_asm)
  have w: "deref (write_doc q e sx) q = e" for q e sx by (simp add: deref_def write_frame)
  have s': "s' = updateIndices ?d ?s2"
    using op v fresh(2) g d1
    by (simp add: save_new_def MemoryStore_Save_def d0 Let_def w deref_frame)
  obtain t0 where ch: "changed s s' (SessionID d) (d\<lparr>CreatedAt := t0\<rparr>)"
    using Save_law [OF wf, of now d "Inr ()" s'] op by (auto simp: save_new_def)
  have h: "ms_heap s' ?p = ?d" "ptr s' (SessionID d) = Some ?p"
    by (simp_all add: s' index_frame cache_set_frame write_frame)
  have "cached s' (SessionID d) = Some ?d" using h by (simp add: cached_def)
  then have "d\<lparr>CreatedAt := t0\<rparr> = ?d" using ch by (simp add: changed_def)
  moreover have ttl: "c_ttl (ms_cache s1) = c_ttl (ms_cache s)"
    using cache_get_ttl [of now "SessionID d" ?s0] g by (simp add: alloc_def)
  moreover have "Validate ?d" using v(2) by (simp add: Validate_def text_fields_def)
  moreover have "c_ttl (ms_cache s') = c_ttl (ms_cache s)"
    using ttl by (simp add: s' index_frame cache_set_def write_frame cache_simps)
  ultimately show ?thesis
    using ch by (auto simp: stored_def s' updateIndices_apply index_frame cache_set_def write_frame live_Set_default)
qed

lemma OAuthPar_ok:
  assumes "OAuthPar x cfg now req draws sv = (Inr r, sv')"
  shows "\<exists>host nonce ephemeral response. par_refused x cfg req = None \<and> HostFromURL x (cfg_PublicURL cfg) = Some host \<and>
    pp_RequestURI r = request_uri_prefix @ pd_requestURI draws \<and>
    save_new now (par_context now req host draws nonce ephemeral response) (sv_AuthContext sv) = (Inr (), sv_AuthContext sv')"
  using assms unfolding OAuthPar_def
  by (auto simp: and_then_ok lift_store_ok split: option.split_asm) blast

lemma OAuthPar_changed:
  assumes "store_wf (sv_AuthContext sv)" and "OAuthPar x cfg now req draws sv = (Inr r, sv')"
  shows "\<exists>host nonce ephemeral response t. changed (sv_AuthContext sv) (sv_AuthContext sv') (pd_sessionID draws)
    ((par_context now req host draws nonce ephemeral response)\<lparr>CreatedAt := t\<rparr>)"
proof -
  obtain host n e v where
    s: "save_new now (par_context now req host draws n e v) (sv_AuthContext sv) = (Inr (), sv_AuthContext sv')"
    using OAuthPar_ok [OF assms(2)] by blast
  have "SessionID (par_context now req host draws n e v) = pd_sessionID draws" by (simp add: par_context_def)
  then show ?thesis
    using Save_law [OF assms(1), of now "par_context now req host draws n e v" "Inr ()"] s by (auto simp: save_new_def) blast
qed

lemma par_context_fields:
  "SessionID (par_context now req host draws n e r) = pd_sessionID draws"
  "Code (par_context now req host draws n e r) = pd_code draws"
  "RequestURI (par_context now req host draws n e r) = request_uri_prefix @ pd_requestURI draws"
  "CreatedAt (par_context now req host draws n e r) = zero_time"
  "ExpiresAt (par_context now req host draws n e r) = unix (now + requestURITTL)"
  "RequestURIExpiresAt (par_context now req host draws n e r) = unix (now + requestURITTL)"
  "Forfeited (par_context now req host draws n e r) = False"
  "Scopes (par_context now req host draws n e r) = [pr_Scope req]"
  "CodeChallenge (par_context now req host draws n e r) = pr_CodeChallenge req"
  "CodeChallengeMethod (par_context now req host draws n e r) = pr_CodeChallengeMethod req"
  by (simp_all add: par_context_def zero_AuthorizationContext_def)

lemma deadline_after_par:
  assumes "t0 \<le> t1" and "t1 \<le> t0 + requestURITTL"
  shows "codeDeadlineWithin t1 t0 = unix (t1 + authorizationCodeTTL)"
    and "unix (t0 + requestURITTL) < unix (t1 + authorizationCodeTTL)"
proof -
  show "codeDeadlineWithin t1 t0 = unix (t1 + authorizationCodeTTL)"
    using assms
    by (simp add: codeDeadlineWithin_def Let_def requestURITTL_def authorizationCodeTTL_def AuthContextTTL_def minute_def second_def)
  have "unix (t0 + requestURITTL) = unix t0 + 60" using unix_add_seconds [of t0 60] by (simp add: requestURITTL_def)
  moreover have "unix (t1 + authorizationCodeTTL) = unix t1 + 300"
    using unix_add_seconds [of t1 300] by (simp add: authorizationCodeTTL_def minute_def)
  ultimately show "unix (t0 + requestURITTL) < unix (t1 + authorizationCodeTTL)" using unix_mono [OF assms(1)] by simp
qed

text \<open>
  C8: what an accepted pushed request means. Its redirect URI has no dangerous scheme, the client is a
  registered one or an attested wallet, a public client sent a PKCE challenge, the server does not insist on
  the interactive endpoint and the scope is not reserved for pre-authorized offers. One session is added
  to the store, unused, bound to the client, its redirect URI and its challenge, with sixty seconds to live.
\<close>

theorem pushed_request_sound:
  assumes wf: "store_wf (sv_AuthContext sv)" and op: "OAuthPar x cfg now req draws sv = (Inr r, sv')"
  shows "ValidateRedirectURIScheme (x_url_parse x) (pr_RedirectURI req) = None \<and>
    (\<exists>client. authenticateOAuthClient x cfg (par_client_auth req) = Inr client \<and>
       (cl_Type client = ClientTypePublic \<longrightarrow> pr_CodeChallenge req \<noteq> [])) \<and>
    \<not> InteractiveAuthorization_Required (cfg_InteractiveAuthorization cfg) \<and>
    \<not> preauth_only cfg (pr_Scope req) \<and>
    (\<exists>d. cached (sv_AuthContext sv') = (cached (sv_AuthContext sv))(pd_sessionID draws \<mapsto> d) \<and>
       \<not> Forfeited d \<and> \<not> PreAuthorized d \<and> Code d = pd_code draws \<and> WalletClientID d = pr_ClientID req \<and>
       WalletURI d = pr_RedirectURI req \<and> CodeChallenge d = pr_CodeChallenge req \<and> Scopes d = [pr_Scope req] \<and>
       RequestURI d = pp_RequestURI r \<and> ExpiresAt d = unix (now + requestURITTL))"
proof -
  have ref: "par_refused x cfg req = None" and u: "pp_RequestURI r = request_uri_prefix @ pd_requestURI draws"
    using OAuthPar_ok [OF op] by auto
  have p: "ValidateRedirectURIScheme (x_url_parse x) (pr_RedirectURI req) = None"
    "\<exists>client. authenticateOAuthClient x cfg (par_client_auth req) = Inr client \<and>
       (cl_Type client = ClientTypePublic \<longrightarrow> pr_CodeChallenge req \<noteq> [])"
    "\<not> InteractiveAuthorization_Required (cfg_InteractiveAuthorization cfg)" "\<not> preauth_only cfg (pr_Scope req)"
    using ref unfolding par_refused_def by (auto split: if_split_asm sum.split_asm)
  obtain host n e v t where c: "changed (sv_AuthContext sv) (sv_AuthContext sv') (pd_sessionID draws)
      ((par_context now req host draws n e v)\<lparr>CreatedAt := t\<rparr>)"
    using OAuthPar_changed [OF wf op] by blast
  let ?d = "(par_context now req host draws n e v)\<lparr>CreatedAt := t\<rparr>"
  have "\<not> PreAuthorized ?d" "WalletClientID ?d = pr_ClientID req" "WalletURI ?d = pr_RedirectURI req"
    by (simp_all add: par_context_def zero_AuthorizationContext_def)
  then show ?thesis using p c u by (auto simp: changed_def par_context_fields)
qed

section \<open>The pushed request can be used\<close>

lemma request_uri_nonempty: "request_uri_prefix @ u \<noteq> []"
  by (simp add: request_uri_prefix_def)

lemma Get_authorize_succeeds:
  assumes "u \<noteq> []" and "ms_indices s (index_key ''request_uri'' u) = Some sid" and "live now (ms_cache s) sid = Some p"
  shows "\<exists>s1. MemoryStore_Get now (authorize_query u host) s = (Inr p, s1)"
proof -
  obtain s1 where g: "cache_get now sid s = (Some p, s1)" using cache_get_found [OF assms(3)] .
  let ?q = "zero_AuthorizationContext\<lparr>RequestURI := u, ClientID := x509_san_dns host\<rparr>"
  have "resolveSessionIDLocked ?q s = Inr sid"
    using resolve_by_request_uri [of ?q u s] assms(1,2) by (simp add: zero_AuthorizationContext_def)
  then show ?thesis using g by (simp add: MemoryStore_Get_def getLocked_def authorize_query_def)
qed

lemma par_then_authorize:
  assumes wf: "store_wf (sv_AuthContext sv)" and ttl: "MemoryStore_TTL (sv_AuthContext sv) = AuthContextTTL"
    and fresh: "live t0 (ms_cache (sv_AuthContext sv)) (pd_sessionID draws) = None"
    and par: "OAuthPar x cfg t0 req draws sv = (Inr r, sv1)"
    and time: "t0 \<le> t1" "t1 \<le> t0 + requestURITTL"
    and auth: "OAuthAuthorize x cfg t1 (pp_RequestURI r) sv1 = (a, sv2)"
  shows "\<exists>reply host n e v. a = Inr reply \<and> ar_SessionID reply = pd_sessionID draws \<and>
    (let d = (par_context t0 req host draws n e v)\<lparr>CreatedAt := t0, ExpiresAt := unix (t1 + authorizationCodeTTL)\<rparr>
     in Validate d \<and> changed (sv_AuthContext sv1) (sv_AuthContext sv2) (pd_sessionID draws) d \<and>
        (\<forall>k\<in>doc_keys d. ms_indices (sv_AuthContext sv2) k = Some (pd_sessionID draws)) \<and>
        (\<forall>later \<le> t1 + AuthContextTTL. live later (ms_cache (sv_AuthContext sv2)) (pd_sessionID draws) \<noteq> None))"
proof -
  let ?sid = "pd_sessionID draws" and ?u = "pp_RequestURI r"
  obtain host n e v where h: "HostFromURL x (cfg_PublicURL cfg) = Some host" and u: "?u = request_uri_prefix @ pd_requestURI draws"
    and save: "save_new t0 (par_context t0 req host draws n e v) (sv_AuthContext sv) = (Inr (), sv_AuthContext sv1)"
    using OAuthPar_ok [OF par] by blast
  define d where "d = (par_context t0 req host draws n e v)\<lparr>CreatedAt := t0\<rparr>"
  have st: "stored t0 (sv_AuthContext sv) (sv_AuthContext sv1) d"
    using save_new_stored [OF wf _ _ save] fresh by (simp add: d_def par_context_fields)
  have f: "SessionID d = ?sid" "RequestURI d = ?u" "CreatedAt d = t0" "ExpiresAt d = unix (t0 + requestURITTL)"
    "RequestURIExpiresAt d = unix (t0 + requestURITTL)" "\<not> Forfeited d" "Scopes d \<noteq> []"
    by (simp_all add: d_def par_context_fields u)
  have une: "?u \<noteq> []" using u request_uri_nonempty by simp
  have wf1: "store_wf (sv_AuthContext sv1)" and ttl1: "c_ttl (ms_cache (sv_AuthContext sv1)) = AuthContextTTL"
    and v1: "Validate d" and keys1: "\<forall>k\<in>doc_keys d. ms_indices (sv_AuthContext sv1) k = Some ?sid"
    and cd: "cached (sv_AuthContext sv1) ?sid = Some d"
    using st f(1) ttl by (simp_all add: stored_def changed_def MemoryStore_TTL_def)
  have "t1 \<le> t0 + AuthContextTTL" and pos: "0 < AuthContextTTL"
    using time(2) by (simp_all add: requestURITTL_def AuthContextTTL_def minute_def second_def)
  then obtain p where lv: "live t1 (ms_cache (sv_AuthContext sv1)) ?sid = Some p"
    using st f(1) ttl by (fastforce simp: stored_def MemoryStore_TTL_def)
  then have p: "deref (sv_AuthContext sv1) p = d"
    using cd cache_get_Some [of t1 ?sid "sv_AuthContext sv1" p] by (simp add: cache_get_live cached_def deref_def)
  have ix: "ms_indices (sv_AuthContext sv1) (index_key ''request_uri'' ?u) = Some ?sid"
    using keys1 f(2) une by (simp add: doc_keys_fields)
  obtain s1 where g: "MemoryStore_Get t1 (authorize_query ?u host) (sv_AuthContext sv1) = (Inr p, s1)"
    using Get_authorize_succeeds [OF une ix lv] by blast
  have "deref s1 p = d" using Get_authorize_query(1) [OF g] touchedD(7) p by metis
  moreover have "unix t1 \<le> unix (t0 + requestURITTL)" using unix_mono [OF time(2)] .
  ultimately have ref: "authorize_refused t1 (deref s1 p) = None" using f by (simp add: authorize_refused_def)
  obtain sid' d' where au: "authorized t1 ?u (sv_AuthContext sv1) (sv_AuthContext sv2) sid' d'"
    and rep: "a = (if Scopes d' = [] then Inl Panic
       else Inr \<lparr>ar_RedirectURL = (if Consent d' then [] else ''/authorization/consent''), ar_Scope = hd (Scopes d'),
                 ar_SessionID = sid', ar_ClientID = ClientID d', ar_WalletClientID = WalletClientID d'\<rparr>)"
    using OAuthAuthorize_found [OF wf1 h g ref] auth by auto
  have eq: "sid' = ?sid" "d' = d" using au ix cd by (auto simp: authorized_def)
  note dl = deadline_after_par [OF time]
  let ?e = "d\<lparr>ExpiresAt := unix (t1 + authorizationCodeTTL)\<rparr>"
  have ch: "changed (sv_AuthContext sv1) (sv_AuthContext sv2) ?sid ?e"
    using au dl f(3,4) unfolding authorized_def eq by (simp add: max_def)
  have ka: "kept_alive t1 (sv_AuthContext sv1) (sv_AuthContext sv2) ?sid"
    using au dl f(3,4) unfolding authorized_def eq by simp
  have dk: "doc_keys ?e = doc_keys d" by (simp add: doc_keys_def index_entries_def index_fields_def)
  have keys: "\<forall>k\<in>doc_keys ?e. ms_indices (sv_AuthContext sv2) k = Some ?sid"
    using ka keys1 unfolding dk kept_alive_def by blast
  have alive: "\<forall>later \<le> t1 + AuthContextTTL. live later (ms_cache (sv_AuthContext sv2)) ?sid \<noteq> None"
    using ka pos ttl1 by (simp add: kept_alive_def)
  have ve: "Validate ?e" using v1 by (simp add: Validate_def text_fields_def)
  obtain reply where "a = Inr reply" "ar_SessionID reply = ?sid" using rep eq f(7) by simp
  then show ?thesis using ch keys alive ve unfolding d_def Let_def by blast
qed

text \<open>
  C4: the flow from the pushed request to the token completes. A request pushed at \<open>t0\<close> under a fresh session
  id is taken up by the authorization endpoint at any time within its sixty seconds, and from then on its
  code is redeemed by a token request that passes the endpoint's checks and carries the verifier of the
  pushed challenge, at any time within five minutes of the authorization.
\<close>

theorem issuance_flow_completes:
  assumes wf: "store_wf (sv_AuthContext sv)" and ttl: "MemoryStore_TTL (sv_AuthContext sv) = AuthContextTTL"
    and fresh: "live t0 (ms_cache (sv_AuthContext sv)) (pd_sessionID pd) = None"
    and par: "OAuthPar x cfg t0 preq pd sv = (Inr par, sv1)"
    and time: "t0 \<le> t1" "t1 \<le> t0 + requestURITTL" "t1 \<le> t2" "t2 \<le> t1 + authorizationCodeTTL"
    and auth: "OAuthAuthorize x cfg t1 (pp_RequestURI par) sv1 = (a, sv2)"
    and grant: "tr_GrantType req \<noteq> grant_refresh" "tr_GrantType req \<noteq> grant_preauth"
    and code: "tr_Code req = pd_code pd" "pd_code pd \<noteq> []"
    and checks: "fst (OAuthToken_checks x cfg t2 req False (tr_Code req) sv2) = Inr thumb"
    and pkce: "ValidatePKCE (x_sha256 x) (tr_CodeVerifier req) (pr_CodeChallenge preq) (pr_CodeChallengeMethod preq) = None"
    and draws: "td_accessToken draws = Some at" "td_refreshToken draws = Some rt"
    and sizes: "text_tag 4096 rt" "Token_valid \<lparr>tok_AccessToken = at,
      tok_ExpiresAt = unix (t2 + access_token_lifetime * second), tok_DPoPThumbprint = thumb\<rparr>"
  shows "(\<exists>reply. a = Inr reply \<and> ar_SessionID reply = pd_sessionID pd) \<and>
    (\<exists>r. fst (OAuthToken x cfg t2 req draws sv2) = Inr r \<and> tp_AccessToken r = at)"
proof -
  let ?sid = "pd_sessionID pd" and ?s2 = "sv_AuthContext sv2"
  obtain reply host n e v where a: "a = Inr reply" "ar_SessionID reply = ?sid"
    and st: "let d = (par_context t0 preq host pd n e v)\<lparr>CreatedAt := t0, ExpiresAt := unix (t1 + authorizationCodeTTL)\<rparr>
     in Validate d \<and> changed (sv_AuthContext sv1) ?s2 ?sid d \<and>
        (\<forall>k\<in>doc_keys d. ms_indices ?s2 k = Some ?sid) \<and>
        (\<forall>later \<le> t1 + AuthContextTTL. live later (ms_cache ?s2) ?sid \<noteq> None)"
    using par_then_authorize [OF wf ttl fresh par time(1,2) auth] by blast
  define d where "d = (par_context t0 preq host pd n e v)\<lparr>CreatedAt := t0, ExpiresAt := unix (t1 + authorizationCodeTTL)\<rparr>"
  have v: "Validate d" and ch: "changed (sv_AuthContext sv1) ?s2 ?sid d"
    and keys: "\<forall>k\<in>doc_keys d. ms_indices ?s2 k = Some ?sid"
    and alive: "\<forall>later \<le> t1 + AuthContextTTL. live later (ms_cache ?s2) ?sid \<noteq> None"
    using st unfolding Let_def d_def by blast+
  have f: "Code d = tr_Code req" "\<not> Forfeited d" "Scopes d \<noteq> []" "ExpiresAt d = unix (t1 + authorizationCodeTTL)"
    "CodeChallenge d = pr_CodeChallenge preq" "CodeChallengeMethod d = pr_CodeChallengeMethod preq"
    by (simp_all add: d_def par_context_fields code)
  have "t2 \<le> t1 + AuthContextTTL" using time(4) by (simp add: authorizationCodeTTL_def AuthContextTTL_def minute_def second_def)
  then obtain p where lv: "live t2 (ms_cache ?s2) ?sid = Some p" using alive by fastforce
  have wf2: "store_wf ?s2" and cd: "cached ?s2 ?sid = Some d" using ch by (simp_all add: changed_def)
  have p: "deref ?s2 p = d"
    using cd cache_get_Some [of t2 ?sid ?s2 p] lv by (simp add: cache_get_live cached_def deref_def)
  have ix: "ms_indices ?s2 (index_key ''code'' (tr_Code req)) = Some ?sid"
    using keys f(1) code by (simp add: doc_keys_fields)
  have fr: "ExpiresAt d > 0 \<longrightarrow> unix t2 \<le> ExpiresAt d" using unix_mono [OF time(4)] f(4) by simp
  have "\<exists>r. fst (OAuthToken x cfg t2 req draws sv2) = Inr r \<and> tp_AccessToken r = at"
    using valid_code_is_redeemed [OF wf2 grant checks _ ix lv p f(2) v f(3) fr _ draws sizes] code pkce f(5,6) by simp
  then show ?thesis using a by blast
qed

end
