(* ===== verification/FlowExamples.thy ===== *)
theory FlowExamples
  imports IssuanceFlow
begin

text \<open>
  One run of the issuer from a pushed authorization request to a token, at which the properties of the flow
  and of the authorization endpoint are applied.
\<close>

definition demo_par :: PARRequest where
  "demo_par =
     \<lparr>pr_ClientID = ''wallet'', pr_RedirectURI = ''https://w.example/cb'', pr_Scope = ''pid'', pr_State = ''st'',
      pr_AuthorizationDetails = [], pr_CodeChallenge = ''verifier'', pr_CodeChallengeMethod = CodeChallengeMethodPlain,
      pr_DynamicParams = [], pr_ClientAttestation = [], pr_ClientAttestationPoP = [], pr_ClientAssertion = []\<rparr>"

definition demo_par_draws :: ParDraws where
  "demo_par_draws =
     \<lparr>pd_requestURI = ''r1'', pd_sessionID = ''s1'', pd_code = ''code1'', pd_nonce = Some ''n0'',
      pd_ephemeralKeyID = Some ''e1'', pd_responseCode = Some ''v1''\<rparr>"

definition pushed :: "(api_error + ParResponse) \<times> Service" where
  "pushed = OAuthPar demo_x demo_cfg (tm 1000) demo_par demo_par_draws New_Service"

definition taken_up :: "(api_error + AuthorizationResponse) \<times> Service" where
  "taken_up = OAuthAuthorize demo_x demo_cfg (tm 1005) ''urn:ietf:params:oauth:request_uri:r1'' (snd pushed)"

lemma pushed_ok: "fst pushed = Inr \<lparr>pp_RequestURI = ''urn:ietf:params:oauth:request_uri:r1'', pp_ExpiresIn = 60\<rparr>"
  by code_simp

lemma taken_up_checks:
  "fst (OAuthToken_checks demo_x demo_cfg (tm 1010) demo_request False ''code1'' (snd taken_up)) = Inr ''jkt1''"
  by code_simp

lemma New_Service_wf: "store_wf (sv_AuthContext New_Service)"
  by (simp add: New_Service_def NewMemoryStore_wf)

lemma pushed_pair: "pushed = (Inr \<lparr>pp_RequestURI = ''urn:ietf:params:oauth:request_uri:r1'', pp_ExpiresIn = 60\<rparr>, snd pushed)"
  using pushed_ok by (metis prod.collapse)

theorem issuance_flow_completes_witness:
  "(\<exists>reply. fst taken_up = Inr reply \<and> ar_SessionID reply = ''s1'') \<and>
   (\<exists>r. fst (OAuthToken demo_x demo_cfg (tm 1010) demo_request demo_draws (snd taken_up)) = Inr r \<and> tp_AccessToken r = ''at1'')"
proof -
  have par: "OAuthPar demo_x demo_cfg (tm 1000) demo_par demo_par_draws New_Service =
      (Inr \<lparr>pp_RequestURI = ''urn:ietf:params:oauth:request_uri:r1'', pp_ExpiresIn = 60\<rparr>, snd pushed)"
    using pushed_pair by (simp add: pushed_def)
  have auth: "OAuthAuthorize demo_x demo_cfg (tm 1005)
      (pp_RequestURI \<lparr>pp_RequestURI = ''urn:ietf:params:oauth:request_uri:r1'', pp_ExpiresIn = 60\<rparr>) (snd pushed) =
      (fst taken_up, snd taken_up)"
    by (simp add: taken_up_def)
  have c: "tr_Code demo_request = ''code1''" "pd_code demo_par_draws = ''code1''" "pd_sessionID demo_par_draws = ''s1''"
    by (simp_all add: demo_request_def demo_par_draws_def)
  have checks: "fst (OAuthToken_checks demo_x demo_cfg (tm 1010) demo_request False (tr_Code demo_request) (snd taken_up)) = Inr ''jkt1''"
    using taken_up_checks by (simp add: c)
  have k: "MemoryStore_TTL (sv_AuthContext New_Service) = AuthContextTTL"
    "live (tm 1000) (ms_cache (sv_AuthContext New_Service)) (pd_sessionID demo_par_draws) = None"
    "tm 1000 \<le> tm 1005" "tm 1005 \<le> tm 1000 + requestURITTL" "tm 1005 \<le> tm 1010" "tm 1010 \<le> tm 1005 + authorizationCodeTTL"
    "tr_GrantType demo_request \<noteq> grant_refresh" "tr_GrantType demo_request \<noteq> grant_preauth"
    "tr_Code demo_request = pd_code demo_par_draws" "pd_code demo_par_draws \<noteq> []"
    "ValidatePKCE (x_sha256 demo_x) (tr_CodeVerifier demo_request) (pr_CodeChallenge demo_par) (pr_CodeChallengeMethod demo_par) = None"
    "td_accessToken demo_draws = Some ''at1''" "td_refreshToken demo_draws = Some ''rt1''" "text_tag 4096 ''rt1''"
    "Token_valid \<lparr>tok_AccessToken = ''at1'', tok_ExpiresAt = unix (tm 1010 + access_token_lifetime * second),
       tok_DPoPThumbprint = ''jkt1''\<rparr>"
    by code_simp+
  show ?thesis
    using issuance_flow_completes [OF New_Service_wf k(1,2) par k(3-6) auth k(7-10) checks k(11-15)] by (simp add: c)
qed

lemma pushed_deadlines: "deadlines_kept (sv_AuthContext New_Service)"
  using New_Service_wf by (simp add: deadlines_kept_def New_Service_def NewMemoryStore_def cached_def ptr_def New_def)


theorem authorization_sound_witness:
  "\<exists>d. cached (sv_AuthContext (snd taken_up)) ''s1'' = Some d \<and> ExpiresAt d = 1305"
proof -
  have wf: "store_wf (sv_AuthContext (snd pushed))"
    using OAuthPar_changed [OF New_Service_wf pushed_pair [unfolded pushed_def]] by (auto simp: changed_def pushed_def)
  obtain r where r: "fst taken_up = Inr r" "ar_SessionID r = ''s1''"
  proof -
    have "map_sum id ar_SessionID (fst taken_up) = Inr ''s1''" by code_simp
    then show thesis using that by (cases "fst taken_up") auto
  qed
  then have "OAuthAuthorize demo_x demo_cfg (tm 1005) ''urn:ietf:params:oauth:request_uri:r1'' (snd pushed) = (Inr r, snd taken_up)"
    by (metis prod.collapse taken_up_def)
  note s = authorization_sound [OF wf this]
  have "map_option (\<lambda>d. (ExpiresAt d, CreatedAt d)) (cached (sv_AuthContext (snd pushed)) ''s1'') = Some (1060, tm 1000)"
    by code_simp
  moreover have "codeDeadlineWithin (tm 1005) (tm 1000) = 1305" by code_simp
  ultimately show ?thesis using s r(2) by auto
qed

theorem pushed_request_sound_witness:
  "\<exists>d. cached (sv_AuthContext (snd pushed)) ''s1'' = Some d \<and> Code d = ''code1''"
  using pushed_request_sound [OF New_Service_wf pushed_pair [unfolded pushed_def]]
  by (auto simp: demo_par_draws_def pushed_def)

end
