(* ===== verification/TokenExamples.thy ===== *)
theory TokenExamples
  imports TokenLiveness AuthContextRuns
begin

text \<open>
  The token properties at the sample issuer: its store is well-formed, its code and its offer are
  redeemed, a session is refreshed, and each property is applied to that call.
\<close>

section \<open>The sample stores\<close>

lemma saved_wf:
  assumes "store_wf s"
  shows "store_wf (snd (MemoryStore_Save now (Some (fst (alloc d s))) (snd (alloc d s))))"
  using Save_law [OF assms surjective_pairing, of now d] by (auto simp: unchanged_def changed_def)

lemma demo_wf: "store_wf (sv_AuthContext demo_service)"
  unfolding demo_service_def demo_store_def Let_def by (simp add: saved_wf NewMemoryStore_wf)

definition demo_session :: AuthorizationContext where
  "demo_session = zero_AuthorizationContext\<lparr>SessionID := ''s3'', Scopes := [''pid''], RefreshToken := ''rt1'',
     Token := Some \<lparr>tok_AccessToken = ''at1'', tok_ExpiresAt = 1005, tok_DPoPThumbprint = ''jkt1''\<rparr>\<rparr>"

definition session_service :: Service where
  "session_service = New_Service\<lparr>sv_AuthContext :=
     (let s0 = NewMemoryStore AuthContextTTL
      in snd (MemoryStore_Save (tm 1000) (Some (fst (alloc demo_session s0))) (snd (alloc demo_session s0))))\<rparr>"

lemma session_wf: "store_wf (sv_AuthContext session_service)"
  unfolding session_service_def Let_def by (simp add: saved_wf NewMemoryStore_wf)

lemma demo_index: "ms_indices (sv_AuthContext demo_service) (index_key ''code'' ''code1'') = Some ''s1''"
  by code_simp

lemma demo_live: "live (tm 1010) (ms_cache (sv_AuthContext demo_service)) ''s1'' = Some 0"
  by code_simp

lemma demo_doc: "deref (sv_AuthContext demo_service) 0 = demo_context\<lparr>CreatedAt := tm 1000\<rparr>"
  by code_simp

lemma demo_checks: "fst (OAuthToken_checks demo_x demo_cfg (tm 1010) demo_request False ''code1'' demo_service) = Inr ''jkt1''"
  by code_simp

lemma demo_valid: "Validate (demo_context\<lparr>CreatedAt := tm 1000\<rparr>)"
  by code_simp

lemma demo_token_valid:
  "Token_valid \<lparr>tok_AccessToken = ''at1'', tok_ExpiresAt = unix (tm 1010 + access_token_lifetime * second),
     tok_DPoPThumbprint = ''jkt1''\<rparr>"
  by code_simp

lemma demo_code_ok: "is_ok (fst (OAuthToken demo_x demo_cfg (tm 1010) demo_request demo_draws demo_service))"
proof -
  let ?d = "demo_context\<lparr>CreatedAt := tm 1000\<rparr>"
  have code: "tr_Code demo_request = ''code1''" by (simp add: demo_request_def)
  have g: "tr_GrantType demo_request \<noteq> grant_refresh" "tr_GrantType demo_request \<noteq> grant_preauth" by code_simp+
  have fl: "\<not> Forfeited ?d" "Scopes ?d \<noteq> []" "text_tag 4096 ''rt1''" by code_simp+
  have k: "ExpiresAt ?d > 0 \<longrightarrow> unix (tm 1010) \<le> ExpiresAt ?d" by code_simp
  have pk: "ValidatePKCE (x_sha256 demo_x) (tr_CodeVerifier demo_request) (CodeChallenge ?d) (CodeChallengeMethod ?d) = None"
    by code_simp
  have dr: "td_accessToken demo_draws = Some ''at1''" "td_refreshToken demo_draws = Some ''rt1''"
    by (simp_all add: demo_draws_def)
  show ?thesis
    using valid_code_is_redeemed [OF demo_wf g _ _ _ demo_live demo_doc fl(1) demo_valid fl(2) k pk dr fl(3) demo_token_valid, where cfg = demo_cfg]
      demo_checks demo_index unfolding code by auto
qed

lemma demo_refresh_ok: "is_ok (fst (OAuthToken demo_x demo_cfg (tm 1010) demo_refresh demo_draws2 session_service))"
  by code_simp

lemma demo_preauth_ok: "is_ok (fst (OAuthToken demo_x demo_cfg (tm 1010) demo_preauth demo_draws demo_service))"
  by code_simp

section \<open>The properties at these calls\<close>

lemma is_ok_pair: "is_ok (fst m) \<Longrightarrow> \<exists>r. m = (Inr r, snd m)"
  by (cases m; cases "fst m") auto


definition stray_request :: TokenRequest where
  "stray_request = demo_request\<lparr>tr_RedirectURI := ''https://other.example/cb''\<rparr>"


theorem preauthorized_redemption_sound_witness:
  "\<exists>d c. cached (sv_AuthContext (snd (OAuthToken demo_x demo_cfg (tm 1010) demo_preauth demo_draws demo_service)))
     = (cached (sv_AuthContext demo_service))(''s2'' \<mapsto> d, ''c1'' \<mapsto> c) \<and> SourceSessionID c = ''s2''"
proof -
  obtain r where "OAuthToken demo_x demo_cfg (tm 1010) demo_preauth demo_draws demo_service =
      (Inr r, snd (OAuthToken demo_x demo_cfg (tm 1010) demo_preauth demo_draws demo_service))"
    using is_ok_pair [OF demo_preauth_ok] by blast
  note s = preauthorized_redemption_sound [OF demo_wf _ this]
  have g: "tr_GrantType demo_preauth = grant_preauth" "tr_PreAuthorizedCode demo_preauth = ''code2''"
    "td_childSessionID demo_draws = Some ''c1''" by (simp_all add: demo_preauth_def demo_draws_def)
  have "ms_indices (sv_AuthContext demo_service) (index_key ''code'' ''code2'') = Some ''s2''" by code_simp
  then show ?thesis using s [OF g(1)] g(2,3) by auto
qed

theorem refresh_sound_witness:
  "\<exists>d. cached (sv_AuthContext (snd (OAuthToken demo_x demo_cfg (tm 1010) demo_refresh demo_draws2 session_service))) ''s3''
     = Some d \<and> Scopes d = [''pid'']"
proof -
  obtain r where "OAuthToken demo_x demo_cfg (tm 1010) demo_refresh demo_draws2 session_service =
      (Inr r, snd (OAuthToken demo_x demo_cfg (tm 1010) demo_refresh demo_draws2 session_service))"
    using is_ok_pair [OF demo_refresh_ok] by blast
  note s = refresh_sound [OF session_wf _ this]
  have g: "tr_GrantType demo_refresh = grant_refresh" "tr_RefreshToken demo_refresh = ''rt1''"
    by (simp_all add: demo_refresh_def)
  have i: "ms_indices (sv_AuthContext session_service) (index_key ''refresh_token'' ''rt1'') = Some ''s3''"
    "map_option Scopes (cached (sv_AuthContext session_service) ''s3'') = Some [''pid'']" by code_simp+
  show ?thesis using s [OF g(1)] g(2) i by (auto simp: rotated_session_def)
qed

section \<open>The advertised lifetime\<close>

text \<open>
  The token is advertised for an hour, but the session that holds it is dropped by the store when it has not
  been used for fifteen minutes: \<^verbatim>\<open>AuthContextTTL\<close> is shorter than the lifetime in the answer.
\<close>

lemma access_token_lost_before_expiry:
  "map_sum id tp_ExpiresIn (fst (OAuthToken demo_x demo_cfg (tm 1010) demo_preauth demo_draws demo_service)) = Inr 3600 \<and>
   fst (MemoryStore_GetByAccessToken (tm 1911) ''at1''
     (sv_AuthContext (snd (OAuthToken demo_x demo_cfg (tm 1010) demo_preauth demo_draws demo_service)))) = Inl ErrNoDocuments"
  by code_simp

end
