(* ===== verification/SecureToken.thy ===== *)
theory SecureToken
  imports Base64
begin

text \<open>
  Random tokens and transaction codes: \<^verbatim>\<open>GenerateSecureToken\<close> and \<^verbatim>\<open>GenerateNumericCode\<close> of
  \<^verbatim>\<open>src/pkg/crypto/nonce.go\<close>. The random source is an argument: \<open>rand n\<close> is a read of \<open>n\<close> bytes, \<open>digit i\<close> the
  \<open>i\<close>-th draw of a number below ten; \<open>None\<close> is an error of the source.
\<close>

section \<open>Definitions\<close>

definition maxBytes :: int where
  "maxBytes = 96"

definition maxStrLen :: int where
  "maxStrLen = 128"

definition GenerateSecureToken :: "int \<Rightarrow> int \<Rightarrow> (nat \<Rightarrow> bytes option) \<Rightarrow> string option" where
  "GenerateSecureToken byteSize stringLength rand =
     (if stringLength > maxStrLen then None
      else if byteSize > maxBytes then None
      else
        (let size = (if stringLength > 0 then (stringLength * 3 + 3) div 4
                     else if byteSize = 0 then 32 else max byteSize 1)
         in case rand (nat size) of
              None \<Rightarrow> None
            | Some tokenBytes \<Rightarrow>
                (let encoded = EncodeToString tokenBytes
                 in Some (if stringLength > 0 \<and> int (length encoded) > stringLength
                          then take (nat stringLength) encoded else encoded))))"

text \<open>The loop over the digits; \<open>i\<close> counts the draws made.\<close>

fun numeric_loop :: "nat \<Rightarrow> nat \<Rightarrow> (nat \<Rightarrow> nat option) \<Rightarrow> string option" where
  "numeric_loop 0 i digit = Some []"
| "numeric_loop (Suc n) i digit =
     (case digit i of
        None \<Rightarrow> None
      | Some k \<Rightarrow> map_option (Cons (char_of (48 + k))) (numeric_loop n (Suc i) digit))"

definition GenerateNumericCode :: "int \<Rightarrow> (nat \<Rightarrow> nat option) \<Rightarrow> string option" where
  "GenerateNumericCode digits digit =
     (if digits \<le> 0 \<or> digits > 32 then None else numeric_loop (nat digits) 0 digit)"

section \<open>Lengths and alphabets\<close>

lemma sextet_in_alphabet: "n < 64 \<Longrightarrow> sextet n \<in> set alphabet"
  by (simp add: sextet_def alphabet_def nth_mem del: set_simps list.set)

lemma byte_lt: "unat (a :: 8 word) < 256"
  using unsigned_less [of a, where 'a = nat] by simp

lemma EncodeToString_alphabet: "set (EncodeToString bs) \<subseteq> set alphabet"
proof (induction bs rule: EncodeToString.induct)
  case (1 a b c rest)
  have "unat a < 256" using byte_lt [of a] by simp
  moreover have "unat b < 256" using byte_lt [of b] by simp
  moreover have "unat c < 256" using byte_lt [of c] by simp
  ultimately have "(unat a * 65536 + unat b * 256 + unat c) div 262144 < 64" by simp
  then show ?case using 1 by (simp add: Let_def sextet_in_alphabet)
next
  case (2 a b)
  have "unat a < 256" "unat b < 256" using byte_lt [of a] byte_lt [of b] by simp_all
  then have "(unat a * 65536 + unat b * 256) div 262144 < 64" by simp
  then show ?case by (simp add: Let_def sextet_in_alphabet)
next
  case (3 a)
  have "unat a < 256" using byte_lt [of a] by simp
  then have "(unat a * 65536) div 262144 < 64" by simp
  then show ?case by (simp add: Let_def sextet_in_alphabet)
qed simp

lemma EncodeToString_length: "length (EncodeToString bs) = (4 * length bs + 2) div 3"
  by (induction bs rule: EncodeToString.induct) (simp_all add: Let_def)

text \<open>
  A token of a requested length has exactly that length and consists of URL-safe base64
  characters, for every length up to the maximum of 128. The random source fills the buffer it is given.
\<close>

theorem secure_token_length:
  assumes "0 < stringLength" and "stringLength \<le> 128" and "byteSize \<le> 96"
    and rand_fills: "\<And>n bs. rand n = Some bs \<Longrightarrow> length bs = n"
    and "GenerateSecureToken byteSize stringLength rand = Some token"
  shows "int (length token) = stringLength \<and> set token \<subseteq> set alphabet"
proof -
  let ?size = "(stringLength * 3 + 3) div 4"
  obtain bs where bs: "rand (nat ?size) = Some bs"
    and tok: "token = (if int (length (EncodeToString bs)) > stringLength then take (nat stringLength) (EncodeToString bs)
                       else EncodeToString bs)"
    using assms by (auto simp: GenerateSecureToken_def maxStrLen_def maxBytes_def Let_def split: option.splits)
  have "length bs = nat ?size" using rand_fills [OF bs] .
  then have "stringLength \<le> int (length (EncodeToString bs))"
    using assms(1) by (simp add: EncodeToString_length)
  then have "int (length token) = stringLength" using assms(1) tok by auto
  moreover have "set token \<subseteq> set (EncodeToString bs)" using tok set_take_subset [of "nat stringLength" "EncodeToString bs"] by auto
  ultimately show ?thesis using EncodeToString_alphabet [of bs] by auto
qed

theorem secure_token_length_witness:
  "\<exists>token. GenerateSecureToken 0 32 (\<lambda>n. Some (replicate n 0)) = Some token \<and> int (length token) = 32 \<and>
     set token \<subseteq> set alphabet"
proof -
  obtain token where t: "GenerateSecureToken 0 32 (\<lambda>n. Some (replicate n 0)) = Some token"
    by (simp add: GenerateSecureToken_def maxStrLen_def maxBytes_def Let_def)
  show ?thesis using secure_token_length [OF _ _ _ _ t] t by auto
qed

lemma numeric_loop_length: "numeric_loop n i digit = Some s \<Longrightarrow> length s = n"
  by (induction n i digit arbitrary: s rule: numeric_loop.induct) (auto split: option.splits)

text \<open>A transaction code has as many characters as digits were asked for, and they are decimal digits.\<close>

lemma numeric_loop_digits:
  assumes "\<And>i k. digit i = Some k \<Longrightarrow> k < 10" and "numeric_loop n i digit = Some s"
  shows "\<forall>c\<in>set s. 48 \<le> (of_char c :: nat) \<and> (of_char c :: nat) < 58"
  using assms(2)
proof (induction n arbitrary: i s)
  case 0
  then show ?case by simp
next
  case (Suc n)
  then obtain k t where k: "digit i = Some k" "numeric_loop n (Suc i) digit = Some t" "s = char_of (48 + k) # t"
    by (auto split: option.splits)
  have "k < 10" using assms(1) k(1) .
  then show ?case using Suc.IH [OF k(2)] k(3) by (simp add: of_char_of)
qed

lemma GenerateNumericCode_ok:
  assumes "\<And>i k. digit i = Some k \<Longrightarrow> k < 10" and "GenerateNumericCode n digit = Some s"
  shows "int (length s) = n" and "\<forall>c\<in>set s. 48 \<le> (of_char c :: nat) \<and> (of_char c :: nat) < 58"
  using assms(2) numeric_loop_length numeric_loop_digits [OF assms(1)]
  by (auto simp: GenerateNumericCode_def split: if_splits)

end
