(* ===== verification/Spec2Isabelle.thy ===== *)
theory Spec2Isabelle
  imports KeyProofProps ClaimsProps DerivationExamples RevocationExamples FlowExamples TokenExamples SecureToken AuthContextProps OAuth2 DCQL TTLCache
begin

text \<open>
  A verification development for the credential issuer and verifier services of SUNET/vc.

  \<^bold>\<open>The program.\<close> The gateway of the issuer (\<^verbatim>\<open>internal/apigw\<close>) answers wallets over OpenID4VCI: a wallet pushes
  an authorization request, is sent through the Authorization Endpoint, redeems the code it got, or the
  pre-authorized code of an offer, at the Token Endpoint, and asks the Credential Endpoint for credentials. The
  state of a flow is an \<^verbatim>\<open>AuthorizationContext\<close> in a store (\<^verbatim>\<open>pkg/cache\<close>) that finds it by any of its handles;
  the store and the replay caches lie on an expiring map, a vendored package. The claims of a credential come from
  a data source or a presentation and pass through defaults, a chain of derivations and a filter
  (\<^verbatim>\<open>pkg/credential\<close>). The registry (\<^verbatim>\<open>internal/registry\<close>) allocates an entry of a token status list
  to each credential and publishes the lists as signed tokens; the verifier (\<^verbatim>\<open>internal/verifier\<close>,
  \<^verbatim>\<open>pkg/revocation\<close>) fetches them and refuses revoked credentials. Its presentation queries are DCQL
  (\<^verbatim>\<open>pkg/openid4vp\<close>).

  \<^bold>\<open>Conventions.\<close> Paths are below \<^verbatim>\<open>src/\<close>. A Go struct is a record with its field names under a short
  prefix, an error return is the left summand of a sum, and a method that mutates its receiver returns the new
  state beside its result. Time is an integer of nanoseconds and an argument of every operation that reads the
  clock; the methods of one mutex are single steps, and a concurrent run is a sequence of them in any order
  (\<open>run\<close> of \<open>Prelude\<close>). Shared pointers are addresses of an explicit heap where the code lets
  two parts hold one document. Code outside the repository is a parameter: a function, a record of functions, or a
  function on an arbitrary world type; what is used of it is a named hypothesis of the theorem that uses it, and its
  witness instantiates the parameter with a concrete function.

  \<^bold>\<open>Theories.\<close>

  \<^item> \<open>Prelude\<close>: results, the string functions of Go, sequencing of stages that may fail, runs of calls, and the
    interfaces \<open>replay_guard\<close>, \<open>one_shot\<close> and \<open>budgeted\<close>, in which "at most once" and "at most n times"
    are proved for every component that keeps a record, removes what it hands out, or counts uses.

  \<^item> \<open>Base64\<close>, \<open>Dates\<close>: the standard library's raw URL encoding and calendar dates, each with its round trip.

  \<^item> \<open>TTLCache\<close>: the vendored \<^verbatim>\<open>ttlcache\<close> and \<^verbatim>\<open>MemoryCache\<close> (\<^verbatim>\<open>pkg/cache/memory.go\<close>), with deadlines, touching reads
    and eviction. \<^verbatim>\<open>SetNX\<close> has one winner per window and \<^verbatim>\<open>GetAndDelete\<close> one taker.

  \<^item> \<open>SecureToken\<close>: the generators of random tokens and numeric codes over any random source.

  \<^item> \<open>OAuth2\<close>: PKCE, DPoP claims, normalisation and comparison of URIs, registered clients (\<^verbatim>\<open>pkg/oauth2\<close>).
    Normalising percent-encodings is exact and a wildcard redirect URI stays below its prefix.

  \<^item> \<open>AuthContextTypes\<close>, \<open>AuthContextStore\<close>: the document and every method of \<^verbatim>\<open>MemoryStore\<close>
    (\<^verbatim>\<open>pkg/cache/authcontext.go\<close>): a heap of documents, the cache of sessions, the index map and the eviction callback, which
    runs on its own. \<open>AuthContextLaws\<close> reduces each method to its effect on documents and indices;
    \<open>AuthContextRuns\<close> makes a call of any method one step and interprets \<open>budgeted\<close>;
    \<open>AuthContextProps\<close> states what holds over every run: codes are used once, per-key and total caps hold,
    the store stays well-formed, rotation retires a token.

  \<^item> \<open>ApigwTypes\<close>, \<open>ClientAuth\<close>, \<open>TokenEndpoint\<close>, \<open>AuthorizeEndpoint\<close>: requests, configuration and the whole handlers
    \<^verbatim>\<open>OAuthPar\<close>, \<^verbatim>\<open>OAuthAuthorize\<close>, \<^verbatim>\<open>OAuthToken\<close> and \<^verbatim>\<open>handleRefreshTokenGrant\<close> of
    \<^verbatim>\<open>internal/apigw/apiv1/handlers_oauth.go\<close>, check by check in the order of the code, with client assertions, wallet attestations
    and DPoP proofs. \<open>TokenLaws\<close>, \<open>TokenProps\<close> and \<open>TokenLiveness\<close>: when a token is issued for each
    grant, its effect on the store, and that a valid request is answered; \<open>TokenReplay\<close>: a proof or an
    assertion is accepted once; \<open>IssuanceFlow\<close>: the three endpoints composed. \<open>TokenSample\<close>, \<open>TokenExamples\<close>
    and \<open>FlowExamples\<close> run a small issuer.

  \<^item> \<open>Claims\<close>, \<open>ClaimsLaws\<close>, \<open>ClaimsFilter\<close>, \<open>ClaimsProps\<close>: dotted claim paths, defaults, merging
    (\<^verbatim>\<open>pkg/credential/attribute_mapping.go\<close>, \<^verbatim>\<open>derivations.go\<close>) and the filter by declared claims (\<^verbatim>\<open>vctm_filter.go\<close>), against their path-wise specifications.

  \<^item> \<open>Primitives\<close>, \<open>Derivations\<close>, \<open>DerivationProps\<close>, \<open>DerivationExamples\<close>: the derivations of claims
    (\<^verbatim>\<open>pkg/credential/primitives\<close>), their chain (\<^verbatim>\<open>derivations.go\<close>) and the way the Credential Endpoint
    applies it. What a holder proved is issued as proved and is what later steps compute from.

  \<^item> \<open>JWT\<close>: decoding of JSON into maps and structs, and the parser and validator of the vendored \<^verbatim>\<open>golang-jwt\<close>.
    \<open>KeyProofs\<close>, \<open>KeyProofProps\<close>: the Credential Request (\<^verbatim>\<open>pkg/openid4vci/credential.go\<close>) and its key proofs
    (\<^verbatim>\<open>proof_jwt.go\<close>, \<^verbatim>\<open>proof_divp.go\<close>, \<^verbatim>\<open>proof_attestation.go\<close>). An accepted JWT proof is signed by the key it names,
    for this issuer and with the nonce; a batch has one key per proof, within its limit.

  \<^item> \<open>StatusList\<close>, \<open>StatusRegistry\<close>, \<open>StatusService\<close>, \<open>StatusPublished\<close>, \<open>StatusExamples\<close>: the token status list
    (\<^verbatim>\<open>pkg/tokenstatuslist\<close>), the registry's collections over a MongoDB collection that is a parameter
    (\<^verbatim>\<open>internal/registry/db\<close>), the issuer of list tokens with its caches and the handlers. An entry is allocated at most once,
    updating it refines the update of an array, allocation disturbs no issued entry, and a
    published token carries the statuses of the collection.

  \<^item> \<open>Revocation\<close>, \<open>RevocationProps\<close>, \<open>RevocationFlow\<close>, \<open>RevocationExamples\<close>: the verifier's checks with their cache and the gate for presentations.
    A status comes from a signed list that is not expired, the gate decides as a cache-free reference does,
    and a revocation at the registry reaches the verifier.

  \<^item> \<open>DCQL\<close>: queries, their validation tags and their matching. An accepted query for a W3C credential narrows.

  \<^bold>\<open>Bounds and fuel.\<close> The retry loops of the registry carry the bounds of the code as structural
  arguments (50 draws for a decoy, 3 attempts to write); when they run out the error of the code is the result. Every other
  loop is a structural recursion or has a termination proof, so every operation returns. Go's \<^verbatim>\<open>int\<close> and \<^verbatim>\<open>int64\<close> are
  unbounded integers where the values are counters and clocks far from the width; bytes are words of 8 bits.

  \<^bold>\<open>Not modelled.\<close> Start-up, HTTP routing, rendering, logging, tracing and metrics have no state the rest reads. The codecs and
  signatures of the credential formats (mdoc, SD-JWT VC, W3C VC 2.0, BBS), DIDComm, key storage and
  trust evaluation rest on third-party cryptography, CBOR and JSON-LD. The MongoDB and SQL variants of the stores are
  other implementations of interfaces whose in-memory form is modelled. The authorization challenge endpoint and the
  verifier's presentation endpoint verify presentations in those formats; of the latter the revocation
  gate is modelled. The manifest lists each part that is left out with its files.
\<close>

end
